(* ===== verification/Prelude.thy ===== *)
theory Prelude
  imports Complex_Main "HOL-Library.AList" "HOL-Library.Char_ord" "HOL-Library.List_Lexorder"
    "HOL-Library.Multiset"
begin

text \<open>
  What every component shares: exceptions as values, the result type and its sequencing
  combinators, Python dictionaries as association lists in insertion order, and the generic
  lemmas about them. Nothing here is specific to the benchmark harness.
\<close>

section \<open>Exceptions and results\<close>

text \<open>
  The exception classes the harness raises or catches. \<open>ConnectionErr\<close> stands for the
  \<^verbatim>\<open>ConnectionError\<close> family, \<open>SSHException\<close> for \<^verbatim>\<open>paramiko.SSHException\<close>. An exception is its
  class together with its \<^verbatim>\<open>str(exc)\<close>.
\<close>

datatype exc_class =
    ValueError | KeyError | TypeError | AttributeError | IndexError | RuntimeError
  | OverflowError | ZeroDivisionError | StopIteration | AssertionErr | FileNotFoundError | PermissionError | ProcessLookupError
  | ConnectionErr | EOFErr | TimeoutErr | TimeoutExpired | CalledProcessError | SSHException
  | UnicodeDecodeErr | JSONDecodeErr

datatype exn = Exn (exc_kind: exc_class) (exc_text: string)

type_synonym 'a res = "exn + 'a"

definition rbind :: "'a res \<Rightarrow> ('a \<Rightarrow> 'b res) \<Rightarrow> 'b res" where
  "rbind m f = (case m of Inl e \<Rightarrow> Inl e | Inr x \<Rightarrow> f x)"

definition require :: "bool \<Rightarrow> exn \<Rightarrow> unit res" where
  "require b e = (if b then Inr () else Inl e)"

fun rmap :: "('a \<Rightarrow> 'b res) \<Rightarrow> 'a list \<Rightarrow> 'b list res" where
  "rmap f [] = Inr []"
| "rmap f (x # xs) = rbind (f x) (\<lambda>y. rbind (rmap f xs) (\<lambda>ys. Inr (y # ys)))"

fun riter :: "('a \<Rightarrow> unit res) \<Rightarrow> 'a list \<Rightarrow> unit res" where
  "riter f [] = Inr ()"
| "riter f (x # xs) = rbind (f x) (\<lambda>_. riter f xs)"

text \<open>Python's short-circuiting \<^verbatim>\<open>any(...)\<close>: the first true test stops, an exception escapes.\<close>

fun rany :: "('a \<Rightarrow> bool res) \<Rightarrow> 'a list \<Rightarrow> bool res" where
  "rany f [] = Inr False"
| "rany f (x # xs) = rbind (f x) (\<lambda>b. if b then Inr True else rany f xs)"

text \<open>\<^verbatim>\<open>all(...)\<close> and a filtering comprehension, with the same treatment of exceptions.\<close>

fun rall :: "('a \<Rightarrow> bool res) \<Rightarrow> 'a list \<Rightarrow> bool res" where
  "rall f [] = Inr True"
| "rall f (x # xs) = rbind (f x) (\<lambda>b. if b then rall f xs else Inr False)"

fun rfilter :: "('a \<Rightarrow> bool res) \<Rightarrow> 'a list \<Rightarrow> 'a list res" where
  "rfilter f [] = Inr []"
| "rfilter f (x # xs) = rbind (f x) (\<lambda>b. rbind (rfilter f xs) (\<lambda>ys. Inr (if b then x # ys else ys)))"

text \<open>The collections that carry the component proofs.\<close>

named_theorems res_simps \<open>rewriting of sequenced results\<close>
named_theorems res_dest \<open>consequences of a result that is a value\<close>

lemma rbind_simps [res_simps, simp]:
  "rbind (Inl e) f = Inl e"
  "rbind (Inr x) f = f x"
  by (simp_all add: rbind_def)

lemma rbind_Inr_iff [res_simps]: "rbind m f = Inr y \<longleftrightarrow> (\<exists>x. m = Inr x \<and> f x = Inr y)"
  by (cases m) auto

lemma rbind_Inl_iff [res_simps]:
  "rbind m f = Inl e \<longleftrightarrow> m = Inl e \<or> (\<exists>x. m = Inr x \<and> f x = Inl e)"
  by (cases m) auto

lemma rbind_assoc: "rbind (rbind m f) g = rbind m (\<lambda>x. rbind (f x) g)"
  by (cases m) auto

lemma require_simps [res_simps, simp]:
  "require True e = Inr ()"
  "require False e = Inl e"
  by (simp_all add: require_def)

lemma require_Inr_iff [res_simps]: "require b e = Inr u \<longleftrightarrow> b"
  by (simp add: require_def)

lemma require_Inl_iff [res_simps]: "require b e = Inl e' \<longleftrightarrow> \<not> b \<and> e' = e"
  by (auto simp: require_def)

lemma res_True_simps [simp]:
  "(\<exists>b. m = Inr b \<and> b) \<longleftrightarrow> m = Inr True"
  "(\<exists>b. m = Inr b \<and> b \<and> P) \<longleftrightarrow> m = Inr True \<and> P"
  "(\<exists>b. m = Inr b \<and> \<not> b) \<longleftrightarrow> m = Inr False"
  "(\<exists>b. m = Inr b \<and> \<not> b \<and> P) \<longleftrightarrow> m = Inr False \<and> P"
  by (metis (full_types))+

lemma rmap_Inr_length [res_dest]: "rmap f xs = Inr ys \<Longrightarrow> length ys = length xs"
  by (induction xs arbitrary: ys) (auto simp: rbind_Inr_iff)

lemma rmap_Inr_iff:
  "rmap f xs = Inr ys \<longleftrightarrow> list_all2 (\<lambda>x y. f x = Inr y) xs ys"
proof (induction xs arbitrary: ys)
  case Nil
  then show ?case by auto
next
  case (Cons x xs)
  then show ?case by (cases ys) (auto simp: rbind_Inr_iff)
qed

lemma rmap_pure: "(\<And>x. x \<in> set xs \<Longrightarrow> f x = Inr (g x)) \<Longrightarrow> rmap f xs = Inr (map g xs)"
  by (induction xs) auto

lemma riter_Inr_iff [res_simps]: "riter f xs = Inr u \<longleftrightarrow> (\<forall>x \<in> set xs. f x = Inr ())"
  by (induction xs) (auto simp: rbind_Inr_iff)

lemma rany_pure: "(\<And>x. x \<in> set xs \<Longrightarrow> f x = Inr (p x)) \<Longrightarrow> rany f xs = Inr (\<exists>x \<in> set xs. p x)"
  by (induction xs) auto

text \<open>
  The classes the two \<^verbatim>\<open>except\<close> clauses of \<^verbatim>\<open>main.py\<close> name, with the subclass relation of the
  Python library: a timeout or a connection failure is an \<^verbatim>\<open>OSError\<close>, \<^verbatim>\<open>TimeoutExpired\<close> and
  \<^verbatim>\<open>CalledProcessError\<close> are \<^verbatim>\<open>SubprocessError\<close>s.
\<close>

fun is_os_error :: "exc_class \<Rightarrow> bool" where
  "is_os_error FileNotFoundError = True"
| "is_os_error PermissionError = True"
| "is_os_error ProcessLookupError = True"
| "is_os_error ConnectionErr = True"
| "is_os_error TimeoutErr = True"
| "is_os_error _ = False"

lemma rall_True_iff: "rall f xs = Inr True \<longleftrightarrow> (\<forall>x \<in> set xs. f x = Inr True)"
  by (induction xs) (auto simp: rbind_Inr_iff split: if_splits)

lemma rfilter_Inr:
  "rfilter f xs = Inr ys \<Longrightarrow> ys = filter (\<lambda>x. f x = Inr True) xs \<and> (\<forall>x \<in> set xs. \<exists>b. f x = Inr b)"
  by (induction xs arbitrary: ys) (auto simp: rbind_Inr_iff)

lemma rfilter_pure: "(\<And>x. x \<in> set xs \<Longrightarrow> f x = Inr (p x)) \<Longrightarrow> rfilter f xs = Inr (filter p xs)"
  by (induction xs) auto

text \<open>A loop whose body appends to one list: \<^verbatim>\<open>for x in xs: out.extend(f(x))\<close>.\<close>

definition rconcat :: "('a \<Rightarrow> 'b list res) \<Rightarrow> 'a list \<Rightarrow> 'b list res" where
  "rconcat f xs = rbind (rmap f xs) (\<lambda>yss. Inr (concat yss))"

lemma rconcat_simps [simp]:
  "rconcat f [] = Inr []"
  "rconcat f (x # xs) = rbind (f x) (\<lambda>y. rbind (rconcat f xs) (\<lambda>ys. Inr (y @ ys)))"
  by (auto simp: rconcat_def rbind_def split: sum.split)

lemma rconcat_pure: "(\<And>x. x \<in> set xs \<Longrightarrow> f x = Inr (g x)) \<Longrightarrow> rconcat f xs = Inr (concat (map g xs))"
  by (simp add: rconcat_def rmap_pure)

lemma rconcat_cong:
  "(\<And>x. x \<in> set xs \<Longrightarrow> f x = g x) \<Longrightarrow> rconcat f xs = rconcat g xs"
  by (induction xs) auto

text \<open>Which classes a computation can raise, with one rule per combinator.\<close>

named_theorems raises \<open>exception classes of the combinators and operations\<close>

definition raises_only :: "exc_class set \<Rightarrow> 'a res \<Rightarrow> bool" where
  "raises_only K m \<longleftrightarrow> (\<forall>e. m = Inl e \<longrightarrow> exc_kind e \<in> K)"

lemma raises_only_Inr [raises, simp]: "raises_only K (Inr x)"
  by (simp add: raises_only_def)

lemma raises_only_Inl [simp]: "raises_only K (Inl e) \<longleftrightarrow> exc_kind e \<in> K"
  by (simp add: raises_only_def)

lemma raises_only_require [raises]: "exc_kind e \<in> K \<Longrightarrow> raises_only K (require b e)"
  by (simp add: raises_only_def res_simps)

lemma raises_only_rbind [raises]:
  "raises_only K m \<Longrightarrow> (\<And>x. m = Inr x \<Longrightarrow> raises_only K (f x)) \<Longrightarrow> raises_only K (rbind m f)"
  by (auto simp: raises_only_def res_simps)

lemma raises_only_riter [raises]: "(\<And>x. x \<in> set xs \<Longrightarrow> raises_only K (f x)) \<Longrightarrow> raises_only K (riter f xs)"
  by (induction xs) (auto simp: raises_only_rbind)

lemma raises_only_rmap [raises]: "(\<And>x. x \<in> set xs \<Longrightarrow> raises_only K (f x)) \<Longrightarrow> raises_only K (rmap f xs)"
  by (induction xs) (auto simp: raises_only_rbind)

lemma raises_only_rany [raises]: "(\<And>x. x \<in> set xs \<Longrightarrow> raises_only K (f x)) \<Longrightarrow> raises_only K (rany f xs)"
  by (induction xs) (auto simp: raises_only_rbind)

lemma raises_only_if [raises]:
  "(b \<Longrightarrow> raises_only K x) \<Longrightarrow> (\<not> b \<Longrightarrow> raises_only K y) \<Longrightarrow> raises_only K (if b then x else y)"
  by simp

lemma raises_only_option [raises]:
  "(v = None \<Longrightarrow> raises_only K x) \<Longrightarrow> (\<And>a. v = Some a \<Longrightarrow> raises_only K (f a)) \<Longrightarrow>
   raises_only K (case v of None \<Rightarrow> x | Some a \<Rightarrow> f a)"
  by (cases v) auto

section \<open>Dictionaries\<close>

text \<open>
  A Python \<^verbatim>\<open>dict\<close> with string keys: an association list in insertion order.
  Storing an existing key keeps its place, a new key goes to the end.
\<close>

type_synonym 'v dict = "(string \<times> 'v) list"

abbreviation dget :: "'v dict \<Rightarrow> string \<Rightarrow> 'v option" where
  "dget d k \<equiv> map_of d k"

abbreviation dset :: "string \<Rightarrow> 'v \<Rightarrow> 'v dict \<Rightarrow> 'v dict" where
  "dset k v d \<equiv> AList.update k v d"

abbreviation dkeys :: "'v dict \<Rightarrow> string list" where
  "dkeys d \<equiv> map fst d"

definition dget_or :: "'v dict \<Rightarrow> string \<Rightarrow> 'v \<Rightarrow> 'v" where
  "dget_or d k v = (case dget d k of Some x \<Rightarrow> x | None \<Rightarrow> v)"

lemma dget_dset [simp]: "dget (dset k v d) k' = (if k' = k then Some v else dget d k')"
  by (simp add: update_conv)

lemma dkeys_dset: "set (dkeys (dset k v d)) = insert k (set (dkeys d))"
  by (induction d) auto

lemma distinct_dset: "distinct (dkeys d) \<Longrightarrow> distinct (dkeys (dset k v d))"
  by (rule distinct_update)

lemma dset_present_keys: "k \<in> set (dkeys d) \<Longrightarrow> dkeys (dset k v d) = dkeys d"
  by (induction d) auto

lemma dget_map_fun: "dget (map (\<lambda>k. (k, f k)) ks) k = (if k \<in> set ks then Some (f k) else None)"
  by (induction ks) auto

lemma dget_or_Some [simp]: "dget d k = Some v \<Longrightarrow> dget_or d k x = v"
  by (simp add: dget_or_def)

section \<open>Lists\<close>

text \<open>Joining with a separator (\<^verbatim>\<open>sep.join(parts)\<close>).\<close>

fun join :: "'a list \<Rightarrow> 'a list list \<Rightarrow> 'a list" where
  "join sep [] = []"
| "join sep [x] = x"
| "join sep (x # y # zs) = x @ sep @ join sep (y # zs)"

lemma join_Cons: "join sep (x # xs) = x @ (if xs = [] then [] else sep @ join sep xs)"
  by (cases xs) auto

text \<open>\<^verbatim>\<open>list(dict.fromkeys(xs))\<close>: the first occurrences, in order.\<close>

fun dedup :: "'a list \<Rightarrow> 'a list" where
  "dedup [] = []"
| "dedup (x # xs) = x # dedup (filter (\<lambda>y. y \<noteq> x) xs)"

lemma set_dedup [simp]: "set (dedup xs) = set xs"
  by (induction xs rule: dedup.induct) auto

lemma distinct_dedup [simp]: "distinct (dedup xs)"
  by (induction xs rule: dedup.induct) auto

lemma dedup_Nil_iff [simp]: "dedup xs = [] \<longleftrightarrow> xs = []"
  by (cases xs) auto

lemma distinct_map_filter_nth:
  assumes "distinct (map f (filter P xs))" "i < length xs" "j < length xs" "P (xs ! i)" "P (xs ! j)"
    "f (xs ! i) = f (xs ! j)"
  shows "i = j"
  using assms
proof (induction xs arbitrary: i j)
  case (Cons x xs)
  have out: "f (xs ! k) \<in> f ` {y \<in> set xs. P y}" if "k < length xs" "P (xs ! k)" for k
    using that nth_mem by blast
  from Cons show ?case
    by (cases i; cases j) (auto dest: out split: if_splits, metis out image_eqI)
qed simp

lemma distinct_concat_map:
  assumes "distinct xs" "\<And>x. x \<in> set xs \<Longrightarrow> distinct (f x)"
    "\<And>x y. x \<in> set xs \<Longrightarrow> y \<in> set xs \<Longrightarrow> x \<noteq> y \<Longrightarrow> set (f x) \<inter> set (f y) = {}"
  shows "distinct (concat (map f xs))"
  using assms
proof (induction xs)
  case (Cons x xs)
  then have "set (f x) \<inter> set (f y) = {}" if "y \<in> set xs" for y
    using that by (metis distinct.simps(2) list.set_intros)
  with Cons show ?case by auto
qed simp

lemma distinct_concat_mapD:
  "distinct (concat (map f xs)) \<Longrightarrow> x \<in> set xs \<Longrightarrow> distinct (f x)"
  by (induction xs) auto

lemma distinct_concat_map_nonempty:
  "distinct (concat (map f xs)) \<Longrightarrow> (\<And>x. x \<in> set xs \<Longrightarrow> f x \<noteq> []) \<Longrightarrow> distinct xs"
proof (induction xs)
  case (Cons x xs)
  then have "f x \<noteq> []" "set (f x) \<inter> set (concat (map f xs)) = {}" "distinct xs" by auto
  then show ?case by (cases "f x") auto
qed simp

text \<open>Two texts split at their last separator.\<close>

lemma last_separator_eq:
  assumes "c \<notin> set x" "c \<notin> set y" "a @ c # x = b @ c # y"
  shows "a = b \<and> x = y"
proof -
  have "takeWhile (\<lambda>d. d \<noteq> c) (rev (a @ c # x)) = rev x" "takeWhile (\<lambda>d. d \<noteq> c) (rev (b @ c # y)) = rev y"
    using assms(1,2) by (auto simp: takeWhile_tail takeWhile_append2)
  with assms(3) have "x = y" by (metis rev_rev_ident)
  with assms(3) show ?thesis by simp
qed

text \<open>Sums of pairwise differences telescope.\<close>

fun adjacent :: "('a \<Rightarrow> 'a \<Rightarrow> 'b) \<Rightarrow> 'a list \<Rightarrow> 'b list" where
  "adjacent f (x # y # zs) = f x y # adjacent f (y # zs)"
| "adjacent f _ = []"

lemma adjacent_zip: "adjacent f xs = map (\<lambda>(a, b). f a b) (zip xs (tl xs))"
  by (induction f xs rule: adjacent.induct) auto

lemma length_adjacent [simp]: "length (adjacent f xs) = length xs - 1"
  by (induction f xs rule: adjacent.induct) auto

lemma sum_list_map_add_int:
  "sum_list (map (\<lambda>x. f x + g x) xs) = sum_list (map f xs) + (sum_list (map g xs) :: int)"
  by (induction xs) auto

end
