(* ===== verification/Text.thy ===== *)
theory Text
  imports Prelude
begin

text \<open>
  The string operations of the Python library the harness uses, on strings whose code points
  are below 256 (a \<^typ>\<open>char\<close> is one code point): the whitespace and line-break classes of
  \<^verbatim>\<open>str.isspace\<close>, \<^verbatim>\<open>str.splitlines\<close> and of the regular-expression classes, \<^verbatim>\<open>strip\<close>, \<^verbatim>\<open>split\<close>,
  \<^verbatim>\<open>splitlines\<close>, \<^verbatim>\<open>partition\<close>, \<^verbatim>\<open>startswith\<close>, \<^verbatim>\<open>int(text)\<close>, \<^verbatim>\<open>str(int)\<close> and \<^verbatim>\<open>repr(str)\<close>, with the
  laws the parsers rest on: splitting undoes joining, \<^verbatim>\<open>int\<close> undoes \<^verbatim>\<open>str\<close>.
\<close>

section \<open>Character classes\<close>

definition ord :: "char \<Rightarrow> nat" where
  "ord c = of_char c"

definition is_space :: "char \<Rightarrow> bool" where
  "is_space c = (let n = ord c in (9 \<le> n \<and> n \<le> 13) \<or> (28 \<le> n \<and> n \<le> 32) \<or> n = 133 \<or> n = 160)"

definition is_linebreak :: "char \<Rightarrow> bool" where
  "is_linebreak c = (let n = ord c in (10 \<le> n \<and> n \<le> 13) \<or> (28 \<le> n \<and> n \<le> 30) \<or> n = 133)"

definition is_digit :: "char \<Rightarrow> bool" where
  "is_digit c = (48 \<le> ord c \<and> ord c \<le> 57)"

definition is_ascii_letter :: "char \<Rightarrow> bool" where
  "is_ascii_letter c = ((65 \<le> ord c \<and> ord c \<le> 90) \<or> (97 \<le> ord c \<and> ord c \<le> 122))"

definition is_word :: "char \<Rightarrow> bool" where
  "is_word c = (is_digit c \<or> is_ascii_letter c \<or> ord c = 95 \<or>
     ord c \<in> set [170, 178, 179, 181, 185, 186, 188, 189, 190] \<or>
     (192 \<le> ord c \<and> ord c \<noteq> 215 \<and> ord c \<noteq> 247))"

definition is_printable :: "char \<Rightarrow> bool" where
  "is_printable c = (let n = ord c in (32 \<le> n \<and> n \<le> 126) \<or> (161 \<le> n \<and> n \<noteq> 173))"

lemma ord_char_of [simp]: "n < 256 \<Longrightarrow> ord (char_of n) = n"
  by (simp add: ord_def)

lemma linebreak_is_space: "is_linebreak c \<Longrightarrow> is_space c"
  by (auto simp: is_linebreak_def is_space_def Let_def)

lemma digit_not_space: "is_digit c \<Longrightarrow> \<not> is_space c"
  by (auto simp: is_digit_def is_space_def Let_def)

lemma digit_is_word: "is_digit c \<Longrightarrow> is_word c"
  by (simp add: is_word_def)

section \<open>Stripping, prefixes, partition\<close>

definition lstrip :: "string \<Rightarrow> string" where
  "lstrip s = dropWhile is_space s"

definition rstrip :: "string \<Rightarrow> string" where
  "rstrip s = rev (dropWhile is_space (rev s))"

definition strip :: "string \<Rightarrow> string" where
  "strip s = rstrip (lstrip s)"

fun startswith :: "string \<Rightarrow> string \<Rightarrow> bool" where
  "startswith s [] = True"
| "startswith [] (p # ps) = False"
| "startswith (c # cs) (p # ps) = (c = p \<and> startswith cs ps)"

definition endswith :: "string \<Rightarrow> string \<Rightarrow> bool" where
  "endswith s p = startswith (rev s) (rev p)"

fun contains :: "string \<Rightarrow> string \<Rightarrow> bool" where
  "contains [] p = (p = [])"
| "contains (c # cs) p = (startswith (c # cs) p \<or> contains cs p)"

text \<open>\<^verbatim>\<open>s.partition(c)\<close> for one separating character: before, whether it was found, after.\<close>

fun partition1 :: "char \<Rightarrow> string \<Rightarrow> string \<times> bool \<times> string" where
  "partition1 sep [] = ([], False, [])"
| "partition1 sep (c # cs) =
     (if c = sep then ([], True, cs)
      else (case partition1 sep cs of (a, found, b) \<Rightarrow> (c # a, found, b)))"

lemma startswith_append [simp]: "startswith (p @ s) p"
  by (induction p) auto

lemma startswith_iff: "startswith s p \<longleftrightarrow> (\<exists>t. s = p @ t)"
  by (induction s p rule: startswith.induct) auto

lemma endswith_iff: "endswith s p \<longleftrightarrow> (\<exists>t. s = t @ p)"
  unfolding endswith_def startswith_iff
  by (metis rev_append rev_rev_ident)

lemma contains_iff: "contains s p \<longleftrightarrow> (\<exists>a b. s = a @ p @ b)"
proof (induction s)
  case Nil
  then show ?case by auto
next
  case (Cons c cs)
  have "(\<exists>a b. c # cs = a @ p @ b) \<longleftrightarrow> (\<exists>b. c # cs = p @ b) \<or> (\<exists>a b. cs = a @ p @ b)"
    by (metis append_Cons append_Nil neq_Nil_conv list.inject)
  then show ?case by (simp add: Cons startswith_iff)
qed

lemma partition1_found: "sep \<notin> set a \<Longrightarrow> partition1 sep (a @ sep # b) = (a, True, b)"
  by (induction a) auto

lemma partition1_absent: "sep \<notin> set s \<Longrightarrow> partition1 sep s = (s, False, [])"
  by (induction s) auto

lemma lstrip_id: "(s = [] \<or> \<not> is_space (hd s)) \<Longrightarrow> lstrip s = s"
  by (cases s) (auto simp: lstrip_def)

lemma rstrip_id: "(s = [] \<or> \<not> is_space (last s)) \<Longrightarrow> rstrip s = s"
  by (cases s rule: rev_cases) (auto simp: rstrip_def)

lemma strip_id: "s = [] \<or> (\<not> is_space (hd s) \<and> \<not> is_space (last s)) \<Longrightarrow> strip s = s"
  by (auto simp: strip_def lstrip_id rstrip_id)

lemma strip_no_space: "(\<forall>c \<in> set s. \<not> is_space c) \<Longrightarrow> strip s = s"
  by (cases "s = []") (auto intro!: strip_id)

lemma lstrip_spaces: "(\<forall>c \<in> set w. is_space c) \<Longrightarrow> lstrip (w @ s) = lstrip s"
  by (simp add: lstrip_def)

section \<open>Lines and words\<close>

text \<open>
  \<^verbatim>\<open>splitlines()\<close>: every line break ends a line, a carriage return followed by a line feed is one
  break, and no empty last line is reported. The accumulator holds the current line, reversed.
\<close>

definition drop_lf :: "string \<Rightarrow> string" where
  "drop_lf s = (case s of [] \<Rightarrow> [] | c # cs \<Rightarrow> if ord c = 10 then cs else s)"

lemma length_drop_lf [termination_simp]: "length (drop_lf s) \<le> length s"
  by (auto simp: drop_lf_def split: list.splits)

fun splitlines_acc :: "string \<Rightarrow> string \<Rightarrow> string list" where
  "splitlines_acc acc [] = (if acc = [] then [] else [rev acc])"
| "splitlines_acc acc (c # cs) =
     (if is_linebreak c
      then rev acc # splitlines_acc [] (if ord c = 13 then drop_lf cs else cs)
      else splitlines_acc (c # acc) cs)"

definition splitlines :: "string \<Rightarrow> string list" where
  "splitlines s = splitlines_acc [] s"

text \<open>\<^verbatim>\<open>split()\<close> without a separator: the maximal runs of non-space characters.\<close>

fun split_acc :: "string \<Rightarrow> string \<Rightarrow> string list" where
  "split_acc acc [] = (if acc = [] then [] else [rev acc])"
| "split_acc acc (c # cs) =
     (if is_space c then (if acc = [] then [] else [rev acc]) @ split_acc [] cs
      else split_acc (c # acc) cs)"

definition split_ws :: "string \<Rightarrow> string list" where
  "split_ws s = split_acc [] s"

text \<open>\<^verbatim>\<open>split(c)\<close> with a one-character separator keeps empty fields.\<close>

fun split_on :: "char \<Rightarrow> string \<Rightarrow> string list" where
  "split_on sep [] = [[]]"
| "split_on sep (c # cs) =
     (if c = sep then [] # split_on sep cs
      else (case split_on sep cs of [] \<Rightarrow> [[c]] | w # ws \<Rightarrow> (c # w) # ws))"

abbreviation newline :: char where
  "newline \<equiv> CHR 0x0A"

abbreviation blank :: char where
  "blank \<equiv> CHR 0x20"

lemma linebreak_newline [simp]: "is_linebreak newline"
  by (simp add: is_linebreak_def ord_def)

lemma space_newline [simp]: "is_space newline"
  by (simp add: is_space_def ord_def)

lemma space_blank [simp]: "is_space blank"
  by (simp add: is_space_def ord_def)

lemma ord_newline [simp]: "ord newline = 10"
  by (simp add: ord_def)

definition line_ok :: "string \<Rightarrow> bool" where
  "line_ok l = (\<forall>c \<in> set l. \<not> is_linebreak c)"

definition word_ok :: "string \<Rightarrow> bool" where
  "word_ok w = (w \<noteq> [] \<and> (\<forall>c \<in> set w. \<not> is_space c))"

lemma splitlines_acc_line:
  "line_ok l \<Longrightarrow> splitlines_acc acc (l @ newline # s) = (rev acc @ l) # splitlines_acc [] s"
  by (induction l arbitrary: acc) (auto simp: line_ok_def)

lemma splitlines_acc_last: "line_ok l \<Longrightarrow> acc @ l \<noteq> [] \<Longrightarrow> splitlines_acc acc l = [rev acc @ l]"
  by (induction l arbitrary: acc) (auto simp: line_ok_def)

lemma splitlines_line: "line_ok l \<Longrightarrow> splitlines (l @ newline # s) = l # splitlines s"
  by (simp add: splitlines_def splitlines_acc_line)

lemma splitlines_Nil [simp]: "splitlines [] = []"
  by (simp add: splitlines_def)

lemma splitlines_terminated:
  "(\<forall>l \<in> set ls. line_ok l) \<Longrightarrow> splitlines (concat (map (\<lambda>l. l @ [newline]) ls)) = ls"
  by (induction ls) (auto simp: splitlines_line)

lemma splitlines_join:
  "(\<forall>l \<in> set ls. line_ok l) \<Longrightarrow> (ls = [] \<or> last ls \<noteq> []) \<Longrightarrow>
   splitlines (join [newline] ls) = ls"
proof (induction ls)
  case (Cons x xs)
  show ?case
  proof (cases "xs = []")
    case True
    with Cons.prems show ?thesis
      using splitlines_acc_last [of x "[]"] by (simp add: splitlines_def)
  next
    case False
    with Cons show ?thesis by (simp add: join_Cons splitlines_line)
  qed
qed simp

lemma split_acc_word:
  "(\<forall>c \<in> set w. \<not> is_space c) \<Longrightarrow> is_space c \<Longrightarrow>
   split_acc acc (w @ c # s) =
     (if acc = [] \<and> w = [] then [] else [rev acc @ w]) @ split_acc [] s"
  by (induction w arbitrary: acc) auto

lemma split_acc_end:
  "(\<forall>c \<in> set w. \<not> is_space c) \<Longrightarrow> split_acc acc w = (if acc = [] \<and> w = [] then [] else [rev acc @ w])"
  by (induction w arbitrary: acc) auto

lemma split_ws_word: "word_ok w \<Longrightarrow> split_ws w = [w]"
  by (simp add: split_ws_def split_acc_end word_ok_def)

lemma split_ws_join: "(\<forall>w \<in> set ws. word_ok w) \<Longrightarrow> split_ws (join [blank] ws) = ws"
proof (induction ws)
  case (Cons x xs)
  show ?case
  proof (cases "xs = []")
    case True
    with Cons.prems show ?thesis by (simp add: split_ws_word)
  next
    case False
    with Cons show ?thesis
      using split_acc_word [of x blank "[]" "join [blank] xs"]
      by (auto simp: join_Cons split_ws_def word_ok_def)
  qed
qed (simp add: split_ws_def)

lemma split_acc_words: "w \<in> set (split_acc acc s) \<Longrightarrow> (\<forall>c \<in> set acc. \<not> is_space c) \<Longrightarrow> word_ok w"
  by (induction acc s rule: split_acc.induct)
     (auto simp: word_ok_def split: if_splits)

lemma split_ws_words: "w \<in> set (split_ws s) \<Longrightarrow> word_ok w"
  by (auto simp: split_ws_def dest: split_acc_words)

section \<open>Integers\<close>

text \<open>
  \<^verbatim>\<open>str(n)\<close>: decimal digits after an optional minus sign. \<^verbatim>\<open>int(text)\<close>: surrounding whitespace, an
  optional sign, digits with single underscores between them; \<^const>\<open>None\<close> where Python raises
  \<^verbatim>\<open>ValueError\<close>. (Python additionally refuses texts of more than 4300 digits.)
\<close>

definition digit_char :: "nat \<Rightarrow> char" where
  "digit_char d = char_of (48 + d)"

definition digit_val :: "char \<Rightarrow> nat" where
  "digit_val c = ord c - 48"

fun str_nat :: "nat \<Rightarrow> string" where
  "str_nat n = (if n < 10 then [digit_char n] else str_nat (n div 10) @ [digit_char (n mod 10)])"

declare str_nat.simps [simp del]

definition str_int :: "int \<Rightarrow> string" where
  "str_int i = (if i < 0 then CHR ''-'' # str_nat (nat (- i)) else str_nat (nat i))"

text \<open>
  For evaluation: the digits by recursion on the binary digits of a bound, so that the text of a number
  that is not known yet does not unfold.
\<close>

fun decimal_digits :: "num \<Rightarrow> int \<Rightarrow> string" where
  "decimal_digits num.One n = [digit_char (nat n)]"
| "decimal_digits (num.Bit0 k) n =
     (if n < 10 then [digit_char (nat n)] else decimal_digits k (n div 10) @ [digit_char (nat (n mod 10))])"
| "decimal_digits (num.Bit1 k) n =
     (if n < 10 then [digit_char (nat n)] else decimal_digits k (n div 10) @ [digit_char (nat (n mod 10))])"

lemma str_nat_int:
  assumes "0 \<le> n" shows "str_nat (nat n) =
     (if n < 10 then [digit_char (nat n)] else str_nat (nat (n div 10)) @ [digit_char (nat (n mod 10))])"
proof -
  have "nat n < 10 \<longleftrightarrow> n < 10" using assms by linarith
  then show ?thesis using assms by (simp add: str_nat.simps [of "nat n"] nat_div_distrib nat_mod_distrib)
qed

lemma half_of_numeral:
  fixes n :: int
  shows "n \<le> numeral (num.Bit0 k) \<Longrightarrow> 0 \<le> n \<Longrightarrow> n div 10 \<le> numeral k"
    "n \<le> numeral (num.Bit1 k) \<Longrightarrow> 0 \<le> n \<Longrightarrow> n div 10 \<le> numeral k"
proof -
  have *: "n \<le> m + m + 1 \<Longrightarrow> 0 \<le> n \<Longrightarrow> n div 10 \<le> m" for n m :: int by linarith
  show "n \<le> numeral (num.Bit0 k) \<Longrightarrow> 0 \<le> n \<Longrightarrow> n div 10 \<le> numeral k"
    by (rule *, subst (asm) numeral_Bit0, erule order_trans, simp only: le_add_same_cancel1 zero_le_one)
  show "n \<le> numeral (num.Bit1 k) \<Longrightarrow> 0 \<le> n \<Longrightarrow> n div 10 \<le> numeral k"
    by (rule *, subst (asm) numeral_Bit1)
qed

lemma decimal_digits_str_nat: "0 \<le> n \<Longrightarrow> n \<le> numeral k \<Longrightarrow> decimal_digits k n = str_nat (nat n)"
proof (induction k n rule: decimal_digits.induct)
  case (1 n)
  then show ?case by (simp add: str_nat_int)
next
  case (2 k n)
  then show ?case using half_of_numeral(1) [of n k] by (simp add: str_nat_int pos_imp_zdiv_nonneg_iff)
next
  case (3 k n)
  then show ?case using half_of_numeral(2) [of n k] by (simp add: str_nat_int pos_imp_zdiv_nonneg_iff)
qed

definition int_digits :: "int \<Rightarrow> string" where
  "int_digits i = str_nat (nat i)"

lemma int_digits_code [code]:
  "int_digits 0 = ''0''"
  "int_digits (Int.Pos k) = decimal_digits k (numeral k)"
  "int_digits (Int.Neg k) = ''0''"
proof -
  have zero: "str_nat 0 = ''0''" by code_simp
  then show "int_digits 0 = ''0''" by (simp add: int_digits_def)
  show "int_digits (Int.Pos k) = decimal_digits k (numeral k)"
    by (simp add: int_digits_def decimal_digits_str_nat)
  show "int_digits (Int.Neg k) = ''0''" by (simp add: int_digits_def Int.Neg_def zero)
qed

lemma str_nat_code [code]: "str_nat n = int_digits (int n)"
  by (simp add: int_digits_def)

lemma str_int_code [code]: "str_int i = (if i < 0 then CHR ''-'' # int_digits (- i) else int_digits i)"
  by (simp add: int_digits_def str_int_def)

fun digits_acc :: "nat \<Rightarrow> bool \<Rightarrow> string \<Rightarrow> nat option" where
  "digits_acc n after_digit [] = (if after_digit then Some n else None)"
| "digits_acc n after_digit (c # cs) =
     (if is_digit c then digits_acc (10 * n + digit_val c) True cs
      else if ord c = 95 \<and> after_digit then digits_acc n False cs
      else None)"

definition int_of_str :: "string \<Rightarrow> int option" where
  "int_of_str text =
     (case strip text of
        [] \<Rightarrow> None
      | c # cs \<Rightarrow>
          if c = CHR ''-'' then map_option (\<lambda>n. - int n) (digits_acc 0 False cs)
          else if c = CHR ''+'' then map_option int (digits_acc 0 False cs)
          else map_option int (digits_acc 0 False (c # cs)))"

lemma digit_char_simps [simp]:
  "d < 10 \<Longrightarrow> is_digit (digit_char d)"
  "d < 10 \<Longrightarrow> digit_val (digit_char d) = d"
  by (simp_all add: digit_char_def digit_val_def is_digit_def)

lemma digits_acc_append_digit:
  "digits_acc n b xs = Some m \<Longrightarrow> d < 10 \<Longrightarrow>
   digits_acc n b (xs @ [digit_char d]) = Some (10 * m + d)"
  by (induction n b xs rule: digits_acc.induct) (auto split: if_splits)

lemma digits_acc_str_nat: "digits_acc 0 False (str_nat n) = Some n"
proof (induction n rule: str_nat.induct)
  case (1 n)
  show ?case
  proof (cases "n < 10")
    case True
    then show ?thesis by (simp add: str_nat.simps [of n])
  next
    case False
    with 1 have "digits_acc 0 False (str_nat (n div 10)) = Some (n div 10)" by simp
    then have "digits_acc 0 False (str_nat (n div 10) @ [digit_char (n mod 10)]) =
      Some (10 * (n div 10) + n mod 10)"
      by (rule digits_acc_append_digit) simp
    with False show ?thesis by (simp add: str_nat.simps [of n])
  qed
qed

lemma str_nat_digits: "c \<in> set (str_nat n) \<Longrightarrow> is_digit c"
proof (induction n rule: str_nat.induct)
  case (1 n)
  then show ?case by (subst (asm) (2) str_nat.simps) (auto split: if_splits)
qed

lemma str_nat_nonempty [simp]: "str_nat n \<noteq> []"
  by (subst str_nat.simps) simp

lemma minus_not_space: "\<not> is_space (CHR ''-'')" and sign_not_digit:
  "\<not> is_digit (CHR ''-'')" "\<not> is_digit (CHR ''+'')"
  by (simp_all add: is_space_def is_digit_def ord_def)

lemma strip_str_int [simp]: "strip (str_int i) = str_int i"
proof (rule strip_no_space, rule ballI)
  fix c assume "c \<in> set (str_int i)"
  then show "\<not> is_space c"
    using minus_not_space by (auto simp: str_int_def digit_not_space dest: str_nat_digits split: if_splits)
qed

lemma hd_str_nat: "is_digit (hd (str_nat n))"
  using str_nat_digits [of "hd (str_nat n)" n] by simp

theorem int_of_str_str_int: "int_of_str (str_int i) = Some i"
proof (cases "i < 0")
  case True
  then have "str_int i = CHR ''-'' # str_nat (nat (- i))" by (simp add: str_int_def)
  with True show ?thesis
    using strip_str_int [of i] by (simp add: int_of_str_def digits_acc_str_nat)
next
  case False
  then have s: "str_int i = str_nat (nat i)" by (simp add: str_int_def)
  obtain c cs where c: "str_nat (nat i) = c # cs" by (cases "str_nat (nat i)") auto
  with hd_str_nat [of "nat i"] have "is_digit c" by simp
  then have "c \<noteq> CHR ''-''" "c \<noteq> CHR ''+''" using sign_not_digit by auto
  with False s c show ?thesis
    using strip_str_int [of i] digits_acc_str_nat [of "nat i"]
    by (simp add: int_of_str_def)
qed

lemma str_int_inject: "str_int i = str_int j \<longleftrightarrow> i = j"
  by (metis int_of_str_str_int option.inject)

lemma word_ok_str_int: "word_ok (str_int i)"
proof -
  have "c \<in> set (str_int i) \<Longrightarrow> \<not> is_space c" for c
    using minus_not_space
    by (auto simp: str_int_def digit_not_space dest: str_nat_digits split: if_splits)
  then show ?thesis by (auto simp: word_ok_def str_int_def)
qed

section \<open>Representations in messages\<close>

text \<open>\<^verbatim>\<open>repr(s)\<close>: double quotes only where the text has a single quote and no double quote.\<close>

definition hex_digit :: "nat \<Rightarrow> char" where
  "hex_digit d = (if d < 10 then digit_char d else char_of (87 + d))"

definition repr_char :: "char \<Rightarrow> char \<Rightarrow> string" where
  "repr_char q c =
     (if c = q \<or> c = CHR 0x5C then [CHR 0x5C, c]
      else if ord c = 9 then [CHR 0x5C, CHR ''t'']
      else if ord c = 10 then [CHR 0x5C, CHR ''n'']
      else if ord c = 13 then [CHR 0x5C, CHR ''r'']
      else if is_printable c then [c]
      else [CHR 0x5C, CHR ''x'', hex_digit (ord c div 16), hex_digit (ord c mod 16)])"

definition repr_str :: "string \<Rightarrow> string" where
  "repr_str s =
     (let q = (if CHR 0x27 \<in> set s \<and> CHR 0x22 \<notin> set s then CHR 0x22 else CHR 0x27)
      in q # concat (map (repr_char q) s) @ [q])"

definition bad_int_text :: "string \<Rightarrow> exn" where
  "bad_int_text s = Exn ValueError (''invalid literal for int() with base 10: '' @ repr_str s)"

text \<open>\<^verbatim>\<open>int(s)\<close> on a string, with its exception.\<close>

definition py_int_str :: "string \<Rightarrow> int res" where
  "py_int_str s = (case int_of_str s of Some i \<Rightarrow> Inr i | None \<Rightarrow> Inl (bad_int_text s))"

lemma py_int_str_int [simp]: "py_int_str (str_int i) = Inr i"
  by (simp add: py_int_str_def int_of_str_str_int)

end
