(* ===== verification/Floats.thy ===== *)
theory Floats
  imports Text "HOL-Library.Log_Nat"
begin

text \<open>
  Python's floats: IEEE double precision, rounded to nearest with ties to even, computed on
  rationals. \<open>fl\<close> rounds a rational to the nearest double (with gradual underflow), \<open>to_flt\<close> adds
  the overflow to infinity, and the arithmetic of the language is exact arithmetic followed by
  \<open>to_flt\<close>. A locale states what the proofs about float thresholds need of a rounding (it is
  monotone and keeps small integers), and \<open>fl\<close> is an interpretation of it. Also here: \<^verbatim>\<open>float(text)\<close>
  and \<^verbatim>\<open>repr(float)\<close>. The sign of a zero is not kept.
\<close>

section \<open>Rounding to nearest, ties to even\<close>

definition round_half_even :: "rat \<Rightarrow> int" where
  "round_half_even x =
     (let f = \<lfloor>x\<rfloor>; r = x - of_int f
      in if r < 1/2 then f else if r > 1/2 then f + 1 else if even f then f else f + 1)"

text \<open>\<open>pow2 e\<close> is two to an integer power; \<open>ilog2 x\<close> the exponent of the binade of \<open>x > 0\<close>.\<close>

definition pow2 :: "int \<Rightarrow> rat" where
  "pow2 e = (if 0 \<le> e then of_int (2 ^ nat e) else 1 / of_int (2 ^ nat (- e)))"

definition ilog2 :: "rat \<Rightarrow> int" where
  "ilog2 x =
     (let (a, b) = quotient_of x; d = int (floorlog 2 (nat a)) - int (floorlog 2 (nat b))
      in if pow2 d \<le> x then d else d - 1)"

definition exponent_of :: "rat \<Rightarrow> int" where
  "exponent_of x = max (- 1074) (ilog2 \<bar>x\<bar> - 52)"

definition fl :: "rat \<Rightarrow> rat" where
  "fl x = (if x = 0 then 0
           else (let e = exponent_of x in of_int (round_half_even (x * pow2 (- e))) * pow2 e))"

lemma pow2_pos [simp]: "0 < pow2 e"
  by (simp add: pow2_def)

lemma pow2_nonneg [simp]: "0 \<le> pow2 e" and pow2_neq_0 [simp]: "pow2 e \<noteq> 0"
  using pow2_pos [of e] by linarith+

lemma pow2_power_int: "pow2 e = 2 powi e"
  by (simp add: pow2_def power_int_def inverse_eq_divide power_one_over)

lemma pow2_add: "pow2 (a + b) = pow2 a * pow2 b"
  by (simp add: pow2_power_int power_int_add)

lemma pow2_minus: "pow2 (- a) = 1 / pow2 a"
  by (simp add: pow2_power_int power_int_minus inverse_eq_divide)

lemma pow2_mono: "a \<le> b \<Longrightarrow> pow2 a \<le> pow2 b"
  by (simp add: pow2_power_int power_int_increasing)

lemma pow2_less_iff: "pow2 a < pow2 b \<longleftrightarrow> a < b"
  by (metis linorder_not_le pow2_mono pow2_power_int power_int_strict_increasing one_less_numeral_iff semiring_norm(76))

lemma pow2_of_int: "0 \<le> e \<Longrightarrow> pow2 e = of_int (2 ^ nat e)"
  by (simp add: pow2_def)

lemma round_mono: "x \<le> y \<Longrightarrow> round_half_even x \<le> round_half_even y"
proof -
  assume le: "x \<le> y"
  then have f: "\<lfloor>x\<rfloor> \<le> \<lfloor>y\<rfloor>" by (rule floor_mono)
  show ?thesis
  proof (cases "\<lfloor>x\<rfloor> = \<lfloor>y\<rfloor>")
    case True
    with le show ?thesis by (auto simp: round_half_even_def Let_def)
  next
    case False
    with f have "\<lfloor>x\<rfloor> + 1 \<le> \<lfloor>y\<rfloor>" by simp
    then show ?thesis by (auto simp: round_half_even_def Let_def)
  qed
qed

lemma round_of_int [simp]: "round_half_even (of_int n) = n"
  by (simp add: round_half_even_def)

lemma round_error: "\<bar>of_int (round_half_even x) - x\<bar> \<le> 1/2"
proof -
  have "of_int \<lfloor>x\<rfloor> \<le> x" "x < of_int \<lfloor>x\<rfloor> + 1" by linarith+
  then show ?thesis by (auto simp: round_half_even_def Let_def abs_le_iff)
qed

lemma round_le_int: "x \<le> of_int n \<Longrightarrow> round_half_even x \<le> n"
  using round_mono [of x "of_int n"] by simp

lemma round_ge_int: "of_int n \<le> x \<Longrightarrow> n \<le> round_half_even x"
  using round_mono [of "of_int n" x] by simp

section \<open>The binade of a positive rational\<close>

lemma floorlog2_bounds:
  assumes "0 < n"
  shows "2 ^ (floorlog 2 n - 1) \<le> n" and "n < 2 ^ floorlog 2 n" and "0 < floorlog 2 n"
proof -
  from assms have "2 ^ (floorlog 2 n - 1) \<le> n \<and> n < 2 ^ floorlog 2 n"
    using floorlog_bounds [of n 2] by simp
  then show "2 ^ (floorlog 2 n - 1) \<le> n" and b: "n < 2 ^ floorlog 2 n" by simp_all
  show "0 < floorlog 2 n"
    using assms b by (cases "floorlog 2 n") auto
qed

lemma floorlog2_rat:
  assumes "0 < a"
  shows "pow2 (int (floorlog 2 (nat a)) - 1) \<le> of_int a" and "of_int a < pow2 (int (floorlog 2 (nat a)))"
proof -
  let ?k = "floorlog 2 (nat a)"
  from assms have n: "0 < nat a" by simp
  note b = floorlog2_bounds [OF n]
  have lo: "(2::int) ^ (?k - 1) \<le> a" using b(1) assms
    by (metis le_nat_iff less_imp_le of_nat_numeral of_nat_power nat_le_eq_zle nat_int)
  have hi: "a < (2::int) ^ ?k" using b(2) assms
    by (metis nat_less_iff less_imp_le of_nat_numeral of_nat_power)
  have "pow2 (int ?k - 1) = of_int (2 ^ (?k - 1))"
    using b(3) by (simp add: pow2_def nat_diff_distrib' )
  with lo show "pow2 (int ?k - 1) \<le> of_int a" by (metis of_int_le_iff)
  have "pow2 (int ?k) = of_int (2 ^ ?k)" by (simp add: pow2_def)
  with hi show "of_int a < pow2 (int ?k)" by (metis of_int_less_iff)
qed

text \<open>Counting the bits of an integer by halving makes the binade computable on long numerators.\<close>

function int_bits :: "int \<Rightarrow> int" where
  "int_bits n = (if n \<le> 0 then 0 else int_bits (n div 2) + 1)"
  by pat_completeness auto

termination int_bits
  by (relation "measure nat") auto

declare int_bits.simps [simp del]

lemma int_bits_floorlog: "int (floorlog 2 (nat n)) = int_bits n"
proof (induction n rule: int_bits.induct)
  case (1 n)
  then show ?case
    by (subst compute_floorlog, subst int_bits.simps) (simp add: nat_div_distrib)
qed

lemma ilog2_bits [code]:
  "ilog2 x =
     (let (a, b) = quotient_of x; d = int_bits a - int_bits b
      in if pow2 d \<le> x then d else d - 1)"
  by (simp add: ilog2_def int_bits_floorlog)

lemma ilog2_bounds:
  assumes "0 < x"
  shows "pow2 (ilog2 x) \<le> x" and "x < pow2 (ilog2 x + 1)"
proof -
  obtain a b where q: "quotient_of x = (a, b)" by (cases "quotient_of x")
  then have b: "0 < b" and x: "x = of_int a / of_int b"
    by (simp_all add: quotient_of_denom_pos quotient_of_div)
  with assms have a: "0 < a" by (simp add: zero_less_divide_iff)
  let ?ka = "int (floorlog 2 (nat a))" and ?kb = "int (floorlog 2 (nat b))"
  note A = floorlog2_rat [OF a] and B = floorlog2_rat [OF b]
  have b0: "(0::rat) < of_int b" using b by simp
  have hi: "x < pow2 (?ka - ?kb + 1)"
  proof -
    have "of_int a < pow2 ?ka" by (rule A(2))
    also have "pow2 ?ka = pow2 (?ka - ?kb + 1) * pow2 (?kb - 1)"
      by (simp flip: pow2_add)
    also have "\<dots> \<le> pow2 (?ka - ?kb + 1) * of_int b"
      using B(1) by (simp add: mult_left_mono)
    finally show ?thesis using b0 by (simp add: x divide_less_eq)
  qed
  have lo: "pow2 (?ka - ?kb - 1) \<le> x"
  proof -
    have "pow2 (?ka - ?kb - 1) * of_int b \<le> pow2 (?ka - ?kb - 1) * pow2 ?kb"
      using B(2) by (simp add: mult_left_mono less_imp_le)
    also have "\<dots> = pow2 (?ka - 1)" by (simp flip: pow2_add)
    also have "\<dots> \<le> of_int a" by (rule A(1))
    finally show ?thesis using b0 by (simp add: x le_divide_eq)
  qed
  have e: "ilog2 x = (if pow2 (?ka - ?kb) \<le> x then ?ka - ?kb else ?ka - ?kb - 1)"
    by (simp add: ilog2_def q Let_def)
  show "pow2 (ilog2 x) \<le> x" using lo e by simp
  show "x < pow2 (ilog2 x + 1)" using hi e by (simp split: if_splits)
qed

lemma ilog2_unique: "0 < x \<Longrightarrow> pow2 k \<le> x \<Longrightarrow> x < pow2 (k + 1) \<Longrightarrow> ilog2 x = k"
proof -
  assume x: "0 < x" and lo: "pow2 k \<le> x" and hi: "x < pow2 (k + 1)"
  note b = ilog2_bounds [OF x]
  have "pow2 k < pow2 (ilog2 x + 1)" using lo b(2) by linarith
  moreover have "pow2 (ilog2 x) < pow2 (k + 1)" using hi b(1) by linarith
  ultimately show ?thesis by (simp add: pow2_less_iff)
qed

lemma ilog2_mono: "0 < x \<Longrightarrow> x \<le> y \<Longrightarrow> ilog2 x \<le> ilog2 y"
proof -
  assume x: "0 < x" and le: "x \<le> y"
  then have "pow2 (ilog2 x) < pow2 (ilog2 y + 1)"
    using ilog2_bounds(1) [OF x] ilog2_bounds(2) [of y] by linarith
  then show ?thesis by (simp add: pow2_less_iff)
qed

section \<open>The rounding to doubles\<close>

lemma round_minus: "round_half_even (- x) = - round_half_even x"
proof (cases "x = of_int \<lfloor>x\<rfloor>")
  case True
  then show ?thesis
    by (metis of_int_minus round_of_int)
next
  case False
  then have "of_int \<lfloor>x\<rfloor> < x" "x < of_int \<lfloor>x\<rfloor> + 1" by linarith+
  then have "\<lfloor>- x\<rfloor> = - \<lfloor>x\<rfloor> - 1" by (intro floor_unique) simp_all
  then show ?thesis by (auto simp: round_half_even_def Let_def)
qed

lemma fl_0 [simp]: "fl 0 = 0"
  by (simp add: fl_def)

lemma fl_nonzero: "x \<noteq> 0 \<Longrightarrow>
    fl x = of_int (round_half_even (x * pow2 (- exponent_of x))) * pow2 (exponent_of x)"
  by (simp add: fl_def Let_def)

lemma fl_minus: "fl (- x) = - fl x"
  using round_minus [of "x * pow2 (- exponent_of x)"]
  by (cases "x = 0") (simp_all add: fl_nonzero exponent_of_def)

lemma fl_upper:
  assumes "0 < x" and "x \<le> of_int n * pow2 (exponent_of x)"
  shows "fl x \<le> of_int n * pow2 (exponent_of x)"
proof -
  have "x * pow2 (- exponent_of x) \<le> of_int n"
    using assms(2) by (simp add: pow2_minus divide_le_eq)
  then have "round_half_even (x * pow2 (- exponent_of x)) \<le> n" by (rule round_le_int)
  with assms(1) show ?thesis by (simp add: fl_nonzero)
qed

lemma fl_lower:
  assumes "0 < x" and "of_int n * pow2 (exponent_of x) \<le> x"
  shows "of_int n * pow2 (exponent_of x) \<le> fl x"
proof -
  have "of_int n \<le> x * pow2 (- exponent_of x)"
    using assms(2) by (simp add: pow2_minus le_divide_eq)
  then have "n \<le> round_half_even (x * pow2 (- exponent_of x))" by (rule round_ge_int)
  with assms(1) show ?thesis by (simp add: fl_nonzero)
qed

lemma fl_nonneg: "0 \<le> x \<Longrightarrow> 0 \<le> fl x"
  using fl_lower [of x 0] by (cases "x = 0") simp_all

lemma fl_below_binade:
  assumes "0 < x"
  shows "fl x \<le> pow2 (exponent_of x + 53)"
proof -
  have "x \<le> pow2 (ilog2 x + 1)" using ilog2_bounds(2) [OF assms] by simp
  also have "\<dots> \<le> pow2 (exponent_of x + 53)"
    using assms by (intro pow2_mono) (simp add: exponent_of_def)
  also have "\<dots> = of_int (2 ^ 53) * pow2 (exponent_of x)"
    by (simp add: pow2_add pow2_of_int)
  finally show ?thesis
    using fl_upper [OF assms, of "2 ^ 53"] by (simp add: pow2_add pow2_of_int)
qed

lemma fl_above_binade:
  assumes "0 < y" and "exponent_of y = ilog2 y - 52"
  shows "pow2 (exponent_of y + 52) \<le> fl y"
proof -
  have "of_int (2 ^ 52) * pow2 (exponent_of y) = pow2 (ilog2 y)"
    using assms(2) pow2_add [of "52" "ilog2 y - 52"] by (simp add: pow2_of_int)
  also have "\<dots> \<le> y" using ilog2_bounds(1) [OF assms(1)] .
  finally show ?thesis
    using fl_lower [OF assms(1), of "2 ^ 52"] by (simp add: pow2_add pow2_of_int)
qed

lemma fl_mono_pos:
  assumes x: "0 < x" and le: "x \<le> y"
  shows "fl x \<le> fl y"
proof (cases "exponent_of x = exponent_of y")
  case True
  have "round_half_even (x * pow2 (- exponent_of y)) \<le> round_half_even (y * pow2 (- exponent_of y))"
    using le by (intro round_mono) (simp add: mult_right_mono)
  with True x le show ?thesis by (simp add: fl_nonzero mult_right_mono)
next
  case False
  have m: "ilog2 x \<le> ilog2 y" using x le by (rule ilog2_mono)
  with False x le have lt: "exponent_of x < exponent_of y" and e: "exponent_of y = ilog2 y - 52"
    by (auto simp: exponent_of_def)
  have "fl x \<le> pow2 (exponent_of x + 53)" using x by (rule fl_below_binade)
  also have "\<dots> \<le> pow2 (exponent_of y + 52)" using lt by (intro pow2_mono) simp
  also have "\<dots> \<le> fl y" using x le e by (intro fl_above_binade) simp_all
  finally show ?thesis .
qed

theorem fl_mono: "x \<le> y \<Longrightarrow> fl x \<le> fl y"
proof -
  assume le: "x \<le> y"
  consider "0 < x" | "y < 0" | "x \<le> 0" "0 \<le> y" by linarith
  then show ?thesis
  proof cases
    case 1
    then show ?thesis using le by (rule fl_mono_pos)
  next
    case 2
    with le have "fl (- y) \<le> fl (- x)" by (intro fl_mono_pos) simp_all
    then show ?thesis by (simp add: fl_minus)
  next
    case 3
    then have "0 \<le> fl (- x)" "0 \<le> fl y" by (simp_all add: fl_nonneg)
    then show ?thesis by (simp add: fl_minus)
  qed
qed

lemma fl_exact:
  assumes "x * pow2 (- exponent_of x) = of_int n"
  shows "fl x = x"
proof (cases "x = 0")
  case False
  then have "fl x = of_int n * pow2 (exponent_of x)" by (simp add: fl_nonzero assms)
  also have "\<dots> = x" using assms by (simp add: pow2_minus divide_eq_eq)
  finally show ?thesis .
qed simp

lemma fl_of_int:
  assumes "\<bar>n\<bar> \<le> 2 ^ 53"
  shows "fl (of_int n) = of_int n"
proof (cases "n = 0")
  case False
  define e where "e = exponent_of (of_int n)"
  have n1: "(1::rat) \<le> \<bar>of_int n\<bar>" using False by linarith
  then have pos: "(0::rat) < \<bar>of_int n\<bar>" by linarith
  have p0: "pow2 0 = 1" by (simp add: pow2_def)
  have "pow2 0 < pow2 (ilog2 \<bar>of_int n\<bar> + 1)"
    unfolding p0 using n1 ilog2_bounds(2) [OF pos] by (rule order.strict_trans1)
  then have lo: "0 \<le> ilog2 \<bar>of_int n :: rat\<bar>" by (simp add: pow2_less_iff)
  have "pow2 (ilog2 \<bar>of_int n\<bar>) \<le> \<bar>of_int n\<bar>" using n1 by (intro ilog2_bounds) simp
  also have le: "\<bar>of_int n\<bar> \<le> pow2 53"
  proof -
    have "of_int \<bar>n\<bar> \<le> (of_int (2 ^ 53) :: rat)" using assms by (simp only: of_int_le_iff)
    then show ?thesis by (simp add: pow2_of_int)
  qed
  finally have "\<not> pow2 53 < pow2 (ilog2 \<bar>of_int n\<bar>)" by simp
  then have hi: "ilog2 \<bar>of_int n :: rat\<bar> \<le> 53" by (simp add: pow2_less_iff)
  have "\<exists>m. of_int n * pow2 (- e) = of_int m"
  proof (cases "e \<le> 0")
    case True
    then have "of_int n * pow2 (- e) = of_int (n * 2 ^ nat (- e))" by (simp add: pow2_of_int)
    then show ?thesis by blast
  next
    case False
    with lo hi have "e = 1" and i: "ilog2 \<bar>of_int n :: rat\<bar> = 53" by (auto simp: e_def exponent_of_def)
    have "pow2 53 \<le> \<bar>of_int n\<bar>" using n1 ilog2_bounds(1) [of "\<bar>of_int n\<bar>"] by (simp add: i)
    with le have "\<bar>of_int n\<bar> = (of_int (2 ^ 53) :: rat)" by (simp add: pow2_of_int)
    then have "of_int \<bar>n\<bar> = (of_int (2 ^ 53) :: rat)" by simp
    then have "\<bar>n\<bar> = 2 ^ 53" by (simp only: of_int_eq_iff)
    then have "n = 2 ^ 53 \<or> n = - (2 ^ 53)" by linarith
    then have "n = 2 * (n div 2)" by auto
    then have "of_int n = (of_int (2 * (n div 2)) :: rat)" by simp
    moreover have "pow2 (- e) = 1 / 2" using \<open>e = 1\<close> by (simp add: pow2_def)
    ultimately have "of_int n * pow2 (- e) = of_int (n div 2)" by simp
    then show ?thesis by blast
  qed
  then obtain m where "of_int n * pow2 (- exponent_of (of_int n)) = of_int m" by (auto simp: e_def)
  then show ?thesis by (rule fl_exact)
qed simp

text \<open>The relative error of one rounding in the normal range.\<close>

lemma fl_error:
  assumes "0 < x" and "exponent_of x = ilog2 x - 52"
  shows "\<bar>fl x - x\<bar> * 2 ^ 53 \<le> x"
proof -
  let ?e = "exponent_of x" and ?y = "x * pow2 (- exponent_of x)"
  have y: "?y * pow2 ?e = x" by (simp add: pow2_minus)
  have "\<bar>fl x - x\<bar> = \<bar>of_int (round_half_even ?y) - ?y\<bar> * pow2 ?e"
  proof -
    have "fl x - x = (of_int (round_half_even ?y) - ?y) * pow2 ?e"
      using assms(1) y by (simp add: fl_nonzero left_diff_distrib)
    then show ?thesis by (simp add: abs_mult)
  qed
  also have "\<dots> \<le> 1/2 * pow2 ?e" using round_error by (intro mult_right_mono) simp_all
  finally have "\<bar>fl x - x\<bar> * 2 ^ 53 \<le> 1/2 * pow2 ?e * 2 ^ 53" by simp
  also have "\<dots> = pow2 (ilog2 x)"
    using assms(2) pow2_add [of "52" "ilog2 x - 52"] by (simp add: pow2_of_int)
  also have "\<dots> \<le> x" using ilog2_bounds(1) [OF assms(1)] .
  finally show ?thesis .
qed

section \<open>What the float thresholds rest on\<close>

text \<open>
  The laws of a rounding the threshold proofs use; the doubles of the language satisfy them.
\<close>

locale rounding =
  fixes rnd :: "rat \<Rightarrow> rat" and exact_bound :: int
  assumes rnd_mono: "x \<le> y \<Longrightarrow> rnd x \<le> rnd y"
    and rnd_minus: "rnd (- x) = - rnd x"
    and rnd_of_int: "\<bar>n\<bar> \<le> exact_bound \<Longrightarrow> rnd (of_int n) = of_int n"
    and bound_pos: "0 \<le> exact_bound"
begin

lemma rnd_0: "rnd 0 = 0"
  using rnd_of_int [of 0] bound_pos by simp

lemma rnd_nonneg: "0 \<le> x \<Longrightarrow> 0 \<le> rnd x"
  using rnd_mono [of 0 x] by (simp add: rnd_0)

lemma rnd_nonpos: "x \<le> 0 \<Longrightarrow> rnd x \<le> 0"
  using rnd_mono [of x 0] by (simp add: rnd_0)

lemma rnd_ge_int: "\<bar>n\<bar> \<le> exact_bound \<Longrightarrow> of_int n \<le> x \<Longrightarrow> of_int n \<le> rnd x"
  using rnd_mono [of "of_int n" x] by (simp add: rnd_of_int)

lemma rnd_le_int: "\<bar>n\<bar> \<le> exact_bound \<Longrightarrow> x \<le> of_int n \<Longrightarrow> rnd x \<le> of_int n"
  using rnd_mono [of x "of_int n"] by (simp add: rnd_of_int)

text \<open>A value between two neighbouring integers stays between them, so its ceiling is known.\<close>

lemma ceiling_rnd:
  assumes "\<bar>n\<bar> < exact_bound" and "of_int n < rnd x" and "x \<le> of_int (n + 1)"
  shows "\<lceil>rnd x\<rceil> = n + 1"
proof -
  have "rnd x \<le> of_int (n + 1)" using assms(1,3) by (intro rnd_le_int) linarith+
  with assms(2) show ?thesis by (intro ceiling_unique) simp_all
qed

end

interpretation double: rounding fl "2 ^ 53"
  by unfold_locales (simp_all add: fl_mono fl_minus fl_of_int)

section \<open>Float values\<close>

datatype flt = Fin rat | PInf | NInf | NaN

definition to_flt :: "rat \<Rightarrow> flt" where
  "to_flt x = (let y = fl x in
     if pow2 1024 \<le> y then PInf else if y \<le> - pow2 1024 then NInf else Fin y)"

text \<open>Comparisons: with a NaN every one of them is false.\<close>

fun flt_le :: "flt \<Rightarrow> flt \<Rightarrow> bool" where
  "flt_le NaN b = False"
| "flt_le a NaN = False"
| "flt_le NInf b = True"
| "flt_le a PInf = True"
| "flt_le (Fin x) (Fin y) = (x \<le> y)"
| "flt_le a b = False"

fun flt_lt :: "flt \<Rightarrow> flt \<Rightarrow> bool" where
  "flt_lt NaN b = False"
| "flt_lt a NaN = False"
| "flt_lt NInf NInf = False"
| "flt_lt NInf b = True"
| "flt_lt PInf PInf = False"
| "flt_lt a PInf = True"
| "flt_lt (Fin x) (Fin y) = (x < y)"
| "flt_lt a b = False"

definition flt_eq :: "flt \<Rightarrow> flt \<Rightarrow> bool" where
  "flt_eq a b = (a \<noteq> NaN \<and> a = b)"

lemma flt_le_iff: "flt_le a b \<longleftrightarrow> flt_lt a b \<or> flt_eq a b"
  by (cases a; cases b) (auto simp: flt_eq_def)

lemma flt_not_le: "a \<noteq> NaN \<Longrightarrow> b \<noteq> NaN \<Longrightarrow> \<not> flt_le a b \<longleftrightarrow> flt_lt b a"
  by (cases a; cases b) auto

definition flt_of_int :: "int \<Rightarrow> flt res" where
  "flt_of_int n = (case to_flt (of_int n) of
     Fin y \<Rightarrow> Inr (Fin y)
   | _ \<Rightarrow> Inl (Exn OverflowError ''int too large to convert to float''))"

lemma flt_of_int_small:
  assumes "\<bar>n\<bar> \<le> 2 ^ 53"
  shows "flt_of_int n = Inr (Fin (of_int n))"
proof -
  have big: "pow2 53 < pow2 1024" by (simp add: pow2_less_iff)
  have "of_int \<bar>n\<bar> \<le> (of_int (2 ^ 53) :: rat)" using assms by (simp only: of_int_le_iff)
  then have "\<bar>of_int n\<bar> \<le> pow2 53" by (simp add: pow2_of_int)
  then have "\<bar>of_int n\<bar> < pow2 1024" using big by (rule order.strict_trans1)
  then have "to_flt (of_int n) = Fin (of_int n)"
    using double.rnd_of_int [OF assms] by (auto simp: to_flt_def Let_def abs_less_iff)
  then show ?thesis by (simp add: flt_of_int_def)
qed

section \<open>\<open>repr\<close> of a float\<close>

text \<open>
  The shortest decimal that rounds to the float, the nearest of them where there are two, in
  positional notation for a decimal point between -3 and 16 places, else with an exponent.
\<close>

definition pow10 :: "int \<Rightarrow> rat" where
  "pow10 e = (if 0 \<le> e then of_int (10 ^ nat e) else 1 / of_int (10 ^ nat (- e)))"

definition dec_exponent :: "rat \<Rightarrow> int" where
  "dec_exponent x = (if 1 \<le> x then int (length (str_nat (nat \<lfloor>x\<rfloor>))) - 1
                     else - int (length (str_nat (nat (\<lceil>1 / x\<rceil> - 1)))))"

definition shortest_candidates :: "rat \<Rightarrow> nat \<Rightarrow> (int \<times> int) list" where
  "shortest_candidates x n =
     (let e = dec_exponent x - int n + 1; y = x * pow10 (- e)
      in map (\<lambda>c. (c, e)) (filter (\<lambda>c. fl (of_int c * pow10 e) = x) (sort_key (\<lambda>c. \<bar>of_int c - y\<bar>) [\<lfloor>y\<rfloor>, \<lceil>y\<rceil>])))"

fun shortest_from :: "rat \<Rightarrow> nat list \<Rightarrow> int \<times> int" where
  "shortest_from x [] = (0, 0)"
| "shortest_from x (n # ns) =
     (case shortest_candidates x n of c # _ \<Rightarrow> c | [] \<Rightarrow> shortest_from x ns)"

definition strip_zeros :: "string \<Rightarrow> string" where
  "strip_zeros s = rev (dropWhile (\<lambda>c. c = CHR ''0'') (rev s))"

definition repr_exponent :: "int \<Rightarrow> string" where
  "repr_exponent e =
     (let d = str_nat (nat \<bar>e\<bar>)
      in (if e < 0 then ''e-'' else ''e+'') @ (if length d < 2 then CHR ''0'' # d else d))"

definition repr_positive :: "rat \<Rightarrow> string" where
  "repr_positive x =
     (let (c, e) = shortest_from x [1..<18];
          ds = str_nat (nat c);
          point = e + int (length ds);
          digits = strip_zeros ds
      in if - 4 < point \<and> point \<le> 16 then
           (if point \<le> 0 then ''0.'' @ replicate (nat (- point)) (CHR ''0'') @ digits
            else if int (length digits) \<le> point
              then digits @ replicate (nat point - length digits) (CHR ''0'') @ ''.0''
            else take (nat point) digits @ ''.'' @ drop (nat point) digits)
         else take 1 digits @ (if length digits > 1 then ''.'' @ drop 1 digits else [])
              @ repr_exponent (point - 1))"

fun repr_flt :: "flt \<Rightarrow> string" where
  "repr_flt NaN = ''nan''"
| "repr_flt PInf = ''inf''"
| "repr_flt NInf = ''-inf''"
| "repr_flt (Fin x) =
     (if x = 0 then ''0.0'' else if x < 0 then CHR ''-'' # repr_positive (- x) else repr_positive x)"

section \<open>\<open>float(text)\<close>\<close>

definition lower_char :: "char \<Rightarrow> char" where
  "lower_char c = (if 65 \<le> ord c \<and> ord c \<le> 90 then char_of (ord c + 32) else c)"

definition digits_part :: "string \<Rightarrow> nat option" where
  "digits_part s = (if s = [] then Some 0 else digits_acc 0 False s)"

definition exponent_part :: "string \<Rightarrow> int option" where
  "exponent_part s =
     (case s of
        [] \<Rightarrow> None
      | c # cs \<Rightarrow>
          if c = CHR ''-'' then map_option (\<lambda>n. - int n) (digits_acc 0 False cs)
          else if c = CHR ''+'' then map_option int (digits_acc 0 False cs)
          else map_option int (digits_acc 0 False s))"

definition unsigned_float :: "string \<Rightarrow> rat option" where
  "unsigned_float s =
     (let (mantissa, has_e, ex) = partition1 (CHR ''e'') s;
          (whole, has_dot, frac) = partition1 (CHR ''.'') mantissa
      in if whole = [] \<and> frac = [] then None
         else (case (digits_part whole, digits_part frac,
                     if has_e then exponent_part ex else Some 0) of
           (Some w, Some f, Some e) \<Rightarrow>
             Some ((of_nat w + of_nat f * pow10 (- int (length (filter is_digit frac)))) * pow10 e)
         | _ \<Rightarrow> None))"

definition negate_flt :: "flt \<Rightarrow> flt" where
  "negate_flt x = (case x of Fin q \<Rightarrow> Fin (- q) | PInf \<Rightarrow> NInf | NInf \<Rightarrow> PInf | NaN \<Rightarrow> NaN)"

definition unsigned_flt :: "string \<Rightarrow> flt option" where
  "unsigned_flt s =
     (if s = ''inf'' \<or> s = ''infinity'' then Some PInf
      else if s = ''nan'' then Some NaN
      else map_option to_flt (unsigned_float s))"

definition flt_of_str :: "string \<Rightarrow> flt option" where
  "flt_of_str text =
     (case map lower_char (strip text) of
        [] \<Rightarrow> None
      | c # cs \<Rightarrow>
          if c = CHR ''-'' then map_option negate_flt (unsigned_flt cs)
          else if c = CHR ''+'' then unsigned_flt cs
          else unsigned_flt (c # cs))"

definition py_float_str :: "string \<Rightarrow> flt res" where
  "py_float_str s = (case flt_of_str s of
     Some x \<Rightarrow> Inr x
   | None \<Rightarrow> Inl (Exn ValueError (''could not convert string to float: '' @ repr_str s)))"

end
