(* ===== verification/Trace_Log.thy ===== *)
theory Trace_Log
  imports Floats "HOL-Library.Word"
begin

unbundle bit_operations_syntax

text \<open>
  The binary trace format, from both ends: the C++ writer of \<^verbatim>\<open>src/common/csv_writer.hpp\<close>
  (explicit little-endian encoding, a buffered logger) and the Python loader of
  \<^verbatim>\<open>analysis/latency_utils.py\<close> (version 1 files and headerless legacy files, every malformed
  input an error). A locale states the contract of a fixed-width record codec; the version 1
  record is an interpretation, and the round trip of a whole file rests on it.
\<close>

section \<open>Little-endian integers\<close>

type_synonym byte = "8 word"

definition encode_le :: "nat \<Rightarrow> 'a::len word \<Rightarrow> byte list" where
  "encode_le n v = map (\<lambda>i. ucast (drop_bit (i * 8) v AND 0xff)) [0..<n]"

fun decode_le_from :: "nat \<Rightarrow> byte list \<Rightarrow> 'a::len word" where
  "decode_le_from i [] = 0"
| "decode_le_from i (b # bs) = push_bit (i * 8) (ucast b) OR decode_le_from (Suc i) bs"

definition decode_le :: "byte list \<Rightarrow> 'a::len word" where
  "decode_le bs = decode_le_from 0 bs"

lemma length_encode_le [simp]: "length (encode_le n v) = n"
  by (simp add: encode_le_def)

lemma bit_byte_of_word:
  "bit (ucast (w AND 0xff :: 'a::len word) :: byte) k \<longleftrightarrow> k < 8 \<and> bit w k"
proof -
  have m: "(0xff :: 'a word) = mask 8" by (simp add: mask_eq_exp_minus_1)
  show ?thesis
    unfolding m by (auto simp: bit_simps dest: bit_imp_le_length)
qed

lemma bit_decode_le_from:
  "bit (decode_le_from i bs :: 'a::len word) k \<longleftrightarrow>
     k < LENGTH('a) \<and> i * 8 \<le> k \<and> k < (i + length bs) * 8 \<and> bit (bs ! (k div 8 - i)) (k mod 8)"
proof (induction bs arbitrary: i)
  case (Cons b bs)
  have here: "bit (push_bit (i * 8) (ucast b) :: 'a word) k \<longleftrightarrow>
    k < LENGTH('a) \<and> i * 8 \<le> k \<and> k < Suc i * 8 \<and> bit b (k mod 8)"
  proof (cases "i * 8 \<le> k \<and> k < Suc i * 8")
    case True
    then have "k - i * 8 = k mod 8" by (metis div_nat_eqI mult.commute minus_mult_div_eq_mod)
    with True show ?thesis by (auto simp: bit_simps dest: bit_imp_le_length)
  next
    case False
    then have "\<not> i * 8 \<le> k \<or> 8 \<le> k - i * 8" by presburger
    then have "\<not> i * 8 \<le> k \<or> \<not> bit b (k - i * 8)" by (auto dest: bit_imp_le_length)
    with False show ?thesis by (auto simp: bit_simps)
  qed
  have idx: "(b # bs) ! (k div 8 - i) = bs ! (k div 8 - Suc i)" if "Suc i * 8 \<le> k"
  proof -
    from that have "Suc i \<le> k div 8" by (simp only: less_eq_div_iff_mult_less_eq)
    then have "k div 8 - i = Suc (k div 8 - Suc i)" by linarith
    then show ?thesis by simp
  qed
  have first: "i * 8 \<le> k \<Longrightarrow> k < Suc i * 8 \<Longrightarrow> k div 8 = i"
    by (simp add: div_nat_eqI mult.commute)
  show ?case
    unfolding decode_le_from.simps bit_or_iff here Cons.IH
    using idx first by (cases "k < Suc i * 8") auto
qed simp

lemma nth_encode_le: "i < n \<Longrightarrow> encode_le n v ! i = ucast (drop_bit (i * 8) v AND 0xff)"
  by (simp add: encode_le_def)

theorem decode_encode_le:
  assumes "LENGTH('a) = 8 * n"
  shows "decode_le (encode_le n (v :: 'a::len word)) = v"
proof (rule bit_word_eqI)
  fix k assume k: "k < LENGTH('a)"
  with assms have "k div 8 < n" by (simp add: less_mult_imp_div_less mult.commute)
  then have "bit (encode_le n v ! (k div 8)) (k mod 8) \<longleftrightarrow> bit v (k div 8 * 8 + k mod 8)"
    by (simp only: nth_encode_le bit_byte_of_word bit_drop_bit_eq) simp
  with k assms show "bit (decode_le (encode_le n v) :: 'a word) k \<longleftrightarrow> bit v k"
    by (simp add: decode_le_def bit_decode_le_from mult.commute)
qed

section \<open>Fixed-width codecs\<close>

text \<open>\<^verbatim>\<open>struct.iter_unpack\<close>: \<open>k\<close> consecutive records of \<open>w\<close> bytes.\<close>

fun iter_unpack :: "nat \<Rightarrow> (byte list \<Rightarrow> 'a) \<Rightarrow> nat \<Rightarrow> byte list \<Rightarrow> 'a list" where
  "iter_unpack w dec 0 bs = []"
| "iter_unpack w dec (Suc k) bs = dec (take w bs) # iter_unpack w dec k (drop w bs)"

locale fixed_codec =
  fixes enc :: "'a \<Rightarrow> byte list" and dec :: "byte list \<Rightarrow> 'b" and view :: "'a \<Rightarrow> 'b" and w :: nat
  assumes width: "length (enc x) = w"
    and width_pos: "0 < w"
    and decode: "dec (enc x) = view x"
begin

lemma stream_length: "length (concat (map enc xs)) = length xs * w"
  by (induction xs) (simp_all add: width)

lemma stream_count: "length (concat (map enc xs)) div w = length xs"
  using width_pos by (simp add: stream_length)

lemma stream_aligned: "length (concat (map enc xs)) mod w = 0"
  by (simp add: stream_length)

lemma unpack_stream: "iter_unpack w dec (length xs) (concat (map enc xs)) = map view xs"
  by (induction xs) (simp_all add: width decode)

lemma take_stream: "k \<le> length xs \<Longrightarrow> take (k * w) (concat (map enc xs)) = concat (map enc (take k xs))"
proof (induction xs arbitrary: k)
  case (Cons x xs)
  then show ?case by (cases k) (simp_all add: width take_add)
qed simp

lemma unpack_prefix:
  assumes "n mod w = 0" and "n \<le> length xs * w"
  shows "iter_unpack w dec (n div w) (take n (concat (map enc xs))) = map view (take (n div w) xs)"
proof -
  have n: "n div w * w = n" using assms(1) by (metis div_mult_mod_eq add.right_neutral)
  have le: "n div w \<le> length xs" using assms(2) width_pos
    by (metis div_le_mono nonzero_mult_div_cancel_right less_numeral_extra(3))
  have "take n (concat (map enc xs)) = concat (map enc (take (n div w) xs))"
    using take_stream [OF le] n by simp
  then show ?thesis using unpack_stream [of "take (n div w) xs"] le by (simp add: min_absorb2)
qed

end

section \<open>The C++ writer\<close>

definition BINARY_LOG_MAGIC :: "byte list" where
  "BINARY_LOG_MAGIC = [0x4E, 0x4C, 0x4C, 0x4F, 0x47, 0, 0x0D, 0x0A]"

definition BINARY_LOG_VERSION :: "16 word" where
  "BINARY_LOG_VERSION = 1"

definition BINARY_LOG_HEADER_SIZE :: "16 word" where
  "BINARY_LOG_HEADER_SIZE = 16"

definition BINARY_LOG_ENTRY_SIZE :: "32 word" where
  "BINARY_LOG_ENTRY_SIZE = 36"

record log_entry =
  seq_idx :: "32 word"
  tx_ts :: "64 word"
  rx_ts :: "64 word"
  processing_start_ts :: "64 word"
  processing_finish_ts :: "64 word"

definition encode_log_header :: "byte list" where
  "encode_log_header = BINARY_LOG_MAGIC @ encode_le 2 BINARY_LOG_VERSION
     @ encode_le 2 BINARY_LOG_HEADER_SIZE @ encode_le 4 BINARY_LOG_ENTRY_SIZE"

definition encode_log_entry :: "log_entry \<Rightarrow> byte list" where
  "encode_log_entry e = encode_le 4 (seq_idx e) @ encode_le 8 (tx_ts e) @ encode_le 8 (rx_ts e)
     @ encode_le 8 (processing_start_ts e) @ encode_le 8 (processing_finish_ts e)"

text \<open>
  \<^verbatim>\<open>BinaryLogger\<close>: the bytes that reached the file (\<^const>\<open>None\<close> when it could not be opened) and
  the pending buffer. The parameter \<open>fwrite\<close> is how many of the bytes given to it the C library
  writes; a short write loses the rest, as in the code, which only warns.
\<close>

record logger =
  file_bytes :: "byte list option"
  pending :: "byte list"

definition BUFFER_CAPACITY :: nat where
  "BUFFER_CAPACITY = 64 * 1024"

definition open_logger :: "(byte list \<Rightarrow> nat) \<Rightarrow> bool \<Rightarrow> logger" where
  "open_logger fwrite opened =
     (if \<not> opened then \<lparr>file_bytes = None, pending = []\<rparr>
      else if fwrite encode_log_header \<noteq> length encode_log_header
        then \<lparr>file_bytes = None, pending = []\<rparr>
      else \<lparr>file_bytes = Some encode_log_header, pending = []\<rparr>)"

definition logger_flush :: "(byte list \<Rightarrow> nat) \<Rightarrow> logger \<Rightarrow> logger" where
  "logger_flush fwrite lg =
     (case file_bytes lg of
        None \<Rightarrow> lg
      | Some f \<Rightarrow>
          if pending lg = [] then lg
          else lg\<lparr>file_bytes := Some (f @ take (fwrite (pending lg)) (pending lg)), pending := []\<rparr>)"

definition logger_log :: "(byte list \<Rightarrow> nat) \<Rightarrow> log_entry \<Rightarrow> logger \<Rightarrow> logger" where
  "logger_log fwrite e lg =
     (let bytes = encode_log_entry e;
          lg' = (if length (pending lg) + length bytes > BUFFER_CAPACITY then logger_flush fwrite lg else lg)
      in lg'\<lparr>pending := pending lg' @ bytes\<rparr>)"

definition write_trace :: "(byte list \<Rightarrow> nat) \<Rightarrow> log_entry list \<Rightarrow> logger" where
  "write_trace fwrite es = logger_flush fwrite (fold (logger_log fwrite) es (open_logger fwrite True))"

section \<open>The Python loader\<close>

record trace_row =
  seq :: int
  tx_ns :: int
  rx_ns :: int
  processing_start_ns :: int
  processing_finish_ns :: int
  legacy_recorded_latency_ns :: "int option"
  log_format_version :: int

definition LOG_MAGIC :: "byte list" where
  "LOG_MAGIC = [0x4E, 0x4C, 0x4C, 0x4F, 0x47, 0x00, 0x0D, 0x0A]"

definition LOG_VERSION :: int where
  "LOG_VERSION = 1"

text \<open>\<^verbatim>\<open>struct.calcsize\<close> of the formats \<^verbatim>\<open><8sHHI\<close>, \<^verbatim>\<open><IQQQQ\<close> and \<^verbatim>\<open><IQQq\<close>.\<close>

definition HEADER_SIZE :: nat where
  "HEADER_SIZE = 8 + 2 + 2 + 4"

definition VERSIONED_SIZE :: nat where
  "VERSIONED_SIZE = 4 + 8 + 8 + 8 + 8"

definition LEGACY_SIZE :: nat where
  "LEGACY_SIZE = 4 + 8 + 8 + 8"

definition u16_at :: "nat \<Rightarrow> byte list \<Rightarrow> int" where
  "u16_at i bs = uint (decode_le (take 2 (drop i bs)) :: 16 word)"

definition u32_at :: "nat \<Rightarrow> byte list \<Rightarrow> int" where
  "u32_at i bs = uint (decode_le (take 4 (drop i bs)) :: 32 word)"

definition u64_at :: "nat \<Rightarrow> byte list \<Rightarrow> int" where
  "u64_at i bs = uint (decode_le (take 8 (drop i bs)) :: 64 word)"

definition i64_at :: "nat \<Rightarrow> byte list \<Rightarrow> int" where
  "i64_at i bs = sint (decode_le (take 8 (drop i bs)) :: 64 word)"

definition versioned_row :: "int \<Rightarrow> byte list \<Rightarrow> trace_row" where
  "versioned_row version bs =
     \<lparr>seq = u32_at 0 bs, tx_ns = u64_at 4 bs, rx_ns = u64_at 12 bs,
      processing_start_ns = u64_at 20 bs, processing_finish_ns = u64_at 28 bs,
      legacy_recorded_latency_ns = None, log_format_version = version\<rparr>"

definition legacy_row :: "byte list \<Rightarrow> trace_row" where
  "legacy_row bs =
     \<lparr>seq = u32_at 0 bs, tx_ns = u64_at 4 bs, rx_ns = u64_at 12 bs,
      processing_start_ns = u64_at 12 bs, processing_finish_ns = u64_at 12 bs,
      legacy_recorded_latency_ns = Some (i64_at 20 bs), log_format_version = 0\<rparr>"

definition versioned_records :: "string \<Rightarrow> byte list \<Rightarrow> trace_row list res" where
  "versioned_records path raw =
     rbind (require (HEADER_SIZE \<le> length raw) (Exn ValueError (''Truncated binary log header: '' @ path))) (\<lambda>_.
     let magic = take 8 raw; version = u16_at 8 raw; header_size = u16_at 10 raw; entry_size = u32_at 12 raw in
     rbind (require (magic = LOG_MAGIC) (Exn ValueError (''Invalid binary log magic: '' @ path))) (\<lambda>_.
     rbind (require (version = LOG_VERSION)
        (Exn ValueError (''Unsupported binary log version '' @ str_int version @ '': '' @ path))) (\<lambda>_.
     rbind (require (\<not> (header_size < int HEADER_SIZE \<or> header_size > int (length raw)))
        (Exn ValueError (''Invalid binary log header size '' @ str_int header_size @ '': '' @ path))) (\<lambda>_.
     rbind (require (entry_size = int VERSIONED_SIZE)
        (Exn ValueError (''Unsupported binary log entry size '' @ str_int entry_size @ '': '' @ path))) (\<lambda>_.
     let payload = drop (nat header_size) raw in
     rbind (require (int (length payload) mod entry_size = 0)
        (Exn ValueError (''Truncated versioned binary log record: '' @ path))) (\<lambda>_.
     Inr (iter_unpack VERSIONED_SIZE (versioned_row version) (length payload div VERSIONED_SIZE) payload)))))))"

definition legacy_records :: "string \<Rightarrow> byte list \<Rightarrow> trace_row list res" where
  "legacy_records path raw =
     rbind (require (length raw mod LEGACY_SIZE = 0)
        (Exn ValueError (''Unrecognized or truncated legacy binary log: '' @ path))) (\<lambda>_.
     Inr (iter_unpack LEGACY_SIZE legacy_row (length raw div LEGACY_SIZE) raw))"

definition load_records :: "string \<Rightarrow> byte list option \<Rightarrow> trace_row list res" where
  "load_records path content =
     (case content of
        None \<Rightarrow> Inl (Exn FileNotFoundError (''File not found: '' @ path))
      | Some raw \<Rightarrow>
          if raw = [] then Inr []
          else if take (length LOG_MAGIC) raw = LOG_MAGIC then versioned_records path raw
          else legacy_records path raw)"

text \<open>
  \<^verbatim>\<open>_derive_metrics\<close>: every latency is recomputed from the timestamps of its row; the
  microsecond columns are float divisions, \<open>rx_delta_us\<close> is missing in the first row. Column
  differences are exact here (64-bit columns do not wrap for timestamps below \<open>2^63\<close>).
\<close>

record metric_row = trace_row +
  receive_latency_ns :: int
  application_queue_delay_ns :: int
  processing_time_ns :: int
  total_application_latency_ns :: int
  receive_latency_us :: rat
  application_queue_delay_us :: rat
  processing_time_us :: rat
  total_application_latency_us :: rat
  raw_latency_ns :: int
  latency_us :: rat
  rx_delta_us :: "rat option"

definition us_of_ns :: "int \<Rightarrow> rat" where
  "us_of_ns d = fl (fl (of_int d) / 1000)"

definition metrics_of :: "int option \<Rightarrow> trace_row \<Rightarrow> metric_row" where
  "metrics_of previous_rx r =
     (let receive = rx_ns r - tx_ns r;
          queue = processing_start_ns r - rx_ns r;
          processing = processing_finish_ns r - processing_start_ns r;
          total = processing_finish_ns r - tx_ns r
      in trace_row.extend r
          (metric_row.fields receive queue processing total
             (us_of_ns receive) (us_of_ns queue) (us_of_ns processing) (us_of_ns total)
             receive (us_of_ns receive)
             (map_option (\<lambda>p. us_of_ns (rx_ns r - p)) previous_rx)))"

definition derive_metrics :: "trace_row list \<Rightarrow> metric_row list" where
  "derive_metrics rows = map2 metrics_of (None # map (\<lambda>r. Some (rx_ns r)) rows) rows"

definition load_binary_file :: "string \<Rightarrow> byte list option \<Rightarrow> metric_row list res" where
  "load_binary_file path content = rbind (load_records path content) (\<lambda>rs. Inr (derive_metrics rs))"

lemma length_derive_metrics [simp]: "length (derive_metrics rows) = length rows"
  by (simp add: derive_metrics_def)

lemma truncate_metrics_of [simp]: "trace_row.truncate (metrics_of p r) = r"
  by (cases r) (simp add: metrics_of_def Let_def trace_row.defs metric_row.defs)

lemma map_truncate_zip:
  "length rows \<le> length ps \<Longrightarrow> map trace_row.truncate (map2 metrics_of ps rows) = rows"
proof (induction rows arbitrary: ps)
  case (Cons r rows)
  then show ?case by (cases ps) simp_all
qed simp

lemma derive_metrics_rows: "map trace_row.truncate (derive_metrics rows) = rows"
  unfolding derive_metrics_def by (rule map_truncate_zip) simp

section \<open>What the writer produced is what the loader returns\<close>

definition row_of_entry :: "log_entry \<Rightarrow> trace_row" where
  "row_of_entry e =
     \<lparr>seq = uint (seq_idx e), tx_ns = uint (tx_ts e), rx_ns = uint (rx_ts e),
      processing_start_ns = uint (processing_start_ts e),
      processing_finish_ns = uint (processing_finish_ts e),
      legacy_recorded_latency_ns = None, log_format_version = 1\<rparr>"

lemmas size_defs = HEADER_SIZE_def VERSIONED_SIZE_def LEGACY_SIZE_def

lemma length_encode_log_entry [simp]: "length (encode_log_entry e) = 36"
  by (simp add: encode_log_entry_def)

lemma length_magic [simp]: "length BINARY_LOG_MAGIC = 8" "length LOG_MAGIC = 8"
  by (simp_all add: BINARY_LOG_MAGIC_def LOG_MAGIC_def)

lemma magic_agrees: "BINARY_LOG_MAGIC = LOG_MAGIC"
  by (simp add: BINARY_LOG_MAGIC_def LOG_MAGIC_def)

lemma length_encode_log_header [simp]: "length encode_log_header = 16"
  by (simp add: encode_log_header_def)

interpretation v1: fixed_codec encode_log_entry "versioned_row 1" row_of_entry VERSIONED_SIZE
proof unfold_locales
  fix e :: log_entry
  show "length (encode_log_entry e) = VERSIONED_SIZE" by (simp add: size_defs)
  show "0 < VERSIONED_SIZE" by (simp add: size_defs)
  show "versioned_row 1 (encode_log_entry e) = row_of_entry e"
    by (simp add: versioned_row_def row_of_entry_def encode_log_entry_def u32_at_def u64_at_def
        decode_encode_le)
qed

lemma header_fields:
  "take 8 encode_log_header = LOG_MAGIC"
  "u16_at 8 (encode_log_header @ rest) = 1"
  "u16_at 10 (encode_log_header @ rest) = 16"
  "u32_at 12 (encode_log_header @ rest) = 36"
  by (simp_all add: encode_log_header_def u16_at_def u32_at_def decode_encode_le
      BINARY_LOG_VERSION_def BINARY_LOG_HEADER_SIZE_def BINARY_LOG_ENTRY_SIZE_def magic_agrees)

lemma load_after_header:
  "load_records path (Some (encode_log_header @ rest)) =
     (if length rest mod VERSIONED_SIZE = 0
      then Inr (iter_unpack VERSIONED_SIZE (versioned_row 1) (length rest div VERSIONED_SIZE) rest)
      else Inl (Exn ValueError (''Truncated versioned binary log record: '' @ path)))"
proof -
  have ne: "encode_log_header @ rest \<noteq> []" by (metis append_is_Nil_conv length_encode_log_header list.size(3) zero_neq_numeral)
  have m: "int (length rest) mod 36 = 0 \<longleftrightarrow> length rest mod 36 = 0" by presburger
  show ?thesis
    by (simp add: load_records_def ne versioned_records_def header_fields LOG_VERSION_def size_defs
        Let_def m)
qed

text \<open>The logger never reorders or drops: file and buffer together are the header and the records.\<close>

definition logger_holds :: "log_entry list \<Rightarrow> logger \<Rightarrow> bool" where
  "logger_holds es lg \<longleftrightarrow>
     (\<exists>f. file_bytes lg = Some f \<and> f @ pending lg = encode_log_header @ concat (map encode_log_entry es))
     \<and> length (pending lg) \<le> BUFFER_CAPACITY"

lemma open_logger_holds: "(\<And>bs. fwrite bs = length bs) \<Longrightarrow> logger_holds [] (open_logger fwrite True)"
  by (simp add: logger_holds_def open_logger_def)

lemma logger_flush_holds:
  "(\<And>bs. fwrite bs = length bs) \<Longrightarrow> logger_holds es lg \<Longrightarrow>
   logger_holds es (logger_flush fwrite lg) \<and> pending (logger_flush fwrite lg) = []"
  by (auto simp: logger_holds_def logger_flush_def)

lemma logger_log_holds:
  assumes fw: "\<And>bs. fwrite bs = length bs" and lg: "logger_holds es lg"
  shows "logger_holds (es @ [e]) (logger_log fwrite e lg)"
proof (cases "length (pending lg) + 36 > BUFFER_CAPACITY")
  case True
  with logger_flush_holds [of fwrite, OF fw lg] show ?thesis
    by (auto simp: logger_log_def logger_holds_def BUFFER_CAPACITY_def)
next
  case False
  with lg show ?thesis by (auto simp: logger_log_def logger_holds_def simp flip: append_assoc)
qed

lemma fold_log_holds:
  assumes fw: "\<And>bs. fwrite bs = length bs"
  shows "logger_holds done lg \<Longrightarrow> logger_holds (done @ es) (fold (logger_log fwrite) es lg)"
proof (induction es arbitrary: "done" lg)
  case (Cons e es)
  have "logger_holds (done @ [e]) (logger_log fwrite e lg)"
    using fw Cons.prems by (rule logger_log_holds)
  from Cons.IH [OF this] show ?case by simp
qed simp

lemma write_trace_bytes:
  assumes fw: "\<And>bs. fwrite bs = length bs"
  shows "file_bytes (write_trace fwrite es) = Some (encode_log_header @ concat (map encode_log_entry es))"
proof -
  have "logger_holds es (fold (logger_log fwrite) es (open_logger fwrite True))"
    using fold_log_holds [of fwrite "[]", OF fw open_logger_holds [of fwrite, OF fw]] by simp
  from logger_flush_holds [of fwrite, OF fw this] show ?thesis
    by (auto simp: logger_holds_def write_trace_def)
qed

section \<open>Properties of the trace format\<close>

text \<open>
  C11: Loading the file the C++ logger wrote for any sequence of records returns exactly those
  records, in order and field by field, marked as format version 1, with the metrics derived from
  them (when the C library writes all the bytes it is given).
\<close>

theorem load_written_trace:
  assumes "\<And>bs. fwrite bs = length bs"
  shows "\<exists>rows. load_binary_file path (file_bytes (write_trace fwrite es)) = Inr rows
           \<and> map trace_row.truncate rows = map row_of_entry es"
proof -
  have "load_records path (file_bytes (write_trace fwrite es)) = Inr (map row_of_entry es)"
    unfolding write_trace_bytes [of fwrite, OF assms] load_after_header
    by (simp add: v1.stream_aligned v1.stream_count v1.unpack_stream)
  then show ?thesis by (simp add: load_binary_file_def derive_metrics_rows)
qed

definition sample_entry :: log_entry where
  "sample_entry = \<lparr>seq_idx = 7, tx_ts = 100, rx_ts = 250, processing_start_ts = 300, processing_finish_ts = 310\<rparr>"

theorem load_written_trace_witness:
  "\<exists>rows. load_binary_file ''t.bin'' (file_bytes (write_trace length [sample_entry, sample_entry])) = Inr rows
     \<and> map trace_row.truncate rows = map row_of_entry [sample_entry, sample_entry]"
  by (rule load_written_trace) simp

text \<open>Cutting a written file: what remains is a header prefix, or the header and a record prefix.\<close>

lemma short_prefix_not_magic: "n < 8 \<Longrightarrow> take (length LOG_MAGIC) (take n bs) \<noteq> LOG_MAGIC"
  by (metis length_magic(2) length_take linorder_not_le min.absorb2 min.cobounded2 order.trans min_less_iff_conj less_irrefl)

lemma take_file_header:
  "n \<le> 16 \<Longrightarrow> take n (encode_log_header @ rest) = take n encode_log_header"
  by simp

lemma load_cut_in_magic:
  assumes "0 < n" "n < 8"
  shows "load_records path (Some (take n (encode_log_header @ rest))) =
    Inl (Exn ValueError (''Unrecognized or truncated legacy binary log: '' @ path))"
proof -
  let ?raw = "take n (encode_log_header @ rest)"
  have len: "length ?raw = n" using assms by simp
  then have ne: "?raw \<noteq> []" using assms by (metis length_0_conv less_numeral_extra(3))
  have "n mod 28 \<noteq> 0" using assms by simp
  then have "legacy_records path ?raw =
      Inl (Exn ValueError (''Unrecognized or truncated legacy binary log: '' @ path))"
    using len by (simp only: legacy_records_def size_defs) simp
  then show ?thesis
    using ne short_prefix_not_magic [OF assms(2), of "encode_log_header @ rest"]
    by (simp only: load_records_def option.case if_False)
qed

lemma load_cut_in_header:
  assumes "8 \<le> n" "n < 16"
  shows "load_records path (Some (take n (encode_log_header @ rest))) =
    Inl (Exn ValueError (''Truncated binary log header: '' @ path))"
proof -
  let ?raw = "take n (encode_log_header @ rest)"
  have len: "length ?raw = n" using assms by simp
  then have ne: "?raw \<noteq> []" using assms by (metis length_0_conv not_less_zero zero_less_numeral le_less_trans order.strict_trans2)
  have "take (length LOG_MAGIC) ?raw = take 8 encode_log_header"
    using assms by (simp add: min_absorb1)
  also have "\<dots> = LOG_MAGIC" by (rule header_fields)
  finally have m: "take (length LOG_MAGIC) ?raw = LOG_MAGIC" .
  have "versioned_records path ?raw = Inl (Exn ValueError (''Truncated binary log header: '' @ path))"
    using len assms(2) by (simp only: versioned_records_def size_defs) simp
  then show ?thesis using ne m by (simp only: load_records_def option.case if_False if_True simp_thms)
qed

text \<open>
  C27: Truncation is visible. When a written trace file is cut after \<open>n\<close> bytes, the loader
  succeeds exactly when the cut is at the very start or on a record boundary, and then it returns
  exactly the complete records before the cut; every other cut raises \<^verbatim>\<open>ValueError\<close>.
\<close>

theorem load_truncated_trace:
  assumes n: "n \<le> length (encode_log_header @ concat (map encode_log_entry es))"
  shows "load_records path (Some (take n (encode_log_header @ concat (map encode_log_entry es)))) =
    (if n = 0 then Inr []
     else if n < 8 then Inl (Exn ValueError (''Unrecognized or truncated legacy binary log: '' @ path))
     else if n < 16 then Inl (Exn ValueError (''Truncated binary log header: '' @ path))
     else if (n - 16) mod VERSIONED_SIZE = 0
       then Inr (map row_of_entry (take ((n - 16) div VERSIONED_SIZE) es))
     else Inl (Exn ValueError (''Truncated versioned binary log record: '' @ path)))"
proof -
  let ?rest = "concat (map encode_log_entry es)"
  consider "n = 0" | "0 < n" "n < 8" | "8 \<le> n" "n < 16" | "16 \<le> n" by linarith
  then show ?thesis
  proof cases
    case 1
    then show ?thesis by (simp add: load_records_def)
  next
    case 2
    then show ?thesis using load_cut_in_magic [of n path ?rest] by (simp only:) simp
  next
    case 3
    then show ?thesis using load_cut_in_header [of n path ?rest] by (simp only:) simp
  next
    case 4
    have cut: "take n (encode_log_header @ ?rest) = encode_log_header @ take (n - 16) ?rest"
      using 4 by simp
    have le: "n - 16 \<le> length es * VERSIONED_SIZE" using n by (simp add: v1.stream_length)
    then have len: "length (take (n - 16) ?rest) = n - 16" by (simp add: v1.stream_length min_absorb2)
    show ?thesis
      unfolding cut load_after_header len using 4 v1.unpack_prefix [OF _ le] by simp
  qed
qed

theorem load_truncated_trace_witness:
  "load_records ''t.bin'' (Some (take 30 (encode_log_header @ concat (map encode_log_entry [sample_entry])))) =
     Inl (Exn ValueError (''Truncated versioned binary log record: '' @ ''t.bin''))"
  by (subst load_truncated_trace) (simp_all add: size_defs)

text \<open>
  The derived latencies are consistent: in every row the total latency is the sum of the
  receive latency, the queueing delay and the processing time, whatever latency a legacy file cached.
\<close>

theorem metrics_decompose:
  assumes "r \<in> set (derive_metrics rows)"
  shows "total_application_latency_ns r =
           receive_latency_ns r + application_queue_delay_ns r + processing_time_ns r
         \<and> receive_latency_ns r = rx_ns r - tx_ns r"
  using assms
  by (auto simp: derive_metrics_def metrics_of_def Let_def trace_row.defs metric_row.defs
      dest!: set_zip_rightD)

theorem metrics_decompose_witness:
  "\<exists>r. r \<in> set (derive_metrics [row_of_entry sample_entry])
     \<and> total_application_latency_ns r =
         receive_latency_ns r + application_queue_delay_ns r + processing_time_ns r
     \<and> receive_latency_ns r = rx_ns r - tx_ns r"
proof -
  have "hd (derive_metrics [row_of_entry sample_entry]) \<in> set (derive_metrics [row_of_entry sample_entry])"
    by (simp add: derive_metrics_def)
  from this metrics_decompose [OF this] show ?thesis by blast
qed

section \<open>Sequence statistics\<close>

text \<open>
  \<^verbatim>\<open>sequence_statistics\<close> over the sequence numbers of a trace: internal gaps between the distinct
  numbers, repeated numbers, and first arrivals below the highest number seen before.
\<close>

record seq_stats =
  sequence_gap_loss :: int
  duplicates :: int
  reordered :: int

fun reorder_loop :: "int set \<Rightarrow> int \<Rightarrow> int \<Rightarrow> int list \<Rightarrow> int" where
  "reorder_loop seen high_watermark n [] = n"
| "reorder_loop seen high_watermark n (v # vs) =
     reorder_loop (insert v seen) (max high_watermark v)
       (if v \<notin> seen \<and> v < high_watermark then n + 1 else n) vs"

definition sequence_statistics :: "int list \<Rightarrow> seq_stats" where
  "sequence_statistics values =
     (if values = [] then \<lparr>sequence_gap_loss = 0, duplicates = 0, reordered = 0\<rparr>
      else (let unique = sort (remdups values)
            in \<lparr>sequence_gap_loss = sum_list (adjacent (\<lambda>left right. max 0 (right - left - 1)) unique),
                duplicates = int (length values) - int (length unique),
                reordered = reorder_loop {} (hd values) 0 values\<rparr>))"

lemma sum_gaps:
  "sorted_wrt (<) xs \<Longrightarrow> xs \<noteq> [] \<Longrightarrow>
   sum_list (adjacent (\<lambda>l r. max 0 (r - l - 1)) xs) = last xs - hd xs + 1 - int (length xs)"
  by (induction xs rule: induct_list012) auto

lemma strict_sort_remdups: "sorted_wrt (<) (sort (remdups (xs :: int list)))"
  by (simp add: strict_sorted_iff)

lemma sort_ends:
  assumes "xs \<noteq> []"
  shows "hd (sort (remdups xs)) = Min (set xs)" and "last (sort (remdups (xs :: int list))) = Max (set xs)"
proof -
  let ?u = "sort (remdups xs)"
  have u: "?u \<noteq> []" "set ?u = set xs" "sorted ?u" using assms by (simp_all, metis remdups_eq_nil_iff set_empty set_sort)
  have mem: "x \<in> set ?u" if "x \<in> set xs" for x
    using u that by simp
  have "hd ?u \<le> x" if "x \<in> set xs" for x
    using u(1,3) mem [OF that] by (cases ?u) auto
  moreover have "hd ?u \<in> set xs" using u hd_in_set by metis
  ultimately show "hd ?u = Min (set xs)" by (intro Min_eqI [symmetric]) auto
  have "x \<le> last ?u" if "x \<in> set xs" for x
    using u(1,3) mem [OF that] by (cases ?u rule: rev_cases) (auto simp: sorted_append)
  moreover have "last ?u \<in> set xs" using u last_in_set by metis
  ultimately show "last ?u = Max (set xs)" by (intro Max_eqI [symmetric]) auto
qed

text \<open>The arrivals that count as reordered, by position.\<close>

definition late_first_arrival :: "int set \<Rightarrow> int list \<Rightarrow> nat \<Rightarrow> bool" where
  "late_first_arrival before vs i \<longleftrightarrow>
     vs ! i \<notin> before \<union> set (take i vs) \<and> (\<exists>u \<in> before \<union> set (take i vs). vs ! i < u)"

lemma late_first_arrival_Suc:
  "late_first_arrival before (v # vs) (Suc i) = late_first_arrival (insert v before) vs i"
  by (simp add: late_first_arrival_def)

lemma card_positions_Suc:
  "card {i. i < Suc n \<and> P i} = (if P 0 then 1 else 0) + card {i. i < n \<and> P (Suc i)}"
proof -
  have "{i. i < Suc n \<and> P i} = (if P 0 then {0} else {}) \<union> Suc ` {i. i < n \<and> P (Suc i)}"
    by (auto simp: image_iff less_Suc_eq_0_disj)
  then show ?thesis by (auto simp: card_Un_disjoint card_image)
qed

lemma reorder_loop_counts:
  assumes "finite before" and "before \<noteq> {}"
  shows "reorder_loop before (Max before) n vs =
    n + int (card {i. i < length vs \<and> late_first_arrival before vs i})"
  using assms
proof (induction vs arbitrary: before n)
  case (Cons v vs)
  have "late_first_arrival before (v # vs) 0 \<longleftrightarrow> v \<notin> before \<and> v < Max before"
    using Cons.prems by (simp add: late_first_arrival_def Max_gr_iff)
  then have c: "card {i. i < length (v # vs) \<and> late_first_arrival before (v # vs) i} =
      (if v \<notin> before \<and> v < Max before then 1 else 0) +
      card {i. i < length vs \<and> late_first_arrival (insert v before) vs i}"
    using card_positions_Suc [of "length vs" "late_first_arrival before (v # vs)"]
    by (simp add: late_first_arrival_Suc)
  have m: "max (Max before) v = Max (insert v before)"
    using Cons.prems by (simp add: max.commute)
  have "reorder_loop before (Max before) n (v # vs) =
      (if v \<notin> before \<and> v < Max before then n + 1 else n) +
      int (card {i. i < length vs \<and> late_first_arrival (insert v before) vs i})"
    unfolding reorder_loop.simps m using Cons.prems by (intro Cons.IH) auto
  with c show ?case by simp
qed simp

text \<open>
  C29: For a nonempty trace the three counts are what they are named: the distinct numbers and the
  repeats add up to the records, the gaps are the numbers missing between the smallest and the
  largest, and the reordered records are the first arrivals with a larger number before them.
\<close>

theorem sequence_statistics_meaning:
  assumes "values \<noteq> []"
  shows "duplicates (sequence_statistics values) + int (card (set values)) = int (length values)
    \<and> sequence_gap_loss (sequence_statistics values) =
           int (card ({Min (set values)..Max (set values)} - set values))
    \<and> reordered (sequence_statistics values) =
           int (card {i. i < length values \<and> late_first_arrival {} values i})"
proof (intro conjI)
  let ?u = "sort (remdups values)" and ?st = "sequence_statistics values"
  have len: "int (length ?u) = int (card (set values))" by (simp add: length_remdups_card_conv)
  show "duplicates ?st + int (card (set values)) = int (length values)"
    using assms len by (simp add: sequence_statistics_def Let_def)
  have "?u \<noteq> []" using assms by (metis remdups_eq_nil_iff set_empty set_sort)
  then have "sequence_gap_loss ?st = Max (set values) - Min (set values) + 1 - int (card (set values))"
    using assms len sum_gaps [OF strict_sort_remdups, of "values"] sort_ends [OF assms]
    by (simp add: sequence_statistics_def Let_def)
  moreover have "set values \<subseteq> {Min (set values)..Max (set values)}" by auto
  then have "int (card ({Min (set values)..Max (set values)} - set values)) =
      int (card {Min (set values)..Max (set values)}) - int (card (set values))"
    using card_mono [of "{Min (set values)..Max (set values)}" "set values"]
    by (simp add: card_Diff_subset of_nat_diff)
  moreover have "Min (set values) \<le> Max (set values)" using assms by simp
  ultimately show "sequence_gap_loss ?st =
      int (card ({Min (set values)..Max (set values)} - set values))" by simp
  obtain v vs where v: "values = v # vs" using assms by (cases "values") auto
  have "reordered ?st = reorder_loop {v} (Max {v}) 0 vs"
    by (simp add: v sequence_statistics_def Let_def)
  also have "\<dots> = int (card {i. i < length vs \<and> late_first_arrival {v} vs i})"
    using reorder_loop_counts [of "{v}" 0 vs] by simp
  also have "\<dots> = int (card {i. i < length values \<and> late_first_arrival {} values i})"
    unfolding v length_Cons card_positions_Suc late_first_arrival_Suc
    by (simp add: late_first_arrival_def)
  finally show "reordered ?st =
      int (card {i. i < length values \<and> late_first_arrival {} values i})" .
qed

theorem sequence_statistics_meaning_witness:
  "duplicates (sequence_statistics [3, 5, 4, 5, 9]) + int (card (set [3, 5, 4, 5, 9 :: int])) = 5
   \<and> sequence_statistics [3, 5, 4, 5, 9] = \<lparr>sequence_gap_loss = 3, duplicates = 1, reordered = 1\<rparr>"
  using sequence_statistics_meaning [of "[3, 5, 4, 5, 9]"]
  by (simp add: sequence_statistics_def Let_def)

end
