(* ===== verification/Values.thy ===== *)
theory Values
  imports Floats
begin

text \<open>
  The dynamic values a YAML or JSON document gives the harness, and the operations the Python
  source applies to them: \<^verbatim>\<open>isinstance\<close> tests, truth, equality across the number types, hashing
  for set membership, \<^verbatim>\<open>get\<close> and indexing, \<^verbatim>\<open>in\<close>, iteration, \<^verbatim>\<open>str\<close>, \<^verbatim>\<open>int\<close> and \<^verbatim>\<open>float\<close>. An
  operation that raises in Python returns the exception. Mappings have string keys; dates, bytes and
  YAML sets are not represented.
\<close>

datatype pyval =
    VNone
  | VBool bool
  | VInt int
  | VFloat flt
  | VStr string
  | VList "pyval list"
  | VDict "(string \<times> pyval) list"

section \<open>Types and truth\<close>

fun type_name :: "pyval \<Rightarrow> string" where
  "type_name VNone = ''NoneType''"
| "type_name (VBool _) = ''bool''"
| "type_name (VInt _) = ''int''"
| "type_name (VFloat _) = ''float''"
| "type_name (VStr _) = ''str''"
| "type_name (VList _) = ''list''"
| "type_name (VDict _) = ''dict''"

fun is_dict :: "pyval \<Rightarrow> bool" where
  "is_dict (VDict _) = True"
| "is_dict _ = False"

fun is_list :: "pyval \<Rightarrow> bool" where
  "is_list (VList _) = True"
| "is_list _ = False"

fun is_str :: "pyval \<Rightarrow> bool" where
  "is_str (VStr _) = True"
| "is_str _ = False"

fun is_bool :: "pyval \<Rightarrow> bool" where
  "is_bool (VBool _) = True"
| "is_bool _ = False"

text \<open>\<^verbatim>\<open>isinstance(x, int)\<close> holds of booleans too; \<open>as_int\<close> is the integer such a value counts as.\<close>

fun is_int :: "pyval \<Rightarrow> bool" where
  "is_int (VInt _) = True"
| "is_int (VBool _) = True"
| "is_int _ = False"

fun as_int :: "pyval \<Rightarrow> int" where
  "as_int (VInt i) = i"
| "as_int (VBool b) = (if b then 1 else 0)"
| "as_int _ = 0"

fun is_float :: "pyval \<Rightarrow> bool" where
  "is_float (VFloat _) = True"
| "is_float _ = False"

fun truthy :: "pyval \<Rightarrow> bool" where
  "truthy VNone = False"
| "truthy (VBool b) = b"
| "truthy (VInt i) = (i \<noteq> 0)"
| "truthy (VFloat x) = (x \<noteq> Fin 0)"
| "truthy (VStr s) = (s \<noteq> [])"
| "truthy (VList xs) = (xs \<noteq> [])"
| "truthy (VDict d) = (d \<noteq> [])"

text \<open>The exact numerical value of a number, as a float without rounding.\<close>

fun num_val :: "pyval \<Rightarrow> flt option" where
  "num_val (VInt i) = Some (Fin (of_int i))"
| "num_val (VBool b) = Some (Fin (if b then 1 else 0))"
| "num_val (VFloat x) = Some x"
| "num_val _ = None"

lemma is_int_num_val: "is_int v \<Longrightarrow> num_val v = Some (Fin (of_int (as_int v)))"
  by (cases v) auto

lemma is_int_iff: "is_int v \<longleftrightarrow> (\<exists>i. v = VInt i) \<or> (\<exists>b. v = VBool b)"
  by (cases v) auto

lemma is_dictE [elim?]: "is_dict v \<Longrightarrow> (\<And>d. v = VDict d \<Longrightarrow> P) \<Longrightarrow> P"
  by (cases v) auto

lemma is_listE [elim?]: "is_list v \<Longrightarrow> (\<And>xs. v = VList xs \<Longrightarrow> P) \<Longrightarrow> P"
  by (cases v) auto

lemma is_strE [elim?]: "is_str v \<Longrightarrow> (\<And>s. v = VStr s \<Longrightarrow> P) \<Longrightarrow> P"
  by (cases v) auto

section \<open>Equality, hashing, comparison\<close>

fun py_eq :: "pyval \<Rightarrow> pyval \<Rightarrow> bool"
  and py_eq_list :: "pyval list \<Rightarrow> pyval list \<Rightarrow> bool"
  and py_eq_entries :: "(string \<times> pyval) list \<Rightarrow> (string \<times> pyval) list \<Rightarrow> bool" where
  "py_eq VNone w = (w = VNone)"
| "py_eq (VStr s) w = (w = VStr s)"
| "py_eq (VList xs) w = (case w of VList ys \<Rightarrow> py_eq_list xs ys | _ \<Rightarrow> False)"
| "py_eq (VDict d) w = (case w of VDict e \<Rightarrow> length d = length e \<and> py_eq_entries d e | _ \<Rightarrow> False)"
| "py_eq v w = (case (num_val v, num_val w) of (Some x, Some y) \<Rightarrow> flt_eq x y | _ \<Rightarrow> False)"
| "py_eq_list [] ys = (ys = [])"
| "py_eq_list (x # xs) ys = (case ys of [] \<Rightarrow> False | y # zs \<Rightarrow> py_eq x y \<and> py_eq_list xs zs)"
| "py_eq_entries [] e = True"
| "py_eq_entries ((k, v) # d) e =
     (case map_of e k of None \<Rightarrow> False | Some w \<Rightarrow> py_eq v w \<and> py_eq_entries d e)"

lemma py_eq_VStr_iff: "py_eq v (VStr s) \<longleftrightarrow> v = VStr s"
  by (cases v) auto

lemma py_eq_int: "is_int v \<Longrightarrow> py_eq v (VInt i) \<longleftrightarrow> as_int v = i"
  by (cases v) (auto simp: flt_eq_def)

lemma py_eq_ints: "is_int v \<Longrightarrow> is_int w \<Longrightarrow> py_eq v w \<longleftrightarrow> as_int v = as_int w"
  by (cases v; cases w) (auto simp: flt_eq_def)

lemma py_eq_list_Nil [simp]: "py_eq_list xs [] \<longleftrightarrow> xs = []"
  by (cases xs) auto

lemma py_eq_one_list: "py_eq (VList xs) (VList [VInt 1]) \<longleftrightarrow> (\<exists>x. xs = [x] \<and> py_eq x (VInt 1))"
  by (cases xs) auto

text \<open>Set membership first hashes the value: lists and dictionaries have no hash.\<close>

definition unhashable :: "pyval \<Rightarrow> exn" where
  "unhashable v = Exn TypeError (''unhashable type: '' @ repr_str (type_name v))"

definition hash_ok :: "pyval \<Rightarrow> unit res" where
  "hash_ok v = require (\<not> is_list v \<and> \<not> is_dict v) (unhashable v)"

definition py_in_set :: "pyval \<Rightarrow> pyval list \<Rightarrow> bool res" where
  "py_in_set v members = rbind (hash_ok v) (\<lambda>_. Inr (\<exists>m \<in> set members. py_eq v m))"

fun set_size_acc :: "pyval list \<Rightarrow> pyval list \<Rightarrow> nat" where
  "set_size_acc seen [] = length seen"
| "set_size_acc seen (v # vs) =
     (if \<exists>s \<in> set seen. py_eq v s then set_size_acc seen vs else set_size_acc (v # seen) vs)"

text \<open>\<^verbatim>\<open>len(set(xs))\<close>.\<close>

definition py_set_size :: "pyval list \<Rightarrow> nat res" where
  "py_set_size vs = rbind (riter hash_ok vs) (\<lambda>_. Inr (set_size_acc [] vs))"

definition py_compare :: "(flt \<Rightarrow> flt \<Rightarrow> bool) \<Rightarrow> pyval \<Rightarrow> pyval \<Rightarrow> bool res" where
  "py_compare rel a b =
     (case (num_val a, num_val b) of
        (Some x, Some y) \<Rightarrow> Inr (rel x y)
      | _ \<Rightarrow> Inl (Exn TypeError ''unsupported operand types for an ordering comparison''))"

abbreviation py_le :: "pyval \<Rightarrow> pyval \<Rightarrow> bool res" where
  "py_le \<equiv> py_compare flt_le"

abbreviation py_lt :: "pyval \<Rightarrow> pyval \<Rightarrow> bool res" where
  "py_lt \<equiv> py_compare flt_lt"

lemma py_in_set_strs:
  "py_in_set v (map VStr ss) = Inr b \<Longrightarrow> b \<longleftrightarrow> (\<exists>s \<in> set ss. v = VStr s)"
  by (auto simp: py_in_set_def res_simps py_eq_VStr_iff)

lemma set_size_acc_ints:
  "(\<forall>x \<in> set vs. is_int x) \<Longrightarrow> (\<forall>x \<in> set seen. is_int x) \<Longrightarrow>
   set_size_acc seen vs \<le> length seen + length vs \<and>
   (set_size_acc seen vs = length seen + length vs \<longleftrightarrow>
     distinct (map as_int vs) \<and> (\<forall>x \<in> set vs. \<forall>y \<in> set seen. as_int x \<noteq> as_int y))"
proof (induction seen vs rule: set_size_acc.induct)
  case (2 seen v vs)
  then have eq: "(\<exists>s \<in> set seen. py_eq v s) \<longleftrightarrow> (\<exists>s \<in> set seen. as_int v = as_int s)"
    by (auto simp: py_eq_ints)
  show ?case
  proof (cases "\<exists>s \<in> set seen. py_eq v s")
    case True
    with 2 have "set_size_acc seen vs \<le> length seen + length vs" by simp
    with True eq show ?thesis by auto
  next
    case False
    with 2 have "set_size_acc (v # seen) vs \<le> length (v # seen) + length vs \<and>
      (set_size_acc (v # seen) vs = length (v # seen) + length vs \<longleftrightarrow>
        distinct (map as_int vs) \<and> (\<forall>x \<in> set vs. \<forall>y \<in> set (v # seen). as_int x \<noteq> as_int y))"
      by auto
    moreover have "distinct (map as_int vs) \<and> (\<forall>x \<in> set vs. \<forall>y \<in> set (v # seen). as_int x \<noteq> as_int y) \<longleftrightarrow>
        distinct (map as_int (v # vs)) \<and> (\<forall>x \<in> set (v # vs). \<forall>y \<in> set seen. as_int x \<noteq> as_int y)"
      using False eq by (simp add: image_iff) metis
    ultimately show ?thesis using False by simp
  qed
qed simp

lemma hash_ok_int: "is_int v \<Longrightarrow> hash_ok v = Inr ()"
  by (cases v) (simp_all add: hash_ok_def)

lemma py_set_size_ints:
  assumes "\<forall>x \<in> set vs. is_int x"
  shows "py_set_size vs = Inr (length vs) \<longleftrightarrow> distinct (map as_int vs)"
proof -
  have "riter hash_ok vs = Inr ()"
    using assms by (simp add: riter_Inr_iff hash_ok_int)
  then show ?thesis
    using set_size_acc_ints [of vs "[]"] assms by (simp add: py_set_size_def)
qed

section \<open>Dictionary access, indexing, membership, iteration\<close>

definition no_attribute :: "pyval \<Rightarrow> string \<Rightarrow> exn" where
  "no_attribute v a = Exn AttributeError (repr_str (type_name v) @ '' object has no attribute '' @ repr_str a)"

fun py_get :: "pyval \<Rightarrow> string \<Rightarrow> pyval option res" where
  "py_get (VDict d) k = Inr (dget d k)"
| "py_get v k = Inl (no_attribute v ''get'')"

definition py_get_or :: "pyval \<Rightarrow> string \<Rightarrow> pyval \<Rightarrow> pyval res" where
  "py_get_or v k dflt = rbind (py_get v k) (\<lambda>x. Inr (case x of Some y \<Rightarrow> y | None \<Rightarrow> dflt))"

definition key_error :: "string \<Rightarrow> exn" where
  "key_error k = Exn KeyError (repr_str k)"

fun py_index :: "pyval \<Rightarrow> string \<Rightarrow> pyval res" where
  "py_index (VDict d) k = (case dget d k of Some v \<Rightarrow> Inr v | None \<Rightarrow> Inl (key_error k))"
| "py_index v k = Inl (Exn TypeError (repr_str (type_name v) @ '' is not subscriptable by a string''))"

text \<open>\<^verbatim>\<open>key in value\<close> for a string key.\<close>

fun py_contains :: "pyval \<Rightarrow> string \<Rightarrow> bool res" where
  "py_contains (VDict d) k = Inr (dget d k \<noteq> None)"
| "py_contains (VList xs) k = Inr (\<exists>x \<in> set xs. py_eq x (VStr k))"
| "py_contains (VStr s) k = Inr (contains s k)"
| "py_contains v k = Inl (Exn TypeError (''argument of type '' @ repr_str (type_name v) @ '' is not iterable''))"

fun py_iter :: "pyval \<Rightarrow> pyval list res" where
  "py_iter (VList xs) = Inr xs"
| "py_iter (VStr s) = Inr (map (\<lambda>c. VStr [c]) s)"
| "py_iter (VDict d) = Inr (map (\<lambda>(k, _). VStr k) d)"
| "py_iter v = Inl (Exn TypeError (repr_str (type_name v) @ '' object is not iterable''))"

lemma py_get_or_VDict [simp]: "py_get_or (VDict d) k v = Inr (dget_or d k v)"
  by (simp add: py_get_or_def dget_or_def)

lemma dget_or_None_iff [simp]:
  "dget_or d k VNone = VDict x \<longleftrightarrow> dget d k = Some (VDict x)"
  "dget_or d k VNone = VStr s \<longleftrightarrow> dget d k = Some (VStr s)"
  "dget_or d k VNone = VBool b \<longleftrightarrow> dget d k = Some (VBool b)"
  "dget_or d k VNone = VInt n \<longleftrightarrow> dget d k = Some (VInt n)"
  "dget_or d k VNone = VList xs \<longleftrightarrow> dget d k = Some (VList xs)"
  by (auto simp: dget_or_def split: option.splits)

lemma py_get_Inr_iff: "py_get v k = Inr x \<longleftrightarrow> (\<exists>d. v = VDict d \<and> x = dget d k)"
  by (cases v) auto

lemma py_get_or_Inr_iff: "py_get_or v k a = Inr x \<longleftrightarrow> (\<exists>d. v = VDict d \<and> x = dget_or d k a)"
  by (cases v) (auto simp: py_get_or_def dget_or_def)

lemma py_index_Inr_iff: "py_index v k = Inr x \<longleftrightarrow> (\<exists>d. v = VDict d \<and> dget d k = Some x)"
  by (cases v) (auto split: option.splits)

lemma py_index_VDict_Inr [simp]: "py_index (VDict d) k = Inr x \<longleftrightarrow> dget d k = Some x"
  by (auto split: option.splits)

lemma py_index_VDict_Some: "dget d k = Some v \<Longrightarrow> py_index (VDict d) k = Inr v"
  by simp

declare py_index.simps(1) [simp del]

section \<open>Conversions\<close>

fun py_repr :: "pyval \<Rightarrow> string"
  and py_repr_list :: "pyval list \<Rightarrow> string list"
  and py_repr_entries :: "(string \<times> pyval) list \<Rightarrow> string list" where
  "py_repr VNone = ''None''"
| "py_repr (VBool b) = (if b then ''True'' else ''False'')"
| "py_repr (VInt i) = str_int i"
| "py_repr (VFloat x) = repr_flt x"
| "py_repr (VStr s) = repr_str s"
| "py_repr (VList xs) = ''['' @ join '', '' (py_repr_list xs) @ '']''"
| "py_repr (VDict d) = ''{'' @ join '', '' (py_repr_entries d) @ ''}''"
| "py_repr_list [] = []"
| "py_repr_list (x # xs) = py_repr x # py_repr_list xs"
| "py_repr_entries [] = []"
| "py_repr_entries ((k, v) # d) = (repr_str k @ '': '' @ py_repr v) # py_repr_entries d"

fun py_str :: "pyval \<Rightarrow> string" where
  "py_str (VStr s) = s"
| "py_str v = py_repr v"

fun py_int :: "pyval \<Rightarrow> int res" where
  "py_int (VInt i) = Inr i"
| "py_int (VBool b) = Inr (if b then 1 else 0)"
| "py_int (VFloat (Fin x)) = Inr (if x < 0 then \<lceil>x\<rceil> else \<lfloor>x\<rfloor>)"
| "py_int (VFloat NaN) = Inl (Exn ValueError ''cannot convert float NaN to integer'')"
| "py_int (VFloat _) = Inl (Exn OverflowError ''cannot convert float infinity to integer'')"
| "py_int (VStr s) = py_int_str s"
| "py_int v = Inl (Exn TypeError (''int() argument must be a string, a bytes-like object or a real number, not '' @ repr_str (type_name v)))"

fun py_float :: "pyval \<Rightarrow> flt res" where
  "py_float (VInt i) = flt_of_int i"
| "py_float (VBool b) = Inr (Fin (if b then 1 else 0))"
| "py_float (VFloat x) = Inr x"
| "py_float (VStr s) = py_float_str s"
| "py_float v = Inl (Exn TypeError (''float() argument must be a string or a real number, not '' @ repr_str (type_name v)))"

lemma py_int_is_int: "is_int v \<Longrightarrow> py_int v = Inr (as_int v)"
  by (cases v) auto

lemma raises_only_pyval [raises]:
  assumes "v = VNone \<Longrightarrow> raises_only K a" "\<And>x. v = VBool x \<Longrightarrow> raises_only K (b x)"
    "\<And>x. v = VInt x \<Longrightarrow> raises_only K (c x)" "\<And>x. v = VFloat x \<Longrightarrow> raises_only K (d x)"
    "\<And>x. v = VStr x \<Longrightarrow> raises_only K (e x)" "\<And>x. v = VList x \<Longrightarrow> raises_only K (f x)"
    "\<And>x. v = VDict x \<Longrightarrow> raises_only K (g x)"
  shows "raises_only K (case v of VNone \<Rightarrow> a | VBool x \<Rightarrow> b x | VInt x \<Rightarrow> c x | VFloat x \<Rightarrow> d x
           | VStr x \<Rightarrow> e x | VList x \<Rightarrow> f x | VDict x \<Rightarrow> g x)"
  using assms by (cases v) auto

lemma raises_hash_ok [raises]: "TypeError \<in> K \<Longrightarrow> raises_only K (hash_ok v)"
  by (simp add: hash_ok_def unhashable_def raises_only_require)

lemma raises_py_in_set [raises]: "TypeError \<in> K \<Longrightarrow> raises_only K (py_in_set v vs)"
  unfolding py_in_set_def by (intro raises)

lemma raises_py_set_size [raises]: "TypeError \<in> K \<Longrightarrow> raises_only K (py_set_size vs)"
  unfolding py_set_size_def by (intro raises)

lemma raises_py_compare [raises]: "TypeError \<in> K \<Longrightarrow> raises_only K (py_compare r a b)"
  by (auto simp: py_compare_def split: option.splits)

lemma raises_py_get [raises]: "AttributeError \<in> K \<Longrightarrow> raises_only K (py_get v k)"
  by (cases v) (simp_all add: no_attribute_def)

lemma raises_py_get_or [raises]: "AttributeError \<in> K \<Longrightarrow> raises_only K (py_get_or v k a)"
  unfolding py_get_or_def by (intro raises)

lemma raises_py_contains [raises]: "TypeError \<in> K \<Longrightarrow> raises_only K (py_contains v k)"
  by (cases v) simp_all

lemma raises_py_index [raises]:
  "TypeError \<in> K \<Longrightarrow> (\<And>d. v = VDict d \<Longrightarrow> dget d k \<noteq> None) \<Longrightarrow> raises_only K (py_index v k)"
  by (cases v) (auto simp: py_index.simps(1))

lemma raises_py_int_str: "ValueError \<in> K \<Longrightarrow> raises_only K (py_int_str s)"
  by (auto simp: py_int_str_def bad_int_text_def split: option.splits)

lemma raises_py_float [raises]:
  "{ValueError, TypeError, OverflowError} \<subseteq> K \<Longrightarrow> raises_only K (py_float v)"
  by (cases v) (auto simp: py_float_str_def flt_of_int_def split: option.splits flt.splits)

lemma raises_py_int [raises]:
  "{ValueError, TypeError, OverflowError} \<subseteq> K \<Longrightarrow> raises_only K (py_int v)"
  by (cases v rule: py_int.cases) (auto simp: raises_py_int_str)

text \<open>\<^verbatim>\<open>str\<close> of any value that is not the empty string is nonempty.\<close>

lemma repr_positive_nonempty: "repr_positive x \<noteq> []"
  by (auto simp: repr_positive_def Let_def repr_exponent_def split: prod.splits)

lemma str_int_nonempty [simp]: "str_int i \<noteq> []"
  by (simp add: str_int_def)

lemma py_repr_nonempty: "py_repr v \<noteq> []"
proof (cases v)
  case (VFloat x)
  then show ?thesis by (cases x) (simp_all add: repr_positive_nonempty)
qed (simp_all add: repr_str_def Let_def)

lemma py_str_empty_iff: "py_str v = [] \<longleftrightarrow> v = VStr []"
  by (cases v) (simp_all add: py_repr_nonempty del: py_repr.simps)

end
