(* ===== verification/Counters.thy ===== *)
theory Counters
  imports Values
begin

text \<open>
  The kernel and NIC counters of \<^verbatim>\<open>main.py\<close>: one shell command prints every counter in a marked
  section, the output is split back into sections, each section is parsed to an integer or an
  error, and two snapshots give the deltas a run is judged by. A probe result is a value or an
  error text; nothing here raises, which is what a snapshot between two timed phases must not do.
\<close>

section \<open>Probe results\<close>

text \<open>
  The dictionary \<^verbatim>\<open>{"value": ..., "error": ...}\<close>. \<open>run\<close> stands for \<^verbatim>\<open>NodeController.run\<close>: the
  stripped standard output of a command on a node, or the exception the transport raised.
\<close>

record 'a sample =
  sample_value :: "'a option"
  sample_error :: "string option"

definition probe :: "(string list \<Rightarrow> string res) \<Rightarrow> string list \<Rightarrow> string sample" where
  "probe run command = (case run command of
     Inr v \<Rightarrow> \<lparr>sample_value = Some v, sample_error = None\<rparr>
   | Inl e \<Rightarrow> \<lparr>sample_value = None, sample_error = Some (exc_text e)\<rparr>)"

text \<open>
  A parser returns an integer or a text, and \<^verbatim>\<open>int()\<close> is applied to what it returns. A sample
  with neither a value nor an error does not arise from \<^verbatim>\<open>probe\<close>; the parser then fails on
  \<^verbatim>\<open>None\<close>.
\<close>

definition parse_counter :: "string sample \<Rightarrow> (string \<Rightarrow> pyval res) \<Rightarrow> int sample" where
  "parse_counter sample parser =
     (case sample_error sample of
        Some e \<Rightarrow> \<lparr>sample_value = None, sample_error = Some e\<rparr>
      | None \<Rightarrow>
          (case (case sample_value sample of
                   Some text \<Rightarrow> rbind (parser text) py_int
                 | None \<Rightarrow> Inl (no_attribute VNone ''splitlines'')) of
             Inr n \<Rightarrow> \<lparr>sample_value = Some n, sample_error = None\<rparr>
           | Inl e \<Rightarrow> \<lparr>sample_value = None, sample_error = Some (exc_text e)\<rparr>))"

section \<open>The parsers\<close>

definition index_error :: exn where
  "index_error = Exn IndexError ''list index out of range''"

text \<open>\<^verbatim>\<open>xs.index(x)\<close> for a present element.\<close>

fun index_of :: "'a \<Rightarrow> 'a list \<Rightarrow> nat" where
  "index_of x [] = 0"
| "index_of x (y # ys) = (if x = y then 0 else Suc (index_of x ys))"

definition parse_udp_named_counter :: "string \<Rightarrow> string \<Rightarrow> int res" where
  "parse_udp_named_counter text counter =
     (let lines = map split_ws (filter (\<lambda>l. startswith l ''Udp:'') (splitlines text))
      in if length lines < 2
         then Inl (Exn ValueError ''/proc/net/snmp has no UDP header/value pair'')
         else (let headers = lines ! (length lines - 2); vals = lines ! (length lines - 1)
           in if counter \<notin> set headers
              then Inl (Exn ValueError (''UDP '' @ counter @ '' is unavailable''))
              else if length vals \<le> index_of counter headers then Inl index_error
              else py_int_str (vals ! index_of counter headers)))"

definition parse_udp_rcvbuf_errors :: "string \<Rightarrow> int res" where
  "parse_udp_rcvbuf_errors text = parse_udp_named_counter text ''RcvbufErrors''"

definition parse_udp_sndbuf_errors :: "string \<Rightarrow> int res" where
  "parse_udp_sndbuf_errors text = parse_udp_named_counter text ''SndbufErrors''"

definition parse_udp_socket_drops :: "string \<Rightarrow> int res" where
  "parse_udp_socket_drops text =
     (let lines = map split_ws (filter (\<lambda>l. strip l \<noteq> []) (drop 1 (splitlines text)))
      in rbind (rmap (\<lambda>ws. if ws = [] then Inl index_error else py_int_str (last ws)) lines)
           (\<lambda>ns. Inr (sum_list ns)))"

text \<open>
  \<^verbatim>\<open>re.findall(r"\bdropped\s+(\d+)", text)\<close>: scanning from the left, a word boundary before
  \<^verbatim>\<open>dropped\<close> (the character before is no word character), at least one space, then the longest
  run of digits, which is what is reported; the search goes on after it.
\<close>

definition match_dropped :: "bool \<Rightarrow> string \<Rightarrow> (string \<times> string) option" where
  "match_dropped after_word s =
     (if after_word \<or> \<not> startswith s ''dropped'' then None
      else (let t = drop 7 s; u = dropWhile is_space t; ds = takeWhile is_digit u
        in if takeWhile is_space t = [] \<or> ds = [] then None else Some (ds, dropWhile is_digit u)))"

lemma match_dropped_shorter:
  "match_dropped b s = Some (ds, rest) \<Longrightarrow> length rest < length s"
proof -
  assume m: "match_dropped b s = Some (ds, rest)"
  then have "s \<noteq> []" by (cases s) (auto simp: match_dropped_def Let_def split: if_splits)
  moreover have "length rest \<le> length (drop 7 s)"
    using m by (auto simp: match_dropped_def Let_def split: if_splits
        intro!: order.trans [OF length_dropWhile_le])
  ultimately show ?thesis by (cases s) auto
qed

function findall_dropped :: "bool \<Rightarrow> string \<Rightarrow> string list" where
  "findall_dropped after_word s =
     (case match_dropped after_word s of
        Some (ds, rest) \<Rightarrow> ds # findall_dropped True rest
      | None \<Rightarrow> (case s of [] \<Rightarrow> [] | c # cs \<Rightarrow> findall_dropped (is_word c) cs))"
  by pat_completeness auto
termination
  by (relation "measure (\<lambda>(b, s). length s)") (auto dest: match_dropped_shorter)

declare findall_dropped.simps [simp del]

definition parse_qdisc_drops :: "string \<Rightarrow> int res" where
  "parse_qdisc_drops text =
     (let matches = findall_dropped False text
      in if matches = [] \<and> strip text \<noteq> []
         then Inl (Exn ValueError ''qdisc drop counter is unavailable'')
         else rbind (rmap py_int_str matches) (\<lambda>ns. Inr (sum_list ns)))"

fun ethtool_lines :: "string \<Rightarrow> string list \<Rightarrow> int res" where
  "ethtool_lines name [] = Inl (Exn ValueError (''ethtool -S did not report '' @ name))"
| "ethtool_lines name (line # rest) =
     (case partition1 (CHR '':'') line of
        (key, separator, v) \<Rightarrow>
          if separator \<and> strip key = name then py_int_str (strip v) else ethtool_lines name rest)"

definition parse_ethtool_statistic :: "string \<Rightarrow> string \<Rightarrow> int res" where
  "parse_ethtool_statistic text name = ethtool_lines name (splitlines text)"

section \<open>Sections of one batched probe\<close>

definition COUNTER_SECTION_PREFIX :: string where
  "COUNTER_SECTION_PREFIX = ''<<<NLL-COUNTER ''"

definition is_section_header :: "string \<Rightarrow> bool" where
  "is_section_header line = (startswith line COUNTER_SECTION_PREFIX \<and> endswith line ''>>>'')"

definition section_name :: "string \<Rightarrow> string" where
  "section_name line =
     (let n = length COUNTER_SECTION_PREFIX in take (length line - 3 - n) (drop n line))"

type_synonym captured = "string sample dict"

definition flush_section :: "string option \<Rightarrow> string list \<Rightarrow> captured \<Rightarrow> captured" where
  "flush_section current lines captured =
     (case current of
        None \<Rightarrow> captured
      | Some name \<Rightarrow> dset name \<lparr>sample_value = Some (join [newline] lines), sample_error = None\<rparr> captured)"

fun split_loop :: "captured \<Rightarrow> string option \<Rightarrow> string list \<Rightarrow> string list \<Rightarrow> captured" where
  "split_loop captured current lines [] = flush_section current lines captured"
| "split_loop captured current lines (line # rest) =
     (if is_section_header line
      then (let captured' = flush_section current lines captured; name = section_name line
            in split_loop captured' (if dget captured' name = None then None else Some name) [] rest)
      else split_loop captured current (if current = None then lines else lines @ [line]) rest)"

definition missing_section :: "string \<Rightarrow> string sample" where
  "missing_section name =
     \<lparr>sample_value = None, sample_error = Some (''counter section '' @ name @ '' is missing'')\<rparr>"

definition split_counter_sections :: "string sample \<Rightarrow> string list \<Rightarrow> captured" where
  "split_counter_sections sample names =
     (case sample_error sample of
        Some e \<Rightarrow> map (\<lambda>name. (name, sample)) names
      | None \<Rightarrow>
          split_loop (map (\<lambda>name. (name, missing_section name)) names) None []
            (splitlines (case sample_value sample of Some text \<Rightarrow> text | None \<Rightarrow> [])))"

section \<open>Snapshots and deltas\<close>

definition NIC_STATISTICS :: "string list" where
  "NIC_STATISTICS = [''rx_dropped'', ''rx_errors'', ''rx_missed_errors'', ''rx_crc_errors'',
     ''tx_dropped'', ''tx_errors'', ''tx_carrier_errors'']"

definition snapshot_sections :: "string \<Rightarrow> (string \<times> string) list" where
  "snapshot_sections interface =
     [(''snmp'', ''cat /proc/net/snmp''),
      (''udp'', ''cat /proc/net/udp''),
      (''qdisc'', ''tc -s qdisc show dev '' @ interface),
      (''ethtool_stats'', ''ethtool -S '' @ interface)] @
     map (\<lambda>name. (''nic_'' @ name, ''cat /sys/class/net/'' @ interface @ ''/statistics/'' @ name))
       NIC_STATISTICS"

definition section_script :: "string \<times> string \<Rightarrow> string" where
  "section_script s = (case s of (name, command) \<Rightarrow>
     ''printf '' @ [CHR 0x27] @ COUNTER_SECTION_PREFIX @ ''%s>>>'' @ [CHR 0x5C, CHR ''n'', CHR 0x27, blank]
       @ name @ ''; '' @ command @ '' 2>/dev/null; '')"

definition snapshot_script :: "string \<Rightarrow> string" where
  "snapshot_script interface = concat (map section_script (snapshot_sections interface))"

text \<open>\<^verbatim>\<open>captured[name]\<close> raises \<^verbatim>\<open>KeyError\<close> for an unknown section.\<close>

definition captured_at :: "captured \<Rightarrow> string \<Rightarrow> string sample res" where
  "captured_at captured name =
     (case dget captured name of Some s \<Rightarrow> Inr s | None \<Rightarrow> Inl (key_error name))"

definition as_int_parser :: "(string \<Rightarrow> int res) \<Rightarrow> string \<Rightarrow> pyval res" where
  "as_int_parser p text = rbind (p text) (\<lambda>n. Inr (VInt n))"

text \<open>Which section and which parser each counter of a snapshot has, in the order of the code.\<close>

definition counter_plan :: "(string \<times> string \<times> (string \<Rightarrow> pyval res)) list" where
  "counter_plan =
     [(''udp_rcvbuf_errors'', ''snmp'', as_int_parser parse_udp_rcvbuf_errors),
      (''udp_sndbuf_errors'', ''snmp'', as_int_parser parse_udp_sndbuf_errors),
      (''udp_socket_drops'', ''udp'', as_int_parser parse_udp_socket_drops),
      (''qdisc_drops'', ''qdisc'', as_int_parser parse_qdisc_drops),
      (''nic_rx_pause'', ''ethtool_stats'', as_int_parser (\<lambda>text. parse_ethtool_statistic text ''rx_pause'')),
      (''nic_tx_pause'', ''ethtool_stats'', as_int_parser (\<lambda>text. parse_ethtool_statistic text ''tx_pause''))] @
     map (\<lambda>name. (''nic_'' @ name, ''nic_'' @ name, \<lambda>text. Inr (VStr (strip text)))) NIC_STATISTICS"

definition snapshot_counters :: "(string list \<Rightarrow> string res) \<Rightarrow> string \<Rightarrow> int sample dict res" where
  "snapshot_counters run interface =
     (let captured = split_counter_sections (probe run [''sh'', ''-c'', snapshot_script interface])
                       (map fst (snapshot_sections interface))
      in rmap (\<lambda>(key, sec, parser).
            rbind (captured_at captured sec) (\<lambda>s. Inr (key, parse_counter s parser))) counter_plan)"

record delta =
  delta_before :: "int option"
  delta_after :: "int option"
  delta_value :: "int option"
  delta_error :: "string option"

definition missing_before :: "int sample" where
  "missing_before = \<lparr>sample_value = None, sample_error = Some ''missing before sample''\<rparr>"

definition missing_after :: "int sample" where
  "missing_after = \<lparr>sample_value = None, sample_error = Some ''missing after sample''\<rparr>"

text \<open>Python's \<^verbatim>\<open>or\<close> on an optional text: the empty text counts as false.\<close>

definition text_or :: "string option \<Rightarrow> string option \<Rightarrow> string option" where
  "text_or a b = (case a of Some (c # cs) \<Rightarrow> Some (c # cs) | _ \<Rightarrow> b)"

definition text_true :: "string option \<Rightarrow> bool" where
  "text_true a = (a \<noteq> None \<and> a \<noteq> Some [])"

definition counter_delta :: "int sample \<Rightarrow> int sample \<Rightarrow> delta" where
  "counter_delta first second =
     (let error = text_or (sample_error first) (sample_error second);
          d = (if text_true error then None
               else (case (sample_value first, sample_value second) of
                       (Some a, Some b) \<Rightarrow> Some (b - a) | _ \<Rightarrow> None))
      in \<lparr>delta_before = sample_value first, delta_after = sample_value second,
          delta_value = d, delta_error = error\<rparr>)"

definition counter_deltas :: "int sample dict \<Rightarrow> int sample dict \<Rightarrow> delta dict" where
  "counter_deltas before after =
     map (\<lambda>name. (name, counter_delta (dget_or before name missing_before) (dget_or after name missing_after)))
       (sort (remdups (dkeys before @ dkeys after)))"

section \<open>Lemmas on sections\<close>

definition section_header :: "string \<Rightarrow> string" where
  "section_header name = COUNTER_SECTION_PREFIX @ name @ ''>>>''"

text \<open>What the shell script prints: each header line followed by the lines of its command.\<close>

definition section_lines :: "(string \<times> string list) list \<Rightarrow> string list" where
  "section_lines secs = concat (map (\<lambda>(name, ls). section_header name # ls) secs)"

definition store_section :: "string \<times> string list \<Rightarrow> captured \<Rightarrow> captured" where
  "store_section s c = (case s of (name, ls) \<Rightarrow>
     if dget c name = None then c
     else dset name \<lparr>sample_value = Some (join [newline] ls), sample_error = None\<rparr> c)"

lemma section_header_simps [simp]:
  "is_section_header (section_header name)"
  "section_name (section_header name) = name"
proof -
  show "is_section_header (section_header name)"
    unfolding is_section_header_def section_header_def startswith_iff endswith_iff
    by (metis append.assoc)
  show "section_name (section_header name) = name"
    by (simp add: section_name_def section_header_def Let_def)
qed

lemma split_loop_body:
  "(\<forall>l \<in> set ls. \<not> is_section_header l) \<Longrightarrow>
   split_loop c cur acc (ls @ rest) = split_loop c cur (if cur = None then acc else acc @ ls) rest"
  by (induction ls arbitrary: acc) auto

lemma split_loop_sections:
  "(\<forall>(name, ls) \<in> set secs. \<forall>l \<in> set ls. \<not> is_section_header l) \<Longrightarrow>
   split_loop c cur acc (section_lines secs) = fold store_section secs (flush_section cur acc c)"
proof (induction secs arbitrary: c cur acc)
  case (Cons s secs)
  obtain name ls where s: "s = (name, ls)" by (cases s)
  let ?c = "flush_section cur acc c"
  let ?cur = "if dget ?c name = None then None else Some name"
  have body: "\<forall>l \<in> set ls. \<not> is_section_header l" using Cons.prems s by auto
  have "split_loop c cur acc (section_lines (s # secs)) = split_loop ?c ?cur [] (ls @ section_lines secs)"
    by (simp add: section_lines_def s Let_def)
  also have "\<dots> = fold store_section secs (flush_section ?cur (if ?cur = None then [] else ls) ?c)"
    unfolding split_loop_body [OF body] using Cons.prems by (subst Cons.IH) auto
  also have "flush_section ?cur (if ?cur = None then [] else ls) ?c = store_section s ?c"
    by (simp add: s store_section_def flush_section_def)
  finally show ?case by simp
qed (simp add: section_lines_def)

lemma dget_store_section:
  "dget (store_section (n, ls) c) k =
     (if k = n \<and> dget c k \<noteq> None then Some \<lparr>sample_value = Some (join [newline] ls), sample_error = None\<rparr>
      else dget c k)"
  by (auto simp: store_section_def)

lemma dget_fold_store:
  "distinct (map fst secs) \<Longrightarrow>
   dget (fold store_section secs c) k =
     (case (dget c k, map_of secs k) of
        (Some _, Some ls) \<Rightarrow> Some \<lparr>sample_value = Some (join [newline] ls), sample_error = None\<rparr>
      | (x, _) \<Rightarrow> x)"
proof (induction secs arbitrary: c)
  case (Cons s secs)
  obtain n ls where s: "s = (n, ls)" by (cases s)
  from Cons.prems s have "map_of secs n = None" by (simp add: map_of_eq_None_iff)
  moreover have "dget (fold store_section secs (store_section s c)) k =
      (case (dget (store_section s c) k, map_of secs k) of
        (Some _, Some ls) \<Rightarrow> Some \<lparr>sample_value = Some (join [newline] ls), sample_error = None\<rparr>
      | (x, _) \<Rightarrow> x)"
    using Cons.prems s by (intro Cons.IH) simp
  ultimately show ?case
    unfolding s dget_store_section by (auto split: option.splits)
qed (auto split: option.splits)

lemma line_ok_section_header: "line_ok name \<Longrightarrow> line_ok (section_header name)"
  by (auto simp: line_ok_def section_header_def COUNTER_SECTION_PREFIX_def is_linebreak_def ord_def)

text \<open>
  C26: Splitting undoes the batching. For the output of any sections with distinct names whose
  bodies contain no marker line, every requested section gets exactly its own lines back, and a
  requested section that was not printed is reported missing by name.
\<close>

theorem split_batched_sections:
  assumes names: "distinct (map fst secs)"
    and lines: "\<forall>(name, ls) \<in> set secs. line_ok name \<and> (\<forall>l \<in> set ls. line_ok l \<and> \<not> is_section_header l)"
    and tail: "secs = [] \<or> last (section_lines secs) \<noteq> []"
    and requested: "name \<in> set names"
  shows "dget (split_counter_sections
            \<lparr>sample_value = Some (join [newline] (section_lines secs)), sample_error = None\<rparr> names) name =
         Some (case map_of secs name of
                 Some ls \<Rightarrow> \<lparr>sample_value = Some (join [newline] ls), sample_error = None\<rparr>
               | None \<Rightarrow> missing_section name)"
proof -
  have "\<forall>l \<in> set (section_lines secs). line_ok l"
    using lines by (auto simp: section_lines_def line_ok_section_header)
  then have "splitlines (join [newline] (section_lines secs)) = section_lines secs"
    using tail by (intro splitlines_join) (auto simp: section_lines_def)
  moreover have "\<forall>(name, ls) \<in> set secs. \<forall>l \<in> set ls. \<not> is_section_header l"
    using lines by auto
  ultimately show ?thesis
    using requested names
    by (simp add: split_counter_sections_def split_loop_sections dget_fold_store dget_map_fun
        flush_section_def split: option.split)
qed

theorem split_batched_sections_witness:
  "dget (split_counter_sections
      \<lparr>sample_value = Some (join [newline] (section_lines [(''udp'', [''sl'', ''0'']), (''x'', [''1''])])),
       sample_error = None\<rparr> [''udp'', ''qdisc'']) ''udp'' =
   Some \<lparr>sample_value = Some (join [newline] [''sl'', ''0'']), sample_error = None\<rparr>"
  by (subst split_batched_sections)
     (simp_all add: line_ok_def is_linebreak_def ord_def section_lines_def is_section_header_def
      COUNTER_SECTION_PREFIX_def)

section \<open>Properties of the snapshot\<close>

lemma dkeys_flush_section: "(cur = None \<or> the cur \<in> set (dkeys c)) \<Longrightarrow> dkeys (flush_section cur ls c) = dkeys c"
  by (cases cur) (simp_all add: flush_section_def dset_present_keys)

lemma dkeys_split_loop:
  "(cur = None \<or> the cur \<in> set (dkeys c)) \<Longrightarrow> dkeys (split_loop c cur acc input) = dkeys c"
proof (induction c cur acc input rule: split_loop.induct)
  case (2 c cur lines line rest)
  show ?case
  proof (cases "is_section_header line")
    case True
    let ?c = "flush_section cur lines c"
    let ?cur = "if dget ?c (section_name line) = None then None else Some (section_name line)"
    have eq: "dkeys ?c = dkeys c" using 2(3) by (rule dkeys_flush_section)
    have "?cur = None \<or> the ?cur \<in> set (dkeys ?c)"
      by (auto simp: map_of_eq_None_iff)
    with True have "dkeys (split_loop ?c ?cur [] rest) = dkeys ?c"
      by (intro 2(1)) simp_all
    with True eq show ?thesis by (simp add: Let_def)
  qed (use 2 in simp)
qed (simp add: dkeys_flush_section)

lemma dkeys_split_counter_sections: "dkeys (split_counter_sections sample names) = names"
  by (auto simp: split_counter_sections_def dkeys_split_loop comp_def split: option.split)

lemma captured_at_present: "sec \<in> set (dkeys captured) \<Longrightarrow> \<exists>s. captured_at captured sec = Inr s"
  by (auto simp: captured_at_def map_of_eq_None_iff split: option.splits)

definition settled :: "'a sample \<Rightarrow> bool" where
  "settled s = ((sample_value s = None) \<noteq> (sample_error s = None))"

lemma parse_counter_settled: "settled (parse_counter s parser)"
  by (auto simp: settled_def parse_counter_def split: option.split sum.split)

lemma parse_counter_failed [simp]:
  "parse_counter \<lparr>sample_value = None, sample_error = Some e\<rparr> parser =
     \<lparr>sample_value = None, sample_error = Some e\<rparr>"
  by (simp add: parse_counter_def)

lemma counter_plan_sections: "(key, sec, parser) \<in> set counter_plan \<Longrightarrow> sec \<in> set (map fst (snapshot_sections interface))"
  by (auto simp: counter_plan_def snapshot_sections_def NIC_STATISTICS_def)

text \<open>
  C28: A snapshot cannot abort a run: whatever the node answers or raises, \<^verbatim>\<open>snapshot_counters\<close>
  returns all thirteen counters, each with either a value or an error; and when the command itself
  fails, every counter carries that failure's text.
\<close>

theorem snapshot_total:
  "\<exists>counters. snapshot_counters run interface = Inr counters
     \<and> dkeys counters = map fst counter_plan \<and> length counters = 13
     \<and> list_all (\<lambda>(key, s). settled s \<and>
          (\<forall>e. run [''sh'', ''-c'', snapshot_script interface] = Inl e \<longrightarrow>
             s = \<lparr>sample_value = None, sample_error = Some (exc_text e)\<rparr>)) counters"
proof -
  let ?sample = "probe run [''sh'', ''-c'', snapshot_script interface]"
  let ?names = "map fst (snapshot_sections interface)"
  let ?captured = "split_counter_sections ?sample ?names"
  define smp where "smp sec = (case dget ?captured sec of Some s \<Rightarrow> s | None \<Rightarrow> missing_section sec)" for sec
  have ok: "captured_at ?captured sec = Inr (smp sec)" if "(key, sec, parser) \<in> set counter_plan" for key sec parser
    using captured_at_present [of sec ?captured] counter_plan_sections [OF that, of interface]
    by (auto simp: dkeys_split_counter_sections smp_def captured_at_def split: option.splits)
  let ?f = "\<lambda>(key, sec, parser). (key, parse_counter (smp sec) parser)"
  have r: "snapshot_counters run interface = Inr (map ?f counter_plan)"
    unfolding snapshot_counters_def Let_def by (rule rmap_pure) (auto simp: ok split: prod.splits)
  have failed: "smp sec = \<lparr>sample_value = None, sample_error = Some (exc_text e)\<rparr>"
    if "run [''sh'', ''-c'', snapshot_script interface] = Inl e" and "(key, sec, parser) \<in> set counter_plan"
    for e key sec parser
    using that(1) counter_plan_sections [OF that(2), of interface]
    by (simp add: smp_def probe_def split_counter_sections_def dget_map_fun del: map_map)
  have "list_all (\<lambda>(key, s). settled s \<and>
          (\<forall>e. run [''sh'', ''-c'', snapshot_script interface] = Inl e \<longrightarrow>
             s = \<lparr>sample_value = None, sample_error = Some (exc_text e)\<rparr>)) (map ?f counter_plan)"
    by (auto simp: list_all_iff parse_counter_settled failed)
  moreover have "dkeys (map ?f counter_plan) = map fst counter_plan" by auto
  moreover have "length (map ?f counter_plan) = 13" by (simp add: counter_plan_def NIC_STATISTICS_def)
  ultimately show ?thesis using r by blast
qed

theorem snapshot_total_witness:
  "\<exists>counters. snapshot_counters (\<lambda>_. Inl (Exn TimeoutExpired ''timed out'')) ''eth0'' = Inr counters
     \<and> length counters = 13
     \<and> list_all (\<lambda>(key, s). s = \<lparr>sample_value = None, sample_error = Some ''timed out''\<rparr>) counters"
proof -
  obtain cs where "snapshot_counters (\<lambda>_. Inl (Exn TimeoutExpired ''timed out'')) ''eth0'' = Inr cs"
    "length cs = 13" "list_all (\<lambda>(key, s). settled s \<and>
       (\<forall>e. Inl (Exn TimeoutExpired ''timed out'') = (Inl e :: string res) \<longrightarrow>
          s = \<lparr>sample_value = None, sample_error = Some (exc_text e)\<rparr>)) cs"
    using snapshot_total [of "\<lambda>_. Inl (Exn TimeoutExpired ''timed out'')" "''eth0''"] by blast
  then show ?thesis by (auto simp: list_all_iff)
qed

text \<open>
  The deltas cover the counters of both snapshots once each, in sorted order, and a delta is a
  number exactly when both snapshots read that counter without error: it is after minus before.
\<close>

theorem counter_deltas_exact:
  "dkeys (counter_deltas before after) = sorted_list_of_set (set (dkeys before) \<union> set (dkeys after))
   \<and> (\<forall>name d. (\<exists>dl. dget (counter_deltas before after) name = Some dl \<and> delta_value dl = Some d) \<longleftrightarrow>
        (\<exists>s t x y. dget before name = Some s \<and> dget after name = Some t \<and>
           \<not> text_true (sample_error s) \<and> \<not> text_true (sample_error t) \<and>
           sample_value s = Some x \<and> sample_value t = Some y \<and> d = y - x))"
proof (intro conjI allI)
  show "dkeys (counter_deltas before after) = sorted_list_of_set (set (dkeys before) \<union> set (dkeys after))"
    by (simp only: sorted_list_of_set_sort_remdups counter_deltas_def map_map comp_def fst_conv map_ident
        flip: set_append)
next
  fix name d
  let ?f = "dget_or before name missing_before" and ?s = "dget_or after name missing_after"
  have key: "dget (counter_deltas before after) name =
      (if name \<in> set (dkeys before) \<union> set (dkeys after) then Some (counter_delta ?f ?s) else None)"
    by (simp add: counter_deltas_def dget_map_fun)
  have in_dom: "dget before name = Some s \<Longrightarrow> name \<in> set (dkeys before)" for s
    by (metis map_of_eq_None_iff option.distinct(1) set_map)
  have val: "delta_value (counter_delta a b) = Some d \<longleftrightarrow>
      \<not> text_true (sample_error a) \<and> \<not> text_true (sample_error b) \<and>
      (\<exists>x y. sample_value a = Some x \<and> sample_value b = Some y \<and> d = y - x)" for a b
    by (auto simp: counter_delta_def Let_def text_or_def text_true_def split: option.splits list.splits)
  show "(\<exists>dl. dget (counter_deltas before after) name = Some dl \<and> delta_value dl = Some d) \<longleftrightarrow>
        (\<exists>s t x y. dget before name = Some s \<and> dget after name = Some t \<and>
           \<not> text_true (sample_error s) \<and> \<not> text_true (sample_error t) \<and>
           sample_value s = Some x \<and> sample_value t = Some y \<and> d = y - x)"
    unfolding key
    by (cases "dget before name"; cases "dget after name")
       (auto simp: val dget_or_def missing_before_def missing_after_def text_true_def dest: in_dom)
qed

section \<open>Properties of the parsers\<close>

lemma index_of_nth: "distinct xs \<Longrightarrow> i < length xs \<Longrightarrow> index_of (xs ! i) xs = i"
proof (induction xs arbitrary: i)
  case (Cons x xs)
  then show ?case by (cases i) (auto simp: nth_mem)
qed simp

definition udp_line :: "string list \<Rightarrow> string" where
  "udp_line ws = join [blank] (''Udp:'' # ws)"

lemma udp_line_starts: "startswith (udp_line ws) ''Udp:''"
  by (simp add: udp_line_def join_Cons)

lemma word_ok_udp: "word_ok ''Udp:''"
  by (simp add: word_ok_def is_space_def ord_def)

lemma split_udp_line: "(\<forall>w \<in> set ws. word_ok w) \<Longrightarrow> split_ws (udp_line ws) = ''Udp:'' # ws"
  unfolding udp_line_def by (rule split_ws_join) (simp add: word_ok_udp)

lemma line_ok_join: "(\<forall>w \<in> set ws. word_ok w) \<Longrightarrow> line_ok (join [blank] ws)"
proof (induction ws)
  case (Cons w ws)
  then show ?case
    by (auto simp: join_Cons line_ok_def word_ok_def is_linebreak_def ord_def dest: linebreak_is_space)
       (metis linebreak_is_space is_linebreak_def ord_def)+
qed (simp add: line_ok_def)

text \<open>
  Reading a counter back from \<^verbatim>\<open>/proc/net/snmp\<close>: when the last two \<^verbatim>\<open>Udp:\<close> lines are a header
  with distinct column names and the integers of those columns, the parser returns exactly the
  integer in the column named, wherever the pair stands in the file.
\<close>

theorem snmp_counter_read:
  assumes before: "\<forall>l \<in> set pre. line_ok l"
    and after: "\<forall>l \<in> set post. line_ok l \<and> l \<noteq> [] \<and> \<not> startswith l ''Udp:''"
    and names: "distinct headers" "\<forall>h \<in> set headers. word_ok h \<and> h \<noteq> ''Udp:''"
    and width: "length counts = length headers"
    and column: "i < length headers"
  shows "parse_udp_named_counter
     (join [newline] (pre @ [udp_line headers, udp_line (map str_int counts)] @ post)) (headers ! i) =
     Inr (counts ! i)"
proof -
  let ?h = "udp_line headers" and ?v = "udp_line (map str_int counts)"
  let ?all = "pre @ [?h, ?v] @ post"
  have ok: "line_ok ?h" "line_ok ?v"
    unfolding udp_line_def using names(2) word_ok_udp by (auto intro!: line_ok_join simp: word_ok_str_int)
  have ne: "?v \<noteq> []" by (simp add: udp_line_def join_Cons)
  have "splitlines (join [newline] ?all) = ?all"
    using before after ok ne by (intro splitlines_join) (auto simp: last_append)
  then have "map split_ws (filter (\<lambda>l. startswith l ''Udp:'') (splitlines (join [newline] ?all))) =
      map split_ws (filter (\<lambda>l. startswith l ''Udp:'') pre) @ [''Udp:'' # headers, ''Udp:'' # map str_int counts]"
    using after names(2)
    by (simp add: udp_line_starts split_udp_line word_ok_str_int filter_False)
  moreover have "headers ! i \<noteq> ''Udp:''" using names(2) column nth_mem by blast
  ultimately show ?thesis
    using column width names(1)
    by (simp add: parse_udp_named_counter_def nth_append index_of_nth)
qed

theorem snmp_counter_read_witness:
  "parse_udp_named_counter
     (join [newline] ([''Ip: 1''] @ [udp_line [''InDatagrams'', ''RcvbufErrors''], udp_line (map str_int [9, 42])] @ [''UdpLite: 0'']))
     ([''InDatagrams'', ''RcvbufErrors''] ! 1) = Inr ([9, 42] ! 1)"
  by (rule snmp_counter_read) (simp_all add: line_ok_def word_ok_def is_linebreak_def is_space_def ord_def)

end
