(* ===== verification/Config.thy ===== *)
theory Config
  imports Values
begin

text \<open>
  Configuration validation of \<^verbatim>\<open>main.py\<close>: \<^verbatim>\<open>validate_config\<close> on the dynamic value the YAML loader
  returns, every check in the order of the code, with the exceptions of the checks themselves and
  those Python raises when a value has the wrong type (a missing \<^verbatim>\<open>get\<close>, an unhashable value, an
  ordering of unlike types). Beside the checker stands a declarative description of what an accepted
  configuration guarantees to the code that runs it.
\<close>

abbreviation ve :: "string \<Rightarrow> exn" where
  "ve msg \<equiv> Exn ValueError msg"

section \<open>Hosts\<close>

definition LOOPBACK_HOSTS :: "string list" where
  "LOOPBACK_HOSTS = [''127.0.0.1'', ''localhost'', ''::1'']"

definition RECEIVER_BINARIES :: "string list" where
  "RECEIVER_BINARIES = [''receiver_baseline'', ''receiver_batched'', ''receiver_threaded'']"

definition is_local :: "string \<Rightarrow> bool" where
  "is_local host = (host \<in> set LOOPBACK_HOSTS)"

definition management_host :: "pyval \<Rightarrow> string res" where
  "management_host node =
     rbind (py_get_or node ''host'' (VStr [])) (\<lambda>host.
     rbind (py_get_or node ''management_host'' host) (\<lambda>v. Inr (py_str v)))"

definition benchmark_ip :: "pyval \<Rightarrow> string res" where
  "benchmark_ip node =
     rbind (py_get_or node ''host'' (VStr [])) (\<lambda>host.
     rbind (py_get_or node ''benchmark_ip'' host) (\<lambda>v. Inr (py_str v)))"

section \<open>The global section and the topology\<close>

fun missing_keys :: "string list \<Rightarrow> pyval \<Rightarrow> string list res" where
  "missing_keys required (VDict d) = Inr (sort (filter (\<lambda>k. dget d k = None) required))"
| "missing_keys required v = Inl (no_attribute v ''keys'')"

definition require_keys :: "string \<Rightarrow> string list \<Rightarrow> pyval \<Rightarrow> unit res" where
  "require_keys what required v =
     rbind (missing_keys required v) (\<lambda>missing.
     require (missing = []) (ve (what @ '' is missing: '' @ join '', '' missing)))"

definition global_required :: "string list" where
  "global_required = [''topology'', ''remote_project_root'', ''local_data_dir'', ''user'',
     ''nodes'', ''runtime'', ''metadata_collection'', ''tuning_state'']"

definition validate_global :: "pyval \<Rightarrow> pyval res" where
  "validate_global config =
     (let no_global = ve ''Configuration requires a global object''
      in if \<not> is_dict config then Inl no_global
         else rbind (py_get config ''global'') (\<lambda>g.
           case g of
             Some (VDict d) \<Rightarrow>
               rbind (require_keys ''global'' global_required (VDict d)) (\<lambda>_. Inr (VDict d))
           | _ \<Rightarrow> Inl no_global))"

definition TOPOLOGIES :: "string list" where
  "TOPOLOGIES = [''local_loopback'', ''distributed_ethernet'', ''external_generator'']"

definition validate_role :: "pyval \<Rightarrow> string \<Rightarrow> unit res" where
  "validate_role nodes role =
     (let bad = ve (''global.nodes.'' @ role @ '' requires management_host and benchmark_ip'')
      in rbind (py_get nodes role) (\<lambda>node.
           case node of
             Some (VDict d) \<Rightarrow>
               rbind (management_host (VDict d)) (\<lambda>m.
               rbind (benchmark_ip (VDict d)) (\<lambda>b. require (m \<noteq> [] \<and> b \<noteq> []) bad))
           | _ \<Rightarrow> Inl bad))"

definition interface_char :: "char \<Rightarrow> bool" where
  "interface_char c = (is_ascii_letter c \<or> is_digit c \<or> c \<in> set ''_.:-'')"

definition name_char :: "char \<Rightarrow> bool" where
  "name_char c = (is_ascii_letter c \<or> is_digit c \<or> c \<in> set ''_-'')"

definition not_a_string :: "pyval \<Rightarrow> exn" where
  "not_a_string v = Exn TypeError (''expected string or bytes-like object, got '' @ repr_str (type_name v))"

fun value_or_none :: "pyval option \<Rightarrow> pyval" where
  "value_or_none None = VNone"
| "value_or_none (Some v) = v"

text \<open>\<^verbatim>\<open>not interface or not re.fullmatch(...)\<close>: the name of the receiver interface.\<close>

definition checked_interface :: "pyval \<Rightarrow> string res" where
  "checked_interface v =
     (let bad = ve ''receiver interface is missing or invalid''
      in if \<not> truthy v then Inl bad
         else (case v of VStr s \<Rightarrow> if list_all interface_char s then Inr s else Inl bad
                       | _ \<Rightarrow> Inl (not_a_string v)))"

text \<open>The three branches on the topology, on the addresses already read.\<close>

definition check_addresses ::
  "pyval \<Rightarrow> string \<Rightarrow> string \<Rightarrow> string \<Rightarrow> string \<Rightarrow> string \<Rightarrow> pyval \<Rightarrow> unit res" where
  "check_addresses topology rx_management tx_management rx_benchmark tx_benchmark interface sender =
     (if topology = VStr ''local_loopback'' then
        require (is_local rx_management \<and> is_local tx_management \<and> is_local rx_benchmark \<and>
                 is_local tx_benchmark \<and> interface = ''lo'')
          (ve ''local_loopback requires loopback control/data addresses and interface lo'')
      else if topology = VStr ''distributed_ethernet'' then
        require (\<not> (is_local rx_management \<or> is_local tx_management \<or> rx_management = tx_management \<or>
                    rx_benchmark = tx_benchmark \<or> interface = ''lo''))
          (ve ''distributed_ethernet requires distinct management hosts and benchmark IPs'')
      else
        (let bad = ve ''external_generator requires a remote receiver and local sender with distinct dedicated Ethernet addresses''
         in if is_local rx_management \<or> \<not> is_local tx_management \<or> rx_benchmark = tx_benchmark \<or> interface = ''lo''
            then Inl bad
            else rbind (py_get sender ''interface'') (\<lambda>si.
                 rbind (py_in_set (value_or_none si) [VNone, VStr ''lo'']) (\<lambda>shared.
                 require (\<not> shared) bad))))"

definition validate_topology :: "pyval \<Rightarrow> pyval \<Rightarrow> unit res" where
  "validate_topology topology nodes =
     rbind (py_in_set topology (map VStr TOPOLOGIES)) (\<lambda>known.
     rbind (require known (ve ''global.topology must be local_loopback, distributed_ethernet, or external_generator'')) (\<lambda>_.
     rbind (riter (validate_role nodes) [''receiver'', ''sender'']) (\<lambda>_.
     rbind (py_index nodes ''receiver'') (\<lambda>receiver.
     rbind (py_index nodes ''sender'') (\<lambda>sender.
     rbind (management_host receiver) (\<lambda>rx_management.
     rbind (management_host sender) (\<lambda>tx_management.
     rbind (benchmark_ip receiver) (\<lambda>rx_benchmark.
     rbind (benchmark_ip sender) (\<lambda>tx_benchmark.
     rbind (py_get receiver ''interface'') (\<lambda>iface.
     rbind (checked_interface (value_or_none iface)) (\<lambda>interface.
     check_addresses topology rx_management tx_management rx_benchmark tx_benchmark interface sender)))))))))))"

definition check_node_field :: "string \<Rightarrow> pyval \<Rightarrow> string \<Rightarrow> unit res" where
  "check_node_field role node field =
     rbind (py_contains node field) (\<lambda>present.
     if \<not> present then Inr ()
     else rbind (py_index node field) (\<lambda>v.
       require (is_str v \<and> truthy v)
         (ve (''global.nodes.'' @ role @ ''.'' @ field @ '' must be a nonempty string''))))"

definition validate_node_fields :: "pyval \<Rightarrow> unit res" where
  "validate_node_fields nodes =
     (case nodes of
        VDict entries \<Rightarrow>
          riter (\<lambda>(role, node).
            riter (check_node_field role node) [''project_root'', ''build_preset'', ''build_subdir'']) entries
      | _ \<Rightarrow> Inl (no_attribute nodes ''items''))"

section \<open>The runtime section\<close>

definition runtime_required :: "string list" where
  "runtime_required = [''repetitions'', ''port'', ''receiver_startup_seconds'',
     ''shutdown_timeout_seconds'', ''scheduler'', ''priority'']"

definition is_number :: "pyval \<Rightarrow> bool" where
  "is_number v = (is_int v \<or> is_float v)"

definition num_rel :: "(flt \<Rightarrow> flt \<Rightarrow> bool) \<Rightarrow> pyval \<Rightarrow> flt \<Rightarrow> bool" where
  "num_rel rel v y = (case num_val v of Some x \<Rightarrow> rel x y | None \<Rightarrow> False)"

definition int_between :: "int \<Rightarrow> int \<Rightarrow> pyval \<Rightarrow> bool" where
  "int_between lo hi v = (is_int v \<and> lo \<le> as_int v \<and> as_int v \<le> hi)"

definition int_at_least :: "int \<Rightarrow> pyval \<Rightarrow> bool" where
  "int_at_least lo v = (is_int v \<and> lo \<le> as_int v)"

definition validate_cpu :: "pyval \<Rightarrow> string \<Rightarrow> unit res" where
  "validate_cpu runtime cpu_name =
     rbind (py_get runtime cpu_name) (\<lambda>cpu.
     require (value_or_none cpu = VNone \<or> int_at_least 0 (value_or_none cpu))
       (ve (cpu_name @ '' must be null or a nonnegative integer'')))"

definition validate_scheduler :: "pyval \<Rightarrow> unit res" where
  "validate_scheduler runtime =
     rbind (py_index runtime ''scheduler'') (\<lambda>scheduler.
     rbind (py_in_set scheduler [VStr ''other'', VStr ''fifo'', VStr ''rr'']) (\<lambda>known.
     rbind (require known (ve ''scheduler must be other, fifo, or rr'')) (\<lambda>_.
     rbind (py_index runtime ''priority'') (\<lambda>priority.
     let bad = ve ''scheduler priority is inconsistent with policy'' in
     if scheduler = VStr ''other'' then require (py_eq priority (VInt 0)) bad
     else rbind (py_le (VInt 1) priority) (\<lambda>low.
          rbind (if low then py_le priority (VInt 99) else Inr False) (\<lambda>ok. require ok bad))))))"

definition validate_runtime :: "pyval \<Rightarrow> unit res" where
  "validate_runtime runtime =
     rbind (require_keys ''global.runtime'' runtime_required runtime) (\<lambda>_.
     rbind (py_index runtime ''repetitions'') (\<lambda>repetitions.
     rbind (require (int_at_least 1 repetitions) (ve ''repetitions must be a positive integer'')) (\<lambda>_.
     rbind (py_index runtime ''port'') (\<lambda>port.
     rbind (require (int_between 1 65535 port) (ve ''port must be 1..65535'')) (\<lambda>_.
     rbind (riter (\<lambda>delay_name.
         rbind (py_index runtime delay_name) (\<lambda>delay.
         require (is_number delay \<and> \<not> num_rel flt_le delay (Fin 0)) (ve (delay_name @ '' must be positive''))))
       [''receiver_startup_seconds'', ''shutdown_timeout_seconds'']) (\<lambda>_.
     rbind (py_get_or runtime ''post_sender_drain_seconds'' (VFloat (Fin 1))) (\<lambda>drain.
     rbind (require (is_number drain \<and> \<not> num_rel flt_lt drain (Fin 0))
              (ve ''post_sender_drain_seconds must be nonnegative'')) (\<lambda>_.
     rbind (riter (validate_cpu runtime) [''receiver_cpu'', ''worker_cpu'', ''sender_cpu'']) (\<lambda>_.
     validate_scheduler runtime)))))))))"

section \<open>Benchmarks\<close>

definition checked_name :: "string list \<Rightarrow> pyval \<Rightarrow> string res" where
  "checked_name names v =
     (let bad = ve ''Benchmark names must be unique safe identifiers''
      in if \<not> truthy v then Inl bad
         else rbind (hash_ok v) (\<lambda>_.
           case v of VStr s \<Rightarrow> if s \<in> set names \<or> \<not> list_all name_char s then Inl bad else Inr s
                   | _ \<Rightarrow> Inl (not_a_string v)))"

definition int_list :: "(int \<Rightarrow> bool) \<Rightarrow> pyval \<Rightarrow> bool" where
  "int_list p v = (case v of VList xs \<Rightarrow> xs \<noteq> [] \<and> (\<forall>x \<in> set xs. is_int x \<and> p (as_int x)) | _ \<Rightarrow> False)"

definition validate_receiver :: "string \<Rightarrow> pyval \<Rightarrow> unit res" where
  "validate_receiver name receiver =
     rbind (py_get receiver ''binary'') (\<lambda>bin.
     let binary = value_or_none bin in
     rbind (py_in_set binary (map VStr RECEIVER_BINARIES)) (\<lambda>known.
     rbind (require known (ve (''Unknown receiver binary: '' @ py_str binary))) (\<lambda>_.
     rbind (py_get_or receiver ''batch_sizes'' (VList [VInt 1])) (\<lambda>batches.
     rbind (require (int_list (\<lambda>b. 1 \<le> b \<and> b \<le> 1024) batches)
              (ve (name @ '': batch_sizes must contain integers 1..1024''))) (\<lambda>_.
     rbind (require (\<not> (binary = VStr ''receiver_baseline'' \<and> \<not> py_eq batches (VList [VInt 1])))
              (ve (name @ '': baseline only supports batch size 1''))) (\<lambda>_.
     riter (\<lambda>field.
         rbind (py_get_or receiver field (VInt (if field = ''sample_every'' then 1 else 0))) (\<lambda>v.
         require (int_at_least 0 v)
           (ve (name @ '': receiver.'' @ field @ '' must be a nonnegative integer''))))
       [''work_ns'', ''sample_every'']))))))"

definition validate_cpus :: "string \<Rightarrow> pyval \<Rightarrow> pyval \<Rightarrow> unit res" where
  "validate_cpus name threads cpus =
     (let bad = ve (name @ '': cpus must contain one distinct nonnegative CPU per thread'')
      in case cpus of
           VNone \<Rightarrow> Inr ()
         | VList xs \<Rightarrow>
             if int (length xs) \<noteq> as_int threads then Inl bad
             else rbind (py_set_size xs) (\<lambda>n.
               require (n = length xs \<and> (\<forall>x \<in> set xs. int_at_least 0 x)) bad)
         | _ \<Rightarrow> Inl bad)"

definition validate_sender_threads :: "string \<Rightarrow> pyval \<Rightarrow> unit res" where
  "validate_sender_threads name sender =
     rbind (py_get_or sender ''send_batch_max'' (VInt 1)) (\<lambda>send_batch_max.
     rbind (py_get_or sender ''batch_window_us'' (VInt 10)) (\<lambda>batch_window_us.
     rbind (py_get_or sender ''threads'' (VInt 1)) (\<lambda>threads.
     rbind (py_get sender ''cpus'') (\<lambda>cp.
     let cpus = value_or_none cp in
     rbind (require (int_between 1 1024 send_batch_max) (ve (name @ '': send_batch_max must be 1..1024''))) (\<lambda>_.
     rbind (require (int_between 1 1000000 batch_window_us) (ve (name @ '': batch_window_us must be 1..1000000''))) (\<lambda>_.
     rbind (require (int_between 1 128 threads) (ve (name @ '': threads must be 1..128''))) (\<lambda>_.
     rbind (validate_cpus name threads cpus) (\<lambda>_.
     rbind (require (\<not> (as_int threads > 1 \<and> cpus = VNone))
              (ve (name @ '': multiple sender threads require cpus''))) (\<lambda>_.
     rbind (py_index sender ''mode'') (\<lambda>mode.
     rbind (require (\<not> (mode = VStr ''burst'' \<and> as_int threads > 1))
              (ve (name @ '': burst mode supports one sender thread''))) (\<lambda>_.
     rbind (py_contains sender ''pacing_trace'') (\<lambda>present.
     if \<not> present then Inr ()
     else rbind (py_index sender ''pacing_trace'') (\<lambda>v.
       require (is_bool v) (ve (name @ '': pacing_trace must be boolean'')))))))))))))))"

definition validate_sender :: "string \<Rightarrow> pyval \<Rightarrow> unit res" where
  "validate_sender name sender =
     rbind (riter (\<lambda>field.
         rbind (py_contains sender field) (\<lambda>present.
         require present (ve (name @ '': sender.'' @ field @ '' is required''))))
       [''mode'', ''duration_seconds'', ''rates_pps'', ''payload_size'']) (\<lambda>_.
     rbind (py_index sender ''mode'') (\<lambda>mode.
     rbind (py_in_set mode [VStr ''steady'', VStr ''burst'', VStr ''flood'']) (\<lambda>known.
     rbind (if \<not> known then Inr True
            else rbind (py_index sender ''duration_seconds'') (\<lambda>d.
                 rbind (py_float d) (\<lambda>seconds. Inr (flt_le seconds (Fin 0))))) (\<lambda>bad.
     rbind (require (\<not> bad) (ve (name @ '': invalid sender mode or duration''))) (\<lambda>_.
     rbind (py_index sender ''rates_pps'') (\<lambda>rates.
     rbind (require (int_list (\<lambda>r. 0 < r) rates) (ve (name @ '': rates_pps must be positive integers''))) (\<lambda>_.
     rbind (py_index sender ''payload_size'') (\<lambda>payload.
     rbind (require (int_between 16 65507 payload) (ve (name @ '': payload_size must be 16..65507''))) (\<lambda>_.
     rbind (py_get_or sender ''burst_sizes'' (VList [VInt 1])) (\<lambda>bursts.
     rbind (require (\<not> (mode = VStr ''steady'' \<and> \<not> py_eq bursts (VList [VInt 1])))
              (ve (name @ '': steady mode requires burst_sizes: [1]''))) (\<lambda>_.
     validate_sender_threads name sender)))))))))))"

definition validate_benchmark :: "string list \<Rightarrow> pyval \<Rightarrow> string list res" where
  "validate_benchmark names benchmark =
     rbind (py_get_or benchmark ''enabled'' (VBool True)) (\<lambda>enabled.
     if \<not> truthy enabled then Inr names
     else
       rbind (py_get benchmark ''name'') (\<lambda>nm.
       rbind (checked_name names (value_or_none nm)) (\<lambda>name.
       rbind (py_get_or benchmark ''receiver'' (VDict [])) (\<lambda>receiver.
       rbind (py_get_or benchmark ''sender'' (VDict [])) (\<lambda>sender.
       rbind (validate_receiver name receiver) (\<lambda>_.
       rbind (validate_sender name sender) (\<lambda>_. Inr (name # names))))))))"

fun validate_benchmark_list :: "string list \<Rightarrow> pyval list \<Rightarrow> unit res" where
  "validate_benchmark_list names [] = Inr ()"
| "validate_benchmark_list names (b # bs) =
     rbind (validate_benchmark names b) (\<lambda>names'. validate_benchmark_list names' bs)"

definition validate_benchmarks :: "pyval \<Rightarrow> unit res" where
  "validate_benchmarks config =
     rbind (py_get config ''benchmarks'') (\<lambda>b.
     case b of
       Some (VList (x # xs)) \<Rightarrow> validate_benchmark_list [] (x # xs)
     | _ \<Rightarrow> Inl (ve ''At least one benchmark is required''))"

definition validate_config :: "pyval \<Rightarrow> pyval res" where
  "validate_config config =
     rbind (validate_global config) (\<lambda>global_config.
     rbind (py_index global_config ''topology'') (\<lambda>topology.
     rbind (py_index global_config ''nodes'') (\<lambda>nodes.
     rbind (validate_topology topology nodes) (\<lambda>_.
     rbind (validate_node_fields nodes) (\<lambda>_.
     rbind (py_index global_config ''runtime'') (\<lambda>runtime.
     rbind (validate_runtime runtime) (\<lambda>_.
     rbind (validate_benchmarks config) (\<lambda>_. Inr config))))))))"

section \<open>What an accepted configuration guarantees\<close>

text \<open>
  The declarative side: each predicate says what the keys of a section hold, without an order of
  checks and without exceptions.
\<close>

definition priority_ok :: "pyval \<Rightarrow> pyval \<Rightarrow> bool" where
  "priority_ok scheduler priority \<longleftrightarrow>
     (scheduler = VStr ''other'' \<and> py_eq priority (VInt 0)) \<or>
     ((scheduler = VStr ''fifo'' \<or> scheduler = VStr ''rr'') \<and>
      (\<exists>x. num_val priority = Some x \<and> flt_le (Fin 1) x \<and> flt_le x (Fin 99)))"

definition positive_delay :: "pyval \<Rightarrow> bool" where
  "positive_delay v \<longleftrightarrow> is_number v \<and> \<not> num_rel flt_le v (Fin 0)"

definition cpu_ok :: "pyval option \<Rightarrow> bool" where
  "cpu_ok cpu \<longleftrightarrow> cpu = None \<or> cpu = Some VNone \<or> (\<exists>v. cpu = Some v \<and> int_at_least 0 v)"

definition runtime_ok :: "pyval dict \<Rightarrow> bool" where
  "runtime_ok d \<longleftrightarrow>
     (\<exists>repetitions port startup shutdown scheduler priority.
        dget d ''repetitions'' = Some repetitions \<and> int_at_least 1 repetitions \<and>
        dget d ''port'' = Some port \<and> int_between 1 65535 port \<and>
        dget d ''receiver_startup_seconds'' = Some startup \<and> positive_delay startup \<and>
        dget d ''shutdown_timeout_seconds'' = Some shutdown \<and> positive_delay shutdown \<and>
        dget d ''scheduler'' = Some scheduler \<and> dget d ''priority'' = Some priority \<and>
        priority_ok scheduler priority) \<and>
     (let drain = dget_or d ''post_sender_drain_seconds'' (VFloat (Fin 1))
      in is_number drain \<and> \<not> num_rel flt_lt drain (Fin 0)) \<and>
     cpu_ok (dget d ''receiver_cpu'') \<and> cpu_ok (dget d ''worker_cpu'') \<and> cpu_ok (dget d ''sender_cpu'')"

definition receiver_ok :: "pyval dict \<Rightarrow> bool" where
  "receiver_ok r \<longleftrightarrow>
     (\<exists>binary. dget r ''binary'' = Some (VStr binary) \<and> binary \<in> set RECEIVER_BINARIES \<and>
        (binary = ''receiver_baseline'' \<longrightarrow> py_eq (dget_or r ''batch_sizes'' (VList [VInt 1])) (VList [VInt 1]))) \<and>
     int_list (\<lambda>b. 1 \<le> b \<and> b \<le> 1024) (dget_or r ''batch_sizes'' (VList [VInt 1])) \<and>
     int_at_least 0 (dget_or r ''work_ns'' (VInt 0)) \<and> int_at_least 0 (dget_or r ''sample_every'' (VInt 1))"

lemma cpu_ok_iff: "value_or_none cpu = VNone \<or> int_at_least 0 (value_or_none cpu) \<longleftrightarrow> cpu_ok cpu"
  by (cases cpu) (auto simp: cpu_ok_def int_at_least_def)

lemma validate_cpu_iff: "validate_cpu (VDict d) name = Inr u \<longleftrightarrow> cpu_ok (dget d name)"
  by (simp add: validate_cpu_def res_simps cpu_ok_iff)

lemma py_compare_Inr_iff:
  "py_compare rel a b = Inr t \<longleftrightarrow> (\<exists>x y. num_val a = Some x \<and> num_val b = Some y \<and> t = rel x y)"
  by (auto simp: py_compare_def split: option.splits)

lemma scheduler_known_iff:
  "py_in_set v [VStr a, VStr b, VStr c] = Inr True \<longleftrightarrow> v = VStr a \<or> v = VStr b \<or> v = VStr c"
  by (cases v) (auto simp: py_in_set_def hash_ok_def res_simps py_eq_VStr_iff)

lemma priority_range_iff:
  "(\<exists>low. py_le (VInt 1) p = Inr low \<and> (if low then py_le p (VInt 99) else Inr False) = Inr True) \<longleftrightarrow>
   (\<exists>x. num_val p = Some x \<and> flt_le (Fin 1) x \<and> flt_le x (Fin 99))"
  by (cases "num_val p") (auto simp: py_compare_def)

lemma validate_scheduler_iff:
  "validate_scheduler (VDict d) = Inr u \<longleftrightarrow>
     (\<exists>s p. dget d ''scheduler'' = Some s \<and> dget d ''priority'' = Some p \<and> priority_ok s p)"
proof -
  have "validate_scheduler (VDict d) = Inr u \<longleftrightarrow>
    (\<exists>s p. dget d ''scheduler'' = Some s \<and> dget d ''priority'' = Some p \<and>
       py_in_set s [VStr ''other'', VStr ''fifo'', VStr ''rr''] = Inr True \<and>
       (if s = VStr ''other'' then py_eq p (VInt 0)
        else \<exists>low. py_le (VInt 1) p = Inr low \<and> (if low then py_le p (VInt 99) else Inr False) = Inr True))"
    by (cases "dget d ''scheduler''"; cases "dget d ''priority''")
       (simp_all add: validate_scheduler_def res_simps Let_def)
  moreover have "VStr ''fifo'' \<noteq> VStr ''other''" "VStr ''rr'' \<noteq> VStr ''other''" by simp_all
  ultimately show ?thesis
    unfolding scheduler_known_iff priority_ok_def priority_range_iff by metis
qed

lemma require_keys_iff:
  "require_keys what req v = Inr u \<longleftrightarrow> (\<exists>d. v = VDict d \<and> (\<forall>k \<in> set req. dget d k \<noteq> None))"
proof (cases v)
  case (VDict d)
  have "sort (filter (\<lambda>k. dget d k = None) req) = [] \<longleftrightarrow> (\<forall>k \<in> set req. dget d k \<noteq> None)"
    by (metis (mono_tags, lifting) filter_empty_conv set_empty set_sort)
  with VDict show ?thesis by (simp add: require_keys_def require_Inr_iff)
qed (simp_all add: require_keys_def)

lemma validate_runtime_iff:
  "validate_runtime v = Inr u \<longleftrightarrow> (\<exists>d. v = VDict d \<and> runtime_ok d)"
proof (cases v)
  case (VDict d)
  then show ?thesis
    by (auto simp: validate_runtime_def runtime_ok_def res_simps require_keys_iff py_index_Inr_iff
        validate_cpu_iff validate_scheduler_iff positive_delay_def runtime_required_def Let_def)
qed (auto simp: validate_runtime_def res_simps require_keys_iff)

lemma binary_known_iff:
  "py_in_set v (map VStr RECEIVER_BINARIES) = Inr True \<longleftrightarrow> (\<exists>b \<in> set RECEIVER_BINARIES. v = VStr b)"
  by (cases v) (auto simp: py_in_set_def hash_ok_def res_simps py_eq_VStr_iff)

lemma validate_receiver_iff:
  "validate_receiver name v = Inr u \<longleftrightarrow> (\<exists>r. v = VDict r \<and> receiver_ok r)"
proof (cases v)
  case (VDict r)
  have bin: "value_or_none x = VStr b \<longleftrightarrow> x = Some (VStr b)" for x b
    by (cases x) auto
  show ?thesis
    unfolding VDict validate_receiver_def receiver_ok_def Let_def
    by (auto simp: res_simps binary_known_iff bin)
qed (auto simp: validate_receiver_def res_simps)

definition cpus_ok :: "int \<Rightarrow> pyval option \<Rightarrow> bool" where
  "cpus_ok threads cpus \<longleftrightarrow>
     cpus = None \<or> cpus = Some VNone \<or>
     (\<exists>xs. cpus = Some (VList xs) \<and> int (length xs) = threads \<and>
        (\<forall>x \<in> set xs. int_at_least 0 x) \<and> distinct (map as_int xs))"

definition sender_threads_ok :: "string \<Rightarrow> pyval dict \<Rightarrow> bool" where
  "sender_threads_ok mode s \<longleftrightarrow>
     int_between 1 1024 (dget_or s ''send_batch_max'' (VInt 1)) \<and>
     int_between 1 1000000 (dget_or s ''batch_window_us'' (VInt 10)) \<and>
     int_between 1 128 (dget_or s ''threads'' (VInt 1)) \<and>
     (let threads = as_int (dget_or s ''threads'' (VInt 1))
      in cpus_ok threads (dget s ''cpus'') \<and>
         (1 < threads \<longrightarrow> value_or_none (dget s ''cpus'') \<noteq> VNone) \<and>
         (mode = ''burst'' \<longrightarrow> threads \<le> 1)) \<and>
     (\<forall>v. dget s ''pacing_trace'' = Some v \<longrightarrow> is_bool v)"

definition sender_ok :: "pyval dict \<Rightarrow> bool" where
  "sender_ok s \<longleftrightarrow>
     (\<exists>mode duration seconds rates payload.
        dget s ''mode'' = Some (VStr mode) \<and> mode \<in> {''steady'', ''burst'', ''flood''} \<and>
        dget s ''duration_seconds'' = Some duration \<and> py_float duration = Inr seconds \<and>
        \<not> flt_le seconds (Fin 0) \<and>
        dget s ''rates_pps'' = Some rates \<and> int_list (\<lambda>r. 0 < r) rates \<and>
        dget s ''payload_size'' = Some payload \<and> int_between 16 65507 payload \<and>
        (mode = ''steady'' \<longrightarrow> py_eq (dget_or s ''burst_sizes'' (VList [VInt 1])) (VList [VInt 1])) \<and>
        sender_threads_ok mode s)"

lemma validate_cpus_iff:
  "validate_cpus name threads (value_or_none c) = Inr u \<longleftrightarrow> cpus_ok (as_int threads) c"
proof -
  have "n = length xs \<and> (\<forall>x \<in> set xs. int_at_least 0 x) \<and> py_set_size xs = Inr n \<longleftrightarrow>
      n = length xs \<and> (\<forall>x \<in> set xs. int_at_least 0 x) \<and> distinct (map as_int xs)" for n xs
  proof (cases "\<forall>x \<in> set xs. int_at_least 0 x")
    case True
    then have "\<forall>x \<in> set xs. is_int x" by (simp add: int_at_least_def)
    then show ?thesis using py_set_size_ints [of xs] by auto
  qed auto
  then have "(\<exists>n. py_set_size xs = Inr n \<and> n = length xs \<and> (\<forall>x \<in> set xs. int_at_least 0 x)) \<longleftrightarrow>
      (\<forall>x \<in> set xs. int_at_least 0 x) \<and> distinct (map as_int xs)" for xs
    by blast
  then have list: "validate_cpus name threads (VList xs) = Inr u \<longleftrightarrow>
      int (length xs) = as_int threads \<and> (\<forall>x \<in> set xs. int_at_least 0 x) \<and> distinct (map as_int xs)" for xs
    by (simp add: validate_cpus_def res_simps Let_def)
  show ?thesis
  proof (cases c)
    case (Some v)
    then show ?thesis
      using list by (cases v) (auto simp: validate_cpus_def cpus_ok_def)
  qed (simp add: validate_cpus_def cpus_ok_def)
qed

lemma validate_sender_threads_iff:
  assumes "dget s ''mode'' = Some (VStr mode)"
  shows "validate_sender_threads name (VDict s) = Inr u \<longleftrightarrow> sender_threads_ok mode s"
  using assms
  by (cases "dget s ''pacing_trace''")
     (auto simp: validate_sender_threads_def sender_threads_ok_def res_simps Let_def validate_cpus_iff)

lemma mode_known_iff:
  "py_in_set v [VStr a, VStr b, VStr c] = Inr k \<longleftrightarrow>
     \<not> is_list v \<and> \<not> is_dict v \<and> (k \<longleftrightarrow> v \<in> {VStr a, VStr b, VStr c})"
  by (auto simp: py_in_set_def hash_ok_def res_simps py_eq_VStr_iff)

lemma is_mode: "v \<in> {VStr a, VStr b, VStr c} \<Longrightarrow> \<not> is_list v \<and> \<not> is_dict v"
  by auto

lemma validate_sender_iff:
  "validate_sender name v = Inr u \<longleftrightarrow> (\<exists>s. v = VDict s \<and> sender_ok s)"
proof (cases v)
  case (VDict s)
  have "validate_sender name (VDict s) = Inr u \<longleftrightarrow>
    (\<exists>mode duration seconds rates payload.
        dget s ''mode'' = Some mode \<and> mode \<in> {VStr ''steady'', VStr ''burst'', VStr ''flood''} \<and>
        dget s ''duration_seconds'' = Some duration \<and> py_float duration = Inr seconds \<and>
        \<not> flt_le seconds (Fin 0) \<and>
        dget s ''rates_pps'' = Some rates \<and> int_list (\<lambda>r. 0 < r) rates \<and>
        dget s ''payload_size'' = Some payload \<and> int_between 16 65507 payload \<and>
        (mode = VStr ''steady'' \<longrightarrow> py_eq (dget_or s ''burst_sizes'' (VList [VInt 1])) (VList [VInt 1])) \<and>
        validate_sender_threads name (VDict s) = Inr u)"
    unfolding validate_sender_def
    by (cases "dget s ''mode''"; cases "dget s ''duration_seconds''"; cases "dget s ''rates_pps''";
        cases "dget s ''payload_size''")
       (auto simp: res_simps mode_known_iff dest: is_mode split: if_splits)
  also have "\<dots> \<longleftrightarrow> sender_ok s"
    unfolding sender_ok_def using validate_sender_threads_iff [of s _ name u] by blast
  finally show ?thesis using VDict by simp
qed (auto simp: validate_sender_def res_simps)

end
