(* ===== verification/Accepted_Config.thy ===== *)
theory Accepted_Config
  imports Config
begin

text \<open>
  What \<^verbatim>\<open>validate_config\<close> of \<^verbatim>\<open>main.py\<close> accepts: the declarative description of the topology, the
  nodes, the runtime and the benchmarks, the proof that the checker accepts exactly the
  configurations it describes and returns them unchanged, and what the checker lets through
  although its messages say otherwise.
\<close>

section \<open>Topology and nodes\<close>

definition mgmt :: "pyval dict \<Rightarrow> string" where
  "mgmt d = py_str (dget_or d ''management_host'' (dget_or d ''host'' (VStr [])))"

definition data_ip :: "pyval dict \<Rightarrow> string" where
  "data_ip d = py_str (dget_or d ''benchmark_ip'' (dget_or d ''host'' (VStr [])))"

lemma management_host_VDict [simp]: "management_host (VDict d) = Inr (mgmt d)"
  by (simp add: management_host_def mgmt_def)

lemma benchmark_ip_VDict [simp]: "benchmark_ip (VDict d) = Inr (data_ip d)"
  by (simp add: benchmark_ip_def data_ip_def)

definition role_ok :: "pyval dict \<Rightarrow> bool" where
  "role_ok d \<longleftrightarrow> mgmt d \<noteq> [] \<and> data_ip d \<noteq> []"

definition addresses_ok :: "string \<Rightarrow> pyval dict \<Rightarrow> pyval dict \<Rightarrow> string \<Rightarrow> bool" where
  "addresses_ok topology rx tx interface \<longleftrightarrow>
     (if topology = ''local_loopback'' then
        is_local (mgmt rx) \<and> is_local (mgmt tx) \<and> is_local (data_ip rx) \<and> is_local (data_ip tx) \<and>
        interface = ''lo''
      else if topology = ''distributed_ethernet'' then
        \<not> is_local (mgmt rx) \<and> \<not> is_local (mgmt tx) \<and> mgmt rx \<noteq> mgmt tx \<and> data_ip rx \<noteq> data_ip tx \<and>
        interface \<noteq> ''lo''
      else
        topology = ''external_generator'' \<and>
        \<not> is_local (mgmt rx) \<and> is_local (mgmt tx) \<and> data_ip rx \<noteq> data_ip tx \<and> interface \<noteq> ''lo'' \<and>
        (\<exists>v. dget tx ''interface'' = Some v \<and> v \<noteq> VNone \<and> v \<noteq> VStr ''lo'' \<and> \<not> is_list v \<and> \<not> is_dict v))"

definition node_fields_ok :: "pyval \<Rightarrow> bool" where
  "node_fields_ok node \<longleftrightarrow>
     (\<forall>field \<in> {''project_root'', ''build_preset'', ''build_subdir''}.
        case node of
          VDict d \<Rightarrow> (\<forall>v. dget d field = Some v \<longrightarrow> (\<exists>s. v = VStr s \<and> s \<noteq> []))
        | VList xs \<Rightarrow> VStr field \<notin> set xs
        | VStr s \<Rightarrow> \<not> contains s field
        | _ \<Rightarrow> False)"

definition nodes_ok :: "string \<Rightarrow> pyval dict \<Rightarrow> bool" where
  "nodes_ok topology nodes \<longleftrightarrow>
     (\<exists>rx tx interface.
        dget nodes ''receiver'' = Some (VDict rx) \<and> dget nodes ''sender'' = Some (VDict tx) \<and>
        role_ok rx \<and> role_ok tx \<and>
        dget rx ''interface'' = Some (VStr interface) \<and> interface \<noteq> [] \<and> list_all interface_char interface \<and>
        addresses_ok topology rx tx interface) \<and>
     (\<forall>(role, node) \<in> set nodes. node_fields_ok node)"

lemma validate_role_iff:
  "validate_role nodes role = Inr u \<longleftrightarrow>
     (\<exists>n d. nodes = VDict n \<and> dget n role = Some (VDict d) \<and> role_ok d)"
proof (cases nodes)
  case (VDict n)
  show ?thesis
    by (cases "dget n role") (auto simp: VDict validate_role_def role_ok_def res_simps Let_def split: pyval.splits)
qed (auto simp: validate_role_def Let_def)

lemma checked_interface_iff:
  "checked_interface (value_or_none v) = Inr s \<longleftrightarrow> v = Some (VStr s) \<and> s \<noteq> [] \<and> list_all interface_char s"
  by (cases v) (auto simp: checked_interface_def Let_def split: pyval.splits)

lemma topology_known_iff:
  "py_in_set t (map VStr TOPOLOGIES) = Inr True \<longleftrightarrow> (\<exists>s \<in> set TOPOLOGIES. t = VStr s)"
  by (cases t) (auto simp: py_in_set_def hash_ok_def res_simps py_eq_VStr_iff)

lemma sender_shared_iff:
  "py_in_set (value_or_none v) [VNone, VStr ''lo''] = Inr False \<longleftrightarrow>
     (\<exists>w. v = Some w \<and> w \<noteq> VNone \<and> w \<noteq> VStr ''lo'' \<and> \<not> is_list w \<and> \<not> is_dict w)"
proof (cases v)
  case (Some w)
  then show ?thesis
    by (cases w) (auto simp: py_in_set_def hash_ok_def res_simps py_eq_VStr_iff)
qed (simp add: py_in_set_def hash_ok_def)

lemma topology_names:
  "''distributed_ethernet'' \<noteq> ''local_loopback''" "''external_generator'' \<noteq> ''local_loopback''"
  "''external_generator'' \<noteq> ''distributed_ethernet''"
  by simp_all

definition topology_step :: "string \<Rightarrow> pyval dict \<Rightarrow> pyval dict \<Rightarrow> string \<Rightarrow> bool" where
  "topology_step t rx tx i \<longleftrightarrow>
     t \<in> set TOPOLOGIES \<and> role_ok rx \<and> role_ok tx \<and>
     dget rx ''interface'' = Some (VStr i) \<and> i \<noteq> [] \<and> list_all interface_char i \<and> addresses_ok t rx tx i"

lemma check_addresses_iff:
  assumes "t \<in> set TOPOLOGIES"
  shows "check_addresses (VStr t) (mgmt rx) (mgmt tx) (data_ip rx) (data_ip tx) i (VDict tx) = Inr u \<longleftrightarrow>
           addresses_ok t rx tx i"
proof -
  have "(if b then Inl e else rbind (py_get (VDict tx) ''interface'') (\<lambda>si.
           rbind (py_in_set (value_or_none si) [VNone, VStr ''lo'']) (\<lambda>shared. require (\<not> shared) e))) = Inr u \<longleftrightarrow>
        \<not> b \<and> (\<exists>v. dget tx ''interface'' = Some v \<and> v \<noteq> VNone \<and> v \<noteq> VStr ''lo'' \<and> \<not> is_list v \<and> \<not> is_dict v)" for b e
    by (simp add: res_simps sender_shared_iff)
  moreover from assms have "t = ''local_loopback'' \<or> t = ''distributed_ethernet'' \<or> t = ''external_generator''"
    by (simp add: TOPOLOGIES_def)
  ultimately show ?thesis
    unfolding check_addresses_def addresses_ok_def Let_def
    using topology_names by (elim disjE) (simp_all only: require_Inr_iff pyval.inject if_True if_False simp_thms de_Morgan_disj conj_assoc)
qed

lemma validate_topology_iff:
  "validate_topology topology nodes = Inr u \<longleftrightarrow>
     (\<exists>t n rx tx i. topology = VStr t \<and> nodes = VDict n \<and> dget n ''receiver'' = Some (VDict rx) \<and>
        dget n ''sender'' = Some (VDict tx) \<and> topology_step t rx tx i)" (is "?l \<longleftrightarrow> ?r")
proof
  assume ?l
  then obtain t where t: "topology = VStr t" "t \<in> set TOPOLOGIES"
      and roles: "validate_role nodes ''receiver'' = Inr ()" "validate_role nodes ''sender'' = Inr ()"
    by (auto simp: validate_topology_def res_simps topology_known_iff)
  from roles obtain n rx tx where n: "nodes = VDict n" "dget n ''receiver'' = Some (VDict rx)"
      "dget n ''sender'' = Some (VDict tx)" "role_ok rx" "role_ok tx"
    by (auto simp: validate_role_iff)
  with \<open>?l\<close> t obtain i where "checked_interface (value_or_none (dget rx ''interface'')) = Inr i"
      "check_addresses (VStr t) (mgmt rx) (mgmt tx) (data_ip rx) (data_ip tx) i (VDict tx) = Inr u"
    by (auto simp: validate_topology_def res_simps)
  with t n show ?r
    by (auto simp: topology_step_def checked_interface_iff check_addresses_iff)
next
  assume ?r
  then show ?l
    by (auto simp: topology_step_def validate_topology_def res_simps topology_known_iff validate_role_iff
        checked_interface_iff check_addresses_iff)
qed

lemma check_node_field_iff:
  "check_node_field role node field = Inr u \<longleftrightarrow>
     (case node of
          VDict d \<Rightarrow> (\<forall>v. dget d field = Some v \<longrightarrow> (\<exists>s. v = VStr s \<and> s \<noteq> []))
        | VList xs \<Rightarrow> VStr field \<notin> set xs
        | VStr s \<Rightarrow> \<not> contains s field
        | _ \<Rightarrow> False)"
proof (cases node)
  case (VDict d)
  show ?thesis
  proof (cases "dget d field")
    case (Some v)
    then show ?thesis
      by (cases v) (simp_all add: VDict check_node_field_def res_simps py_index_VDict_Some)
  qed (simp add: VDict check_node_field_def)
qed (auto simp: py_eq_VStr_iff check_node_field_def)

lemma validate_node_fields_iff:
  "validate_node_fields nodes = Inr u \<longleftrightarrow> (\<exists>n. nodes = VDict n \<and> (\<forall>(role, node) \<in> set n. node_fields_ok node))"
proof (cases nodes)
  case (VDict n)
  have "riter (check_node_field role node) [''project_root'', ''build_preset'', ''build_subdir''] = Inr () \<longleftrightarrow>
      node_fields_ok node" for role node
    unfolding riter_Inr_iff check_node_field_iff node_fields_ok_def by simp
  then show ?thesis
    unfolding VDict validate_node_fields_def by (simp only: pyval.case riter_Inr_iff split_def pyval.inject) blast
qed (simp_all add: validate_node_fields_def)

section \<open>Benchmarks\<close>

definition enabled :: "pyval dict \<Rightarrow> bool" where
  "enabled b \<longleftrightarrow> truthy (dget_or b ''enabled'' (VBool True))"

definition safe_name :: "string \<Rightarrow> bool" where
  "safe_name s \<longleftrightarrow> s \<noteq> [] \<and> list_all name_char s"

definition benchmark_name_of :: "pyval \<Rightarrow> string" where
  "benchmark_name_of b =
     (case b of VDict d \<Rightarrow> (case dget d ''name'' of Some (VStr s) \<Rightarrow> s | _ \<Rightarrow> []) | _ \<Rightarrow> [])"

definition is_enabled :: "pyval \<Rightarrow> bool" where
  "is_enabled b \<longleftrightarrow> (case b of VDict d \<Rightarrow> enabled d | _ \<Rightarrow> False)"

definition benchmark_ok :: "pyval dict \<Rightarrow> bool" where
  "benchmark_ok b \<longleftrightarrow>
     (\<exists>s r t. dget b ''name'' = Some (VStr s) \<and> safe_name s \<and>
        dget_or b ''receiver'' (VDict []) = VDict r \<and> receiver_ok r \<and>
        dget_or b ''sender'' (VDict []) = VDict t \<and> sender_ok t)"

lemma checked_name_iff:
  "checked_name names (value_or_none v) = Inr s \<longleftrightarrow> v = Some (VStr s) \<and> safe_name s \<and> s \<notin> set names"
proof (cases v)
  case (Some w)
  then show ?thesis
    by (cases w) (auto simp: checked_name_def safe_name_def hash_ok_def Let_def res_simps)
qed (simp add: checked_name_def)

lemma validate_benchmark_iff:
  "validate_benchmark names b = Inr names' \<longleftrightarrow>
     (\<exists>d. b = VDict d \<and>
        (if enabled d then benchmark_ok d \<and> benchmark_name_of b \<notin> set names \<and> names' = benchmark_name_of b # names
         else names' = names))"
proof (cases b)
  case (VDict d)
  show ?thesis
  proof (cases "enabled d")
    case True
    then show ?thesis
      unfolding VDict validate_benchmark_def benchmark_ok_def benchmark_name_of_def enabled_def
      by (auto simp: res_simps checked_name_iff validate_receiver_iff validate_sender_iff)
  next
    case False
    then show ?thesis
      unfolding VDict validate_benchmark_def enabled_def by auto
  qed
qed (auto simp: validate_benchmark_def res_simps py_get_or_Inr_iff)

lemma validate_benchmark_list_iff:
  "validate_benchmark_list names bs = Inr u \<longleftrightarrow>
     (\<forall>b \<in> set bs. \<exists>d. b = VDict d \<and> (enabled d \<longrightarrow> benchmark_ok d)) \<and>
     distinct (map benchmark_name_of (filter is_enabled bs)) \<and>
     set (map benchmark_name_of (filter is_enabled bs)) \<inter> set names = {}"
proof (induction bs arbitrary: names)
  case (Cons b bs)
  show ?case
  proof (cases b)
    case (VDict d)
    show ?thesis
    proof (cases "enabled d")
      case True
      then have "is_enabled b" by (simp add: is_enabled_def VDict)
      with True VDict Cons.IH [of "benchmark_name_of b # names"] show ?thesis
        by (simp add: res_simps validate_benchmark_iff image_iff) blast
    next
      case False
      then have "\<not> is_enabled b" by (simp add: is_enabled_def VDict)
      with False VDict Cons.IH [of names] show ?thesis
        by (simp add: res_simps validate_benchmark_iff)
    qed
  qed (auto simp: res_simps validate_benchmark_iff)
qed simp

section \<open>The whole configuration\<close>

definition accepted_config :: "pyval \<Rightarrow> bool" where
  "accepted_config c \<longleftrightarrow>
     (\<exists>d g topology nodes runtime benchmarks.
        c = VDict d \<and> dget d ''global'' = Some (VDict g) \<and>
        (\<forall>k \<in> set global_required. dget g k \<noteq> None) \<and>
        dget g ''topology'' = Some (VStr topology) \<and> topology \<in> set TOPOLOGIES \<and>
        dget g ''nodes'' = Some (VDict nodes) \<and> nodes_ok topology nodes \<and>
        dget g ''runtime'' = Some (VDict runtime) \<and> runtime_ok runtime \<and>
        dget d ''benchmarks'' = Some (VList benchmarks) \<and> benchmarks \<noteq> [] \<and>
        (\<forall>b \<in> set benchmarks. \<exists>bd. b = VDict bd \<and> (enabled bd \<longrightarrow> benchmark_ok bd)) \<and>
        distinct (map benchmark_name_of (filter is_enabled benchmarks)))"

lemma validate_global_iff:
  "validate_global c = Inr v \<longleftrightarrow>
     (\<exists>d g. c = VDict d \<and> dget d ''global'' = Some (VDict g) \<and> v = VDict g \<and>
        (\<forall>k \<in> set global_required. dget g k \<noteq> None))"
proof (cases c)
  case (VDict d)
  show ?thesis
  proof (cases "dget d ''global''")
    case (Some g)
    then show ?thesis
      by (cases g) (auto simp: VDict validate_global_def Let_def res_simps require_keys_iff)
  qed (simp add: VDict validate_global_def Let_def)
qed (simp_all add: validate_global_def Let_def)

lemma validate_benchmarks_iff:
  "validate_benchmarks (VDict d) = Inr u \<longleftrightarrow>
     (\<exists>bs. dget d ''benchmarks'' = Some (VList bs) \<and> bs \<noteq> [] \<and> validate_benchmark_list [] bs = Inr u)"
proof (cases "dget d ''benchmarks''")
  case (Some b)
  show ?thesis
  proof (cases b)
    case (VList bs)
    then show ?thesis using Some by (cases bs) (simp_all add: validate_benchmarks_def del: validate_benchmark_list.simps)
  qed (simp_all add: Some validate_benchmarks_def)
qed (simp add: validate_benchmarks_def)

lemma validate_config_iff: "validate_config c = Inr c' \<longleftrightarrow> c' = c \<and> accepted_config c"
proof -
  have "validate_config c = Inr c' \<longleftrightarrow> c' = c \<and>
    (\<exists>d g t n r. c = VDict d \<and> dget d ''global'' = Some (VDict g) \<and>
       (\<forall>k \<in> set global_required. dget g k \<noteq> None) \<and>
       dget g ''topology'' = Some t \<and> dget g ''nodes'' = Some n \<and>
       validate_topology t n = Inr () \<and> validate_node_fields n = Inr () \<and>
       dget g ''runtime'' = Some r \<and> validate_runtime r = Inr () \<and> validate_benchmarks c = Inr ())"
    unfolding validate_config_def by (auto simp: res_simps validate_global_iff)
  also have "\<dots> \<longleftrightarrow> c' = c \<and> accepted_config c"
    unfolding accepted_config_def nodes_ok_def topology_step_def validate_topology_iff
      validate_node_fields_iff validate_runtime_iff
    by (auto simp: validate_benchmarks_iff validate_benchmark_list_iff)
  finally show ?thesis .
qed

text \<open>
  C4: \<^verbatim>\<open>validate_config\<close> accepts exactly the configurations that \<open>accepted_config\<close> describes, and
  returns them unchanged: every key the run needs is there with the type and range the code relies
  on, the addresses fit the topology, and the names of the enabled benchmarks are distinct.
\<close>

theorem validate_config_accepts: "validate_config c = Inr c' \<longleftrightarrow> c' = c \<and> accepted_config c"
  by (rule validate_config_iff)

section \<open>What the checker raises\<close>

abbreviation config_errors :: "exc_class set" where
  "config_errors \<equiv> {ValueError, TypeError, AttributeError, OverflowError}"

lemma raises_hosts [raises]:
  "raises_only config_errors (management_host v)" "raises_only config_errors (benchmark_ip v)"
  unfolding management_host_def benchmark_ip_def by (intro raises; simp)+

lemma raises_require_keys [raises]: "raises_only config_errors (require_keys what req v)"
  unfolding require_keys_def by (cases v) (auto intro!: raises simp: no_attribute_def)

lemma raises_validate_global [raises]: "raises_only config_errors (validate_global c)"
  unfolding validate_global_def Let_def
  by (intro raises) auto

lemma raises_validate_topology [raises]: "raises_only config_errors (validate_topology t n)"
proof -
  have role: "raises_only config_errors (validate_role nodes role)" for nodes role
    unfolding validate_role_def Let_def
    by (intro raises) auto
  have interface: "raises_only config_errors (checked_interface v)" for v
    by (auto simp: checked_interface_def Let_def not_a_string_def split: pyval.split)
  have address: "raises_only config_errors (check_addresses t a b c d i s)" for t a b c d i s
    unfolding check_addresses_def Let_def by (intro raises) auto
  have "n = VDict d \<Longrightarrow> riter (validate_role n) [''receiver'', ''sender''] = Inr u \<Longrightarrow>
      dget d ''receiver'' \<noteq> None \<and> dget d ''sender'' \<noteq> None" for d u
    by (auto simp: res_simps validate_role_iff)
  then show ?thesis
    unfolding validate_topology_def
    by (intro raises role interface address) auto
qed

lemma raises_validate_node_fields [raises]: "raises_only config_errors (validate_node_fields n)"
proof -
  have "raises_only config_errors (check_node_field role node field)" for role node field
    unfolding check_node_field_def by (intro raises) auto
  then show ?thesis
    unfolding validate_node_fields_def
    by (intro raises) (auto intro!: raises simp: no_attribute_def)
qed

lemma raises_validate_runtime [raises]: "raises_only config_errors (validate_runtime r)"
proof -
  have cpu: "raises_only config_errors (validate_cpu r c)" for c
    unfolding validate_cpu_def by (intro raises) auto
  have scheduler: "raises_only config_errors (validate_scheduler r)"
    if "require_keys what runtime_required r = Inr u" for what u
    using that unfolding validate_scheduler_def Let_def
    by (intro raises) (auto simp: require_keys_iff runtime_required_def)
  show ?thesis
    unfolding validate_runtime_def
    by (intro raises cpu scheduler) (auto simp: require_keys_iff runtime_required_def)
qed

lemma raises_validate_receiver [raises]: "raises_only config_errors (validate_receiver name r)"
  unfolding validate_receiver_def Let_def by (intro raises) auto

lemma raises_validate_sender [raises]: "raises_only config_errors (validate_sender name s)"
proof -
  have cpus: "raises_only config_errors (validate_cpus name t c)" for t c
    unfolding validate_cpus_def Let_def by (intro raises) auto
  have threads: "raises_only config_errors (validate_sender_threads name s)"
    if "py_contains s ''mode'' = Inr True"
    using that unfolding validate_sender_threads_def Let_def by (intro raises cpus) auto
  show ?thesis
    unfolding validate_sender_def
    by (intro raises threads) (auto simp: res_simps)
qed

lemma raises_validate_benchmarks [raises]: "raises_only config_errors (validate_benchmarks c)"
proof -
  have name: "raises_only config_errors (checked_name names v)" for names v
    unfolding checked_name_def Let_def by (intro raises) (auto simp: not_a_string_def)
  have "raises_only config_errors (validate_benchmark names b)" for names b
    unfolding validate_benchmark_def by (intro raises name) auto
  then have list: "raises_only config_errors (validate_benchmark_list names bs)" for names bs
    by (induction bs arbitrary: names) (auto intro!: raises)
  show ?thesis
    unfolding validate_benchmarks_def
    by (intro raises) (auto split: list.split intro!: list simp del: validate_benchmark_list.simps)
qed

text \<open>
  C30: A configuration that is not accepted is reported by an exception, and only by one of four
  classes: \<^verbatim>\<open>ValueError\<close> from the checks themselves, or \<^verbatim>\<open>TypeError\<close>, \<^verbatim>\<open>AttributeError\<close>,
  \<^verbatim>\<open>OverflowError\<close> where a value has a type or size a check does not expect. No key is read before
  its presence was checked, so a \<^verbatim>\<open>KeyError\<close> cannot escape, whatever the YAML holds.
\<close>

theorem validate_config_errors:
  "(\<exists>e. validate_config c = Inl e \<and> exc_kind e \<in> {ValueError, TypeError, AttributeError, OverflowError}) \<or>
   (validate_config c = Inr c \<and> accepted_config c)"
proof -
  have "raises_only config_errors (validate_config c)"
    unfolding validate_config_def
    by (intro raises) (auto simp: validate_global_iff global_required_def)
  then show ?thesis
    using validate_config_iff [of c] by (cases "validate_config c") (auto simp: raises_only_def)
qed

text \<open>
  The check of the sender's duration does not stop a NaN: an accepted sender section stays
  accepted when its duration becomes the float NaN (\<^verbatim>\<open>.nan\<close> in YAML), because \<^verbatim>\<open>float(d) <= 0\<close> is
  false there. The silent interval and the command line then carry \<^verbatim>\<open>nan\<close>.
\<close>

theorem nan_duration_accepted:
  assumes "validate_sender name (VDict s) = Inr ()"
  shows "validate_sender name (VDict (dset ''duration_seconds'' (VFloat NaN) s)) = Inr ()"
proof -
  have "sender_threads_ok mode (dset ''duration_seconds'' (VFloat NaN) s) = sender_threads_ok mode s" for mode
    unfolding sender_threads_ok_def dget_or_def by simp
  moreover from assms have "sender_ok s" by (simp add: validate_sender_iff)
  ultimately show ?thesis
    unfolding validate_sender_iff sender_ok_def dget_or_def
    by auto
qed

text \<open>An accepted two-benchmark loopback configuration, the input of the examples.\<close>

definition example_sender :: "pyval list \<Rightarrow> pyval dict" where
  "example_sender rates = [(''mode'', VStr ''steady''), (''duration_seconds'', VInt 5),
     (''rates_pps'', VList rates), (''payload_size'', VInt 64)]"

lemma nan_duration_accepted_witness:
  "validate_sender ''b'' (VDict (dset ''duration_seconds'' (VFloat NaN) (example_sender [VInt 1000]))) = Inr ()"
proof -
  have "flt_of_int 5 = Inr (Fin 5)" by (simp add: flt_of_int_small)
  then have "validate_sender ''b'' (VDict (example_sender [VInt 1000])) = Inr ()"
    by (simp add: validate_sender_iff sender_ok_def example_sender_def sender_threads_ok_def
        dget_or_def int_between_def int_list_def cpus_ok_def flt_eq_def)
  then show ?thesis by (rule nan_duration_accepted)
qed

definition positive_rates :: "pyval list \<Rightarrow> bool" where
  "positive_rates rates \<longleftrightarrow> int_list (\<lambda>r. 0 < r) (VList rates)"

lemma example_sender_ok: "positive_rates rates \<Longrightarrow> sender_ok (example_sender rates)"
proof -
  assume "positive_rates rates"
  have "flt_of_int 5 = Inr (Fin 5)" by (simp add: flt_of_int_small)
  with \<open>positive_rates rates\<close> show ?thesis
    by (simp add: sender_ok_def example_sender_def sender_threads_ok_def
        dget_or_def int_between_def positive_rates_def cpus_ok_def flt_eq_def)
qed

definition example_receiver :: "pyval dict" where
  "example_receiver = [(''binary'', VStr ''receiver_batched''), (''batch_sizes'', VList [VInt 1, VInt 32])]"

lemma example_receiver_ok: "receiver_ok example_receiver"
  by (simp add: receiver_ok_def example_receiver_def RECEIVER_BINARIES_def dget_or_def int_list_def int_at_least_def)

definition example_benchmark :: "pyval list \<Rightarrow> string \<Rightarrow> string \<Rightarrow> pyval dict" where
  "example_benchmark rates name camp =
     [(''name'', VStr name), (''campaign'', VStr camp), (''receiver'', VDict example_receiver),
      (''sender'', VDict (example_sender rates))]"

definition example_node :: "pyval dict" where
  "example_node = [(''management_host'', VStr ''localhost''), (''benchmark_ip'', VStr ''127.0.0.1''),
     (''interface'', VStr ''lo'')]"

definition example_runtime :: "pyval dict" where
  "example_runtime = [(''repetitions'', VInt 2), (''port'', VInt 9000), (''receiver_startup_seconds'', VInt 1),
     (''shutdown_timeout_seconds'', VInt 5), (''scheduler'', VStr ''other''), (''priority'', VInt 0)]"

lemma example_runtime_ok: "runtime_ok example_runtime"
  by (simp add: runtime_ok_def example_runtime_def int_at_least_def int_between_def positive_delay_def
      is_number_def num_rel_def priority_ok_def flt_eq_def dget_or_def cpu_ok_def)

definition example_global :: "pyval dict" where
  "example_global = [(''topology'', VStr ''local_loopback''), (''remote_project_root'', VStr ''/opt/nll''),
     (''local_data_dir'', VStr ''data''), (''user'', VStr ''nll''),
     (''nodes'', VDict [(''receiver'', VDict example_node), (''sender'', VDict example_node)]),
     (''runtime'', VDict example_runtime), (''metadata_collection'', VBool False), (''tuning_state'', VStr ''none'')]"

definition example_config :: "pyval list \<Rightarrow> pyval" where
  "example_config rates = VDict [(''global'', VDict example_global),
     (''benchmarks'', VList [VDict (example_benchmark rates ''qualify'' ''sender_qualification''),
                            VDict (example_benchmark rates ''compare'' ''comparison'')])]"

lemma example_benchmark_ok: "safe_name name \<Longrightarrow> positive_rates rates \<Longrightarrow> benchmark_ok (example_benchmark rates name camp)"
  by (simp add: benchmark_ok_def example_benchmark_def example_sender_ok example_receiver_ok dget_or_def)

lemma example_nodes_ok: "nodes_ok ''local_loopback'' [(''receiver'', VDict example_node), (''sender'', VDict example_node)]"
  by (simp add: nodes_ok_def example_node_def role_ok_def mgmt_def data_ip_def dget_or_def addresses_ok_def
      is_local_def LOOPBACK_HOSTS_def interface_char_def is_ascii_letter_def ord_def node_fields_ok_def)

lemma example_names: "safe_name ''qualify''" "safe_name ''compare''"
  by (simp_all add: safe_name_def name_char_def is_ascii_letter_def ord_def)

lemma example_accepted:
  assumes "positive_rates rates"
  shows "accepted_config (example_config rates)"
  using example_nodes_ok example_runtime_ok
    example_benchmark_ok [where camp = "''sender_qualification''", OF example_names(1) assms, unfolded example_benchmark_def]
    example_benchmark_ok [where camp = "''comparison''", OF example_names(2) assms, unfolded example_benchmark_def]
  by (simp add: accepted_config_def example_config_def example_global_def global_required_def TOPOLOGIES_def
      is_enabled_def enabled_def benchmark_name_of_def dget_or_def example_benchmark_def)

lemma example_rates: "positive_rates [VInt 1000]" "positive_rates [VInt 1000, VInt 1000]"
  by (simp_all add: positive_rates_def int_list_def)

end
