(* ===== verification/Planning.thy ===== *)
theory Planning
  imports Accepted_Config
begin

text \<open>
  The run plan of \<^verbatim>\<open>main.py\<close>: the tuples a configuration asks for (\<^verbatim>\<open>make_run_tuples\<close>), their
  seeded shuffle, the identifiers of the runs, the rates the qualification campaign leaves eligible
  and the comparison runs frozen from them. The numbers drawn by \<^verbatim>\<open>random.Random(seed)\<close> are a
  parameter \<open>draw seed k n\<close>: the \<open>k\<close>-th draw below \<open>n\<close>.
\<close>

section \<open>Run tuples\<close>

record run_tuple =
  benchmark_index :: nat
  benchmark_name :: pyval
  campaign :: string
  repetition :: int
  rate :: pyval
  burst :: pyval
  batch :: pyval

definition tuples_of_benchmark :: "nat \<Rightarrow> pyval \<Rightarrow> string \<Rightarrow> int \<Rightarrow> run_tuple list res" where
  "tuples_of_benchmark index benchmark camp repetitions =
     rconcat (\<lambda>rep.
       rbind (py_index benchmark ''sender'') (\<lambda>s.
       rbind (py_index s ''rates_pps'') (\<lambda>rates.
       rbind (py_iter rates) (\<lambda>rs.
       rconcat (\<lambda>r.
         rbind (py_index benchmark ''sender'') (\<lambda>s'.
         rbind (py_get_or s' ''burst_sizes'' (VList [VInt 1])) (\<lambda>bursts.
         rbind (py_iter bursts) (\<lambda>bs.
         rconcat (\<lambda>b.
           rbind (py_index benchmark ''receiver'') (\<lambda>receiver.
           rbind (py_get_or receiver ''batch_sizes'' (VList [VInt 1])) (\<lambda>batches.
           rbind (py_iter batches) (\<lambda>cs.
           rmap (\<lambda>c.
             rbind (py_index benchmark ''name'') (\<lambda>name.
             Inr \<lparr>benchmark_index = index, benchmark_name = name, campaign = camp, repetition = rep,
                  rate = r, burst = b, batch = c\<rparr>)) cs)))) bs)))) rs)))) [1..repetitions]"

definition QUALIFICATION :: string where
  "QUALIFICATION = ''sender_qualification''"

fun plan_loop ::
  "pyval \<Rightarrow> nat \<Rightarrow> pyval list \<Rightarrow> run_tuple list \<Rightarrow> run_tuple list \<Rightarrow> (run_tuple list \<times> run_tuple list) res" where
  "plan_loop runtime index [] qualification comparative = Inr (qualification, comparative)"
| "plan_loop runtime index (benchmark # rest) qualification comparative =
     rbind (py_get_or benchmark ''enabled'' (VBool True)) (\<lambda>on.
     if \<not> truthy on then plan_loop runtime (Suc index) rest qualification comparative
     else
       rbind (py_get_or benchmark ''campaign'' (VStr ''comparison'')) (\<lambda>c.
       let camp = py_str c in
       rbind (py_index runtime ''repetitions'') (\<lambda>dflt.
       rbind (py_get_or benchmark ''repetitions'' dflt) (\<lambda>r.
       rbind (py_int r) (\<lambda>repetitions.
       rbind (tuples_of_benchmark index benchmark camp repetitions) (\<lambda>ts.
       if camp = QUALIFICATION
       then plan_loop runtime (Suc index) rest (qualification @ ts) comparative
       else plan_loop runtime (Suc index) rest qualification (comparative @ ts)))))))"

text \<open>\<^verbatim>\<open>Random.shuffle\<close>: from the last position down, swap with a drawn position not above it.\<close>

fun shuffle_from :: "(nat \<Rightarrow> nat \<Rightarrow> nat) \<Rightarrow> nat \<Rightarrow> nat \<Rightarrow> 'a list \<Rightarrow> 'a list" where
  "shuffle_from draw k 0 xs = xs"
| "shuffle_from draw k (Suc i) xs =
     (let j = draw k (Suc (Suc i))
      in shuffle_from draw (Suc k) i (xs[Suc i := xs ! j, j := xs ! Suc i]))"

definition shuffle_list :: "(nat \<Rightarrow> nat \<Rightarrow> nat) \<Rightarrow> 'a list \<Rightarrow> 'a list" where
  "shuffle_list draw xs = shuffle_from draw 0 (length xs - 1) xs"

definition make_run_tuples ::
  "(int \<Rightarrow> nat \<Rightarrow> nat \<Rightarrow> nat) \<Rightarrow> pyval \<Rightarrow> (run_tuple list \<times> run_tuple list) res" where
  "make_run_tuples draw config =
     rbind (py_index config ''global'') (\<lambda>g.
     rbind (py_index g ''runtime'') (\<lambda>runtime.
     rbind (py_index config ''benchmarks'') (\<lambda>b.
     rbind (py_iter b) (\<lambda>benchmarks.
     rbind (plan_loop runtime 0 benchmarks [] []) (\<lambda>(qualification, comparative).
     rbind (py_get_or runtime ''shuffle_seed'' (VInt 477)) (\<lambda>s.
     rbind (py_int s) (\<lambda>seed.
     Inr (shuffle_list (draw seed) qualification, shuffle_list (draw seed) comparative))))))))"

section \<open>Shuffling keeps the runs\<close>

definition fair :: "(nat \<Rightarrow> nat \<Rightarrow> nat) \<Rightarrow> bool" where
  "fair draw \<longleftrightarrow> (\<forall>k n. 0 < n \<longrightarrow> draw k n < n)"

lemma shuffle_from_mset:
  assumes "fair draw" "i < length xs \<or> i = 0"
  shows "mset (shuffle_from draw k i xs) = mset xs"
  using assms(2)
proof (induction i arbitrary: k xs)
  case (Suc i)
  then have "Suc i < length xs" by simp
  moreover have "draw k (Suc (Suc i)) < Suc (Suc i)" using assms(1) by (simp add: fair_def)
  ultimately have "mset (xs[Suc i := xs ! draw k (Suc (Suc i)), draw k (Suc (Suc i)) := xs ! Suc i]) = mset xs"
    by (intro mset_swap) auto
  with Suc show ?case by (simp add: Let_def)
qed simp

lemma mset_shuffle_list [simp]: "fair draw \<Longrightarrow> mset (shuffle_list draw xs) = mset xs"
  unfolding shuffle_list_def by (intro shuffle_from_mset) auto

lemma shuffle_list_perm:
  assumes "fair draw"
  shows "set (shuffle_list draw xs) = set xs" "distinct (shuffle_list draw xs) = distinct xs"
    "length (shuffle_list draw xs) = length xs"
  using mset_shuffle_list [OF assms, of xs]
  by (metis mset_eq_setD, metis mset_eq_imp_distinct_iff, metis size_mset)

section \<open>The plan, declaratively\<close>

definition sender_of :: "pyval dict \<Rightarrow> pyval dict" where
  "sender_of d = (case dget_or d ''sender'' (VDict []) of VDict s \<Rightarrow> s | _ \<Rightarrow> [])"

definition receiver_of :: "pyval dict \<Rightarrow> pyval dict" where
  "receiver_of d = (case dget_or d ''receiver'' (VDict []) of VDict r \<Rightarrow> r | _ \<Rightarrow> [])"

fun elements :: "pyval \<Rightarrow> pyval list" where
  "elements (VList xs) = xs"
| "elements v = []"

definition rates_of :: "pyval dict \<Rightarrow> pyval list" where
  "rates_of d = elements (dget_or (sender_of d) ''rates_pps'' VNone)"

definition bursts_of :: "pyval dict \<Rightarrow> pyval list" where
  "bursts_of d = elements (dget_or (sender_of d) ''burst_sizes'' (VList [VInt 1]))"

definition batches_of :: "pyval dict \<Rightarrow> pyval list" where
  "batches_of d = elements (dget_or (receiver_of d) ''batch_sizes'' (VList [VInt 1]))"

definition campaign_of :: "pyval dict \<Rightarrow> string" where
  "campaign_of d = py_str (dget_or d ''campaign'' (VStr ''comparison''))"

definition repetitions_of :: "pyval dict \<Rightarrow> pyval dict \<Rightarrow> int" where
  "repetitions_of runtime d =
     (case py_int (dget_or d ''repetitions'' (dget_or runtime ''repetitions'' VNone)) of Inr n \<Rightarrow> n | Inl _ \<Rightarrow> 0)"

text \<open>What the planner needs of an enabled benchmark beyond what \<^verbatim>\<open>validate_config\<close> checks.\<close>

definition plannable :: "pyval dict \<Rightarrow> pyval dict \<Rightarrow> bool" where
  "plannable runtime d \<longleftrightarrow>
     is_list (dget_or (sender_of d) ''burst_sizes'' (VList [VInt 1])) \<and>
     py_int (dget_or d ''repetitions'' (dget_or runtime ''repetitions'' VNone)) = Inr (repetitions_of runtime d)"

definition tuples_spec :: "pyval dict \<Rightarrow> nat \<Rightarrow> pyval dict \<Rightarrow> run_tuple list" where
  "tuples_spec runtime index d =
     [\<lparr>benchmark_index = index, benchmark_name = VStr (benchmark_name_of (VDict d)), campaign = campaign_of d,
       repetition = rep, rate = r, burst = b, batch = c\<rparr>.
       rep \<leftarrow> [1..repetitions_of runtime d], r \<leftarrow> rates_of d, b \<leftarrow> bursts_of d, c \<leftarrow> batches_of d]"

fun plan_spec :: "pyval dict \<Rightarrow> nat \<Rightarrow> pyval list \<Rightarrow> run_tuple list" where
  "plan_spec runtime index [] = []"
| "plan_spec runtime index (b # bs) =
     (case b of VDict d \<Rightarrow> if enabled d then tuples_spec runtime index d else [] | _ \<Rightarrow> []) @
     plan_spec runtime (Suc index) bs"

lemma benchmark_ok_parts:
  assumes "benchmark_ok d"
  shows "dget d ''name'' = Some (VStr (benchmark_name_of (VDict d)))"
    and "dget d ''sender'' = Some (VDict (sender_of d))" and "sender_ok (sender_of d)"
    and "dget d ''receiver'' = Some (VDict (receiver_of d))" and "receiver_ok (receiver_of d)"
proof -
  from assms obtain s r t where *: "dget d ''name'' = Some (VStr s)"
      "dget_or d ''receiver'' (VDict []) = VDict r" "receiver_ok r"
      "dget_or d ''sender'' (VDict []) = VDict t" "sender_ok t"
    by (auto simp: benchmark_ok_def)
  then have ne: "r \<noteq> []" "t \<noteq> []" by (auto simp: receiver_ok_def sender_ok_def)
  show "dget d ''name'' = Some (VStr (benchmark_name_of (VDict d)))"
    using * by (simp add: benchmark_name_of_def)
  show "sender_ok (sender_of d)" "receiver_ok (receiver_of d)"
    using * by (simp_all add: sender_of_def receiver_of_def)
  show "dget d ''sender'' = Some (VDict (sender_of d))" "dget d ''receiver'' = Some (VDict (receiver_of d))"
    using * ne by (auto simp: sender_of_def receiver_of_def dget_or_def split: option.splits)
qed

lemma int_list_iff:
  "int_list p v \<longleftrightarrow> (\<exists>xs. v = VList xs \<and> xs \<noteq> [] \<and> (\<forall>x \<in> set xs. is_int x \<and> p (as_int x)))"
  by (cases v) (auto simp: int_list_def)

lemma rates_of_ok:
  assumes "sender_ok (sender_of d)"
  shows "dget (sender_of d) ''rates_pps'' = Some (VList (rates_of d)) \<and>
         (\<forall>r \<in> set (rates_of d). is_int r \<and> 0 < as_int r)"
proof -
  from assms obtain rates where "dget (sender_of d) ''rates_pps'' = Some rates" "int_list (\<lambda>r. 0 < r) rates"
    unfolding sender_ok_def by blast
  then show ?thesis by (auto simp: rates_of_def dget_or_def int_list_iff)
qed

lemma batches_of_ok:
  assumes "receiver_ok (receiver_of d)"
  shows "dget_or (receiver_of d) ''batch_sizes'' (VList [VInt 1]) = VList (batches_of d) \<and>
         (\<forall>b \<in> set (batches_of d). is_int b \<and> 1 \<le> as_int b \<and> as_int b \<le> 1024)"
proof -
  from assms have "int_list (\<lambda>b. 1 \<le> b \<and> b \<le> 1024) (dget_or (receiver_of d) ''batch_sizes'' (VList [VInt 1]))"
    unfolding receiver_ok_def by blast
  then show ?thesis by (auto simp: batches_of_def int_list_iff)
qed

lemma bursts_of_ok:
  assumes "plannable runtime d"
  shows "dget_or (sender_of d) ''burst_sizes'' (VList [VInt 1]) = VList (bursts_of d)"
  using assms by (auto simp: plannable_def bursts_of_def elim!: is_listE)

lemma tuples_of_benchmark_spec:
  assumes "benchmark_ok d" "plannable runtime d"
  shows "tuples_of_benchmark index (VDict d) (campaign_of d) (repetitions_of runtime d) =
         Inr (tuples_spec runtime index d)"
  using benchmark_ok_parts [OF assms(1)] rates_of_ok [of d] batches_of_ok [of d] bursts_of_ok [OF assms(2)]
  by (simp add: tuples_of_benchmark_def tuples_spec_def py_index_VDict_Some rmap_pure
      rconcat_pure [OF refl])

lemma tuples_spec_campaign: "t \<in> set (tuples_spec runtime index d) \<Longrightarrow> campaign t = campaign_of d"
  by (auto simp: tuples_spec_def)

lemma filter_tuples_spec:
  "filter (\<lambda>t. campaign t = QUALIFICATION) (tuples_spec runtime index d) =
     (if campaign_of d = QUALIFICATION then tuples_spec runtime index d else [])"
  "filter (\<lambda>t. campaign t \<noteq> QUALIFICATION) (tuples_spec runtime index d) =
     (if campaign_of d = QUALIFICATION then [] else tuples_spec runtime index d)"
  by (auto intro!: filter_True simp: filter_empty_conv dest: tuples_spec_campaign)

definition plannable_list :: "pyval dict \<Rightarrow> pyval list \<Rightarrow> bool" where
  "plannable_list runtime bs \<longleftrightarrow>
     (\<forall>b \<in> set bs. \<exists>d. b = VDict d \<and> (enabled d \<longrightarrow> benchmark_ok d \<and> plannable runtime d))"

lemma plan_loop_spec:
  assumes "plannable_list runtime bs" "dget runtime ''repetitions'' \<noteq> None"
  shows "plan_loop (VDict runtime) index bs q p =
         Inr (q @ filter (\<lambda>t. campaign t = QUALIFICATION) (plan_spec runtime index bs),
              p @ filter (\<lambda>t. campaign t \<noteq> QUALIFICATION) (plan_spec runtime index bs))"
  using assms(1)
proof (induction bs arbitrary: index q p)
  case (Cons b bs)
  from Cons.prems obtain d where d: "b = VDict d" "enabled d \<Longrightarrow> benchmark_ok d \<and> plannable runtime d"
    by (auto simp: plannable_list_def)
  have rest: "plannable_list runtime bs" using Cons.prems by (simp add: plannable_list_def)
  show ?case
  proof (cases "enabled d")
    case True
    obtain r where r: "dget runtime ''repetitions'' = Some r" using assms(2) by auto
    from True d have ok: "benchmark_ok d" "plannable runtime d" by simp_all
    then have "py_int (dget_or d ''repetitions'' r) = Inr (repetitions_of runtime d)"
      using r by (simp add: plannable_def dget_or_def)
    then show ?thesis
      using True r Cons.IH [OF rest] tuples_of_benchmark_spec [OF ok]
      by (simp add: d(1) enabled_def py_index_VDict_Some campaign_of_def [symmetric] filter_tuples_spec)
  next
    case False
    then show ?thesis using Cons.IH [OF rest] by (simp add: d(1) enabled_def)
  qed
qed simp

text \<open>The runs a configuration asks for, one by one.\<close>

definition planned :: "pyval dict \<Rightarrow> pyval list \<Rightarrow> run_tuple \<Rightarrow> bool" where
  "planned runtime bs t \<longleftrightarrow>
     (\<exists>d. benchmark_index t < length bs \<and> bs ! benchmark_index t = VDict d \<and> enabled d \<and>
        benchmark_name t = VStr (benchmark_name_of (VDict d)) \<and> campaign t = campaign_of d \<and>
        1 \<le> repetition t \<and> repetition t \<le> repetitions_of runtime d \<and>
        rate t \<in> set (rates_of d) \<and> burst t \<in> set (bursts_of d) \<and> batch t \<in> set (batches_of d))"

lemma tuples_spec_iff:
  "t \<in> set (tuples_spec runtime index d) \<longleftrightarrow>
     benchmark_index t = index \<and> benchmark_name t = VStr (benchmark_name_of (VDict d)) \<and>
     campaign t = campaign_of d \<and> 1 \<le> repetition t \<and> repetition t \<le> repetitions_of runtime d \<and>
     rate t \<in> set (rates_of d) \<and> burst t \<in> set (bursts_of d) \<and> batch t \<in> set (batches_of d)"
  by (cases t) (simp add: tuples_spec_def image_iff Bex_def, blast)

lemma plan_spec_iff:
  "t \<in> set (plan_spec runtime index bs) \<longleftrightarrow>
     index \<le> benchmark_index t \<and>
     (\<exists>d. benchmark_index t - index < length bs \<and> bs ! (benchmark_index t - index) = VDict d \<and> enabled d \<and>
        t \<in> set (tuples_spec runtime (benchmark_index t) d))"
proof (induction bs arbitrary: index)
  case (Cons b bs)
  have here: "t \<in> set (case b of VDict d \<Rightarrow> if enabled d then tuples_spec runtime index d else [] | _ \<Rightarrow> []) \<longleftrightarrow>
      benchmark_index t = index \<and> (\<exists>d. b = VDict d \<and> enabled d \<and> t \<in> set (tuples_spec runtime index d))"
    by (auto simp: tuples_spec_iff split: pyval.splits if_splits)
  show ?case
    unfolding plan_spec.simps set_append Un_iff here Cons.IH
    by (cases "benchmark_index t = index") (auto simp: nth_Cons' Suc_le_eq tuples_spec_iff)
qed simp

lemma plan_spec_planned: "t \<in> set (plan_spec runtime 0 bs) \<longleftrightarrow> planned runtime bs t"
  by (auto simp: plan_spec_iff planned_def tuples_spec_iff)

lemma length_tuples_spec:
  "length (tuples_spec runtime index d) =
     nat (repetitions_of runtime d) * (length (rates_of d) * (length (bursts_of d) * length (batches_of d)))"
  by (simp add: tuples_spec_def length_concat sum_list_triv comp_def)

lemma length_plan_spec:
  "length (plan_spec runtime index bs) =
     (\<Sum>b \<leftarrow> bs. case b of VDict d \<Rightarrow> (if enabled d then
        nat (repetitions_of runtime d) * (length (rates_of d) * (length (bursts_of d) * length (batches_of d)))
        else 0) | _ \<Rightarrow> 0)"
  by (induction bs arbitrary: index) (auto simp: length_tuples_spec split: pyval.split)

text \<open>What the planner reads of an accepted configuration.\<close>

definition runtime_of :: "pyval \<Rightarrow> pyval dict" where
  "runtime_of c =
     (case py_index c ''global'' of Inr g \<Rightarrow> (case py_index g ''runtime'' of Inr (VDict r) \<Rightarrow> r | _ \<Rightarrow> []) | _ \<Rightarrow> [])"

definition benchmarks_of :: "pyval \<Rightarrow> pyval list" where
  "benchmarks_of c = (case py_index c ''benchmarks'' of Inr v \<Rightarrow> elements v | _ \<Rightarrow> [])"

definition plannable_config :: "pyval \<Rightarrow> bool" where
  "plannable_config c \<longleftrightarrow>
     (\<forall>b \<in> set (benchmarks_of c). \<forall>d. b = VDict d \<longrightarrow> enabled d \<longrightarrow> plannable (runtime_of c) d) \<and>
     (\<exists>seed. py_int (dget_or (runtime_of c) ''shuffle_seed'' (VInt 477)) = Inr seed)"

lemma accepted_parts:
  assumes "accepted_config c"
  obtains d g where "c = VDict d" "dget d ''global'' = Some (VDict g)"
    "dget g ''runtime'' = Some (VDict (runtime_of c))" "runtime_ok (runtime_of c)"
    "dget d ''benchmarks'' = Some (VList (benchmarks_of c))" "benchmarks_of c \<noteq> []"
    "\<forall>b \<in> set (benchmarks_of c). \<exists>bd. b = VDict bd \<and> (enabled bd \<longrightarrow> benchmark_ok bd)"
    "distinct (map benchmark_name_of (filter is_enabled (benchmarks_of c)))"
proof -
  from assms obtain d g r bs where *: "c = VDict d" "dget d ''global'' = Some (VDict g)"
      "dget g ''runtime'' = Some (VDict r)" "runtime_ok r"
      "dget d ''benchmarks'' = Some (VList bs)" "bs \<noteq> []"
      "\<forall>b \<in> set bs. \<exists>bd. b = VDict bd \<and> (enabled bd \<longrightarrow> benchmark_ok bd)"
      "distinct (map benchmark_name_of (filter is_enabled bs))"
    unfolding accepted_config_def by blast
  then have "runtime_of c = r" "benchmarks_of c = bs"
    by (simp_all add: runtime_of_def benchmarks_of_def py_index_VDict_Some)
  with * show ?thesis using that by blast
qed

lemma make_run_tuples_spec:
  assumes "accepted_config c" "plannable_config c"
  shows "\<exists>seed. make_run_tuples draw c =
    Inr (shuffle_list (draw seed) (filter (\<lambda>t. campaign t = QUALIFICATION) (plan_spec (runtime_of c) 0 (benchmarks_of c))),
         shuffle_list (draw seed) (filter (\<lambda>t. campaign t \<noteq> QUALIFICATION) (plan_spec (runtime_of c) 0 (benchmarks_of c))))"
proof -
  from assms(1) obtain d g where c: "c = VDict d" "dget d ''global'' = Some (VDict g)"
    "dget g ''runtime'' = Some (VDict (runtime_of c))" "runtime_ok (runtime_of c)"
    "dget d ''benchmarks'' = Some (VList (benchmarks_of c))"
    "\<forall>b \<in> set (benchmarks_of c). \<exists>bd. b = VDict bd \<and> (enabled bd \<longrightarrow> benchmark_ok bd)"
    by (rule accepted_parts)
  have "plannable_list (runtime_of c) (benchmarks_of c)"
    using c(6) assms(2) unfolding plannable_list_def plannable_config_def by blast
  moreover have "dget (runtime_of c) ''repetitions'' \<noteq> None" using c(4) by (auto simp: runtime_ok_def)
  moreover obtain seed where "py_int (dget_or (runtime_of c) ''shuffle_seed'' (VInt 477)) = Inr seed"
    using assms(2) by (auto simp: plannable_config_def)
  moreover have "py_index c ''global'' = Inr (VDict g)" "py_index c ''benchmarks'' = Inr (VList (benchmarks_of c))"
    using c by (metis py_index_VDict_Some)+
  ultimately show ?thesis
    using c(3) by (intro exI [of _ seed]) (simp add: make_run_tuples_def plan_loop_spec py_index_VDict_Some)
qed

text \<open>
  C10: Planning an accepted configuration loses nothing and adds nothing: with fair draws, a tuple is
  in one of the two shuffled campaigns exactly when the configuration asks for it (an enabled
  benchmark, a repetition up to its count, one of its rates, bursts and batches), the qualification
  list holds exactly the tuples of the sender qualification campaign, and the number of runs is the
  sum over the benchmarks of the product of the four counts.
\<close>

theorem plan_exact:
  assumes "accepted_config c" "plannable_config c" "\<forall>seed. fair (draw seed)"
  shows "\<exists>q p. make_run_tuples draw c = Inr (q, p) \<and>
    (\<forall>t. t \<in> set q \<longleftrightarrow> planned (runtime_of c) (benchmarks_of c) t \<and> campaign t = ''sender_qualification'') \<and>
    (\<forall>t. t \<in> set p \<longleftrightarrow> planned (runtime_of c) (benchmarks_of c) t \<and> campaign t \<noteq> ''sender_qualification'') \<and>
    length q + length p =
      (\<Sum>b \<leftarrow> benchmarks_of c. case b of VDict d \<Rightarrow> (if enabled d then
         nat (repetitions_of (runtime_of c) d) * (length (rates_of d) * (length (bursts_of d) * length (batches_of d)))
         else 0) | _ \<Rightarrow> 0)"
proof -
  let ?plan = "plan_spec (runtime_of c) 0 (benchmarks_of c)"
  obtain seed where "make_run_tuples draw c =
      Inr (shuffle_list (draw seed) (filter (\<lambda>t. campaign t = QUALIFICATION) ?plan),
           shuffle_list (draw seed) (filter (\<lambda>t. campaign t \<noteq> QUALIFICATION) ?plan))"
    using make_run_tuples_spec [OF assms(1,2)] by blast
  moreover have "length (filter (\<lambda>t. campaign t = QUALIFICATION) ?plan) +
      length (filter (\<lambda>t. campaign t \<noteq> QUALIFICATION) ?plan) = length ?plan"
    by (rule sum_length_filter_compl)
  moreover have "fair (draw seed)" using assms(3) by simp
  ultimately show ?thesis
    by (auto simp: plan_spec_planned QUALIFICATION_def length_plan_spec shuffle_list_perm)
qed

section \<open>Run identifiers\<close>

text \<open>\<^verbatim>\<open>f"{repetition:02d}"\<close>\<close>

definition pad2 :: "int \<Rightarrow> string" where
  "pad2 i = (if length (str_int i) < 2 then CHR ''0'' # str_int i else str_int i)"

definition run_id :: "run_tuple \<Rightarrow> string" where
  "run_id t =
     py_str (benchmark_name t) @ ''_r'' @ pad2 (repetition t) @ ''_'' @ py_str (rate t) @ ''pps_burst'' @
     py_str (burst t) @ ''_batch'' @ py_str (batch t)"

definition integer_fields :: "run_tuple \<Rightarrow> bool" where
  "integer_fields t \<longleftrightarrow> is_str (benchmark_name t) \<and> 0 \<le> repetition t \<and>
     is_int (rate t) \<and> is_int (burst t) \<and> is_int (batch t)"

lemma str_int_no_underscore: "CHR ''_'' \<notin> set (str_int i)"
  by (auto simp: str_int_def is_digit_def ord_def dest!: str_nat_digits split: if_splits)

lemma str_int_not_bool [simp]:
  "str_int i \<noteq> ''True''" "str_int i \<noteq> ''False''" "''True'' \<noteq> str_int i" "''False'' \<noteq> str_int i"
proof -
  have "CHR ''e'' \<notin> set (str_int i)"
    by (auto simp: str_int_def is_digit_def ord_def dest!: str_nat_digits split: if_splits)
  moreover have "CHR ''e'' \<in> set ''True''" "CHR ''e'' \<in> set ''False''" by simp_all
  ultimately show "str_int i \<noteq> ''True''" "str_int i \<noteq> ''False''" "''True'' \<noteq> str_int i" "''False'' \<noteq> str_int i"
    by metis+
qed

lemma py_str_int_no_underscore: "is_int v \<Longrightarrow> CHR ''_'' \<notin> set (py_str v)"
  by (auto simp: is_int_iff str_int_no_underscore split: if_splits)

lemma py_str_int_inject: "is_int v \<Longrightarrow> is_int w \<Longrightarrow> py_str v = py_str w \<longleftrightarrow> v = w"
  by (auto simp: is_int_iff str_int_inject split: if_splits)

lemma pad2_no_underscore: "CHR ''_'' \<notin> set (pad2 i)"
  by (simp add: pad2_def str_int_no_underscore)

lemma pad2_digits: "0 \<le> i \<Longrightarrow> digits_acc 0 False (pad2 i) = Some (nat i)"
  using digits_acc_str_nat [of "nat i"]
  by (cases "str_nat (nat i)") (auto simp: pad2_def str_int_def digit_val_def is_digit_def ord_def)

lemma pad2_inject: "0 \<le> i \<Longrightarrow> 0 \<le> j \<Longrightarrow> pad2 i = pad2 j \<Longrightarrow> i = j"
  by (metis pad2_digits option.inject nat_eq_iff2 eq_nat_nat_iff)

lemma run_id_inject:
  assumes "integer_fields t" "integer_fields u" "run_id t = run_id u"
  shows "benchmark_name t = benchmark_name u \<and> repetition t = repetition u \<and> rate t = rate u \<and>
         burst t = burst u \<and> batch t = batch u"
proof -
  note ints = py_str_int_no_underscore py_str_int_inject
  have fields: "is_int (rate t)" "is_int (burst t)" "is_int (batch t)" "is_int (rate u)" "is_int (burst u)"
      "is_int (batch u)" "is_str (benchmark_name t)" "is_str (benchmark_name u)"
      "0 \<le> repetition t" "0 \<le> repetition u"
    using assms by (auto simp: integer_fields_def)
  define a where "a x = py_str (benchmark_name x) @ CHR ''_'' # (CHR ''r'' # pad2 (repetition x))" for x :: run_tuple
  define b where "b x = a x @ CHR ''_'' # (py_str (rate x) @ ''pps'')" for x :: run_tuple
  have split: "run_id x = (b x @ CHR ''_'' # (''burst'' @ py_str (burst x))) @ CHR ''_'' # (''batch'' @ py_str (batch x))"
    for x :: run_tuple by (simp add: run_id_def a_def b_def)
  from assms(3) have "(b t @ CHR ''_'' # (''burst'' @ py_str (burst t))) = (b u @ CHR ''_'' # (''burst'' @ py_str (burst u))) \<and>
      ''batch'' @ py_str (batch t) = ''batch'' @ py_str (batch u)"
    unfolding split by (intro last_separator_eq) (auto simp: ints fields)
  then have 1: "b t @ CHR ''_'' # (''burst'' @ py_str (burst t)) = b u @ CHR ''_'' # (''burst'' @ py_str (burst u))"
    and batch: "batch t = batch u" by (simp_all add: ints fields)
  from 1 have "b t = b u \<and> ''burst'' @ py_str (burst t) = ''burst'' @ py_str (burst u)"
    by (intro last_separator_eq) (auto simp: ints fields)
  then have 2: "b t = b u" and burst: "burst t = burst u" by (simp_all add: ints fields)
  from 2 have "a t = a u \<and> py_str (rate t) @ ''pps'' = py_str (rate u) @ ''pps''"
    unfolding b_def by (intro last_separator_eq) (auto simp: ints fields)
  then have 3: "a t = a u" and rate: "rate t = rate u" by (simp_all add: ints fields)
  from 3 have "py_str (benchmark_name t) = py_str (benchmark_name u) \<and>
      CHR ''r'' # pad2 (repetition t) = CHR ''r'' # pad2 (repetition u)"
    unfolding a_def by (intro last_separator_eq) (auto simp: pad2_no_underscore)
  then show ?thesis
    using batch burst rate fields by (auto dest: pad2_inject elim!: is_strE)
qed

text \<open>A plan without repetition: the listed rates, bursts and batch sizes are distinct integers.\<close>

definition distinct_lists :: "pyval list \<Rightarrow> bool" where
  "distinct_lists bs \<longleftrightarrow>
     (\<forall>b \<in> set bs. \<forall>d. b = VDict d \<longrightarrow> enabled d \<longrightarrow>
        distinct (rates_of d) \<and> distinct (bursts_of d) \<and> distinct (batches_of d) \<and>
        (\<forall>v \<in> set (bursts_of d). is_int v))"

lemma distinct_tuples_spec:
  assumes "distinct (rates_of d)" "distinct (bursts_of d)" "distinct (batches_of d)"
  shows "distinct (tuples_spec runtime index d)"
  unfolding tuples_spec_def
  by (intro distinct_concat_map) (use assms in \<open>auto simp: distinct_map inj_on_def\<close>)

lemma distinct_plan_spec: "distinct_lists bs \<Longrightarrow> distinct (plan_spec runtime index bs)"
proof (induction bs arbitrary: index)
  case (Cons b bs)
  have "t \<notin> set (plan_spec runtime (Suc index) bs)" if "t \<in> set (tuples_spec runtime index d)" for t d
    using that by (auto simp: plan_spec_iff tuples_spec_iff)
  with Cons show ?case
    by (auto simp: distinct_lists_def distinct_tuples_spec split: pyval.splits if_splits)
qed simp

lemma planned_integer_fields:
  assumes "planned runtime bs t" "distinct_lists bs"
    "\<forall>b \<in> set bs. \<exists>bd. b = VDict bd \<and> (enabled bd \<longrightarrow> benchmark_ok bd)"
  shows "integer_fields t"
proof -
  from assms(1) obtain d where d: "bs ! benchmark_index t = VDict d" "benchmark_index t < length bs" "enabled d"
      "benchmark_name t = VStr (benchmark_name_of (VDict d))" "1 \<le> repetition t"
      "rate t \<in> set (rates_of d)" "burst t \<in> set (bursts_of d)" "batch t \<in> set (batches_of d)"
    by (auto simp: planned_def)
  then have mem: "VDict d \<in> set bs" by (metis nth_mem)
  with assms(3) d(3) have ok: "benchmark_ok d" by blast
  show ?thesis
    using d mem assms(2) rates_of_ok [OF benchmark_ok_parts(3) [OF ok]] batches_of_ok [OF benchmark_ok_parts(5) [OF ok]]
    by (auto simp: integer_fields_def distinct_lists_def)
qed

lemma planned_run_id_inject:
  assumes "planned runtime bs t" "planned runtime bs u" "run_id t = run_id u" "distinct_lists bs"
    "\<forall>b \<in> set bs. \<exists>bd. b = VDict bd \<and> (enabled bd \<longrightarrow> benchmark_ok bd)"
    "distinct (map benchmark_name_of (filter is_enabled bs))"
  shows "t = u"
proof -
  have same: "benchmark_name t = benchmark_name u \<and> repetition t = repetition u \<and> rate t = rate u \<and>
      burst t = burst u \<and> batch t = batch u"
    using assms planned_integer_fields by (intro run_id_inject) auto
  from assms(1,2) obtain d e where
    d: "benchmark_index t < length bs" "bs ! benchmark_index t = VDict d" "enabled d" "campaign t = campaign_of d"
       "benchmark_name t = VStr (benchmark_name_of (VDict d))" and
    e: "benchmark_index u < length bs" "bs ! benchmark_index u = VDict e" "enabled e" "campaign u = campaign_of e"
       "benchmark_name u = VStr (benchmark_name_of (VDict e))"
    by (auto simp: planned_def)
  have "benchmark_index t = benchmark_index u"
    using d e same by (intro distinct_map_filter_nth [OF assms(6)]) (auto simp: is_enabled_def)
  with d e have "campaign t = campaign u" by simp
  with same \<open>benchmark_index t = benchmark_index u\<close> show ?thesis by simp
qed

text \<open>
  C31: No two runs of a session share a run identifier, so no run writes over the artifacts of
  another: this holds for every accepted configuration whose rates, bursts and batch sizes are
  listed once each, as integers.
\<close>

theorem run_ids_distinct:
  assumes "accepted_config c" "plannable_config c" "\<forall>seed. fair (draw seed)" "distinct_lists (benchmarks_of c)"
  shows "\<exists>q p. make_run_tuples draw c = Inr (q, p) \<and> distinct (map run_id (q @ p))"
proof -
  let ?plan = "plan_spec (runtime_of c) 0 (benchmarks_of c)"
  from assms(1) obtain ok: "\<forall>b \<in> set (benchmarks_of c). \<exists>bd. b = VDict bd \<and> (enabled bd \<longrightarrow> benchmark_ok bd)"
    "distinct (map benchmark_name_of (filter is_enabled (benchmarks_of c)))"
    by (rule accepted_parts)
  obtain q p where qp: "make_run_tuples draw c = Inr (q, p)"
      "mset q = mset (filter (\<lambda>t. campaign t = QUALIFICATION) ?plan)"
      "mset p = mset (filter (\<lambda>t. campaign t \<noteq> QUALIFICATION) ?plan)"
    using make_run_tuples_spec [OF assms(1,2), of draw] assms(3) mset_shuffle_list by blast
  then have "mset (q @ p) = mset ?plan" by simp
  then have "distinct (q @ p)" "set (q @ p) = set ?plan"
    using distinct_plan_spec [OF assms(4)] by (metis mset_eq_imp_distinct_iff, metis mset_eq_setD)
  moreover have "inj_on run_id (set ?plan)"
    using planned_run_id_inject [OF _ _ _ assms(4) ok]
    by (auto simp: inj_on_def plan_spec_planned)
  ultimately show ?thesis using qp(1) by (metis distinct_map)
qed

lemma plan_spec_repeats:
  "VDict d \<in> set bs \<Longrightarrow> enabled d \<Longrightarrow> distinct (plan_spec runtime index bs) \<Longrightarrow>
   \<exists>i. distinct (tuples_spec runtime i d)"
  by (induction bs arbitrary: index) auto

lemma duplicate_rates_repeat:
  assumes "\<not> distinct (rates_of d)" "1 \<le> repetitions_of runtime d" "bursts_of d \<noteq> []" "batches_of d \<noteq> []"
  shows "\<not> distinct (tuples_spec runtime index d)"
proof
  assume "distinct (tuples_spec runtime index d)"
  then have "distinct (concat (map (\<lambda>r. concat (map (\<lambda>b. map (\<lambda>c.
      \<lparr>benchmark_index = index, benchmark_name = VStr (benchmark_name_of (VDict d)), campaign = campaign_of d,
        repetition = 1, rate = r, burst = b, batch = c\<rparr>) (batches_of d)) (bursts_of d))) (rates_of d)))"
    using assms(2) distinct_concat_mapD [where x = 1 and xs = "[1..repetitions_of runtime d]"]
    unfolding tuples_spec_def by fastforce
  then have "distinct (rates_of d)"
    by (rule distinct_concat_map_nonempty) (use assms(3,4) in \<open>auto simp: neq_Nil_conv\<close>)
  with assms(1) show False by simp
qed

text \<open>
  The checker does not reject a rate listed twice, and then run identifiers do collide: whenever
  an enabled benchmark of an accepted configuration lists a rate twice (and has at least one
  repetition, burst and batch size), two runs of the plan have the same identifier and the later
  one writes over the trace, the statistics and the metadata of the earlier one.
\<close>

theorem duplicate_rates_collide:
  assumes "accepted_config c" "plannable_config c" "\<forall>seed. fair (draw seed)"
    "VDict d \<in> set (benchmarks_of c)" "enabled d" "\<not> distinct (rates_of d)"
    "1 \<le> repetitions_of (runtime_of c) d" "bursts_of d \<noteq> []" "batches_of d \<noteq> []"
  shows "\<exists>q p. make_run_tuples draw c = Inr (q, p) \<and> \<not> distinct (map run_id (q @ p))"
proof -
  let ?plan = "plan_spec (runtime_of c) 0 (benchmarks_of c)"
  obtain q p where qp: "make_run_tuples draw c = Inr (q, p)"
      "mset q = mset (filter (\<lambda>t. campaign t = QUALIFICATION) ?plan)"
      "mset p = mset (filter (\<lambda>t. campaign t \<noteq> QUALIFICATION) ?plan)"
    using make_run_tuples_spec [OF assms(1,2), of draw] assms(3) mset_shuffle_list by blast
  then have "mset (q @ p) = mset ?plan" by simp
  moreover have "\<not> distinct ?plan"
    using plan_spec_repeats [OF assms(4,5), of "runtime_of c" 0] duplicate_rates_repeat [OF assms(6-9), of _] by blast
  ultimately have "\<not> distinct (q @ p)" by (metis mset_eq_imp_distinct_iff)
  with qp(1) show ?thesis by (metis distinct_map)
qed

section \<open>Qualified rates\<close>

definition append_at :: "int \<Rightarrow> 'a \<Rightarrow> (int \<times> 'a list) list \<Rightarrow> (int \<times> 'a list) list" where
  "append_at k v d = AList.update k ((case map_of d k of None \<Rightarrow> [] | Some xs \<Rightarrow> xs) @ [v]) d"

fun group_by_rate :: "(int \<times> pyval list) list \<Rightarrow> pyval list \<Rightarrow> (int \<times> pyval list) list res" where
  "group_by_rate by_rate [] = Inr by_rate"
| "group_by_rate by_rate (m # ms) =
     rbind (py_index m ''run'') (\<lambda>run.
     rbind (py_index run ''campaign'') (\<lambda>c.
     if py_eq c (VStr QUALIFICATION) then
       rbind (py_index run ''requested_rate_pps'') (\<lambda>r.
       rbind (py_int r) (\<lambda>n. group_by_rate (append_at n m by_rate) ms))
     else group_by_rate by_rate ms))"

definition run_passed :: "pyval \<Rightarrow> bool res" where
  "run_passed m =
     rbind (py_get_or m ''qualification'' (VDict [])) (\<lambda>q.
     rbind (py_get_or q ''passed'' (VBool False)) (\<lambda>v. Inr (truthy v)))"

definition qualification_rates :: "pyval list \<Rightarrow> int list res" where
  "qualification_rates run_metadata =
     rbind (group_by_rate [] run_metadata) (\<lambda>by_rate.
     rconcat (\<lambda>(r, runs). rbind (if runs = [] then Inr False else rall run_passed runs) (\<lambda>ok.
       Inr (if ok then [r] else []))) (sort_key fst by_rate))"

definition py_nth :: "pyval \<Rightarrow> nat \<Rightarrow> pyval res" where
  "py_nth v i =
     (case v of VList xs \<Rightarrow> if i < length xs then Inr (xs ! i) else Inl (Exn IndexError ''list index out of range'')
      | _ \<Rightarrow> Inl (Exn TypeError (repr_str (type_name v) @ '' is not indexable'')))"

definition freeze_comparative :: "pyval \<Rightarrow> int list option \<Rightarrow> run_tuple list \<Rightarrow> run_tuple list res" where
  "freeze_comparative config eligible comparative =
     (case eligible of
        None \<Rightarrow> Inr comparative
      | Some rates \<Rightarrow>
          rfilter (\<lambda>item.
            rbind (py_index config ''benchmarks'') (\<lambda>bs.
            rbind (py_nth bs (benchmark_index item)) (\<lambda>benchmark.
            rbind (py_get_or benchmark ''uses_qualified_rates'' (VBool False)) (\<lambda>uses.
            Inr (\<not> truthy uses \<or> (\<exists>r \<in> set rates. py_eq (rate item) (VInt r))))))) comparative)"

text \<open>The declarative reading of one run's metadata.\<close>

definition qualification_run :: "pyval \<Rightarrow> int \<Rightarrow> bool" where
  "qualification_run m n \<longleftrightarrow>
     (\<exists>d run v. m = VDict d \<and> dget d ''run'' = Some (VDict run) \<and>
        dget run ''campaign'' = Some (VStr QUALIFICATION) \<and>
        dget run ''requested_rate_pps'' = Some v \<and> py_int v = Inr n)"

lemma qualification_run_unique: "qualification_run m n \<Longrightarrow> qualification_run m k \<Longrightarrow> n = k"
  by (auto simp: qualification_run_def)

lemma map_of_append_at:
  "map_of (append_at k v d) j =
     (if j = k then Some ((case map_of d k of None \<Rightarrow> [] | Some xs \<Rightarrow> xs) @ [v]) else map_of d j)"
  by (simp add: append_at_def update_conv)

lemma append_at_nonempty:
  assumes "\<forall>(r, runs) \<in> set d. runs \<noteq> []"
  shows "\<forall>(r, runs) \<in> set (append_at n m d). runs \<noteq> []"
proof -
  have "set (AList.update k v d) \<subseteq> insert (k, v) (set d)" for k :: int and v :: "'a list"
    by (induction d) auto
  then show ?thesis using assms unfolding append_at_def by fastforce
qed

lemma group_by_rate_spec:
  assumes "group_by_rate d ms = Inr d'" "distinct (map fst d)" "\<forall>(r, runs) \<in> set d. runs \<noteq> []"
  shows "distinct (map fst d') \<and> (\<forall>(r, runs) \<in> set d'. runs \<noteq> []) \<and>
    (\<forall>n. map_of d' n =
       (case (case map_of d n of None \<Rightarrow> [] | Some xs \<Rightarrow> xs) @ filter (\<lambda>m. qualification_run m n) ms of
          [] \<Rightarrow> None | xs \<Rightarrow> Some xs))"
  using assms
proof (induction ms arbitrary: d)
  case Nil
  have "map_of d n \<noteq> Some []" for n using Nil by (auto dest: map_of_SomeD)
  with Nil show ?case by (auto split: option.split list.split)
next
  case (Cons m ms)
  from Cons.prems(1) obtain md run c where m: "m = VDict md" "dget md ''run'' = Some (VDict run)" "dget run ''campaign'' = Some c"
    by (auto simp: res_simps py_index_Inr_iff)
  show ?case
  proof (cases "c = VStr QUALIFICATION")
    case True
    with Cons.prems(1) m obtain v n where v: "dget run ''requested_rate_pps'' = Some v" "py_int v = Inr n"
        and rest: "group_by_rate (append_at n m d) ms = Inr d'"
      by (auto simp: res_simps py_eq_VStr_iff)
    have q: "qualification_run m k \<longleftrightarrow> k = n" for k
      using m v True by (auto simp: qualification_run_def)
    have "distinct (map fst (append_at n m d))"
      using Cons.prems(2) by (simp add: append_at_def distinct_update)
    from Cons.IH [OF rest this append_at_nonempty [OF Cons.prems(3)]] show ?thesis
      by (auto simp: map_of_append_at q)
  next
    case False
    with Cons.prems(1) m have rest: "group_by_rate d ms = Inr d'" by (auto simp: res_simps py_eq_VStr_iff)
    moreover have "\<not> qualification_run m k" for k using m False by (auto simp: qualification_run_def)
    ultimately show ?thesis using Cons.IH [OF rest Cons.prems(2,3)] by simp
  qed
qed

definition run_has_passed :: "pyval \<Rightarrow> bool" where
  "run_has_passed m \<longleftrightarrow> run_passed m = Inr True"

lemma group_members:
  assumes "group_by_rate [] ms = Inr d"
  shows "distinct (map fst d)"
    and "(n, runs) \<in> set d \<longleftrightarrow> runs \<noteq> [] \<and> runs = filter (\<lambda>m. qualification_run m n) ms"
proof -
  from group_by_rate_spec [OF assms] show dd: "distinct (map fst d)" by simp
  have "map_of d n = (case filter (\<lambda>m. qualification_run m n) ms of [] \<Rightarrow> None | xs \<Rightarrow> Some xs)"
    using group_by_rate_spec [OF assms] by simp
  moreover have "(n, runs) \<in> set d \<longleftrightarrow> map_of d n = Some runs" using dd by simp
  ultimately show "(n, runs) \<in> set d \<longleftrightarrow> runs \<noteq> [] \<and> runs = filter (\<lambda>m. qualification_run m n) ms"
    by (cases "filter (\<lambda>m. qualification_run m n) ms") auto
qed

lemma rconcat_guard:
  assumes "rconcat (\<lambda>(r, runs). rbind (f r runs) (\<lambda>ok. Inr (if ok then [r] else []))) d = Inr rs"
  shows "rs = map fst (filter (\<lambda>(r, runs). f r runs = Inr True) d)"
  using assms by (induction d arbitrary: rs) (auto simp: res_simps split: if_splits)

lemma qualification_rates_spec:
  assumes "qualification_rates ms = Inr rs"
  shows "sorted rs \<and> distinct rs \<and>
    (\<forall>r. r \<in> set rs \<longleftrightarrow>
       (\<exists>m \<in> set ms. qualification_run m r) \<and> (\<forall>m \<in> set ms. qualification_run m r \<longrightarrow> run_has_passed m))"
proof -
  from assms obtain d where d: "group_by_rate [] ms = Inr d"
      and rs: "rs = map fst (filter (\<lambda>(r, runs). (if runs = [] then Inr False else rall run_passed runs) = Inr True)
                 (sort_key fst d))"
    unfolding qualification_rates_def by (auto simp: res_simps dest!: rconcat_guard)
  let ?p = "\<lambda>(r, runs). (if runs = [] then Inr False else rall run_passed runs) = Inr True"
  note members = group_members [OF d]
  have "sorted (map fst (filter ?p (sort_key fst d)))" by (simp add: sorted_filter)
  moreover have "distinct (map fst (sort_key fst d))"
    using members(1) by (metis mset_map mset_sort mset_eq_imp_distinct_iff)
  then have "distinct (map fst (filter ?p (sort_key fst d)))" by (rule distinct_map_filter)
  moreover have "r \<in> set rs \<longleftrightarrow> (\<exists>runs. (r, runs) \<in> set d \<and> runs \<noteq> [] \<and> (\<forall>m \<in> set runs. run_has_passed m))" for r
    unfolding rs by (force simp: rall_True_iff run_has_passed_def image_iff)
  then have "r \<in> set rs \<longleftrightarrow>
       (\<exists>m \<in> set ms. qualification_run m r) \<and> (\<forall>m \<in> set ms. qualification_run m r \<longrightarrow> run_has_passed m)" for r
    unfolding members(2) by (auto simp: filter_empty_conv)
  ultimately show ?thesis unfolding rs by blast
qed

text \<open>
  C32: The rates frozen after qualification are listed once each, in increasing order, and a rate is
  among them exactly when some run of the qualification campaign requested it and every such run
  passed; one failed repetition removes the rate.
\<close>

theorem qualification_rates_exact:
  assumes "qualification_rates ms = Inr rs"
  shows "sorted rs \<and> distinct rs \<and>
    (\<forall>r. r \<in> set rs \<longleftrightarrow>
       (\<exists>m \<in> set ms. qualification_run m r) \<and> (\<forall>m \<in> set ms. qualification_run m r \<longrightarrow> run_has_passed m))"
  using assms by (rule qualification_rates_spec)

definition uses_qualified :: "pyval \<Rightarrow> run_tuple \<Rightarrow> bool" where
  "uses_qualified c t \<longleftrightarrow>
     (case benchmarks_of c ! benchmark_index t of
        VDict d \<Rightarrow> truthy (dget_or d ''uses_qualified_rates'' (VBool False)) | _ \<Rightarrow> False)"

text \<open>
  C33: The frozen comparison list keeps the shuffled order and drops exactly the runs of the
  benchmarks marked \<^verbatim>\<open>uses_qualified_rates\<close> whose rate was not qualified: every such run that is
  kept has at least one qualification run at its rate, and all of those passed.
\<close>

theorem frozen_comparison_exact:
  assumes "accepted_config c" "\<forall>t \<in> set p. planned (runtime_of c) (benchmarks_of c) t"
    "qualification_rates ms = Inr rs"
  shows "freeze_comparative c (Some rs) p =
    Inr (filter (\<lambda>t. uses_qualified c t \<longrightarrow>
      (\<exists>m \<in> set ms. qualification_run m (as_int (rate t))) \<and>
      (\<forall>m \<in> set ms. qualification_run m (as_int (rate t)) \<longrightarrow> run_has_passed m)) p)"
proof -
  from assms(1) obtain d g where c: "c = VDict d" "dget d ''benchmarks'' = Some (VList (benchmarks_of c))"
      and ok: "\<forall>b \<in> set (benchmarks_of c). \<exists>bd. b = VDict bd \<and> (enabled bd \<longrightarrow> benchmark_ok bd)"
    by (rule accepted_parts)
  have bs: "py_index c ''benchmarks'' = Inr (VList (benchmarks_of c))" using c by (metis py_index_VDict_Some)
  show ?thesis
    unfolding freeze_comparative_def option.case
  proof (rule rfilter_pure)
    fix t assume "t \<in> set p"
    with assms(2) obtain e where e: "benchmark_index t < length (benchmarks_of c)"
        "benchmarks_of c ! benchmark_index t = VDict e" "enabled e" "rate t \<in> set (rates_of e)"
      by (auto simp: planned_def)
    from e(1) have "benchmarks_of c ! benchmark_index t \<in> set (benchmarks_of c)" by (rule nth_mem)
    with ok e(2,3) have "benchmark_ok e" by auto
    then have "is_int (rate t)" using e(4) rates_of_ok [OF benchmark_ok_parts(3)] by blast
    then have "(\<exists>r \<in> set rs. py_eq (rate t) (VInt r)) \<longleftrightarrow> as_int (rate t) \<in> set rs" by (auto simp: py_eq_int)
    also have "\<dots> \<longleftrightarrow> (\<exists>m \<in> set ms. qualification_run m (as_int (rate t))) \<and>
        (\<forall>m \<in> set ms. qualification_run m (as_int (rate t)) \<longrightarrow> run_has_passed m)"
      using qualification_rates_spec [OF assms(3)] by blast
    finally have mem: "(\<exists>r \<in> set rs. py_eq (rate t) (VInt r)) \<longleftrightarrow>
        (\<exists>m \<in> set ms. qualification_run m (as_int (rate t))) \<and>
        (\<forall>m \<in> set ms. qualification_run m (as_int (rate t)) \<longrightarrow> run_has_passed m)" .
    then show "rbind (py_index c ''benchmarks'') (\<lambda>bs. rbind (py_nth bs (benchmark_index t)) (\<lambda>benchmark.
        rbind (py_get_or benchmark ''uses_qualified_rates'' (VBool False)) (\<lambda>uses.
        Inr (\<not> truthy uses \<or> (\<exists>r \<in> set rs. py_eq (rate t) (VInt r)))))) =
      Inr (uses_qualified c t \<longrightarrow>
      (\<exists>m \<in> set ms. qualification_run m (as_int (rate t))) \<and>
      (\<forall>m \<in> set ms. qualification_run m (as_int (rate t)) \<longrightarrow> run_has_passed m))"
      using e(1,2) unfolding bs by (simp add: py_nth_def uses_qualified_def mem)
  qed
qed

section \<open>The example configuration\<close>

lemma fair_mod: "fair (\<lambda>k n. k mod n)"
  by (simp add: fair_def)

lemma example_runtime_of: "runtime_of (example_config rates) = example_runtime"
  by (simp add: runtime_of_def example_config_def py_index_VDict_Some example_global_def)

lemma example_benchmarks_of:
  "benchmarks_of (example_config rates) = [VDict (example_benchmark rates ''qualify'' ''sender_qualification''),
     VDict (example_benchmark rates ''compare'' ''comparison'')]"
  by (simp add: benchmarks_of_def example_config_def py_index_VDict_Some)

lemma example_lists:
  "rates_of (example_benchmark rates n c) = rates" "bursts_of (example_benchmark rates n c) = [VInt 1]"
  "batches_of (example_benchmark rates n c) = [VInt 1, VInt 32]" "enabled (example_benchmark rates n c)"
  "repetitions_of example_runtime (example_benchmark rates n c) = 2" "campaign_of (example_benchmark rates n c) = c"
  "benchmark_name_of (VDict (example_benchmark rates n c)) = n"
  by (simp_all add: rates_of_def bursts_of_def batches_of_def sender_of_def receiver_of_def example_benchmark_def
      example_sender_def example_receiver_def dget_or_def repetitions_of_def example_runtime_def enabled_def
      campaign_of_def benchmark_name_of_def)

lemma example_plannable: "plannable_config (example_config rates)"
proof -
  have "plannable example_runtime (example_benchmark rates n c)" for n c
    by (simp add: plannable_def example_lists)
       (simp add: sender_of_def example_benchmark_def example_sender_def dget_or_def example_runtime_def)
  then show ?thesis
    by (simp add: plannable_config_def example_runtime_of example_benchmarks_of)
       (simp add: example_runtime_def dget_or_def)
qed

lemma plan_exact_witness:
  "\<exists>q p. make_run_tuples (\<lambda>seed k n. k mod n) (example_config [VInt 1000]) = Inr (q, p) \<and> length q + length p = 8 \<and>
     \<lparr>benchmark_index = 1, benchmark_name = VStr ''compare'', campaign = ''comparison'', repetition = 2,
      rate = VInt 1000, burst = VInt 1, batch = VInt 32\<rparr> \<in> set p"
proof -
  have "planned (runtime_of (example_config [VInt 1000])) (benchmarks_of (example_config [VInt 1000]))
     \<lparr>benchmark_index = 1, benchmark_name = VStr ''compare'', campaign = ''comparison'', repetition = 2,
      rate = VInt 1000, burst = VInt 1, batch = VInt 32\<rparr>"
    by (simp add: planned_def example_runtime_of example_benchmarks_of example_lists)
  then show ?thesis
    using plan_exact [OF example_accepted [OF example_rates(1)] example_plannable, of "\<lambda>seed k n. k mod n"] fair_mod
    by (auto simp: example_runtime_of example_benchmarks_of example_lists)
qed

lemma run_ids_distinct_witness:
  "\<exists>q p. make_run_tuples (\<lambda>seed k n. k mod n) (example_config [VInt 1000]) = Inr (q, p) \<and> distinct (map run_id (q @ p))"
  using fair_mod
  by (intro run_ids_distinct example_accepted example_plannable example_rates)
     (simp_all add: distinct_lists_def example_benchmarks_of example_lists)

definition example_run :: "bool \<Rightarrow> int \<Rightarrow> pyval" where
  "example_run passed r = VDict [(''run'', VDict [(''campaign'', VStr ''sender_qualification''),
     (''requested_rate_pps'', VInt r)]), (''qualification'', VDict [(''passed'', VBool passed)])]"

lemma example_qualification:
  "qualification_rates [example_run True 2000, example_run True 1000, example_run False 2000] = Inr [1000]"
  by (simp add: qualification_rates_def example_run_def QUALIFICATION_def py_index_VDict_Some append_at_def
      run_passed_def dget_or_def sort_key_def insort_key_def)

lemma qualification_rates_exact_witness:
  "qualification_rates [example_run True 2000, example_run True 1000, example_run False 2000] = Inr [1000] \<and>
   run_has_passed (example_run True 1000)"
proof -
  have "qualification_run (example_run True 1000) 1000"
    by (simp add: qualification_run_def example_run_def QUALIFICATION_def)
  moreover have "1000 \<in> set [1000 :: int]" by simp
  ultimately have "run_has_passed (example_run True 1000)"
    using qualification_rates_exact [OF example_qualification] by (metis list.set_intros(1) list.set_intros(2))
  with example_qualification show ?thesis by blast
qed

lemma frozen_comparison_exact_witness:
  "freeze_comparative (example_config [VInt 1000]) (Some [1000])
     [\<lparr>benchmark_index = 1, benchmark_name = VStr ''compare'', campaign = ''comparison'', repetition = 2,
       rate = VInt 1000, burst = VInt 1, batch = VInt 32\<rparr>] =
   Inr [\<lparr>benchmark_index = 1, benchmark_name = VStr ''compare'', campaign = ''comparison'', repetition = 2,
       rate = VInt 1000, burst = VInt 1, batch = VInt 32\<rparr>]"
proof -
  let ?t = "\<lparr>benchmark_index = 1, benchmark_name = VStr ''compare'', campaign = ''comparison'', repetition = 2,
       rate = VInt 1000, burst = VInt 1, batch = VInt 32\<rparr>"
  have "\<forall>t \<in> set [?t]. planned (runtime_of (example_config [VInt 1000])) (benchmarks_of (example_config [VInt 1000])) t"
    by (simp add: planned_def example_runtime_of example_benchmarks_of example_lists)
  moreover have "\<not> uses_qualified (example_config [VInt 1000]) ?t"
    by (simp add: uses_qualified_def example_benchmarks_of example_benchmark_def dget_or_def)
  ultimately show ?thesis
    using frozen_comparison_exact [OF example_accepted [OF example_rates(1)] _ example_qualification, of "[?t]"] by simp
qed

lemma duplicate_rates_collide_witness:
  "\<exists>q p. make_run_tuples (\<lambda>seed k n. k mod n) (example_config [VInt 1000, VInt 1000]) = Inr (q, p) \<and>
     \<not> distinct (map run_id (q @ p))"
  using fair_mod
  by (intro duplicate_rates_collide [where d = "example_benchmark [VInt 1000, VInt 1000] ''compare'' ''comparison''"]
        example_accepted example_plannable example_rates)
     (simp_all add: example_benchmarks_of example_lists example_runtime_of)

end
