(* ===== verification/Numerics.thy ===== *)
theory Numerics
  imports Values
begin

text \<open>
  Arithmetic on the numbers of a document: the binary64 operations (each the exact result rounded
  once, a zero has no sign), division that raises on a zero divisor, the true division of integers,
  \<^verbatim>\<open>math.ceil\<close> and \<^verbatim>\<open>math.floor\<close>, and the accessors \<^verbatim>\<open>int(d[k])\<close>, \<^verbatim>\<open>int(d.get(k, n))\<close>,
  \<^verbatim>\<open>float(d[k])\<close>, \<^verbatim>\<open>d.items()\<close>, \<^verbatim>\<open>len(v)\<close> the checks of the harness are written with.
\<close>

section \<open>Float arithmetic\<close>

fun flt_add :: "flt \<Rightarrow> flt \<Rightarrow> flt" where
  "flt_add (Fin x) (Fin y) = to_flt (x + y)"
| "flt_add NaN b = NaN"
| "flt_add a NaN = NaN"
| "flt_add PInf NInf = NaN"
| "flt_add NInf PInf = NaN"
| "flt_add PInf b = PInf"
| "flt_add NInf b = NInf"
| "flt_add a PInf = PInf"
| "flt_add a NInf = NInf"

definition flt_sub :: "flt \<Rightarrow> flt \<Rightarrow> flt" where
  "flt_sub a b = flt_add a (negate_flt b)"

definition signed_inf :: "bool \<Rightarrow> flt" where
  "signed_inf negative = (if negative then NInf else PInf)"

definition flt_negative :: "flt \<Rightarrow> bool" where
  "flt_negative a = flt_lt a (Fin 0)"

definition flt_mul :: "flt \<Rightarrow> flt \<Rightarrow> flt" where
  "flt_mul a b =
     (case (a, b) of
        (Fin x, Fin y) \<Rightarrow> to_flt (x * y)
      | _ \<Rightarrow> if a = NaN \<or> b = NaN \<or> a = Fin 0 \<or> b = Fin 0 then NaN
             else signed_inf (flt_negative a \<noteq> flt_negative b))"

definition flt_div :: "flt \<Rightarrow> flt \<Rightarrow> flt res" where
  "flt_div a b =
     (if b = Fin 0 then Inl (Exn ZeroDivisionError ''float division by zero'')
      else Inr (case (a, b) of
        (Fin x, Fin y) \<Rightarrow> to_flt (x / y)
      | (NaN, _) \<Rightarrow> NaN
      | (_, NaN) \<Rightarrow> NaN
      | (Fin x, _) \<Rightarrow> Fin 0
      | (_, Fin y) \<Rightarrow> signed_inf (flt_negative a \<noteq> flt_negative b)
      | _ \<Rightarrow> NaN))"

text \<open>\<^verbatim>\<open>a / b\<close> on two integers: the exact quotient, rounded once.\<close>

definition int_div_flt :: "int \<Rightarrow> int \<Rightarrow> flt res" where
  "int_div_flt a b =
     (if b = 0 then Inl (Exn ZeroDivisionError ''division by zero'')
      else (case to_flt (of_int a / of_int b) of
        Fin x \<Rightarrow> Inr (Fin x)
      | _ \<Rightarrow> Inl (Exn OverflowError ''integer division result too large for a float'')))"

text \<open>A decimal literal of the source, given as a fraction.\<close>

definition lit :: "int \<Rightarrow> int \<Rightarrow> flt" where
  "lit n d = Fin (fl (of_int n / of_int d))"

text \<open>An integer operand of a float operation is converted first.\<close>

definition int_mul_flt :: "int \<Rightarrow> flt \<Rightarrow> flt res" where
  "int_mul_flt n x = rbind (flt_of_int n) (\<lambda>m. Inr (flt_mul m x))"

definition py_ceil :: "flt \<Rightarrow> int res" where
  "py_ceil a = (case a of
     Fin x \<Rightarrow> Inr \<lceil>x\<rceil>
   | NaN \<Rightarrow> Inl (Exn ValueError ''cannot convert float NaN to integer'')
   | _ \<Rightarrow> Inl (Exn OverflowError ''cannot convert float infinity to integer''))"

definition py_floor :: "flt \<Rightarrow> int res" where
  "py_floor a = (case a of
     Fin x \<Rightarrow> Inr \<lfloor>x\<rfloor>
   | NaN \<Rightarrow> Inl (Exn ValueError ''cannot convert float NaN to integer'')
   | _ \<Rightarrow> Inl (Exn OverflowError ''cannot convert float infinity to integer''))"

text \<open>Comparing an integer with a float is exact.\<close>

abbreviation int_flt :: "int \<Rightarrow> flt" where
  "int_flt n \<equiv> Fin (of_int n)"

lemma to_flt_finite:
  assumes "\<bar>x\<bar> \<le> pow2 200"
  shows "to_flt x = Fin (fl x)"
proof -
  have "ilog2 (pow2 200) = 200" by (rule ilog2_unique) (simp_all add: pow2_less_iff)
  then have "exponent_of (pow2 200) = 148" by (simp add: exponent_of_def)
  then have "pow2 200 * pow2 (- exponent_of (pow2 200)) = of_int (2 ^ 52)"
    by (simp only: pow2_add [symmetric]) (simp add: pow2_of_int)
  then have top: "fl (pow2 200) = pow2 200" by (rule fl_exact)
  have "fl x \<le> pow2 200" "- pow2 200 \<le> fl x"
    using fl_mono [of x "pow2 200"] fl_mono [of "- pow2 200" x] assms by (simp_all add: fl_minus top)
  moreover have "pow2 200 < pow2 1024" by (simp add: pow2_less_iff)
  ultimately show ?thesis by (auto simp: to_flt_def Let_def)
qed

lemma to_flt_small:
  assumes "\<bar>x\<bar> \<le> of_int n" "n \<le> 2 ^ 200"
  shows "to_flt x = Fin (fl x)"
proof (rule to_flt_finite)
  have "(of_int n :: rat) \<le> of_int (2 ^ 200)" using assms(2) by (simp only: of_int_le_iff)
  with assms(1) show "\<bar>x\<bar> \<le> pow2 200" by (simp add: pow2_of_int)
qed

text \<open>One rounding moves a number that is not tiny by at most one part in two to the power 53.\<close>

lemma exponent_of_normal:
  assumes "pow2 (- 200) \<le> x"
  shows "exponent_of x = ilog2 x - 52"
proof -
  have pos: "0 < x" using assms pow2_pos [of "- 200"] by (rule less_le_trans [rotated])
  note assms
  also have "x < pow2 (ilog2 x + 1)" using pos by (rule ilog2_bounds)
  finally have "- 200 < ilog2 x + 1" by (simp add: pow2_less_iff)
  with pos show ?thesis by (simp add: exponent_of_def)
qed

lemma fl_relative_tiny:
  assumes "pow2 (- 200) \<le> x"
  shows "x * (2 ^ 53 - 1) \<le> fl x * 2 ^ 53" "fl x * 2 ^ 53 \<le> x * (2 ^ 53 + 1)"
proof -
  have "0 < x" using assms pow2_pos [of "- 200"] by (rule less_le_trans [rotated])
  then have "\<bar>fl x - x\<bar> * 2 ^ 53 \<le> x" using assms by (intro fl_error exponent_of_normal)
  then show "x * (2 ^ 53 - 1) \<le> fl x * 2 ^ 53" "fl x * 2 ^ 53 \<le> x * (2 ^ 53 + 1)"
    by (auto simp: abs_if algebra_simps split: if_splits)
qed

lemma tiny_le: "1 / 2 ^ 100 \<le> x \<Longrightarrow> pow2 (- 200) \<le> x"
  by (rule order_trans [of _ "1 / 2 ^ 100"]) (simp_all add: pow2_def)

lemma fl_relative:
  assumes "1 / 1000000 \<le> x"
  shows "x * (2 ^ 53 - 1) \<le> fl x * 2 ^ 53" "fl x * 2 ^ 53 \<le> x * (2 ^ 53 + 1)"
proof -
  have "1 / 2 ^ 100 \<le> (1 / 1000000 :: rat)" by simp
  also note assms
  finally have "pow2 (- 200) \<le> x" by (rule tiny_le)
  then show "x * (2 ^ 53 - 1) \<le> fl x * 2 ^ 53" "fl x * 2 ^ 53 \<le> x * (2 ^ 53 + 1)"
    by (rule fl_relative_tiny)+
qed

lemma fl_millionth:
  assumes "1 / 2 ^ 100 \<le> x"
  shows "999999 * x \<le> 1000000 * fl x" "1000000 * fl x \<le> 1000001 * x"
proof -
  note rel = fl_relative_tiny [OF tiny_le [OF assms]]
  have x: "0 \<le> x" using assms by (rule order_trans [rotated]) simp
  have "999999 * x * 2 ^ 53 \<le> 1000000 * (x * (2 ^ 53 - 1))" using x by simp
  also have "\<dots> \<le> 1000000 * (fl x * 2 ^ 53)" using rel(1) by (intro mult_left_mono) simp_all
  finally show "999999 * x \<le> 1000000 * fl x" by simp
  have "1000000 * (fl x * 2 ^ 53) \<le> 1000000 * (x * (2 ^ 53 + 1))" using rel(2) by (intro mult_left_mono) simp_all
  also have "\<dots> \<le> 1000001 * x * 2 ^ 53" using x by simp
  finally show "1000000 * fl x \<le> 1000001 * x" by simp
qed

lemma rat_of_bounds: "1 \<le> n \<Longrightarrow> n \<le> 2 ^ 53 \<Longrightarrow> (1 :: rat) \<le> of_int n \<and> of_int n \<le> (2 ^ 53 :: rat)"
proof -
  assume "1 \<le> n" "n \<le> 2 ^ 53"
  then have "(of_int 1 :: rat) \<le> of_int n" "of_int n \<le> (of_int (2 ^ 53) :: rat)" by (simp_all only: of_int_le_iff)
  then show ?thesis by simp
qed

lemma int_mul_lit:
  assumes r: "1 \<le> rate" "rate \<le> 2 ^ 53" and p: "1 \<le> p" "p \<le> 200"
  shows "\<exists>m. int_mul_flt rate (lit p 100) = Inr (Fin m) \<and>
    999998 * (of_int rate * of_int p) \<le> 100000000 * m \<and> 100000000 * m \<le> 1000003 * (of_int rate * of_int p)"
proof -
  define R P q where "R = (of_int rate :: rat)" and "P = (of_int p :: rat)" and "q = fl (P / 100)"
  have "of_int 1 \<le> (of_int rate :: rat)" "of_int rate \<le> (of_int (2 ^ 53) :: rat)"
    "of_int 1 \<le> (of_int p :: rat)" "of_int p \<le> (of_int 200 :: rat)"
    using r p by (simp_all only: of_int_le_iff)
  then have R: "1 \<le> R" "R \<le> 2 ^ 53" and P: "1 \<le> P" "P \<le> 200" by (simp_all add: R_def P_def)
  define X where "X = R * q"
  define RP where "RP = R * P"
  have q: "999999 * P \<le> 100000000 * q" "100000000 * q \<le> 1000001 * P"
    using fl_millionth [of "P / 100"] P by (simp_all add: q_def)
  have "R * (999999 * P) \<le> R * (100000000 * q)" "R * (100000000 * q) \<le> R * (1000001 * P)"
    using q R by (intro mult_left_mono; simp)+
  then have X: "999999 * RP \<le> 100000000 * X" "100000000 * X \<le> 1000001 * RP"
    by (simp_all only: X_def RP_def mult_ac)
  have RP: "1 \<le> RP" "RP \<le> 2 ^ 53 * 200"
    using mult_mono [of 1 R 1 P] mult_mono [of R "2 ^ 53" P 200] R P by (simp_all add: RP_def)
  have m: "999999 * X \<le> 1000000 * fl X" "1000000 * fl X \<le> 1000001 * X"
    by (rule fl_millionth; use X RP in simp)+
  have "to_flt X = Fin (fl X)" by (rule to_flt_small [where n = "2 ^ 62"]) (use X RP in simp_all)
  moreover have "flt_of_int rate = Inr (Fin R)" using r by (simp add: flt_of_int_small R_def)
  ultimately have "int_mul_flt rate (lit p 100) = Inr (Fin (fl X))"
    by (simp add: int_mul_flt_def flt_mul_def lit_def X_def q_def P_def)
  moreover have "999998 * RP \<le> 100000000 * fl X" "100000000 * fl X \<le> 1000003 * RP"
    using m X RP by simp_all
  ultimately show ?thesis unfolding RP_def R_def P_def by auto
qed

section \<open>Reading numbers from a document\<close>

definition int_at :: "pyval \<Rightarrow> string \<Rightarrow> int res" where
  "int_at d k = rbind (py_index d k) py_int"

definition float_at :: "pyval \<Rightarrow> string \<Rightarrow> flt res" where
  "float_at d k = rbind (py_index d k) py_float"

definition int_or :: "pyval \<Rightarrow> string \<Rightarrow> int \<Rightarrow> int res" where
  "int_or d k n = rbind (py_get_or d k (VInt n)) py_int"

text \<open>\<^verbatim>\<open>d.get(k)\<close> as a value, \<^verbatim>\<open>None\<close> when absent, and \<^verbatim>\<open>d.get(k, {})\<close>.\<close>

abbreviation py_get_none :: "pyval \<Rightarrow> string \<Rightarrow> pyval res" where
  "py_get_none d k \<equiv> py_get_or d k VNone"

abbreviation py_get_dict :: "pyval \<Rightarrow> string \<Rightarrow> pyval res" where
  "py_get_dict d k \<equiv> py_get_or d k (VDict [])"

text \<open>\<^verbatim>\<open>v or {}\<close>.\<close>

definition or_empty :: "pyval \<Rightarrow> pyval" where
  "or_empty v = (if truthy v then v else VDict [])"

fun py_items :: "pyval \<Rightarrow> (string \<times> pyval) list res" where
  "py_items (VDict d) = Inr d"
| "py_items v = Inl (no_attribute v ''items'')"

fun py_values :: "pyval \<Rightarrow> pyval list res" where
  "py_values (VDict d) = Inr (map snd d)"
| "py_values v = Inl (no_attribute v ''values'')"

fun py_len :: "pyval \<Rightarrow> int res" where
  "py_len (VList xs) = Inr (int (length xs))"
| "py_len (VStr s) = Inr (int (length s))"
| "py_len (VDict d) = Inr (int (length d))"
| "py_len v = Inl (Exn TypeError (''object of type '' @ repr_str (type_name v) @ '' has no len()''))"

lemma raises_int_at [raises]:
  "{ValueError, TypeError, OverflowError} \<subseteq> K \<Longrightarrow> (\<And>d. v = VDict d \<Longrightarrow> dget d k \<noteq> None) \<Longrightarrow> raises_only K (int_at v k)"
  unfolding int_at_def by (intro raises) auto

lemma raises_int_or [raises]:
  "{ValueError, TypeError, OverflowError, AttributeError} \<subseteq> K \<Longrightarrow> raises_only K (int_or v k n)"
  unfolding int_or_def by (intro raises) auto

lemma int_at_VDict: "dget d k = Some v \<Longrightarrow> int_at (VDict d) k = py_int v"
  by (simp add: int_at_def py_index_VDict_Some)

lemma int_or_VDict: "int_or (VDict d) k n = py_int (dget_or d k (VInt n))"
  by (simp add: int_or_def)

section \<open>Reasons\<close>

text \<open>A list of findings is built check by check; a check that fires adds its text.\<close>

definition because :: "bool \<Rightarrow> string \<Rightarrow> string list" where
  "because b r = (if b then [r] else [])"

lemma because_Nil_iff [simp]: "because b r = [] \<longleftrightarrow> \<not> b"
  by (simp add: because_def)

lemma set_because [simp]: "set (because b r) = (if b then {r} else {})"
  by (simp add: because_def)

definition in_order :: "string list res list \<Rightarrow> string list res" where
  "in_order checks = rconcat id checks"

lemma in_order_Nil_iff: "in_order cs = Inr [] \<longleftrightarrow> (\<forall>c \<in> set cs. c = Inr [])"
  by (induction cs) (auto simp: in_order_def res_simps)

lemma in_order_simps [simp]:
  "in_order [] = Inr []"
  "in_order (c # cs) = rbind c (\<lambda>y. rbind (in_order cs) (\<lambda>ys. Inr (y @ ys)))"
  by (simp_all add: in_order_def)

lemma rconcat_Nil_iff: "rconcat f xs = Inr [] \<longleftrightarrow> (\<forall>x \<in> set xs. f x = Inr [])"
  by (induction xs) (auto simp: res_simps)

end
