(* ===== verification/Paths.thy ===== *)
theory Paths
  imports Numerics
begin

text \<open>
  Paths as \<^verbatim>\<open>pathlib\<close> keeps them (a root and the parts without empty and dot components), and the
  part of a file system the offline tools look at: which paths are directories, which are regular
  files, how long they are, and what reading and parsing them as JSON gives.
\<close>

section \<open>Paths\<close>

record pure_path =
  path_root :: string
  path_parts :: "string list"

definition path_of :: "string \<Rightarrow> pure_path" where
  "path_of s =
     \<lparr>path_root = (if startswith s ''/'' then if startswith s ''//'' \<and> \<not> startswith s ''///'' then ''//'' else ''/'' else []),
      path_parts = filter (\<lambda>p. p \<noteq> [] \<and> p \<noteq> ''.'') (split_on CHR ''/'' s)\<rparr>"

definition path_div :: "pure_path \<Rightarrow> string \<Rightarrow> pure_path" where
  "path_div p s =
     (let q = path_of s
      in if path_root q \<noteq> [] then q else p\<lparr>path_parts := path_parts p @ path_parts q\<rparr>)"

definition path_str :: "pure_path \<Rightarrow> string" where
  "path_str p =
     (if path_root p = [] \<and> path_parts p = [] then ''.'' else path_root p @ join ''/'' (path_parts p))"

definition path_name :: "pure_path \<Rightarrow> string" where
  "path_name p = (if path_parts p = [] then [] else last (path_parts p))"

definition path_parent :: "pure_path \<Rightarrow> pure_path" where
  "path_parent p = p\<lparr>path_parts := butlast (path_parts p)\<rparr>"

text \<open>\<^verbatim>\<open>with_name\<close> for a path and a new name that are not empty.\<close>

definition path_with_name :: "pure_path \<Rightarrow> string \<Rightarrow> pure_path" where
  "path_with_name p name = p\<lparr>path_parts := butlast (path_parts p) @ [name]\<rparr>"

section \<open>Files\<close>

record file_info =
  file_size :: nat
  file_text :: "string res"
  file_json :: "pyval res"

record file_system =
  fs_is_dir :: "pure_path \<Rightarrow> bool"
  fs_file :: "pure_path \<Rightarrow> file_info option"
  fs_resolve :: "pure_path \<Rightarrow> pure_path"

definition file_document :: "file_system \<Rightarrow> pure_path \<Rightarrow> pyval res" where
  "file_document fs path = (case fs_file fs path of
     Some f \<Rightarrow> file_json f | None \<Rightarrow> Inl (Exn FileNotFoundError (path_str path)))"

end
