(* ===== verification/Commands.thy ===== *)
theory Commands
  imports Planning Paths
begin

text \<open>
  The command lines of \<^verbatim>\<open>main.py\<close>: \<^verbatim>\<open>shlex.quote\<close> and what a shell reads
  back, the process-id shim put in front of a wrapped workload, and the receiver's and sender's
  arguments built from the configuration.
\<close>

section \<open>Quoting for a shell\<close>

definition shell_safe :: "char \<Rightarrow> bool" where
  "shell_safe c = (is_ascii_letter c \<or> is_digit c \<or> c \<in> set ''_@%+=:,./-'')"

fun escape_single :: "string \<Rightarrow> string" where
  "escape_single [] = []"
| "escape_single (c # cs) =
     (if c = CHR 0x27 then [CHR 0x27, CHR 0x22, CHR 0x27, CHR 0x22, CHR 0x27] else [c]) @ escape_single cs"

definition shlex_quote :: "string \<Rightarrow> string" where
  "shlex_quote s =
     (if s = [] then [CHR 0x27, CHR 0x27]
      else if list_all shell_safe s then s
      else CHR 0x27 # escape_single s @ [CHR 0x27])"

definition shlex_join :: "string list \<Rightarrow> string" where
  "shlex_join command = join [blank] (map shlex_quote command)"

text \<open>
  What a POSIX shell makes of such a text: words separated by blanks, single quotes taking every
  character literally, double quotes every character but the four special ones. A character with
  another meaning outside quotes is not a simple command's word and gives \<open>None\<close>.
\<close>

datatype sh_mode = Plain | Single | Double

definition word_so_far :: "string option \<Rightarrow> string" where
  "word_so_far w = (case w of None \<Rightarrow> [] | Some s \<Rightarrow> s)"

fun sh_read :: "sh_mode \<Rightarrow> string option \<Rightarrow> string \<Rightarrow> string list option" where
  "sh_read Plain w [] = Some (case w of None \<Rightarrow> [] | Some s \<Rightarrow> [s])"
| "sh_read m w [] = None"
| "sh_read Plain w (c # cs) =
     (if c = blank then
        (case sh_read Plain None cs of
           None \<Rightarrow> None | Some ws \<Rightarrow> Some (case w of None \<Rightarrow> ws | Some s \<Rightarrow> s # ws))
      else if c = CHR 0x27 then sh_read Single (Some (word_so_far w)) cs
      else if c = CHR 0x22 then sh_read Double (Some (word_so_far w)) cs
      else if shell_safe c then sh_read Plain (Some (word_so_far w @ [c])) cs
      else None)"
| "sh_read Single w (c # cs) =
     (if c = CHR 0x27 then sh_read Plain w cs else sh_read Single (Some (word_so_far w @ [c])) cs)"
| "sh_read Double w (c # cs) =
     (if c = CHR 0x22 then sh_read Plain w cs
      else if c \<in> {CHR ''$'', CHR 0x60, CHR 0x5C} then None
      else sh_read Double (Some (word_so_far w @ [c])) cs)"

abbreviation sh_words :: "string \<Rightarrow> string list option" where
  "sh_words text \<equiv> sh_read Plain None text"

section \<open>Process handles and the process-id shim\<close>

record process_handle =
  pid :: int
  command :: "string list"
  log_path :: string
  monitor_pid :: "int option"
  workload_pid :: "int option"

definition wrapper_pid :: "process_handle \<Rightarrow> int" where
  "wrapper_pid h = pid h"

definition shutdown_target_pid :: "process_handle \<Rightarrow> int" where
  "shutdown_target_pid h = (case workload_pid h of Some p \<Rightarrow> p | None \<Rightarrow> pid h)"

definition workload_shim :: "string \<Rightarrow> string" where
  "workload_shim workload_pid_path =
     (let temporary_path = workload_pid_path @ ''.tmp''
      in ''printf '' @ [CHR 0x27] @ ''%s'' @ [CHR 0x27] @ '' '' @ [CHR 0x22] @ ''$$'' @ [CHR 0x22] @ '' > '' @
         shlex_quote temporary_path @ ''; mv -f -- '' @ shlex_quote temporary_path @ '' '' @
         shlex_quote workload_pid_path @ ''; exec '' @ [CHR 0x22] @ ''$@'' @ [CHR 0x22])"

definition instrument_workload ::
  "string list \<Rightarrow> int option \<Rightarrow> string option \<Rightarrow> string list res" where
  "instrument_workload cmd workload_index workload_pid_path =
     (case workload_index of
        None \<Rightarrow>
          (case workload_pid_path of
             Some _ \<Rightarrow> Inl (ve ''A workload PID path requires a workload index'')
           | None \<Rightarrow> Inr cmd)
      | Some i \<Rightarrow>
          (case workload_pid_path of
             Some path \<Rightarrow>
               if 0 \<le> i \<and> i < int (length cmd)
               then Inr (take (nat i) cmd @ [''sh'', ''-c'', workload_shim path, ''nll-workload''] @ drop (nat i) cmd)
               else Inl (ve ''Invalid tracked workload specification'')
           | None \<Rightarrow> Inl (ve ''Invalid tracked workload specification'')))"

section \<open>Nodes and build directories\<close>

definition binary_dir :: "string \<Rightarrow> pyval \<Rightarrow> pure_path res" where
  "binary_dir project_root runtime =
     rbind (py_get_or runtime ''build_subdir'' (VStr [])) (\<lambda>sub.
     Inr (path_div (path_div (path_of project_root) ''build'') (py_str sub)))"

definition node_project_root :: "pyval \<Rightarrow> pyval \<Rightarrow> string res" where
  "node_project_root global_config node =
     rbind (py_index global_config ''remote_project_root'') (\<lambda>dflt.
     rbind (py_get_or node ''project_root'' dflt) (\<lambda>v. Inr (py_str v)))"

definition node_runtime :: "pyval dict \<Rightarrow> pyval \<Rightarrow> pyval dict res" where
  "node_runtime runtime node =
     (let copy = (\<lambda>field resolved.
        rbind (py_contains node field) (\<lambda>present.
        if present then rbind (py_index node field) (\<lambda>v. Inr (dset field v resolved)) else Inr resolved))
      in rbind (copy ''build_preset'' runtime) (copy ''build_subdir''))"

definition global_prefix :: "pyval \<Rightarrow> string list res" where
  "global_prefix runtime =
     rbind (py_get_or runtime ''privilege_prefix'' (VList [])) (\<lambda>prefix.
     case prefix of
       VList parts \<Rightarrow>
         if \<forall>part \<in> set parts. is_str part then Inr (map py_str parts)
         else Inl (ve ''runtime.privilege_prefix must be a string list'')
     | _ \<Rightarrow> Inl (ve ''runtime.privilege_prefix must be a string list''))"

section \<open>The two commands\<close>

text \<open>
  Two values go into the argument list as they are (\<^verbatim>\<open>scheduler\<close> and \<^verbatim>\<open>mode\<close>); one that is not a string
  makes starting the process a \<^verbatim>\<open>TypeError\<close>.
\<close>

definition raw_argument :: "pyval \<Rightarrow> string res" where
  "raw_argument v = (case v of VStr s \<Rightarrow> Inr s | _ \<Rightarrow> Inl (not_a_string v))"

definition optional_argument :: "string \<Rightarrow> pyval option \<Rightarrow> string list" where
  "optional_argument flag v = (case value_or_none v of VNone \<Rightarrow> [] | x \<Rightarrow> [flag, py_str x])"

definition receiver_command ::
  "string \<Rightarrow> pyval \<Rightarrow> pyval \<Rightarrow> string \<Rightarrow> string \<Rightarrow> pyval \<Rightarrow> string list res" where
  "receiver_command project_root benchmark runtime output stats batch_size =
     rbind (py_index benchmark ''receiver'') (\<lambda>receiver.
     rbind (binary_dir project_root runtime) (\<lambda>dir.
     rbind (py_index receiver ''binary'') (\<lambda>bin.
     rbind (raw_argument bin) (\<lambda>binary.
     rbind (py_index runtime ''port'') (\<lambda>port.
     rbind (py_index runtime ''scheduler'') (\<lambda>sched.
     rbind (raw_argument sched) (\<lambda>scheduler.
     rbind (py_index runtime ''priority'') (\<lambda>priority.
     rbind (py_get_or receiver ''work_ns'' (VInt 0)) (\<lambda>work.
     rbind (py_get_or receiver ''sample_every'' (VInt 1)) (\<lambda>sample_every.
     rbind (py_get_or runtime ''receive_buffer_bytes'' (VInt 0)) (\<lambda>buffer.
     rbind (py_get runtime ''receiver_cpu'') (\<lambda>cpu.
     rbind (py_get runtime ''worker_cpu'') (\<lambda>worker.
     rbind (global_prefix runtime) (\<lambda>prefix.
     Inr (prefix @
       [path_str (path_div dir binary), ''--output'', output, ''--stats'', stats, ''--port'', py_str port,
        ''--max-packets'', ''0'', ''--scheduler'', scheduler, ''--priority'', py_str priority,
        ''--work'', py_str work, ''--sample-every'', py_str sample_every, ''--socket-buffer'', py_str buffer] @
       optional_argument ''--cpu'' cpu @
       (if binary \<in> {''receiver_batched'', ''receiver_threaded''} then [''--batch'', py_str batch_size] else []) @
       (if binary = ''receiver_threaded'' then optional_argument ''--worker-cpu'' worker else []))))))))))))))))"

definition cpu_argument :: "pyval \<Rightarrow> pyval \<Rightarrow> string list res" where
  "cpu_argument sender runtime =
     rbind (py_get sender ''cpus'') (\<lambda>cpus.
     case value_or_none cpus of
       VNone \<Rightarrow> rbind (py_get runtime ''sender_cpu'') (\<lambda>cpu. Inr (optional_argument ''--cpu'' cpu))
     | v \<Rightarrow> rbind (py_iter v) (\<lambda>xs. Inr [''--cpus'', join '','' (map py_str xs)]))"

definition sender_command ::
  "string \<Rightarrow> string \<Rightarrow> pyval \<Rightarrow> pyval \<Rightarrow> string \<Rightarrow> pyval \<Rightarrow> pyval \<Rightarrow> string option \<Rightarrow> string list res" where
  "sender_command project_root receiver_host benchmark runtime stats rate_pps burst_size pacing_trace =
     rbind (py_index benchmark ''sender'') (\<lambda>sender.
     rbind (binary_dir project_root runtime) (\<lambda>dir.
     rbind (py_index runtime ''port'') (\<lambda>port.
     rbind (py_index sender ''duration_seconds'') (\<lambda>duration.
     rbind (py_index sender ''mode'') (\<lambda>m.
     rbind (raw_argument m) (\<lambda>mode.
     rbind (py_index sender ''payload_size'') (\<lambda>payload.
     rbind (py_index benchmark ''receiver'') (\<lambda>receiver.
     rbind (py_get_or receiver ''sample_every'' (VInt 1)) (\<lambda>sample_every.
     rbind (py_get_or runtime ''send_buffer_bytes'' (VInt 0)) (\<lambda>buffer.
     rbind (py_get_or sender ''send_batch_max'' (VInt 1)) (\<lambda>send_batch_max.
     rbind (py_get_or sender ''batch_window_us'' (VInt 10)) (\<lambda>batch_window_us.
     rbind (py_get_or sender ''threads'' (VInt 1)) (\<lambda>threads.
     rbind (cpu_argument sender runtime) (\<lambda>cpu.
     rbind (global_prefix runtime) (\<lambda>prefix.
     Inr (prefix @
       [path_str (path_div dir ''sender''), ''--ip'', receiver_host, ''--port'', py_str port,
        ''--rate'', py_str rate_pps, ''--duration'', py_str duration, ''--mode'', mode,
        ''--burst'', py_str burst_size, ''--payload-size'', py_str payload,
        ''--timestamp-every'', py_str sample_every, ''--socket-buffer'', py_str buffer, ''--stats'', stats,
        ''--send-batch-max'', py_str send_batch_max, ''--batch-window-us'', py_str batch_window_us,
        ''--threads'', py_str threads] @
       cpu @
       (case pacing_trace of None \<Rightarrow> [] | Some path \<Rightarrow> [''--pacing-trace'', path])))))))))))))))))"

section \<open>Quoting is read back\<close>

lemma sh_read_safe:
  "list_all shell_safe s \<Longrightarrow> s \<noteq> [] \<Longrightarrow> sh_read Plain w (s @ rest) = sh_read Plain (Some (word_so_far w @ s)) rest"
proof (induction s arbitrary: w)
  case (Cons c s)
  have "\<not> shell_safe blank" "\<not> shell_safe CHR 0x27" "\<not> shell_safe CHR 0x22"
    by (simp_all add: shell_safe_def is_ascii_letter_def is_digit_def ord_def)
  with Cons.prems have "c \<noteq> blank" "c \<noteq> CHR 0x27" "c \<noteq> CHR 0x22" "shell_safe c" by auto
  then show ?case using Cons by (cases "s = []") (auto simp: word_so_far_def)
qed simp

lemma sh_read_escaped:
  "sh_read Single (Some w) (escape_single s @ CHR 0x27 # rest) = sh_read Plain (Some (w @ s)) rest"
  by (induction s arbitrary: w) (simp_all add: word_so_far_def)

lemma sh_read_quoted: "sh_read Plain None (shlex_quote s @ rest) = sh_read Plain (Some s) rest"
  using sh_read_safe [of s None rest] sh_read_escaped [of "[]" s rest]
  by (simp add: shlex_quote_def word_so_far_def)

lemma sh_words_shlex_join: "sh_words (shlex_join cmd) = Some cmd"
proof (induction cmd)
  case (Cons w ws)
  have "sh_words (shlex_quote w) = Some [w]" using sh_read_quoted [of w "[]"] by simp
  with Cons show ?case
    by (cases ws) (simp_all add: shlex_join_def sh_read_quoted)
qed (simp add: shlex_join_def)


text \<open>
  The process-id shim only wraps: the instrumented command is the original with four words
  inserted before the workload, so the wrapper's own words, the workload and its arguments keep
  their order and the words \<^verbatim>\<open>exec "$@"\<close> runs are exactly the original workload; it is inserted exactly
  when an index inside the command and a path are both given, an index or a path alone (or an index
  outside) is a \<^verbatim>\<open>ValueError\<close>, and without either the command is unchanged.
\<close>

theorem instrument_workload_exact:
  "case instrument_workload cmd index path of
     Inr cmd' \<Rightarrow>
       (index = None \<and> path = None \<and> cmd' = cmd) \<or>
       (\<exists>i p. index = Some i \<and> path = Some p \<and> 0 \<le> i \<and> i < int (length cmd) \<and>
          take (nat i) cmd' = take (nat i) cmd \<and>
          take 4 (drop (nat i) cmd') = [''sh'', ''-c'', workload_shim p, ''nll-workload''] \<and>
          drop (nat i + 4) cmd' = drop (nat i) cmd)
   | Inl e \<Rightarrow>
       exc_kind e = ValueError \<and>
       ((\<exists>p. index = None \<and> path = Some p) \<or> (\<exists>i. index = Some i \<and> path = None) \<or>
        (\<exists>i. index = Some i \<and> (i < 0 \<or> int (length cmd) \<le> i)))"
  by (auto simp: instrument_workload_def not_le not_less split: option.split)

end
