(* ===== verification/Receiver_Cli.thy ===== *)
theory Receiver_Cli
  imports Commands "HOL-Library.Word"
begin

text \<open>
  The command line as the three receivers read it (\<^verbatim>\<open>receiver_common.hpp\<close> and the \<^verbatim>\<open>main\<close> functions of
  \<^verbatim>\<open>receiver_baseline.cpp\<close>, \<^verbatim>\<open>receiver_batched.cpp\<close>, \<^verbatim>\<open>receiver_threaded.cpp\<close>), against the command line the
  harness builds: which accepted configurations the receivers start with, with which options, and
  which they refuse. Long options are read in the form the harness writes them, the exact name and
  the value as the next word.
\<close>

section \<open>Numbers\<close>

text \<open>\<^verbatim>\<open>std::from_chars\<close> consuming the whole text: digits only, a minus sign for signed types, no overflow.\<close>

fun decimal :: "nat \<Rightarrow> string \<Rightarrow> nat option" where
  "decimal acc [] = Some acc"
| "decimal acc (c # cs) = (if is_digit c then decimal (10 * acc + (ord c - 48)) cs else None)"

definition from_chars_u64 :: "string \<Rightarrow> nat option" where
  "from_chars_u64 text =
     (if text = [] then None
      else case decimal 0 text of None \<Rightarrow> None | Some n \<Rightarrow> if n < 2 ^ 64 then Some n else None)"

definition from_chars_int :: "string \<Rightarrow> int option" where
  "from_chars_int text =
     (let negative = (text \<noteq> [] \<and> hd text = CHR ''-''); digits = (if negative then tl text else text)
      in if digits = [] then None
         else case decimal 0 digits of
           None \<Rightarrow> None
         | Some n \<Rightarrow> (let i = (if negative then - int n else int n)
                     in if - (2 ^ 31) \<le> i \<and> i < 2 ^ 31 then Some i else None))"

definition parse_u64 :: "string \<Rightarrow> nat \<Rightarrow> nat \<Rightarrow> 64 word option" where
  "parse_u64 text lo hi =
     (case from_chars_u64 text of Some n \<Rightarrow> if lo \<le> n \<and> n \<le> hi then Some (of_nat n) else None | None \<Rightarrow> None)"

definition parse_int :: "string \<Rightarrow> int \<Rightarrow> int \<Rightarrow> int option" where
  "parse_int text lo hi =
     (case from_chars_int text of Some i \<Rightarrow> if lo \<le> i \<and> i \<le> hi then Some i else None | None \<Rightarrow> None)"

section \<open>Options\<close>

datatype variant = Baseline | Batched | Threaded

record receiver_options =
  output_path :: string
  stats_path :: string
  opt_port :: "16 word"
  max_packets :: "64 word"
  opt_cpu :: int
  worker_cpu :: int
  batch_size :: "32 word"
  work_ns :: "64 word"
  sample_every :: "64 word"
  socket_buffer_bytes :: int
  scheduler :: string
  priority :: int

definition CPU_SETSIZE :: int where "CPU_SETSIZE = 1024"
definition max_batch :: nat where "max_batch = 1024"
definition UINT64_MAX :: nat where "UINT64_MAX = 2 ^ 64 - 1"
definition INT_MAX :: int where "INT_MAX = 2 ^ 31 - 1"

definition default_options :: "variant \<Rightarrow> receiver_options" where
  "default_options v = \<lparr>output_path = ''latency.bin'', stats_path = ''receiver_stats.json'', opt_port = 49200,
     max_packets = 0, opt_cpu = -1, worker_cpu = -1, batch_size = (if v = Baseline then 1 else 32), work_ns = 0,
     sample_every = 1, socket_buffer_bytes = 0, scheduler = ''other'', priority = 0\<rparr>"

text \<open>One option with its value; \<open>None\<close> is exit status 2.\<close>

definition apply_option :: "variant \<Rightarrow> receiver_options \<Rightarrow> string \<Rightarrow> string \<Rightarrow> receiver_options option" where
  "apply_option v o' name arg =
     (if name = ''--output'' then Some (o'\<lparr>output_path := arg\<rparr>)
      else if name = ''--stats'' then Some (o'\<lparr>stats_path := arg\<rparr>)
      else if name = ''--port'' then map_option (\<lambda>n. o'\<lparr>opt_port := ucast n\<rparr>) (parse_u64 arg 1 65535)
      else if name = ''--cpu'' then map_option (\<lambda>n. o'\<lparr>opt_cpu := n\<rparr>) (parse_int arg 0 (CPU_SETSIZE - 1))
      else if name = ''--worker-cpu'' \<and> v = Threaded then
        map_option (\<lambda>n. o'\<lparr>worker_cpu := n\<rparr>) (parse_int arg 0 (CPU_SETSIZE - 1))
      else if name = ''--batch'' \<and> v \<noteq> Baseline then
        map_option (\<lambda>n. o'\<lparr>batch_size := ucast n\<rparr>) (parse_u64 arg 1 max_batch)
      else if name = ''--max-packets'' then map_option (\<lambda>n. o'\<lparr>max_packets := n\<rparr>) (parse_u64 arg 0 UINT64_MAX)
      else if name = ''--scheduler'' then Some (o'\<lparr>scheduler := arg\<rparr>)
      else if name = ''--priority'' then map_option (\<lambda>n. o'\<lparr>priority := n\<rparr>) (parse_int arg 0 99)
      else if name = ''--work'' then map_option (\<lambda>n. o'\<lparr>work_ns := n\<rparr>) (parse_u64 arg 0 UINT64_MAX)
      else if name = ''--sample-every'' then map_option (\<lambda>n. o'\<lparr>sample_every := n\<rparr>) (parse_u64 arg 0 UINT64_MAX)
      else if name = ''--socket-buffer'' then map_option (\<lambda>n. o'\<lparr>socket_buffer_bytes := n\<rparr>) (parse_int arg 0 INT_MAX)
      else None)"

fun read_options :: "variant \<Rightarrow> receiver_options \<Rightarrow> string list \<Rightarrow> receiver_options option" where
  "read_options v o' [] = Some o'"
| "read_options v o' (name # arg # rest) =
     (case apply_option v o' name arg of None \<Rightarrow> None | Some o'' \<Rightarrow> read_options v o'' rest)"
| "read_options v o' [name] = None"

definition scheduler_valid :: "receiver_options \<Rightarrow> bool" where
  "scheduler_valid o' \<longleftrightarrow>
     scheduler o' \<in> {''other'', ''fifo'', ''rr''} \<and>
     \<not> (scheduler o' = ''other'' \<and> priority o' \<noteq> 0) \<and>
     \<not> (scheduler o' \<noteq> ''other'' \<and> (priority o' < 1 \<or> 99 < priority o'))"

text \<open>The arguments the receiver starts its work with, or \<open>None\<close> when it exits with status 2 first.\<close>

definition receiver_main :: "variant \<Rightarrow> string list \<Rightarrow> receiver_options option" where
  "receiver_main v args =
     (case read_options v (default_options v) args of
        None \<Rightarrow> None
      | Some o' \<Rightarrow>
          if \<not> scheduler_valid o' then None
          else if v = Threaded \<and> 0 \<le> opt_cpu o' \<and> worker_cpu o' < 0 then None
          else if v = Threaded \<and> 0 \<le> worker_cpu o' \<and> worker_cpu o' = opt_cpu o' then None
          else Some o')"

section \<open>Reading back a printed number\<close>

lemma decimal_append: "decimal acc (xs @ ys) = (case decimal acc xs of None \<Rightarrow> None | Some a \<Rightarrow> decimal a ys)"
  by (induction acc xs rule: decimal.induct) auto

lemma decimal_str_nat: "decimal 0 (str_nat n) = Some n"
proof (induction n rule: str_nat.induct)
  case (1 n)
  show ?case
  proof (cases "n < 10")
    case True
    then show ?thesis by (subst str_nat.simps) (simp add: digit_char_def is_digit_def)
  next
    case False
    then have "str_nat n = str_nat (n div 10) @ [digit_char (n mod 10)]" by (simp add: str_nat.simps [of n])
    with 1 False show ?thesis by (simp add: decimal_append digit_char_def is_digit_def)
  qed
qed

lemma parse_u64_str_int:
  assumes "0 \<le> i" "i < 2 ^ 64"
  shows "parse_u64 (str_int i) lo hi = (if lo \<le> nat i \<and> nat i \<le> hi then Some (of_int i) else None)"
proof -
  have "nat i < 2 ^ 64" using assms by (simp add: nat_less_iff)
  with assms(1) show ?thesis
    by (simp add: parse_u64_def from_chars_u64_def str_int_def decimal_str_nat)
qed

lemma parse_int_str_int:
  assumes "0 \<le> i" "i < 2 ^ 31"
  shows "parse_int (str_int i) lo hi = (if lo \<le> i \<and> i \<le> hi then Some i else None)"
proof -
  have "hd (str_nat (nat i)) \<noteq> CHR ''-''" using hd_str_nat [of "nat i"] by (auto simp: is_digit_def ord_def)
  with assms show ?thesis
    by (simp add: parse_int_def from_chars_int_def str_int_def decimal_str_nat Let_def)
qed

section \<open>The harness's command at the receiver\<close>

lemma apply_option_simps [simp]:
  "apply_option v o' ''--output'' arg = Some (o'\<lparr>output_path := arg\<rparr>)"
  "apply_option v o' ''--stats'' arg = Some (o'\<lparr>stats_path := arg\<rparr>)"
  "apply_option v o' ''--port'' arg = map_option (\<lambda>n. o'\<lparr>opt_port := ucast n\<rparr>) (parse_u64 arg 1 65535)"
  "apply_option v o' ''--cpu'' arg = map_option (\<lambda>n. o'\<lparr>opt_cpu := n\<rparr>) (parse_int arg 0 1023)"
  "apply_option Threaded o' ''--worker-cpu'' arg = map_option (\<lambda>n. o'\<lparr>worker_cpu := n\<rparr>) (parse_int arg 0 1023)"
  "v \<noteq> Baseline \<Longrightarrow> apply_option v o' ''--batch'' arg =
     map_option (\<lambda>n. o'\<lparr>batch_size := ucast n\<rparr>) (parse_u64 arg 1 1024)"
  "apply_option v o' ''--max-packets'' arg = map_option (\<lambda>n. o'\<lparr>max_packets := n\<rparr>) (parse_u64 arg 0 UINT64_MAX)"
  "apply_option v o' ''--scheduler'' arg = Some (o'\<lparr>scheduler := arg\<rparr>)"
  "apply_option v o' ''--priority'' arg = map_option (\<lambda>n. o'\<lparr>priority := n\<rparr>) (parse_int arg 0 99)"
  "apply_option v o' ''--work'' arg = map_option (\<lambda>n. o'\<lparr>work_ns := n\<rparr>) (parse_u64 arg 0 UINT64_MAX)"
  "apply_option v o' ''--sample-every'' arg = map_option (\<lambda>n. o'\<lparr>sample_every := n\<rparr>) (parse_u64 arg 0 UINT64_MAX)"
  "apply_option v o' ''--socket-buffer'' arg =
     map_option (\<lambda>n. o'\<lparr>socket_buffer_bytes := n\<rparr>) (parse_int arg 0 2147483647)"
  by (simp_all add: apply_option_def CPU_SETSIZE_def max_batch_def INT_MAX_def)

definition variant_of :: "string \<Rightarrow> variant" where
  "variant_of binary =
     (if binary = ''receiver_baseline'' then Baseline else if binary = ''receiver_batched'' then Batched else Threaded)"

text \<open>The CPU a runtime names for a role, \<open>-1\<close> for none.\<close>

definition cpu_of :: "pyval dict \<Rightarrow> string \<Rightarrow> int" where
  "cpu_of d k = (case value_or_none (dget d k) of VInt i \<Rightarrow> i | _ \<Rightarrow> -1)"

definition int_of :: "pyval dict \<Rightarrow> string \<Rightarrow> int \<Rightarrow> int" where
  "int_of d k dflt = as_int (dget_or d k (VInt dflt))"

text \<open>
  What the receivers need beyond an accepted configuration: the numbers are written as integers (a
  boolean or a float passes the harness) and fit the C++ types.
\<close>

definition native_int :: "int \<Rightarrow> pyval \<Rightarrow> bool" where
  "native_int bound v \<longleftrightarrow> (\<exists>i. v = VInt i \<and> 0 \<le> i \<and> i < bound)"

definition native_cpu :: "pyval option \<Rightarrow> bool" where
  "native_cpu c \<longleftrightarrow> value_or_none c = VNone \<or> native_int CPU_SETSIZE (value_or_none c)"

definition native_receiver :: "pyval dict \<Rightarrow> pyval dict \<Rightarrow> pyval \<Rightarrow> bool" where
  "native_receiver runtime receiver bs \<longleftrightarrow>
     native_int 65536 (dget_or runtime ''port'' VNone) \<and> native_int 100 (dget_or runtime ''priority'' VNone) \<and>
     native_int (2 ^ 31) (dget_or runtime ''receive_buffer_bytes'' (VInt 0)) \<and>
     native_cpu (dget runtime ''receiver_cpu'') \<and> native_cpu (dget runtime ''worker_cpu'') \<and>
     native_int (2 ^ 64) (dget_or receiver ''work_ns'' (VInt 0)) \<and>
     native_int (2 ^ 64) (dget_or receiver ''sample_every'' (VInt 1)) \<and>
     native_int 1025 bs \<and> 1 \<le> as_int bs"

definition expected_options ::
  "variant \<Rightarrow> pyval dict \<Rightarrow> pyval dict \<Rightarrow> string \<Rightarrow> string \<Rightarrow> pyval \<Rightarrow> receiver_options" where
  "expected_options v runtime receiver output stats bs =
     \<lparr>output_path = output, stats_path = stats, opt_port = of_int (int_of runtime ''port'' 0), max_packets = 0,
      opt_cpu = cpu_of runtime ''receiver_cpu'',
      worker_cpu = (if v = Threaded then cpu_of runtime ''worker_cpu'' else -1),
      batch_size = (if v = Baseline then 1 else of_int (as_int bs)),
      work_ns = of_int (int_of receiver ''work_ns'' 0), sample_every = of_int (int_of receiver ''sample_every'' 1),
      socket_buffer_bytes = int_of runtime ''receive_buffer_bytes'' 0,
      scheduler = (case dget_or runtime ''scheduler'' VNone of VStr s \<Rightarrow> s | _ \<Rightarrow> []),
      priority = int_of runtime ''priority'' 0\<rparr>"

definition placement_ok :: "variant \<Rightarrow> receiver_options \<Rightarrow> bool" where
  "placement_ok v o' \<longleftrightarrow> v = Threaded \<longrightarrow>
     (0 \<le> opt_cpu o' \<longrightarrow> 0 \<le> worker_cpu o') \<and> (0 \<le> worker_cpu o' \<longrightarrow> worker_cpu o' \<noteq> opt_cpu o')"

definition receiver_arguments ::
  "variant \<Rightarrow> pyval dict \<Rightarrow> pyval dict \<Rightarrow> string \<Rightarrow> string \<Rightarrow> string \<Rightarrow> pyval \<Rightarrow> string list" where
  "receiver_arguments v runtime receiver sched output stats bs =
     [''--output'', output, ''--stats'', stats, ''--port'', py_str (dget_or runtime ''port'' VNone),
      ''--max-packets'', ''0'', ''--scheduler'', sched, ''--priority'', py_str (dget_or runtime ''priority'' VNone),
      ''--work'', py_str (dget_or receiver ''work_ns'' (VInt 0)),
      ''--sample-every'', py_str (dget_or receiver ''sample_every'' (VInt 1)),
      ''--socket-buffer'', py_str (dget_or runtime ''receive_buffer_bytes'' (VInt 0))] @
     optional_argument ''--cpu'' (dget runtime ''receiver_cpu'') @
     (if v = Baseline then [] else [''--batch'', py_str bs]) @
     (if v = Threaded then optional_argument ''--worker-cpu'' (dget runtime ''worker_cpu'') else [])"

lemma read_options_cpu:
  assumes "native_cpu c"
  shows "read_options v o' (optional_argument ''--cpu'' c @ rest) =
         read_options v (if value_or_none c = VNone then o' else o'\<lparr>opt_cpu := as_int (value_or_none c)\<rparr>) rest"
  using assms by (auto simp: native_cpu_def native_int_def optional_argument_def parse_int_str_int CPU_SETSIZE_def)

lemma read_options_worker:
  assumes "native_cpu c"
  shows "read_options Threaded o' (optional_argument ''--worker-cpu'' c) =
         Some (if value_or_none c = VNone then o' else o'\<lparr>worker_cpu := as_int (value_or_none c)\<rparr>)"
  using assms by (auto simp: native_cpu_def native_int_def optional_argument_def parse_int_str_int CPU_SETSIZE_def)

lemma parse_u64_zero: "parse_u64 ''0'' 0 UINT64_MAX = Some 0"
  by (simp add: parse_u64_def from_chars_u64_def is_digit_def ord_def)

lemma ucast_of_int [simp]:
  "ucast (of_int i :: 64 word) = (of_int i :: 16 word)" "ucast (of_int i :: 64 word) = (of_int i :: 32 word)"
  by (transfer, simp)+

lemma cpu_of_native: "native_cpu (dget d k) \<Longrightarrow>
  cpu_of d k = (if value_or_none (dget d k) = VNone then -1 else as_int (value_or_none (dget d k)))"
  by (auto simp: cpu_of_def native_cpu_def native_int_def)

lemma parse_u64_native:
  assumes "native_int (2 ^ 64) v"
  shows "parse_u64 (py_str v) 0 UINT64_MAX = Some (of_int (as_int v))"
proof -
  from assms obtain i where i: "v = VInt i" "0 \<le> i" "i < 2 ^ 64" by (auto simp: native_int_def)
  then have "nat i \<le> UINT64_MAX" unfolding UINT64_MAX_def by (simp add: nat_le_iff)
  with i show ?thesis by (simp add: parse_u64_str_int)
qed

lemma parse_u64_bounded:
  assumes "native_int hi v" "hi \<le> 2 ^ 64" "1 \<le> as_int v" "int n = hi - 1"
  shows "parse_u64 (py_str v) 1 n = Some (of_int (as_int v))"
proof -
  from assms obtain i where i: "v = VInt i" "1 \<le> i" "i < hi" "i < 2 ^ 64" by (auto simp: native_int_def)
  then have "nat i \<le> n" "1 \<le> nat i" using assms(4) by auto
  with i show ?thesis by (simp add: parse_u64_str_int)
qed

lemma parse_int_bounded:
  assumes "native_int hi v" "hi \<le> 2 ^ 31" "n = hi - 1"
  shows "parse_int (py_str v) 0 n = Some (as_int v)"
  using assms by (auto simp: native_int_def parse_int_str_int)

lemma read_receiver_arguments:
  assumes native: "native_receiver runtime receiver bs"
    and port: "1 \<le> as_int (dget_or runtime ''port'' VNone)"
  shows "read_options v (default_options v) (receiver_arguments v runtime receiver sched output stats bs) =
    Some ((expected_options v runtime receiver output stats bs)\<lparr>scheduler := sched\<rparr>)"
proof -
  note n = native [unfolded native_receiver_def]
  have port': "parse_u64 (py_str (dget_or runtime ''port'' VNone)) 1 65535 =
      Some (of_int (as_int (dget_or runtime ''port'' VNone)))"
    using n port by (intro parse_u64_bounded) auto
  have prio: "parse_int (py_str (dget_or runtime ''priority'' VNone)) 0 99 =
      Some (as_int (dget_or runtime ''priority'' VNone))"
    using n by (intro parse_int_bounded) auto
  have buffer: "parse_int (py_str (dget_or runtime ''receive_buffer_bytes'' (VInt 0))) 0 2147483647 =
      Some (as_int (dget_or runtime ''receive_buffer_bytes'' (VInt 0)))"
    using n by (intro parse_int_bounded [where hi = "2 ^ 31"]) auto
  have batch: "parse_u64 (py_str bs) 1 1024 = Some (of_int (as_int bs))"
    using n by (intro parse_u64_bounded) auto
  have words: "parse_u64 (py_str (dget_or receiver ''work_ns'' (VInt 0))) 0 UINT64_MAX =
      Some (of_int (as_int (dget_or receiver ''work_ns'' (VInt 0))))"
    "parse_u64 (py_str (dget_or receiver ''sample_every'' (VInt 1))) 0 UINT64_MAX =
      Some (of_int (as_int (dget_or receiver ''sample_every'' (VInt 1))))"
    using n by (simp_all only: parse_u64_native)
  have port_or: "dget_or runtime ''port'' (VInt 0) = dget_or runtime ''port'' VNone"
      "dget_or runtime ''priority'' (VInt 0) = dget_or runtime ''priority'' VNone"
    using n by (auto simp: native_int_def dget_or_def split: option.splits)
  have cpus: "native_cpu (dget runtime ''receiver_cpu'')" "native_cpu (dget runtime ''worker_cpu'')" using n by simp_all
  show ?thesis
    unfolding receiver_arguments_def expected_options_def default_options_def int_of_def port_or
      cpu_of_native [OF cpus(1)] cpu_of_native [OF cpus(2)]
    by (cases v) (simp_all add: port' prio buffer batch words parse_u64_zero read_options_cpu [OF cpus(1)]
        read_options_worker [OF cpus(2)] read_options_cpu [OF cpus(1), where rest = "[]", simplified]
        del: One_nat_def)
qed

lemma receiver_command_arguments:
  assumes rt: "runtime_ok runtime" and r: "receiver_ok receiver" "dget receiver ''binary'' = Some (VStr binary)"
    and b: "dget benchmark ''receiver'' = Some (VDict receiver)" and p: "global_prefix (VDict runtime) = Inr prefix"
    and s: "dget runtime ''scheduler'' = Some (VStr sched)"
  shows "\<exists>exe. receiver_command project_root (VDict benchmark) (VDict runtime) output stats bs =
    Inr (prefix @ exe # receiver_arguments (variant_of binary) runtime receiver sched output stats bs)"
proof -
  obtain port prio where pp: "dget runtime ''port'' = Some port" "dget runtime ''priority'' = Some prio"
    using rt unfolding runtime_ok_def by blast
  have "binary \<in> set RECEIVER_BINARIES" using r unfolding receiver_ok_def by auto
  then have bin: "binary = ''receiver_baseline'' \<or> binary = ''receiver_batched'' \<or> binary = ''receiver_threaded''"
    by (simp add: RECEIVER_BINARIES_def)
  have port_or: "dget_or runtime ''port'' VNone = port" "dget_or runtime ''priority'' VNone = prio"
    using pp by (simp_all add: dget_or_def)
  show ?thesis
    using bin
    by (elim disjE)
       (simp_all add: receiver_command_def receiver_arguments_def variant_of_def binary_dir_def raw_argument_def p port_or
         py_index_VDict_Some [OF r(2)] py_index_VDict_Some [OF b] py_index_VDict_Some [OF pp(1)]
         py_index_VDict_Some [OF pp(2)] py_index_VDict_Some [OF s])
qed

text \<open>
  C19: What the harness checks, the receivers accept. For an accepted runtime and receiver section
  written with integers that fit the C++ types, and (for the threaded receiver) a worker CPU that is
  set with the receiver CPU and differs from it, the command the harness builds is read by the
  receiver into exactly the configured port, batch size, scheduler, priority, CPUs, work, sampling
  interval and buffer size: no option is lost, refused, truncated or mixed up.
\<close>

theorem receiver_accepts_command:
  assumes "runtime_ok runtime" "receiver_ok receiver" "dget receiver ''binary'' = Some (VStr binary)"
    "dget benchmark ''receiver'' = Some (VDict receiver)" "global_prefix (VDict runtime) = Inr prefix"
    "native_receiver runtime receiver bs"
    "placement_ok (variant_of binary) (expected_options (variant_of binary) runtime receiver output stats bs)"
  shows "\<exists>exe args. receiver_command project_root (VDict benchmark) (VDict runtime) output stats bs = Inr (prefix @ exe # args) \<and>
    receiver_main (variant_of binary) args = Some (expected_options (variant_of binary) runtime receiver output stats bs)"
proof -
  obtain sched prio where s: "dget runtime ''scheduler'' = Some sched" "dget runtime ''priority'' = Some prio"
      "priority_ok sched prio"
    using assms(1) unfolding runtime_ok_def by blast
  from s(3) obtain sc where sc: "sched = VStr sc" by (auto simp: priority_ok_def)
  let ?v = "variant_of binary" let ?e = "expected_options (variant_of binary) runtime receiver output stats bs"
  obtain port where "dget runtime ''port'' = Some port" "int_between 1 65535 port"
    using assms(1) unfolding runtime_ok_def by blast
  then have port: "1 \<le> as_int (dget_or runtime ''port'' VNone)" by (simp add: dget_or_def int_between_def)
  have e: "?e\<lparr>scheduler := sc\<rparr> = ?e" using s(1) sc by (simp add: expected_options_def dget_or_def)
  have "native_int 100 prio" using assms(6) s(2) by (simp add: native_receiver_def dget_or_def)
  then obtain i where i: "prio = VInt i" "0 \<le> i" "i < 100" by (auto simp: native_int_def)
  have "scheduler_valid ?e"
    using s i sc by (auto simp: scheduler_valid_def expected_options_def dget_or_def priority_ok_def int_of_def flt_eq_def)
  moreover have "read_options ?v (default_options ?v) (receiver_arguments ?v runtime receiver sc output stats bs) = Some ?e"
    using read_receiver_arguments [OF assms(6) port] by (simp only: e)
  ultimately have "receiver_main ?v (receiver_arguments ?v runtime receiver sc output stats bs) = Some ?e"
    using assms(7) unfolding receiver_main_def placement_ok_def by auto
  moreover from s(1) sc have s': "dget runtime ''scheduler'' = Some (VStr sc)" by simp
  moreover obtain exe where "receiver_command project_root (VDict benchmark) (VDict runtime) output stats bs =
      Inr (prefix @ exe # receiver_arguments ?v runtime receiver sc output stats bs)"
    using receiver_command_arguments [OF assms(1-5) s'] by blast
  ultimately show ?thesis by blast
qed

text \<open>
  C35: One accepted combination the receivers refuse: a runtime that pins the receiver but names no
  worker CPU passes \<^verbatim>\<open>validate_config\<close>, and every run of the threaded receiver with it exits with
  status 2 before binding its socket, because the worker would inherit the receiver's core.
\<close>

theorem threaded_needs_worker_cpu:
  assumes "runtime_ok runtime" "receiver_ok receiver" "dget receiver ''binary'' = Some (VStr ''receiver_threaded'')"
    "dget benchmark ''receiver'' = Some (VDict receiver)" "global_prefix (VDict runtime) = Inr prefix"
    "native_receiver runtime receiver bs"
    "value_or_none (dget runtime ''receiver_cpu'') \<noteq> VNone" "value_or_none (dget runtime ''worker_cpu'') = VNone"
  shows "\<exists>exe args. receiver_command project_root (VDict benchmark) (VDict runtime) output stats bs = Inr (prefix @ exe # args) \<and>
    receiver_main Threaded args = None"
proof -
  obtain sched prio where s: "dget runtime ''scheduler'' = Some sched" "priority_ok sched prio"
    using assms(1) unfolding runtime_ok_def by blast
  from s(2) obtain sc where sc: "sched = VStr sc" by (auto simp: priority_ok_def)
  obtain port where "dget runtime ''port'' = Some port" "int_between 1 65535 port"
    using assms(1) unfolding runtime_ok_def by blast
  then have port: "1 \<le> as_int (dget_or runtime ''port'' VNone)" by (simp add: dget_or_def int_between_def)
  have cpu: "native_cpu (dget runtime ''receiver_cpu'')" using assms(6) by (simp add: native_receiver_def)
  then have "0 \<le> cpu_of runtime ''receiver_cpu''"
    using assms(7) by (auto simp: cpu_of_native native_cpu_def native_int_def)
  moreover have "cpu_of runtime ''worker_cpu'' = -1" using assms(8) by (simp add: cpu_of_def)
  ultimately have "receiver_main Threaded (receiver_arguments Threaded runtime receiver sc output stats bs) = None"
    using read_receiver_arguments [OF assms(6) port, of Threaded]
    by (simp add: receiver_main_def expected_options_def)
  moreover have s': "dget runtime ''scheduler'' = Some (VStr sc)" using s(1) sc by simp
  moreover have "variant_of ''receiver_threaded'' = Threaded" by (simp add: variant_of_def)
  moreover obtain exe where "receiver_command project_root (VDict benchmark) (VDict runtime) output stats bs =
      Inr (prefix @ exe # receiver_arguments (variant_of ''receiver_threaded'') runtime receiver sc output stats bs)"
    using receiver_command_arguments [OF assms(1-5) s'] by blast
  ultimately show ?thesis by auto
qed

lemma receiver_accepts_command_witness:
  "\<exists>exe args. receiver_command ''/opt/nll'' (VDict (example_benchmark [VInt 1000] ''compare'' ''comparison''))
      (VDict example_runtime) ''/tmp/t.bin'' ''/tmp/s.json'' (VInt 32) = Inr ([] @ exe # args) \<and>
    receiver_main Batched args = Some \<lparr>output_path = ''/tmp/t.bin'', stats_path = ''/tmp/s.json'', opt_port = 9000,
      max_packets = 0, opt_cpu = -1, worker_cpu = -1, batch_size = 32, work_ns = 0, sample_every = 1,
      socket_buffer_bytes = 0, scheduler = ''other'', priority = 0\<rparr>"
proof -
  let ?b = "example_benchmark [VInt 1000] ''compare'' ''comparison''"
  have "dget example_receiver ''binary'' = Some (VStr ''receiver_batched'')"
    and "dget ?b ''receiver'' = Some (VDict example_receiver)"
    and "global_prefix (VDict example_runtime) = Inr []"
    by (simp_all add: example_receiver_def example_benchmark_def global_prefix_def example_runtime_def dget_or_def)
  moreover have "native_receiver example_runtime example_receiver (VInt 32)"
    by (simp add: native_receiver_def native_int_def native_cpu_def example_runtime_def example_receiver_def dget_or_def)
  moreover have v: "variant_of ''receiver_batched'' = Batched" by (simp add: variant_of_def)
  moreover have "expected_options Batched example_runtime example_receiver ''/tmp/t.bin'' ''/tmp/s.json'' (VInt 32) =
      \<lparr>output_path = ''/tmp/t.bin'', stats_path = ''/tmp/s.json'', opt_port = 9000, max_packets = 0, opt_cpu = -1,
       worker_cpu = -1, batch_size = 32, work_ns = 0, sample_every = 1, socket_buffer_bytes = 0,
       scheduler = ''other'', priority = 0\<rparr>"
    by (simp add: expected_options_def example_runtime_def example_receiver_def dget_or_def int_of_def cpu_of_def)
  ultimately show ?thesis
    using receiver_accepts_command [OF example_runtime_ok example_receiver_ok, of "''receiver_batched''" ?b "[]" "VInt 32"
        "''/tmp/t.bin''" "''/tmp/s.json''" "''/opt/nll''"] by (simp add: placement_ok_def)
qed

definition pinned_runtime :: "pyval dict" where
  "pinned_runtime = (''receiver_cpu'', VInt 2) # example_runtime"

definition threaded_receiver :: "pyval dict" where
  "threaded_receiver = [(''binary'', VStr ''receiver_threaded''), (''batch_sizes'', VList [VInt 32])]"

lemma threaded_needs_worker_cpu_witness:
  "\<exists>exe args. receiver_command ''/opt/nll'' (VDict [(''receiver'', VDict threaded_receiver)])
      (VDict pinned_runtime) ''/tmp/t.bin'' ''/tmp/s.json'' (VInt 32) = Inr ([] @ exe # args) \<and>
    receiver_main Threaded args = None"
proof (rule threaded_needs_worker_cpu)
  show "runtime_ok pinned_runtime"
    by (simp add: pinned_runtime_def runtime_ok_def example_runtime_def int_at_least_def int_between_def
        positive_delay_def is_number_def num_rel_def priority_ok_def flt_eq_def dget_or_def cpu_ok_def)
  show "receiver_ok threaded_receiver"
    by (simp add: receiver_ok_def threaded_receiver_def RECEIVER_BINARIES_def dget_or_def int_list_def int_at_least_def)
  show "native_receiver pinned_runtime threaded_receiver (VInt 32)"
    by (simp add: native_receiver_def native_int_def native_cpu_def pinned_runtime_def example_runtime_def
        threaded_receiver_def dget_or_def CPU_SETSIZE_def)
qed (simp_all add: threaded_receiver_def global_prefix_def pinned_runtime_def example_runtime_def dget_or_def)

end
