(* ===== verification/Actions.thy ===== *)
theory Actions
  imports Values
begin

text \<open>
  Stateful Python code: an action takes the state of the world and gives a result (a value or an
  exception) together with the new state, which it keeps also when it raises. Sequencing, the
  \<^verbatim>\<open>try\<close> forms the harness uses, and the rules that carry state properties through them.
\<close>

type_synonym ('w, 'a) act = "'w \<Rightarrow> 'a res \<times> 'w"

definition areturn :: "'a \<Rightarrow> ('w, 'a) act" where
  "areturn x w = (Inr x, w)"

definition araise :: "exn \<Rightarrow> ('w, 'a) act" where
  "araise e w = (Inl e, w)"

definition abind :: "('w, 'a) act \<Rightarrow> ('a \<Rightarrow> ('w, 'b) act) \<Rightarrow> ('w, 'b) act" where
  "abind m f w = (case m w of (Inl e, w') \<Rightarrow> (Inl e, w') | (Inr x, w') \<Rightarrow> f x w')"

text \<open>\<^verbatim>\<open>try: m except K as exc: h(exc)\<close>\<close>

definition acatch :: "(exc_class \<Rightarrow> bool) \<Rightarrow> ('w, 'a) act \<Rightarrow> (exn \<Rightarrow> ('w, 'a) act) \<Rightarrow> ('w, 'a) act" where
  "acatch K m h w =
     (case m w of (Inl e, w') \<Rightarrow> if K (exc_kind e) then h e w' else (Inl e, w') | (Inr x, w') \<Rightarrow> (Inr x, w'))"

text \<open>\<^verbatim>\<open>try: m finally: f\<close>, where \<open>f\<close> does not raise past its own handlers unless it says so.\<close>

definition afinally :: "('w, 'a) act \<Rightarrow> ('w, unit) act \<Rightarrow> ('w, 'a) act" where
  "afinally m f w =
     (case m w of (r, w') \<Rightarrow> (case f w' of (Inl e, w'') \<Rightarrow> (Inl e, w'') | (Inr _, w'') \<Rightarrow> (r, w'')))"

text \<open>A computation that does not touch the state.\<close>

definition alift :: "'a res \<Rightarrow> ('w, 'a) act" where
  "alift r w = (r, w)"

named_theorems act_simps \<open>running actions\<close>

lemma areturn_run [act_simps]: "areturn x w = (Inr x, w)"
  by (simp add: areturn_def)

lemma araise_run [act_simps]: "araise e w = (Inl e, w)"
  by (simp add: araise_def)

lemma alift_run [act_simps]: "alift r w = (r, w)"
  by (simp add: alift_def)

lemma abind_Inr_iff [act_simps]:
  "abind m f w = (Inr y, w') \<longleftrightarrow> (\<exists>x v. m w = (Inr x, v) \<and> f x v = (Inr y, w'))"
  by (auto simp: abind_def split: prod.split sum.split)

lemma abind_Inl_iff [act_simps]:
  "abind m f w = (Inl e, w') \<longleftrightarrow> m w = (Inl e, w') \<or> (\<exists>x v. m w = (Inr x, v) \<and> f x v = (Inl e, w'))"
  by (auto simp: abind_def split: prod.split sum.split)

lemma abind_run: "m w = (Inr x, v) \<Longrightarrow> abind m f w = f x v"
  by (simp add: abind_def)

lemma abind_run_raise: "m w = (Inl e, v) \<Longrightarrow> abind m f w = (Inl e, v)"
  by (simp add: abind_def)

text \<open>Properties of the result and the state before and after, composed along a sequence.\<close>

definition ensures :: "('w \<Rightarrow> bool) \<Rightarrow> ('w, 'a) act \<Rightarrow> ('a res \<Rightarrow> 'w \<Rightarrow> bool) \<Rightarrow> bool" where
  "ensures P m Q \<longleftrightarrow> (\<forall>w. P w \<longrightarrow> (case m w of (r, w') \<Rightarrow> Q r w'))"

lemma ensuresD: "ensures P m Q \<Longrightarrow> P w \<Longrightarrow> m w = (r, w') \<Longrightarrow> Q r w'"
  by (auto simp: ensures_def)

lemma ensuresI: "(\<And>w r w'. P w \<Longrightarrow> m w = (r, w') \<Longrightarrow> Q r w') \<Longrightarrow> ensures P m Q"
  by (auto simp: ensures_def split: prod.split)

lemma ensures_bind:
  assumes "ensures P m R" "\<And>x. ensures (R (Inr x)) (f x) Q" "\<And>e w. R (Inl e) w \<Longrightarrow> Q (Inl e) w"
  shows "ensures P (abind m f) Q"
proof (rule ensuresI)
  fix w r w' assume P: "P w" and run: "abind m f w = (r, w')"
  show "Q r w'"
  proof (cases "m w")
    case (Pair r1 w1)
    then have R: "R r1 w1" using assms(1) P by (rule_tac ensuresD)
    show ?thesis
    proof (cases r1)
      case (Inl e)
      with R Pair run assms(3) show ?thesis by (auto simp: abind_def)
    next
      case (Inr x)
      with R Pair run assms(2) show ?thesis by (auto simp: abind_def dest: ensuresD)
    qed
  qed
qed

lemma ensures_weaken:
  "ensures P m Q \<Longrightarrow> (\<And>w. P' w \<Longrightarrow> P w) \<Longrightarrow> (\<And>r w. Q r w \<Longrightarrow> Q' r w) \<Longrightarrow> ensures P' m Q'"
  unfolding ensures_def by fastforce

lemma ensures_return: "(\<And>w. P w \<Longrightarrow> Q (Inr x) w) \<Longrightarrow> ensures P (areturn x) Q"
  by (auto simp: ensures_def act_simps)

lemma ensures_raise: "(\<And>w. P w \<Longrightarrow> Q (Inl e) w) \<Longrightarrow> ensures P (araise e) Q"
  by (auto simp: ensures_def act_simps)

lemma ensures_if:
  "(b \<Longrightarrow> ensures P m Q) \<Longrightarrow> (\<not> b \<Longrightarrow> ensures P n Q) \<Longrightarrow> ensures P (if b then m else n) Q"
  by simp

lemma ensures_option:
  "(v = None \<Longrightarrow> ensures P m Q) \<Longrightarrow> (\<And>x. v = Some x \<Longrightarrow> ensures P (f x) Q) \<Longrightarrow>
   ensures P (case v of None \<Rightarrow> m | Some x \<Rightarrow> f x) Q"
  by (cases v) auto

lemma ensures_catch:
  assumes "ensures P m R" "\<And>x w. R (Inr x) w \<Longrightarrow> Q (Inr x) w"
    "\<And>e. K (exc_kind e) \<Longrightarrow> ensures (R (Inl e)) (h e) Q"
    "\<And>e w. \<not> K (exc_kind e) \<Longrightarrow> R (Inl e) w \<Longrightarrow> Q (Inl e) w"
  shows "ensures P (acatch K m h) Q"
proof (rule ensuresI)
  fix w r w' assume P: "P w" and run: "acatch K m h w = (r, w')"
  obtain r1 w1 where m: "m w = (r1, w1)" by (cases "m w")
  then have "R r1 w1" using assms(1) P by (rule_tac ensuresD)
  with m run assms(2-) show "Q r w'"
    by (cases r1) (auto simp: acatch_def dest: ensuresD split: if_splits)
qed

lemma ensures_False [simp]: "ensures (\<lambda>w. False) m Q"
  by (simp add: ensures_def)

lemma ensures_pre_conj: "(b \<Longrightarrow> ensures P m Q) \<Longrightarrow> ensures (\<lambda>w. b \<and> P w) m Q"
  by (auto simp: ensures_def)

end
