(* ===== verification/Shutdown.thy ===== *)
theory Shutdown
  imports Commands Actions
begin

text \<open>
  Stopping processes (\<^verbatim>\<open>shutdown_process\<close> of \<^verbatim>\<open>main.py\<close>) over the controller interface
  (\<^verbatim>\<open>NodeController\<close>), and the local controller (\<^verbatim>\<open>LocalNode\<close>) over a model of the operating system in
  which every process reacts to a signal in its own way: it may ignore it or leave after a delay.
  Durations are rational seconds.
\<close>

section \<open>The controller interface\<close>

datatype signum = SIGINT | SIGTERM | SIGKILL

fun signal_name :: "signum \<Rightarrow> string" where
  "signal_name SIGINT = ''SIGINT''"
| "signal_name SIGTERM = ''SIGTERM''"
| "signal_name SIGKILL = ''SIGKILL''"

datatype request = ToProcess signum | ToWrapper signum

record 'w node_ops =
  signal_process :: "process_handle \<Rightarrow> signum \<Rightarrow> ('w, unit) act"
  signal_wrapper :: "process_handle \<Rightarrow> signum \<Rightarrow> ('w, unit) act"
  wait_process :: "process_handle \<Rightarrow> rat \<Rightarrow> ('w, int) act"
  wait_pid_exit :: "int \<Rightarrow> rat \<Rightarrow> ('w, bool) act"
  process_exists :: "int \<Rightarrow> ('w, bool) act"

section \<open>The shutdown sequence\<close>

definition expired_text :: "string \<Rightarrow> rat \<Rightarrow> exn" where
  "expired_text cmd t =
     Exn TimeoutExpired (''Command '' @ [CHR 0x27] @ cmd @ [CHR 0x27] @ '' timed out after '' @
       py_repr (VFloat (Fin t)) @ '' seconds'')"

definition timeout_expired :: "string list \<Rightarrow> rat \<Rightarrow> exn" where
  "timeout_expired cmd t = expired_text (py_repr (VList (map VStr cmd))) t"

definition escalation_timeout :: "rat \<Rightarrow> rat" where
  "escalation_timeout timeout = max (1 / 10) (min timeout 2)"

text \<open>\<^verbatim>\<open>try: status = node.wait_process(...) except TimeoutExpired as exc: last_timeout = exc\<close>\<close>

definition try_wait ::
  "'w node_ops \<Rightarrow> process_handle \<Rightarrow> rat \<Rightarrow> exn option \<Rightarrow> ('w, int option \<times> exn option) act" where
  "try_wait node h t latest =
     acatch (\<lambda>k. k = TimeoutExpired)
       (abind (wait_process node h t) (\<lambda>status. areturn (Some status, latest)))
       (\<lambda>exc. areturn (None, Some exc))"

fun shutdown_stages ::
  "'w node_ops \<Rightarrow> process_handle \<Rightarrow> rat \<Rightarrow> (signum \<times> rat) list \<Rightarrow> exn option \<Rightarrow>
   ('w, int option \<times> exn option) act" where
  "shutdown_stages node h esc [] latest = areturn (None, latest)"
| "shutdown_stages node h esc ((s, t) # stages) latest =
     abind (signal_process node h s) (\<lambda>_.
     abind (try_wait node h t latest) (\<lambda>(status, latest').
     case workload_pid h of
       Some p \<Rightarrow>
         abind (wait_pid_exit node p esc) (\<lambda>exited.
         if status \<noteq> None \<and> exited then areturn (status, latest')
         else if \<not> exited then shutdown_stages node h esc stages (Some (timeout_expired (command h) esc))
         else shutdown_stages node h esc stages latest')
     | None \<Rightarrow> if status \<noteq> None then areturn (status, latest') else shutdown_stages node h esc stages latest'))"

definition raise_last :: "exn option \<Rightarrow> ('w, 'a) act" where
  "raise_last latest = (case latest of Some e \<Rightarrow> araise e | None \<Rightarrow> araise (Exn AssertionErr []))"

fun wrapper_stages ::
  "'w node_ops \<Rightarrow> process_handle \<Rightarrow> rat \<Rightarrow> signum list \<Rightarrow> exn option \<Rightarrow> ('w, int) act" where
  "wrapper_stages node h esc [] latest = raise_last latest"
| "wrapper_stages node h esc (s # stages) latest =
     abind (signal_wrapper node h s) (\<lambda>_.
     abind (try_wait node h esc latest) (\<lambda>(status, latest').
     case status of Some n \<Rightarrow> areturn n | None \<Rightarrow> wrapper_stages node h esc stages latest'))"

definition shutdown_process :: "'w node_ops \<Rightarrow> process_handle \<Rightarrow> rat \<Rightarrow> ('w, int) act" where
  "shutdown_process node h timeout =
     (let esc = escalation_timeout timeout
      in abind (shutdown_stages node h esc [(SIGINT, timeout), (SIGTERM, esc), (SIGKILL, esc)] None) (\<lambda>(status, latest).
         case status of
           Some n \<Rightarrow> areturn n
         | None \<Rightarrow>
             (case workload_pid h of
                Some p \<Rightarrow> abind (process_exists node p) (\<lambda>b.
                  if b then raise_last latest else wrapper_stages node h esc [SIGTERM, SIGKILL] latest)
              | None \<Rightarrow> raise_last latest)))"

section \<open>What a controller promises\<close>

text \<open>
  \<open>alive w p\<close>: process \<open>p\<close> exists; \<open>sent w\<close>: the signal requests made so far. Waiting for a process ends
  with its status only when it is gone, the probes tell the truth, nothing revives a process, and an
  operation that fails does so with its own exception.
\<close>

locale node_controller =
  fixes node :: "'w node_ops" and alive :: "'w \<Rightarrow> int \<Rightarrow> bool" and sent :: "'w \<Rightarrow> request list"
  assumes signal_law: "signal_process node h s w = (r, w') \<Longrightarrow>
      (\<forall>p. alive w' p \<longrightarrow> alive w p) \<and> r \<noteq> Inl (Exn AssertionErr msg) \<and>
      (sent w' = sent w @ [ToProcess s] \<or> (sent w' = sent w \<and> (\<exists>e. r = Inl e)))"
    and wrapper_law: "signal_wrapper node h s w = (r, w') \<Longrightarrow>
      (\<forall>p. alive w' p \<longrightarrow> alive w p) \<and> r \<noteq> Inl (Exn AssertionErr msg) \<and>
      (sent w' = sent w @ [ToWrapper s] \<or> (sent w' = sent w \<and> (\<exists>e. r = Inl e)))"
    and wait_law: "wait_process node h t w = (rs, w') \<Longrightarrow>
      (\<forall>p. alive w' p \<longrightarrow> alive w p) \<and> rs \<noteq> Inl (Exn AssertionErr msg) \<and> sent w' = sent w \<and>
      (\<forall>n. rs = Inr n \<longrightarrow> \<not> alive w' (pid h))"
    and exit_law: "wait_pid_exit node p t w = (rb, w') \<Longrightarrow>
      (\<forall>p. alive w' p \<longrightarrow> alive w p) \<and> rb \<noteq> Inl (Exn AssertionErr msg) \<and> sent w' = sent w \<and>
      (\<forall>b. rb = Inr b \<longrightarrow> b = (\<not> alive w' p))"
    and exists_law: "process_exists node p w = (rb, w') \<Longrightarrow>
      (\<forall>p. alive w' p \<longrightarrow> alive w p) \<and> rb \<noteq> Inl (Exn AssertionErr msg) \<and> sent w' = sent w \<and>
      (\<forall>b. rb = Inr b \<longrightarrow> b = alive w' p)"
begin

text \<open>\<open>known xs A w\<close>: the requests made are \<open>xs\<close> and the processes of \<open>A\<close> are gone.\<close>

definition known :: "request list \<Rightarrow> int set \<Rightarrow> 'w \<Rightarrow> bool" where
  "known xs A w \<longleftrightarrow> sent w = xs \<and> (\<forall>p \<in> A. \<not> alive w p)"

definition fails :: "exn \<Rightarrow> bool" where
  "fails e \<longleftrightarrow> exc_kind e \<noteq> AssertionErr"

lemma failsI: "(\<And>msg. r \<noteq> Inl (Exn AssertionErr msg)) \<Longrightarrow> r = Inl e \<Longrightarrow> fails e"
  by (cases e) (auto simp: fails_def)

lemma signal_known:
  "ensures (known xs A) (signal_process node h s) (\<lambda>r w. case r of
     Inr _ \<Rightarrow> known (xs @ [ToProcess s]) A w
   | Inl e \<Rightarrow> fails e \<and> (known xs A w \<or> known (xs @ [ToProcess s]) A w))"
proof (rule ensuresI)
  fix w r w' assume "known xs A w" and run: "signal_process node h s w = (r, w')"
  then show "case r of Inr _ \<Rightarrow> known (xs @ [ToProcess s]) A w'
     | Inl e \<Rightarrow> fails e \<and> (known xs A w' \<or> known (xs @ [ToProcess s]) A w')"
    using signal_law [OF run] failsI [of r] by (auto simp: known_def split: sum.split)
qed

lemma wrapper_known:
  "ensures (known xs A) (signal_wrapper node h s) (\<lambda>r w. case r of
     Inr _ \<Rightarrow> known (xs @ [ToWrapper s]) A w
   | Inl e \<Rightarrow> fails e \<and> (known xs A w \<or> known (xs @ [ToWrapper s]) A w))"
proof (rule ensuresI)
  fix w r w' assume "known xs A w" and run: "signal_wrapper node h s w = (r, w')"
  then show "case r of Inr _ \<Rightarrow> known (xs @ [ToWrapper s]) A w'
     | Inl e \<Rightarrow> fails e \<and> (known xs A w' \<or> known (xs @ [ToWrapper s]) A w')"
    using wrapper_law [OF run] failsI [of r] by (auto simp: known_def split: sum.split)
qed

lemma wait_known:
  "ensures (known xs A) (wait_process node h t) (\<lambda>r w. case r of
     Inr n \<Rightarrow> known xs (insert (pid h) A) w | Inl e \<Rightarrow> fails e \<and> known xs A w)"
proof (rule ensuresI)
  fix w r w' assume "known xs A w" and run: "wait_process node h t w = (r, w')"
  then show "case r of Inr n \<Rightarrow> known xs (insert (pid h) A) w' | Inl e \<Rightarrow> fails e \<and> known xs A w'"
    using wait_law [OF run] failsI [of r] by (auto simp: known_def split: sum.split)
qed

lemma exit_known:
  "ensures (known xs A) (wait_pid_exit node p t) (\<lambda>r w. case r of
     Inr b \<Rightarrow> known xs (if b then insert p A else A) w | Inl e \<Rightarrow> fails e \<and> known xs A w)"
proof (rule ensuresI)
  fix w r w' assume "known xs A w" and run: "wait_pid_exit node p t w = (r, w')"
  then show "case r of Inr b \<Rightarrow> known xs (if b then insert p A else A) w' | Inl e \<Rightarrow> fails e \<and> known xs A w'"
    using exit_law [OF run] failsI [of r] by (auto simp: known_def split: sum.split)
qed

lemma exists_known:
  "ensures (known xs A) (process_exists node p) (\<lambda>r w. case r of
     Inr b \<Rightarrow> known xs (if b then A else insert p A) w | Inl e \<Rightarrow> fails e \<and> known xs A w)"
proof (rule ensuresI)
  fix w r w' assume "known xs A w" and run: "process_exists node p w = (r, w')"
  then show "case r of Inr b \<Rightarrow> known xs (if b then A else insert p A) w' | Inl e \<Rightarrow> fails e \<and> known xs A w'"
    using exists_law [OF run] failsI [of r] by (auto simp: known_def split: sum.split)
qed

definition expired :: "exn option \<Rightarrow> bool" where
  "expired lt \<longleftrightarrow> (\<exists>e. lt = Some e \<and> exc_kind e = TimeoutExpired)"

lemma expired_timeout [simp]: "expired (Some (timeout_expired cmd t))"
  by (simp add: expired_def timeout_expired_def expired_text_def)

lemma try_wait_known:
  "ensures (known xs A) (try_wait node h t lt) (\<lambda>r w. case r of
     Inr (Some n, lt') \<Rightarrow> lt' = lt \<and> known xs (insert (pid h) A) w
   | Inr (None, lt') \<Rightarrow> expired lt' \<and> known xs A w
   | Inl e \<Rightarrow> fails e \<and> known xs A w)" (is "ensures _ _ ?Q")
proof -
  have "ensures (known xs A) (abind (wait_process node h t) (\<lambda>n. areturn (Some n, lt)))
    (\<lambda>r w. case r of Inr (st, lt') \<Rightarrow> st \<noteq> None \<and> lt' = lt \<and> known xs (insert (pid h) A) w
                  | Inl e \<Rightarrow> fails e \<and> known xs A w)"
    by (rule ensures_bind [OF wait_known]) (auto intro: ensures_return)
  then show ?thesis
    unfolding try_wait_def
    by (rule ensures_catch) (auto intro!: ensures_return simp: expired_def)
qed

lemma known_weaken: "known xs A w \<Longrightarrow> B \<subseteq> A \<Longrightarrow> known xs B w"
  by (auto simp: known_def)

definition gone :: "process_handle \<Rightarrow> int set" where
  "gone h = insert (pid h) (set_option (workload_pid h))"

definition stage_post ::
  "process_handle \<Rightarrow> request list \<Rightarrow> signum list \<Rightarrow> bool \<Rightarrow> (int option \<times> exn option) res \<Rightarrow> 'w \<Rightarrow> bool" where
  "stage_post h xs stages kept r w \<longleftrightarrow>
     (\<exists>k \<le> length stages. known (xs @ map ToProcess (take k stages)) {} w \<and>
        (case r of Inl e \<Rightarrow> fails e
         | Inr (Some n, lt) \<Rightarrow> known (sent w) (gone h) w
         | Inr (None, lt) \<Rightarrow> k = length stages \<and> (kept \<or> stages \<noteq> [] \<longrightarrow> expired lt)))"

lemma stage_post_Cons:
  "stage_post h (xs @ [ToProcess s]) stages True r w \<Longrightarrow> stage_post h xs (s # stages) kept r w"
  unfolding stage_post_def
  by (elim exE conjE, rule_tac x = "Suc k" in exI) (auto split: sum.splits prod.splits option.splits)

lemma stage_post_one:
  assumes "known (xs @ [ToProcess s]) A w"
    "case r of Inl e \<Rightarrow> fails e | Inr (Some n, lt) \<Rightarrow> gone h \<subseteq> A | Inr (None, lt) \<Rightarrow> False"
  shows "stage_post h xs (s # stages) kept r w"
  unfolding stage_post_def
  by (rule exI [of _ 1]) (use assms in \<open>auto simp: known_def split: sum.splits prod.splits option.splits\<close>)

lemma stage_post_zero:
  assumes "known xs A w" "fails e"
  shows "stage_post h xs stages kept (Inl e) w"
  unfolding stage_post_def by (rule exI [of _ 0]) (use assms in \<open>auto simp: known_def\<close>)

lemma stages_known:
  "ensures (known xs {}) (shutdown_stages node h esc stages lt) (stage_post h xs (map fst stages) (expired lt))"
proof (induction stages arbitrary: lt xs)
  case Nil
  show ?case
    unfolding shutdown_stages.simps by (rule ensures_return) (auto simp: stage_post_def)
next
  case (Cons st stages)
  obtain s t where st: "st = (s, t)" by (cases st)
  define Q where "Q = stage_post h xs (map fst (st # stages)) (expired lt)"
  define next_stages where "next_stages status lt' =
     (case workload_pid h of
       Some p \<Rightarrow> abind (wait_pid_exit node p esc) (\<lambda>exited.
         if status \<noteq> None \<and> exited then areturn (status, lt')
         else if \<not> exited then shutdown_stages node h esc stages (Some (timeout_expired (command h) esc))
         else shutdown_stages node h esc stages lt')
     | None \<Rightarrow> if status \<noteq> None then areturn (status, lt') else shutdown_stages node h esc stages lt')"
    for status lt'
  have rest: "ensures (known (xs @ [ToProcess s]) A) (shutdown_stages node h esc stages lt') Q"
    if "expired lt'" for A lt'
    unfolding Q_def using that
    by (intro ensures_weaken [OF Cons.IH [of "xs @ [ToProcess s]" lt']])
       (auto simp: st intro: known_weaken stage_post_Cons)
  have one: "Q r w" if "known (xs @ [ToProcess s]) A w"
      "case r of Inl e \<Rightarrow> fails e | Inr (Some n, lt) \<Rightarrow> gone h \<subseteq> A | Inr (None, lt) \<Rightarrow> False" for r w A
    unfolding Q_def st using that by (simp add: stage_post_one)
  have zero: "Q (Inl e) w" if "known xs A w" "fails e" for e w A
    unfolding Q_def using that by (rule stage_post_zero)
  have tail: "ensures (known (xs @ [ToProcess s]) A) (next_stages status lt') Q"
    if "if status = None then expired lt' else pid h \<in> A" for A status lt'
    unfolding next_stages_def using that
    by (intro ensures_option ensures_bind [OF exit_known] ensures_if)
       (auto simp: gone_def intro!: ensures_return rest intro: one)
  have waited: "ensures (known (xs @ [ToProcess s]) {}) (abind (try_wait node h t lt) (\<lambda>(status, lt'). next_stages status lt')) Q"
  proof (rule ensures_bind [OF try_wait_known])
    fix x show "ensures (\<lambda>w. case Inr x of Inl e \<Rightarrow> fails e \<and> known (xs @ [ToProcess s]) {} w
        | Inr (None, lt') \<Rightarrow> expired lt' \<and> known (xs @ [ToProcess s]) {} w
        | Inr (Some n, lt') \<Rightarrow> lt' = lt \<and> known (xs @ [ToProcess s]) (insert (pid h) {}) w)
        (case x of (status, lt') \<Rightarrow> next_stages status lt') Q"
      by (cases x; cases "fst x") (auto intro!: ensures_pre_conj tail)
  qed (auto intro: one)
  show ?case
    unfolding Q_def [symmetric] unfolding st shutdown_stages.simps next_stages_def [symmetric]
    by (rule ensures_bind [OF signal_known]) (use waited in \<open>auto intro: one zero\<close>)
qed

text \<open>What the whole sequence guarantees, with the requests it makes to the wrapper.\<close>

definition shutdown_post :: "process_handle \<Rightarrow> request list \<Rightarrow> int res \<Rightarrow> 'w \<Rightarrow> bool" where
  "shutdown_post h xs r w \<longleftrightarrow>
     (\<exists>k j. k \<le> 3 \<and> j \<le> 2 \<and>
        sent w = xs @ map ToProcess (take k [SIGINT, SIGTERM, SIGKILL]) @ map ToWrapper (take j [SIGTERM, SIGKILL]) \<and>
        (j > 0 \<longrightarrow> k = 3 \<and> (\<exists>p. workload_pid h = Some p \<and> \<not> alive w p))) \<and>
     (\<forall>n. r = Inr n \<longrightarrow> (\<forall>p \<in> gone h. \<not> alive w p)) \<and>
     (\<forall>e. r = Inl e \<longrightarrow> exc_kind e \<noteq> AssertionErr)"

definition wrapper_post :: "process_handle \<Rightarrow> int \<Rightarrow> request list \<Rightarrow> signum list \<Rightarrow> int res \<Rightarrow> 'w \<Rightarrow> bool" where
  "wrapper_post h p xs stages r w \<longleftrightarrow>
     (\<exists>j \<le> length stages. known (xs @ map ToWrapper (take j stages)) {p} w \<and>
       (case r of Inl e \<Rightarrow> fails e | Inr n \<Rightarrow> known (sent w) {pid h, p} w))"

lemma wrapper_post_Cons:
  "wrapper_post h p (xs @ [ToWrapper s]) stages r w \<Longrightarrow> wrapper_post h p xs (s # stages) r w"
  unfolding wrapper_post_def by (elim exE conjE, rule_tac x = "Suc j" in exI) auto

lemma wrapper_post_zero: "known xs {p} w \<Longrightarrow> fails e \<Longrightarrow> wrapper_post h p xs stages (Inl e) w"
  unfolding wrapper_post_def by (rule exI [of _ 0]) auto

lemma wrapper_post_one:
  assumes "known (xs @ [ToWrapper s]) {p} w" "case r of Inl e \<Rightarrow> fails e | Inr n \<Rightarrow> \<not> alive w (pid h)"
  shows "wrapper_post h p xs (s # stages) r w"
  unfolding wrapper_post_def by (rule exI [of _ 1]) (use assms in \<open>auto simp: known_def split: sum.splits\<close>)

lemma wrapper_post_done: "known (xs @ [ToWrapper s]) {pid h, p} w \<Longrightarrow> wrapper_post h p xs (s # stages) (Inr n) w"
  by (rule wrapper_post_one) (auto simp: known_def)

lemma wrapper_stages_known:
  "expired lt \<Longrightarrow> ensures (known xs {p}) (wrapper_stages node h esc stages lt) (wrapper_post h p xs stages)"
proof (induction stages arbitrary: lt xs)
  case Nil
  then obtain e where "lt = Some e" "fails e" by (auto simp: expired_def fails_def)
  then show ?case by (auto simp: raise_last_def intro!: ensures_raise wrapper_post_zero)
next
  case (Cons s stages)
  have rest: "ensures (known (xs @ [ToWrapper s]) {p}) (wrapper_stages node h esc stages lt')
      (wrapper_post h p xs (s # stages))" if "expired lt'" for lt'
    by (rule ensures_weaken [OF Cons.IH [OF that, of "xs @ [ToWrapper s]"]]) (auto intro: wrapper_post_Cons)
  have waited: "ensures (known (xs @ [ToWrapper s]) {p}) (abind (try_wait node h esc lt) (\<lambda>(status, lt').
      case status of Some n \<Rightarrow> areturn n | None \<Rightarrow> wrapper_stages node h esc stages lt'))
      (wrapper_post h p xs (s # stages))"
  proof (rule ensures_bind [OF try_wait_known])
    fix x show "ensures (\<lambda>w. case Inr x of Inl e \<Rightarrow> fails e \<and> known (xs @ [ToWrapper s]) {p} w
        | Inr (None, lt') \<Rightarrow> expired lt' \<and> known (xs @ [ToWrapper s]) {p} w
        | Inr (Some n, lt') \<Rightarrow> lt' = lt \<and> known (xs @ [ToWrapper s]) {pid h, p} w)
        (case x of (status, lt') \<Rightarrow>
           case status of Some n \<Rightarrow> areturn n | None \<Rightarrow> wrapper_stages node h esc stages lt')
        (wrapper_post h p xs (s # stages))"
      by (cases x; cases "fst x")
         (auto intro!: ensures_pre_conj rest ensures_return wrapper_post_done)
  qed (auto intro: wrapper_post_one)
  show ?case
    unfolding wrapper_stages.simps
    by (rule ensures_bind [OF wrapper_known]) (use waited in \<open>auto intro: wrapper_post_one wrapper_post_zero\<close>)
qed

lemma shutdown_known:
  "ensures (known xs {}) (shutdown_process node h timeout) (shutdown_post h xs)"
proof -
  let ?s = "[SIGINT, SIGTERM, SIGKILL]"
  define esc where "esc = escalation_timeout timeout"
  have stopped: "shutdown_post h xs (Inr n) w" if "stage_post h xs ?s False (Inr (Some n, lt)) w" for n lt w
    using that unfolding shutdown_post_def stage_post_def
    by (elim exE conjE, rule_tac conjI, rule_tac x = k in exI, rule_tac x = 0 in exI) (auto simp: known_def)
  have failed: "shutdown_post h xs (Inl e) w" if "stage_post h xs ?s False (Inl e) w" for e w
    using that unfolding shutdown_post_def stage_post_def
    by (elim exE conjE, rule_tac conjI, rule_tac x = k in exI, rule_tac x = 0 in exI) (auto simp: known_def fails_def)
  have all: "known (xs @ map ToProcess ?s) {} w \<and> expired lt" if "stage_post h xs ?s False (Inr (None, lt)) w" for lt w
    using that by (auto simp: stage_post_def)
  have raised: "shutdown_post h xs (Inl e) w" if "known (xs @ map ToProcess ?s) A w" "fails e" for e A w
    using that unfolding shutdown_post_def
    by (intro conjI exI [of _ 3] exI [of _ 0]) (auto simp: known_def fails_def)
  have wrapper: "shutdown_post h xs r w"
    if "wrapper_post h p (xs @ map ToProcess ?s) [SIGTERM, SIGKILL] r w" "workload_pid h = Some p" for p r w
    using that unfolding shutdown_post_def wrapper_post_def
    by (elim exE conjE, rule_tac conjI, rule_tac x = 3 in exI, rule_tac x = j in exI)
       (auto simp: known_def fails_def gone_def split: sum.splits)
  have stages: "ensures (known xs {}) (shutdown_stages node h esc [(SIGINT, timeout), (SIGTERM, esc), (SIGKILL, esc)] None)
      (stage_post h xs ?s False)"
    using stages_known [of xs h esc "[(SIGINT, timeout), (SIGTERM, esc), (SIGKILL, esc)]" None] by (simp add: expired_def)
  have raising: "ensures (known (xs @ map ToProcess ?s) A) (raise_last lt) (shutdown_post h xs)" if "expired lt" for lt A
    using that raised by (auto simp: raise_last_def expired_def fails_def intro!: ensures_raise)
  have probing: "ensures (known (xs @ map ToProcess ?s) {}) (abind (process_exists node p) (\<lambda>b.
      if b then raise_last lt else wrapper_stages node h esc [SIGTERM, SIGKILL] lt)) (shutdown_post h xs)"
    if "expired lt" "workload_pid h = Some p" for lt p
  proof (rule ensures_bind [OF exists_known])
    fix b show "ensures (\<lambda>w. case Inr b of Inl e \<Rightarrow> fails e \<and> known (xs @ map ToProcess ?s) {} w
        | Inr b \<Rightarrow> known (xs @ map ToProcess ?s) (if b then {} else insert p {}) w)
        (if b then raise_last lt else wrapper_stages node h esc [SIGTERM, SIGKILL] lt) (shutdown_post h xs)"
      using raising [OF that(1), of "{}"]
        ensures_weaken [OF wrapper_stages_known [OF that(1), of "xs @ map ToProcess ?s" p h esc "[SIGTERM, SIGKILL]"] _ wrapper [OF _ that(2)]]
      by (cases b) auto
  qed (auto intro: raised)
  show ?thesis
    unfolding shutdown_process_def Let_def esc_def [symmetric]
  proof (rule ensures_bind [OF stages])
    fix x :: "int option \<times> exn option"
    obtain status lt where x: "x = (status, lt)" by (cases x)
    show "ensures (stage_post h xs ?s False (Inr x)) (case x of (status, latest) \<Rightarrow>
        (case status of Some n \<Rightarrow> areturn n | None \<Rightarrow> (case workload_pid h of
           Some p \<Rightarrow> abind (process_exists node p) (\<lambda>b. if b then raise_last latest
             else wrapper_stages node h esc [SIGTERM, SIGKILL] latest)
         | None \<Rightarrow> raise_last latest))) (shutdown_post h xs)"
    proof (cases status)
      case (Some n)
      then show ?thesis using stopped by (auto simp: x intro!: ensures_return)
    next
      case None
      have "ensures (known (xs @ map ToProcess ?s) {}) (case workload_pid h of
           Some p \<Rightarrow> abind (process_exists node p) (\<lambda>b. if b then raise_last lt
             else wrapper_stages node h esc [SIGTERM, SIGKILL] lt)
         | None \<Rightarrow> raise_last lt) (shutdown_post h xs)" if "expired lt"
        using raising [OF that] probing [OF that] by (auto split: option.split)
      then have "ensures (\<lambda>w. expired lt \<and> known (xs @ map ToProcess ?s) {} w) (case workload_pid h of
           Some p \<Rightarrow> abind (process_exists node p) (\<lambda>b. if b then raise_last lt
             else wrapper_stages node h esc [SIGTERM, SIGKILL] lt)
         | None \<Rightarrow> raise_last lt) (shutdown_post h xs)"
        by (rule ensures_pre_conj)
      then show ?thesis
        using all unfolding x None prod.case option.case by (elim ensures_weaken) auto
    qed
  qed (rule failed)
qed

end

end
