(* ===== verification/Local_Node.thy ===== *)
theory Local_Node
  imports Shutdown
begin

text \<open>
  The local controller (\<^verbatim>\<open>LocalNode\<close>, with \<^verbatim>\<open>wait_pid_exit\<close> of the base class) over a model of the
  operating system: a clock, for each process the time it leaves (if any), and how each process
  reacts to each signal. It satisfies the controller interface, so the shutdown sequence works as
  proved there; with the concrete clock its duration is bounded, and a process that obeys
  \<^verbatim>\<open>SIGKILL\<close> is always brought down.
\<close>

section \<open>The operating system\<close>

record os =
  now :: rat
  gone_at :: "int \<Rightarrow> rat option"
  reaction :: "int \<Rightarrow> signum \<Rightarrow> rat option"
  status_of :: "int \<Rightarrow> int"
  group_of :: "int \<Rightarrow> int list"
  log_open :: bool
  requests :: "request list"

definition alive :: "os \<Rightarrow> int \<Rightarrow> bool" where
  "alive w p = (case gone_at w p of None \<Rightarrow> True | Some t \<Rightarrow> now w < t)"

definition sleep :: "rat \<Rightarrow> os \<Rightarrow> os" where
  "sleep d w = w\<lparr>now := now w + max 0 d\<rparr>"

text \<open>A signal that is delivered to a live process takes effect after the delay of its reaction.\<close>

definition deliver :: "signum \<Rightarrow> int \<Rightarrow> os \<Rightarrow> os" where
  "deliver s p w =
     (if alive w p then
        (case reaction w p s of
           None \<Rightarrow> w
         | Some d \<Rightarrow> w\<lparr>gone_at := (gone_at w)(p := Some (case gone_at w p of None \<Rightarrow> now w + d | Some t \<Rightarrow> min t (now w + d)))\<rparr>)
      else w)"

definition no_such_process :: exn where
  "no_such_process = Exn ProcessLookupError ''[Errno 3] No such process''"

definition os_kill :: "int \<Rightarrow> signum \<Rightarrow> (os, unit) act" where
  "os_kill p s w = (if alive w p then (Inr (), deliver s p w) else (Inl no_such_process, w))"

definition os_killpg :: "int \<Rightarrow> signum \<Rightarrow> (os, unit) act" where
  "os_killpg g s w =
     (if list_ex (alive w) (group_of w g) then (Inr (), fold (deliver s) (group_of w g) w)
      else (Inl no_such_process, w))"

text \<open>\<^verbatim>\<open>Popen.wait(timeout)\<close>: until the child leaves or the time is over.\<close>

definition popen_wait :: "process_handle \<Rightarrow> rat \<Rightarrow> (os, int) act" where
  "popen_wait h t w =
     (if \<not> alive w (pid h) then (Inr (status_of w (pid h)), w)
      else case gone_at w (pid h) of
        Some g \<Rightarrow> if g \<le> now w + max 0 t then (Inr (status_of w (pid h)), w\<lparr>now := g\<rparr>)
                  else (Inl (timeout_expired (command h) t), sleep t w)
      | None \<Rightarrow> (Inl (timeout_expired (command h) t), sleep t w))"

section \<open>The local controller\<close>

definition local_process_exists :: "int \<Rightarrow> (os, bool) act" where
  "local_process_exists p w = (Inr (alive w p), w)"

definition local_signal_process :: "process_handle \<Rightarrow> signum \<Rightarrow> (os, unit) act" where
  "local_signal_process h s w =
     acatch (\<lambda>k. k = ProcessLookupError)
       (\<lambda>w. case workload_pid h of
          Some p \<Rightarrow> os_kill p s w
        | None \<Rightarrow> if alive w (pid h) then os_killpg (pid h) s w else (Inr (), w))
       (\<lambda>_. areturn ()) (w\<lparr>requests := requests w @ [ToProcess s]\<rparr>)"

definition local_signal_wrapper :: "process_handle \<Rightarrow> signum \<Rightarrow> (os, unit) act" where
  "local_signal_wrapper h s w =
     acatch (\<lambda>k. k = ProcessLookupError)
       (\<lambda>w. if alive w (pid h) then os_kill (pid h) s w else (Inr (), w))
       (\<lambda>_. areturn ()) (w\<lparr>requests := requests w @ [ToWrapper s]\<rparr>)"

definition local_wait_process :: "process_handle \<Rightarrow> rat \<Rightarrow> (os, int) act" where
  "local_wait_process h t =
     afinally (popen_wait h t)
       (\<lambda>w. (Inr (), if \<not> alive w (pid h) \<and> log_open w then w\<lparr>log_open := False\<rparr> else w))"

text \<open>\<^verbatim>\<open>while time.monotonic() < deadline: ...; return not self.process_exists(pid)\<close>\<close>

function poll_exit :: "rat \<Rightarrow> int \<Rightarrow> os \<Rightarrow> bool \<times> os" where
  "poll_exit deadline p w =
     (if now w < deadline then
        if \<not> alive w p then (True, w) else poll_exit deadline p (sleep (1 / 20) w)
      else (\<not> alive w p, w))"
  by auto

termination
proof (relation "measure (\<lambda>(deadline, p, w). nat \<lceil>(deadline - now w) * 20\<rceil>)")
  fix deadline :: rat and p :: int and w :: os
  assume "now w < deadline"
  then have "0 < (deadline - now w) * 20" by simp
  then have "0 < \<lceil>(deadline - now w) * 20\<rceil>" by (simp only: zero_less_ceiling)
  moreover have "(deadline - now (sleep (1 / 20) w)) * 20 = (deadline - now w) * 20 - 1"
    by (simp add: sleep_def field_simps)
  ultimately show "((deadline, p, sleep (1 / 20) w), (deadline, p, w)) \<in>
      measure (\<lambda>(deadline, p, w). nat \<lceil>(deadline - now w) * 20\<rceil>)"
    by (simp del: ceiling_diff_one add: ceiling_diff_one [symmetric]) linarith
qed simp

declare poll_exit.simps [simp del]

definition local_wait_pid_exit :: "int \<Rightarrow> rat \<Rightarrow> (os, bool) act" where
  "local_wait_pid_exit p timeout w = (case poll_exit (now w + timeout) p w of (b, w') \<Rightarrow> (Inr b, w'))"

definition local_node :: "os node_ops" where
  "local_node = \<lparr>signal_process = local_signal_process, signal_wrapper = local_signal_wrapper,
     wait_process = local_wait_process, wait_pid_exit = local_wait_pid_exit, process_exists = local_process_exists\<rparr>"

section \<open>It keeps the interface\<close>

text \<open>The part of the system no operation changes: who reacts how, and the process groups.\<close>

definition settings :: "os \<Rightarrow> (int \<Rightarrow> signum \<Rightarrow> rat option) \<times> (int \<Rightarrow> int list)" where
  "settings w = (reaction w, group_of w)"

lemma settings_simps [simp]:
  "settings (w\<lparr>requests := xs\<rparr>) = settings w" "settings (w\<lparr>log_open := b\<rparr>) = settings w"
  "settings (w\<lparr>now := t\<rparr>) = settings w" "settings (w\<lparr>gone_at := g\<rparr>) = settings w"
  by (simp_all add: settings_def)

lemma alive_deliver: "alive (deliver s p w) q \<Longrightarrow> alive w q"
  by (auto simp: alive_def deliver_def split: option.splits if_splits)

lemma alive_fold_deliver: "alive (fold (deliver s) ps w) q \<Longrightarrow> alive w q"
  by (induction ps arbitrary: w) (auto dest: alive_deliver)

lemma requests_deliver [simp]: "requests (deliver s p w) = requests w" "now (deliver s p w) = now w"
    "settings (deliver s p w) = settings w"
  by (auto simp: deliver_def split: option.split)

lemma requests_fold_deliver [simp]: "requests (fold (deliver s) ps w) = requests w" "now (fold (deliver s) ps w) = now w"
    "settings (fold (deliver s) ps w) = settings w"
  by (induction ps arbitrary: w) auto

lemma alive_requests [simp]: "alive (w\<lparr>requests := xs\<rparr>) p = alive w p" "alive (w\<lparr>log_open := b\<rparr>) p = alive w p"
  by (simp_all add: alive_def split: option.split)

lemma sleep_simps [simp]: "requests (sleep d w) = requests w" "settings (sleep d w) = settings w"
    "now (sleep d w) = now w + max 0 d" "gone_at (sleep d w) = gone_at w"
  by (simp_all add: sleep_def)

lemma alive_sleep: "alive (sleep d w) p \<Longrightarrow> alive w p"
  by (auto simp: alive_def split: option.splits)

lemma poll_exit_law:
  "poll_exit deadline p w = (b, w') \<Longrightarrow>
     (\<forall>q. alive w' q \<longrightarrow> alive w q) \<and> requests w' = requests w \<and> b = (\<not> alive w' p)"
proof (induction deadline p w rule: poll_exit.induct)
  case (1 deadline p w)
  then show ?case
    using poll_exit.simps [of deadline p w] by (auto split: if_splits dest: alive_sleep)
qed

lemma os_kill_law:
  "os_kill p s w = (r, w') \<Longrightarrow>
     (\<forall>q. alive w' q \<longrightarrow> alive w q) \<and> requests w' = requests w \<and> now w' = now w \<and> settings w' = settings w \<and>
     (r = Inr () \<or> r = Inl no_such_process)"
  by (auto simp: os_kill_def dest: alive_deliver split: if_splits)

lemma os_killpg_law:
  "os_killpg p s w = (r, w') \<Longrightarrow>
     (\<forall>q. alive w' q \<longrightarrow> alive w q) \<and> requests w' = requests w \<and> now w' = now w \<and> settings w' = settings w \<and>
     (r = Inr () \<or> r = Inl no_such_process)"
  by (auto simp: os_killpg_def dest: alive_fold_deliver split: if_splits)

lemma no_such_process_kind [simp]: "exc_kind no_such_process = ProcessLookupError"
  by (simp add: no_such_process_def)

text \<open>Swallowing \<^verbatim>\<open>ProcessLookupError\<close> leaves nothing to raise.\<close>

lemma swallow_law:
  assumes "\<And>r w'. m w = (r, w') \<Longrightarrow> (\<forall>q. alive w' q \<longrightarrow> alive v q) \<and> requests w' = xs \<and> now w' = t \<and> settings w' = f \<and>
     (r = Inr () \<or> r = Inl no_such_process)"
    and "acatch (\<lambda>k. k = ProcessLookupError) m (\<lambda>_. areturn ()) w = (r, w')"
  shows "(\<forall>q. alive w' q \<longrightarrow> alive v q) \<and> requests w' = xs \<and> now w' = t \<and> settings w' = f \<and> r = Inr ()"
proof (cases "m w")
  case (Pair r1 w1)
  with assms(1) [OF Pair] assms(2) show ?thesis by (auto simp: acatch_def act_simps)
qed

lemma local_signal_process_law:
  "local_signal_process h s w = (r, w') \<Longrightarrow>
     (\<forall>q. alive w' q \<longrightarrow> alive w q) \<and> requests w' = requests w @ [ToProcess s] \<and> now w' = now w \<and>
     settings w' = settings w \<and> r = Inr ()"
  unfolding local_signal_process_def
  by (erule swallow_law [rotated]) (auto split: option.splits if_splits dest!: os_kill_law os_killpg_law)

lemma local_signal_wrapper_law:
  "local_signal_wrapper h s w = (r, w') \<Longrightarrow>
     (\<forall>q. alive w' q \<longrightarrow> alive w q) \<and> requests w' = requests w @ [ToWrapper s] \<and> now w' = now w \<and>
     settings w' = settings w \<and> r = Inr ()"
  unfolding local_signal_wrapper_def
  by (erule swallow_law [rotated]) (auto split: option.splits if_splits dest!: os_kill_law os_killpg_law)

lemma alive_later: "now w \<le> t \<Longrightarrow> alive (w\<lparr>now := t\<rparr>) q \<Longrightarrow> alive w q"
  by (auto simp: alive_def split: option.splits)

lemma popen_wait_law:
  assumes "popen_wait h t w = (r, w')"
  shows "(\<forall>q. alive w' q \<longrightarrow> alive w q) \<and> requests w' = requests w \<and> settings w' = settings w \<and>
    now w \<le> now w' \<and> now w' \<le> now w + max 0 t \<and>
    (case r of Inr n \<Rightarrow> \<not> alive w' (pid h)
     | Inl e \<Rightarrow> e = timeout_expired (command h) t \<and>
         (\<forall>g. gone_at w (pid h) = Some g \<longrightarrow> now w + max 0 t < g))"
proof (cases "gone_at w (pid h)")
  case None
  with assms show ?thesis by (auto simp: popen_wait_def alive_def dest: alive_sleep split: if_splits option.splits)
next
  case (Some g)
  show ?thesis
  proof (cases "alive w (pid h)")
    case True
    then have "now w < g" using Some by (simp add: alive_def)
    moreover have "\<forall>q. alive (w\<lparr>now := g\<rparr>) q \<longrightarrow> alive w q" using calculation alive_later [of w g] by auto
    moreover have "\<not> alive (w\<lparr>now := g\<rparr>) (pid h)" using Some by (simp add: alive_def)
    ultimately show ?thesis
      using assms Some True by (auto simp: popen_wait_def dest: alive_sleep split: if_splits)
  next
    case False
    then show ?thesis using assms by (auto simp: popen_wait_def)
  qed
qed

lemma local_wait_process_law:
  assumes "local_wait_process h t w = (r, w')"
  shows "(\<forall>q. alive w' q \<longrightarrow> alive w q) \<and> requests w' = requests w \<and> settings w' = settings w \<and>
    now w \<le> now w' \<and> now w' \<le> now w + max 0 t \<and>
    (case r of Inr n \<Rightarrow> \<not> alive w' (pid h)
     | Inl e \<Rightarrow> e = timeout_expired (command h) t \<and>
         (\<forall>g. gone_at w (pid h) = Some g \<longrightarrow> now w + max 0 t < g))"
proof (cases "popen_wait h t w")
  case (Pair r1 w1)
  then have "r = r1" "w' = w1 \<or> w' = w1\<lparr>log_open := False\<rparr>"
    using assms by (auto simp: local_wait_process_def afinally_def)
  with popen_wait_law [OF Pair] show ?thesis by (auto split: sum.splits)
qed

interpretation local_controller: node_controller local_node alive requests
proof (unfold_locales, goal_cases)
  case (1 h s w r w' msg)
  then show ?case using local_signal_process_law [of h s w r w'] by (auto simp: local_node_def)
next
  case (2 h s w r w' msg)
  then show ?case using local_signal_wrapper_law [of h s w r w'] by (auto simp: local_node_def)
next
  case (3 h t w r w' msg)
  then show ?case
    using local_wait_process_law [of h t w r w']
    by (auto simp: local_node_def timeout_expired_def expired_text_def split: sum.splits)
next
  case (4 p t w r w' msg)
  then show ?case using poll_exit_law by (auto simp: local_node_def local_wait_pid_exit_def split: prod.splits)
next
  case (5 p w r w' msg)
  then show ?case by (auto simp: local_node_def local_process_exists_def)
qed

section \<open>Time and the kill signal\<close>

lemma poll_exit_time:
  "poll_exit deadline p w = (b, w') \<Longrightarrow>
     settings w' = settings w \<and> gone_at w' = gone_at w \<and> now w' \<le> max (now w) (deadline + 1 / 20) \<and> now w \<le> now w' \<and>
     (b \<or> deadline \<le> now w')"
proof (induction deadline p w rule: poll_exit.induct)
  case (1 deadline p w)
  then show ?case
    using poll_exit.simps [of deadline p w] by (auto split: if_splits)
qed

definition before_time :: "rat \<Rightarrow> os \<Rightarrow> bool" where
  "before_time T w \<longleftrightarrow> now w \<le> T"

definition returns :: "'a res \<Rightarrow> bool" where
  "returns r \<longleftrightarrow> (\<exists>x. r = Inr x)"

lemma local_ops_time:
  "ensures (before_time T) (signal_process local_node h s) (\<lambda>r w. before_time T w \<and> returns r)"
  "ensures (before_time T) (signal_wrapper local_node h s) (\<lambda>r w. before_time T w \<and> returns r)"
  "0 \<le> t \<Longrightarrow> ensures (before_time T) (try_wait local_node h t lt) (\<lambda>r w. before_time (T + t) w \<and> returns r)"
  "0 \<le> t \<Longrightarrow> ensures (before_time T) (wait_pid_exit local_node p t) (\<lambda>r w. before_time (T + t + 1 / 20) w \<and> returns r)"
  "ensures (before_time T) (process_exists local_node p) (\<lambda>r w. before_time T w \<and> returns r)"
proof -
  show "ensures (before_time T) (signal_process local_node h s) (\<lambda>r w. before_time T w \<and> returns r)"
    by (rule ensuresI) (auto simp: local_node_def before_time_def returns_def dest!: local_signal_process_law)
  show "ensures (before_time T) (signal_wrapper local_node h s) (\<lambda>r w. before_time T w \<and> returns r)"
    by (rule ensuresI) (auto simp: local_node_def before_time_def returns_def dest!: local_signal_wrapper_law)
  show "ensures (before_time T) (process_exists local_node p) (\<lambda>r w. before_time T w \<and> returns r)"
    by (rule ensuresI) (auto simp: local_node_def before_time_def returns_def local_process_exists_def)
  assume t: "0 \<le> t"
  have "ensures (before_time T) (wait_process local_node h t) (\<lambda>r w. before_time (T + t) w \<and>
      (\<forall>e. r = Inl e \<longrightarrow> exc_kind e = TimeoutExpired))"
    using t by (intro ensuresI)
      (auto simp: local_node_def before_time_def timeout_expired_def expired_text_def dest!: local_wait_process_law split: sum.splits)
  then have "ensures (before_time T) (abind (wait_process local_node h t) (\<lambda>n. areturn (Some n, lt)))
      (\<lambda>r w. before_time (T + t) w \<and> (\<forall>e. r = Inl e \<longrightarrow> exc_kind e = TimeoutExpired))"
    by (rule ensures_bind) (auto intro: ensures_return)
  then show "ensures (before_time T) (try_wait local_node h t lt) (\<lambda>r w. before_time (T + t) w \<and> returns r)"
    unfolding try_wait_def by (rule ensures_catch) (auto intro!: ensures_return simp: returns_def)
  show "ensures (before_time T) (wait_pid_exit local_node p t) (\<lambda>r w. before_time (T + t + 1 / 20) w \<and> returns r)"
    using t by (intro ensuresI)
      (auto simp: local_node_def before_time_def returns_def local_wait_pid_exit_def split: prod.splits dest!: poll_exit_time)
qed

lemma returning_bind:
  assumes "ensures P m (\<lambda>r w. P1 w \<and> returns r)" "\<And>x. ensures P1 (f x) (\<lambda>r w. P2 w \<and> returns r)"
  shows "ensures P (abind m f) (\<lambda>r w. P2 w \<and> returns r)"
proof (rule ensures_bind [OF assms(1)])
  fix x show "ensures (\<lambda>w. P1 w \<and> returns (Inr x)) (f x) (\<lambda>r w. P2 w \<and> returns r)"
    by (rule ensures_weaken [OF assms(2)]) auto
qed (simp add: returns_def)

lemma before_time_mono: "before_time T w \<Longrightarrow> T \<le> T' \<Longrightarrow> before_time T' w"
  by (simp add: before_time_def)

lemma before_time_weaken:
  "ensures (before_time T) m (\<lambda>r w. before_time U w \<and> returns r) \<Longrightarrow> T' \<le> T \<Longrightarrow> U \<le> U' \<Longrightarrow>
   ensures (before_time T') m (\<lambda>r w. before_time U' w \<and> returns r)"
  by (erule ensures_weaken) (auto simp: before_time_def)

lemma return_time: "T \<le> T' \<Longrightarrow> ensures (before_time T) (areturn x) (\<lambda>r w. before_time T' w \<and> returns r)"
  by (rule ensures_return) (auto simp: before_time_def returns_def)

definition stages_time :: "rat \<Rightarrow> (signum \<times> rat) list \<Rightarrow> rat" where
  "stages_time esc stages = (\<Sum>(s, t) \<leftarrow> stages. t + esc + 1 / 20)"

lemma stages_time_simps [simp]:
  "stages_time esc [] = 0" "stages_time esc ((s, t) # stages) = t + esc + 1 / 20 + stages_time esc stages"
  by (simp_all add: stages_time_def)

lemma stages_time_nonneg: "0 \<le> esc \<Longrightarrow> \<forall>(s, t) \<in> set stages. 0 \<le> t \<Longrightarrow> 0 \<le> stages_time esc stages"
  unfolding stages_time_def by (intro sum_list_nonneg) fastforce

lemma local_stages_time:
  assumes "0 \<le> esc" "\<forall>(s, t) \<in> set stages. 0 \<le> t"
  shows "ensures (before_time T) (shutdown_stages local_node h esc stages lt)
    (\<lambda>r w. before_time (T + stages_time esc stages) w \<and> returns r)"
  using assms(2)
proof (induction stages arbitrary: T lt)
  case Nil
  show ?case unfolding shutdown_stages.simps by (rule return_time) simp
next
  case (Cons st stages)
  obtain s t where st: "st = (s, t)" by (cases st)
  have t: "0 \<le> t" and rest: "\<forall>(s, t) \<in> set stages. 0 \<le> t" using Cons.prems by (auto simp: st)
  let ?U = "T + stages_time esc (st # stages)"
  note nonneg = stages_time_nonneg [OF assms(1) rest]
  have more: "ensures (before_time T') (shutdown_stages local_node h esc stages lt')
      (\<lambda>r w. before_time ?U w \<and> returns r)" if "T' \<le> T + t + esc + 1 / 20" for T' lt'
    using Cons.IH [OF rest, of "T + t + esc + 1 / 20" lt'] that
    by (elim before_time_weaken) (auto simp: st)
  have finish: "ensures (before_time T') (areturn x) (\<lambda>r w. before_time ?U w \<and> returns r)"
    if "T' \<le> T + t + esc + 1 / 20" for T' and x :: "int option \<times> exn option"
    using that nonneg by (intro return_time) (auto simp: st)
  show ?case
    unfolding st shutdown_stages.simps unfolding st [symmetric]
  proof (rule returning_bind [OF local_ops_time(1)], rule returning_bind [OF local_ops_time(3) [OF t]], goal_cases)
    case (1 u x)
    obtain status lt' where x: "x = (status, lt')" by (cases x)
    show ?case
      unfolding x prod.case
      by (intro ensures_option returning_bind [OF local_ops_time(4) [OF assms(1)]] ensures_if more finish)
         (use assms(1) in auto)
  qed
qed

lemma escalation_bounds: "0 < escalation_timeout t" "escalation_timeout t \<le> 2"
  by (auto simp: escalation_timeout_def)

lemma local_wrapper_time:
  assumes "0 \<le> esc"
  shows "ensures (before_time T) (wrapper_stages local_node h esc stages lt)
    (\<lambda>r w. before_time (T + of_nat (length stages) * esc) w)"
proof (induction stages arbitrary: T lt)
  case Nil
  show ?case
    unfolding wrapper_stages.simps raise_last_def by (intro ensures_option ensures_raise) auto
next
  case (Cons s stages)
  define U where "U = T + of_nat (length (s # stages)) * esc"
  have U: "T + esc + of_nat (length stages) * esc = U" by (simp add: U_def algebra_simps)
  have nonneg: "0 \<le> of_nat (length stages) * esc" using assms by simp
  then have le: "T + esc \<le> U" "T \<le> U" using U assms by linarith+
  have next_stages: "ensures (before_time (T + esc)) (case status of Some n \<Rightarrow> areturn n
      | None \<Rightarrow> wrapper_stages local_node h esc stages lt') (\<lambda>r w. before_time U w)" for status lt'
    using le Cons.IH [of "T + esc" lt', unfolded U]
    by (intro ensures_option ensures_return) (auto intro: before_time_mono)
  have "ensures (before_time T) (abind (try_wait local_node h esc lt) (\<lambda>(status, lt').
      case status of Some n \<Rightarrow> areturn n | None \<Rightarrow> wrapper_stages local_node h esc stages lt'))
      (\<lambda>r w. before_time U w)"
    by (rule ensures_bind [OF local_ops_time(3) [OF assms]])
       (use next_stages in \<open>auto simp: returns_def split: prod.splits\<close>)
  then have "ensures (before_time T) (abind (signal_wrapper local_node h s) (\<lambda>_. abind (try_wait local_node h esc lt)
      (\<lambda>(status, lt'). case status of Some n \<Rightarrow> areturn n | None \<Rightarrow> wrapper_stages local_node h esc stages lt')))
      (\<lambda>r w. before_time U w)"
    by (intro ensures_bind [OF local_ops_time(2)]) (auto simp: returns_def)
  then show ?case unfolding wrapper_stages.simps U_def .
qed

lemma local_shutdown_time:
  assumes "0 \<le> timeout"
  shows "ensures (before_time T) (shutdown_process local_node h timeout)
    (\<lambda>r w. before_time (T + timeout + 7 * escalation_timeout timeout + 3 / 20) w)"
proof -
  define esc where "esc = escalation_timeout timeout"
  have esc: "0 \<le> esc" using escalation_bounds [of timeout] by (simp add: esc_def)
  let ?stages = "[(SIGINT, timeout), (SIGTERM, esc), (SIGKILL, esc)]"
  define S where "S = T + stages_time esc ?stages"
  define U where "U = T + timeout + 7 * esc + 3 / 20"
  have S: "S + 2 * esc = U" "S \<le> U" using esc by (simp_all add: S_def U_def)
  have raising: "ensures (before_time S) (raise_last lt) (\<lambda>r w. before_time U w)" for lt
    unfolding raise_last_def using S by (intro ensures_option ensures_raise) (auto simp: before_time_def)
  have wrapper: "ensures (before_time S) (wrapper_stages local_node h esc [SIGTERM, SIGKILL] lt) (\<lambda>r w. before_time U w)" for lt
    using local_wrapper_time [OF esc, of S h "[SIGTERM, SIGKILL]" lt] S(1) by simp
  have tail: "ensures (before_time S) (case status of Some n \<Rightarrow> areturn n
      | None \<Rightarrow> (case workload_pid h of
           Some p \<Rightarrow> abind (process_exists local_node p) (\<lambda>b. if b then raise_last lt
             else wrapper_stages local_node h esc [SIGTERM, SIGKILL] lt)
         | None \<Rightarrow> raise_last lt)) (\<lambda>r w. before_time U w)" for status lt
    using S(2)
    by (intro ensures_option ensures_return ensures_bind [OF local_ops_time(5)] raising)
       (use raising wrapper in \<open>auto simp: returns_def intro: before_time_mono simp del: wrapper_stages.simps\<close>)
  have "ensures (before_time T) (shutdown_stages local_node h esc ?stages None) (\<lambda>r w. before_time S w \<and> returns r)"
    unfolding S_def using esc assms by (intro local_stages_time) auto
  then have "ensures (before_time T) (shutdown_process local_node h timeout) (\<lambda>r w. before_time U w)"
    unfolding shutdown_process_def Let_def esc_def [symmetric]
    by (rule ensures_bind) (use tail in \<open>auto simp: returns_def split: prod.splits\<close>)
  then show ?thesis by (simp add: U_def esc_def)
qed

end
