(* ===== verification/Node_Shutdown.thy ===== *)
theory Node_Shutdown
  imports Local_Node
begin

text \<open>
  The shutdown sequence on the local controller: what it signals and what is gone when it returns,
  how long it takes, and that it succeeds whenever the processes obey \<^verbatim>\<open>SIGKILL\<close>.
\<close>

section \<open>A killed process leaves\<close>

definition under :: "(int \<Rightarrow> signum \<Rightarrow> rat option) \<times> (int \<Rightarrow> int list) \<Rightarrow> os \<Rightarrow> bool" where
  "under S w \<longleftrightarrow> settings w = S"

definition leaving :: "rat \<Rightarrow> int \<Rightarrow> os \<Rightarrow> bool" where
  "leaving d p w \<longleftrightarrow> (\<exists>g. gone_at w p = Some g \<and> g \<le> now w + d)"

text \<open>\<open>p\<close> leaves within \<open>d\<close> of a \<^verbatim>\<open>SIGKILL\<close>.\<close>

definition killable :: "rat \<Rightarrow> (int \<Rightarrow> signum \<Rightarrow> rat option) \<times> (int \<Rightarrow> int list) \<Rightarrow> int \<Rightarrow> bool" where
  "killable d S p \<longleftrightarrow> (\<exists>x \<le> d. fst S p SIGKILL = Some x)"

lemma dead_leaving: "\<not> alive w p \<Longrightarrow> 0 \<le> d \<Longrightarrow> leaving d p w"
  by (auto simp: alive_def leaving_def split: option.splits)

lemma leaving_deliver: "leaving d p w \<Longrightarrow> leaving d p (deliver s q w)"
  by (auto simp: leaving_def deliver_def min_def split: option.splits)

lemma leaving_fold: "leaving d p w \<Longrightarrow> leaving d p (fold (deliver s) qs w)"
  by (induction qs arbitrary: w) (auto dest: leaving_deliver)

lemma deliver_kill:
  assumes "0 \<le> d" "killable d (settings w) p"
  shows "leaving d p (deliver SIGKILL p w)"
proof (cases "alive w p")
  case True
  from assms(2) obtain x where "reaction w p SIGKILL = Some x" "x \<le> d" by (auto simp: killable_def settings_def)
  with True show ?thesis by (auto simp: leaving_def deliver_def min_def split: option.split)
qed (use assms dead_leaving in \<open>simp add: deliver_def\<close>)

lemma fold_deliver_kill:
  "0 \<le> d \<Longrightarrow> killable d (settings w) p \<Longrightarrow> p \<in> set ps \<Longrightarrow> leaving d p (fold (deliver SIGKILL) ps w)"
  by (induction ps arbitrary: w) (auto intro: leaving_fold deliver_kill)

lemma settings_killable: "settings w = settings v \<Longrightarrow> killable d (settings w) p = killable d (settings v) p"
  by simp

lemma leaving_requests [simp]: "leaving d p (w\<lparr>requests := xs\<rparr>) = leaving d p w"
  by (simp add: leaving_def)

lemma local_kill_process:
  assumes "0 \<le> d" "killable d S (shutdown_target_pid h)" "pid h \<in> set (snd S (pid h))"
  shows "ensures (under S) (signal_process local_node h SIGKILL)
    (\<lambda>r w. under S w \<and> returns r \<and> leaving d (shutdown_target_pid h) w)"
proof (rule ensuresI)
  fix w r w' assume S: "under S w" and run: "signal_process local_node h SIGKILL w = (r, w')"
  then have law: "settings w' = S" "r = Inr ()"
    using local_signal_process_law [of h SIGKILL w r w'] by (auto simp: under_def local_node_def)
  let ?v = "w\<lparr>requests := requests w @ [ToProcess SIGKILL]\<rparr>"
  have v: "settings ?v = S" "group_of ?v (pid h) = snd S (pid h)" using S by (auto simp: under_def settings_def)
  have "leaving d (shutdown_target_pid h) w'"
  proof (cases "workload_pid h")
    case None
    then have "w' = (if alive w (pid h) then fold (deliver SIGKILL) (group_of ?v (pid h)) ?v else ?v)"
      using run assms(3) v by (auto simp: local_node_def local_signal_process_def acatch_def os_killpg_def
          act_simps list_ex_iff split: if_splits)
    then show ?thesis
      using None assms v fold_deliver_kill [of d ?v "pid h"] dead_leaving [of w "pid h" d]
      by (auto simp: shutdown_target_pid_def)
  next
    case (Some p)
    then have "w' = (if alive w p then deliver SIGKILL p ?v else ?v)"
      using run by (auto simp: local_node_def local_signal_process_def acatch_def os_kill_def act_simps split: if_splits)
    then show ?thesis
      using Some assms v deliver_kill [of d ?v p] dead_leaving [of w p d] by (auto simp: shutdown_target_pid_def)
  qed
  then show "under S w' \<and> returns r \<and> leaving d (shutdown_target_pid h) w'"
    using law by (simp add: under_def returns_def)
qed

lemma local_kill_wrapper:
  assumes "0 \<le> d" "killable d S (pid h)"
  shows "ensures (under S) (signal_wrapper local_node h SIGKILL)
    (\<lambda>r w. under S w \<and> returns r \<and> leaving d (pid h) w)"
proof (rule ensuresI)
  fix w r w' assume S: "under S w" and run: "signal_wrapper local_node h SIGKILL w = (r, w')"
  then have law: "settings w' = S" "r = Inr ()"
    using local_signal_wrapper_law [of h SIGKILL w r w'] by (auto simp: under_def local_node_def)
  let ?v = "w\<lparr>requests := requests w @ [ToWrapper SIGKILL]\<rparr>"
  have v: "settings ?v = S" using S by (simp add: under_def)
  have "w' = (if alive w (pid h) then deliver SIGKILL (pid h) ?v else ?v)"
    using run by (auto simp: local_node_def local_signal_wrapper_def acatch_def os_kill_def act_simps split: if_splits)
  then have "leaving d (pid h) w'"
    using assms v deliver_kill [of d ?v "pid h"] dead_leaving [of w "pid h" d] by auto
  then show "under S w' \<and> returns r \<and> leaving d (pid h) w'" using law by (simp add: under_def returns_def)
qed

section \<open>Waiting\<close>

lemma local_wait_gone_at: "local_wait_process h t w = (r, w') \<Longrightarrow> gone_at w' = gone_at w"
  by (auto simp: local_wait_process_def afinally_def popen_wait_def split: prod.splits sum.splits if_splits option.splits)

lemma leaving_later: "leaving d p w \<Longrightarrow> gone_at w' = gone_at w \<Longrightarrow> now w \<le> now w' \<Longrightarrow> leaving d p w'"
  by (auto simp: leaving_def)

lemma local_wait:
  assumes "local_wait_process h t w = (r, w')" "0 \<le> t"
  shows "settings w' = settings w \<and> (leaving d p w \<longrightarrow> leaving d p w') \<and> (leaving t (pid h) w \<longrightarrow> returns r) \<and>
    (\<forall>e. r = Inl e \<longrightarrow> exc_kind e = TimeoutExpired)"
  using local_wait_process_law [OF assms(1)] local_wait_gone_at [OF assms(1)] assms(2)
  by (cases r) (auto simp: leaving_def returns_def timeout_expired_def expired_text_def)

lemma local_try_wait:
  assumes "0 \<le> t" "\<And>w. P w \<Longrightarrow> under S w" "\<And>w. P w \<Longrightarrow> leaving t (pid h) w" "\<And>w. P w \<Longrightarrow> leaving d p w"
  shows "ensures P (try_wait local_node h t lt)
    (\<lambda>r w. under S w \<and> leaving d p w \<and> (\<exists>n lt'. r = Inr (Some n, lt')))"
proof -
  have "ensures P (wait_process local_node h t) (\<lambda>r w. under S w \<and> leaving d p w \<and> returns r)"
    using assms local_wait [of h t _ _ _ d p] by (intro ensuresI) (fastforce simp: local_node_def under_def)
  then have "ensures P (abind (wait_process local_node h t) (\<lambda>n. areturn (Some n, lt)))
      (\<lambda>r w. under S w \<and> leaving d p w \<and> (\<exists>n lt'. r = Inr (Some n, lt')))"
    by (rule ensures_bind) (auto intro: ensures_return simp: returns_def)
  then show ?thesis
    unfolding try_wait_def by (rule ensures_catch) (auto)
qed

text \<open>Without a signal in flight, a wait still keeps the settings and never raises past its handler.\<close>

lemma local_try_wait_any:
  assumes "0 \<le> t" "\<And>w. P w \<Longrightarrow> under S w \<and> leaving d p w"
  shows "ensures P (try_wait local_node h t lt) (\<lambda>r w. under S w \<and> leaving d p w \<and> returns r)"
proof -
  have "ensures P (wait_process local_node h t) (\<lambda>r w. under S w \<and> leaving d p w \<and> (\<forall>e. r = Inl e \<longrightarrow> exc_kind e = TimeoutExpired))"
    using assms local_wait [of h t _ _ _ d p] by (intro ensuresI) (fastforce simp: local_node_def under_def)
  then have "ensures P (abind (wait_process local_node h t) (\<lambda>n. areturn (Some n, lt)))
      (\<lambda>r w. under S w \<and> leaving d p w \<and> (\<forall>e. r = Inl e \<longrightarrow> exc_kind e = TimeoutExpired))"
    by (rule ensures_bind) (auto intro: ensures_return)
  then show ?thesis
    unfolding try_wait_def by (rule ensures_catch) (auto intro!: ensures_return simp: returns_def)
qed

lemma local_try_wait_under:
  assumes "0 \<le> t"
  shows "ensures (under S) (try_wait local_node h t lt) (\<lambda>r w. under S w \<and> returns r)"
proof -
  have "ensures (under S) (wait_process local_node h t) (\<lambda>r w. under S w \<and> (\<forall>e. r = Inl e \<longrightarrow> exc_kind e = TimeoutExpired))"
    using assms local_wait [of h t] by (intro ensuresI) (fastforce simp: local_node_def under_def)
  then have "ensures (under S) (abind (wait_process local_node h t) (\<lambda>n. areturn (Some n, lt)))
      (\<lambda>r w. under S w \<and> (\<forall>e. r = Inl e \<longrightarrow> exc_kind e = TimeoutExpired))"
    by (rule ensures_bind) (auto intro: ensures_return)
  then show ?thesis
    unfolding try_wait_def by (rule ensures_catch) (auto intro!: ensures_return simp: returns_def)
qed

lemma local_exit:
  assumes "0 \<le> t"
  shows "ensures (under S) (wait_pid_exit local_node p t) (\<lambda>r w. under S w \<and> returns r)"
    and "ensures (\<lambda>w. under S w \<and> leaving t p w) (wait_pid_exit local_node p t)
      (\<lambda>r w. under S w \<and> r = Inr True \<and> \<not> alive w p)"
proof -
  have gone: "\<not> alive w' p" if "leaving t p w" "gone_at w' = gone_at w" "now w + t \<le> now w'" for w w'
    using that by (auto simp: leaving_def alive_def)
  show "ensures (under S) (wait_pid_exit local_node p t) (\<lambda>r w. under S w \<and> returns r)"
    by (rule ensuresI) (auto simp: local_node_def local_wait_pid_exit_def under_def returns_def
        dest: poll_exit_time split: prod.splits)
  show "ensures (\<lambda>w. under S w \<and> leaving t p w) (wait_pid_exit local_node p t)
      (\<lambda>r w. under S w \<and> r = Inr True \<and> \<not> alive w p)"
  proof (rule ensuresI)
    fix w r w' assume pre: "under S w \<and> leaving t p w" and run: "wait_pid_exit local_node p t w = (r, w')"
    obtain b v where poll: "poll_exit (now w + t) p w = (b, v)" by (cases "poll_exit (now w + t) p w")
    with run have rv: "r = Inr b" "w' = v" by (auto simp: local_node_def local_wait_pid_exit_def)
    note time = poll_exit_time [OF poll] and law = poll_exit_law [OF poll]
    then show "under S w' \<and> r = Inr True \<and> \<not> alive w' p"
      using pre rv gone [of w v] by (auto simp: under_def)
  qed
qed

lemma local_signal_under:
  "ensures (under S) (signal_process local_node h s) (\<lambda>r w. under S w \<and> returns r)"
  "ensures (under S) (signal_wrapper local_node h s) (\<lambda>r w. under S w \<and> returns r)"
  "ensures (\<lambda>w. under S w \<and> \<not> alive w p) (process_exists local_node p) (\<lambda>r w. under S w \<and> r = Inr False)"
  by (rule ensuresI; auto simp: local_node_def under_def returns_def local_process_exists_def
      dest!: local_signal_process_law local_signal_wrapper_law)+

section \<open>The sequence ends\<close>

definition ended :: "process_handle \<Rightarrow> (int \<Rightarrow> signum \<Rightarrow> rat option) \<times> (int \<Rightarrow> int list) \<Rightarrow>
    (int option \<times> exn option) res \<Rightarrow> os \<Rightarrow> bool" where
  "ended h S r w \<longleftrightarrow> under S w \<and>
     (\<exists>st lt. r = Inr (st, lt) \<and> (st \<noteq> None \<or> (\<exists>p. workload_pid h = Some p \<and> \<not> alive w p)))"

lemma stage_step:
  assumes rest: "\<And>lt. ensures (under S) (shutdown_stages local_node h esc stages lt) (ended h S)"
    and "0 \<le> t" "0 \<le> esc"
  shows "ensures (under S) (shutdown_stages local_node h esc ((s, t) # stages) lt) (ended h S)"
proof -
  have tail: "ensures (under S) (case workload_pid h of
       Some p \<Rightarrow> abind (wait_pid_exit local_node p esc) (\<lambda>exited.
         if status \<noteq> None \<and> exited then areturn (status, lt')
         else if \<not> exited then shutdown_stages local_node h esc stages (Some (timeout_expired (command h) esc))
         else shutdown_stages local_node h esc stages lt')
     | None \<Rightarrow> if status \<noteq> None then areturn (status, lt') else shutdown_stages local_node h esc stages lt') (ended h S)"
    for status lt'
    using assms(3)
    by (intro ensures_option ensures_if ensures_return rest ensures_bind [OF local_exit(1)] assms(3))
       (auto simp: ended_def returns_def intro!: ensures_return intro: ensures_weaken [OF rest])
  show ?thesis
    unfolding shutdown_stages.simps
    by (rule ensures_bind [OF local_signal_under(1)], simp add: returns_def,
        rule ensures_bind [OF local_try_wait_under [OF assms(2)]])
       (use tail in \<open>auto simp: returns_def split: prod.splits\<close>)
qed

lemma kill_stage:
  assumes "0 \<le> esc" "killable esc S (shutdown_target_pid h)" "pid h \<in> set (snd S (pid h))"
  shows "ensures (under S) (shutdown_stages local_node h esc [(SIGKILL, esc)] lt) (ended h S)"
proof (cases "workload_pid h")
  case None
  then have target: "shutdown_target_pid h = pid h" by (simp add: shutdown_target_pid_def)
  have "ensures (\<lambda>w. under S w \<and> leaving esc (pid h) w) (abind (try_wait local_node h esc lt) (\<lambda>(status, lt').
      if status \<noteq> None then areturn (status, lt') else shutdown_stages local_node h esc [] lt')) (ended h S)"
    by (rule ensures_bind [OF local_try_wait [OF assms(1), where d = esc and p = "pid h"]])
       (auto simp: ended_def intro!: ensures_return)
  then show ?thesis
    unfolding shutdown_stages.simps None option.case
    by (intro ensures_bind [OF local_kill_process [OF assms]]) (auto simp: returns_def target)
next
  case (Some p)
  then have target: "shutdown_target_pid h = p" by (simp add: shutdown_target_pid_def)
  have tail: "ensures (\<lambda>w. under S w \<and> leaving esc p w) (abind (wait_pid_exit local_node p esc) (\<lambda>exited.
         if status \<noteq> None \<and> exited then areturn (status, lt')
         else if \<not> exited then shutdown_stages local_node h esc [] (Some (timeout_expired (command h) esc))
         else shutdown_stages local_node h esc [] lt')) (ended h S)" for status lt'
    unfolding shutdown_stages.simps
    by (rule ensures_bind [OF local_exit(2) [OF assms(1)]]) (auto simp: ended_def Some intro!: ensures_return)
  show ?thesis
    unfolding shutdown_stages.simps(2) Some option.case
    by (rule ensures_bind [OF local_kill_process [OF assms]], simp add: returns_def target,
        rule ensures_bind [OF local_try_wait_any [OF assms(1), where d = esc and p = p]])
       (use tail in \<open>auto simp: returns_def split: prod.splits\<close>)
qed

lemma wrapper_kill:
  assumes "0 \<le> esc" "killable esc S (pid h)"
  shows "ensures (under S) (wrapper_stages local_node h esc [SIGTERM, SIGKILL] lt) (\<lambda>r w. returns r)"
proof -
  have kill: "ensures (under S) (wrapper_stages local_node h esc [SIGKILL] lt) (\<lambda>r w. returns r)" for lt
    unfolding wrapper_stages.simps(2)
    by (rule ensures_bind [OF local_kill_wrapper [OF assms]], simp add: returns_def,
        rule ensures_bind [OF local_try_wait [OF assms(1), where S = S and d = esc and p = "pid h"]])
       (auto simp: returns_def intro!: ensures_return split: option.split)
  then have "ensures (under S) (case status of Some n \<Rightarrow> areturn n
      | None \<Rightarrow> wrapper_stages local_node h esc [SIGKILL] lt') (\<lambda>r w. returns r)" for status lt'
    by (intro ensures_option ensures_return) (auto simp: returns_def)
  then show ?thesis
    unfolding wrapper_stages.simps(2) [of _ _ _ SIGTERM]
    by (intro ensures_bind [OF local_signal_under(2)])
       (auto simp: returns_def split: prod.splits intro!: ensures_bind [OF local_try_wait_under [OF assms(1)]])
qed

lemma local_shutdown_returns:
  assumes "0 \<le> timeout" "killable (escalation_timeout timeout) S (shutdown_target_pid h)"
    "killable (escalation_timeout timeout) S (pid h)" "pid h \<in> set (snd S (pid h))"
  shows "ensures (under S) (shutdown_process local_node h timeout) (\<lambda>r w. returns r)"
proof -
  define esc where "esc = escalation_timeout timeout"
  have esc: "0 \<le> esc" using escalation_bounds [of timeout] by (simp add: esc_def)
  note kills = assms(2-4) [folded esc_def]
  have stages: "ensures (under S)
      (shutdown_stages local_node h esc [(SIGINT, timeout), (SIGTERM, esc), (SIGKILL, esc)] None) (ended h S)"
    using esc assms(1) kills by (intro stage_step kill_stage)
  have probing: "ensures (\<lambda>w. under S w \<and> \<not> alive w p) (abind (process_exists local_node p) (\<lambda>b.
      if b then raise_last lt else wrapper_stages local_node h esc [SIGTERM, SIGKILL] lt)) (\<lambda>r w. returns r)" for p lt
    by (rule ensures_bind [OF local_signal_under(3)])
       (use wrapper_kill [OF esc kills(2)] in \<open>auto simp del: wrapper_stages.simps\<close>)
  show ?thesis
    unfolding shutdown_process_def Let_def esc_def [symmetric]
  proof (rule ensures_bind [OF stages])
    fix x :: "int option \<times> exn option"
    obtain status lt where x: "x = (status, lt)" by (cases x)
    show "ensures (ended h S (Inr x)) (case x of (status, latest) \<Rightarrow>
        (case status of Some n \<Rightarrow> areturn n | None \<Rightarrow> (case workload_pid h of
           Some p \<Rightarrow> abind (process_exists local_node p) (\<lambda>b. if b then raise_last latest
             else wrapper_stages local_node h esc [SIGTERM, SIGKILL] latest)
         | None \<Rightarrow> raise_last latest))) (\<lambda>r w. returns r)"
    proof (cases "status = None \<and> workload_pid h \<noteq> None")
      case True
      then obtain p where "status = None" "workload_pid h = Some p" by auto
      then show ?thesis
        unfolding x by (simp del: wrapper_stages.simps) (rule ensures_weaken [OF probing], auto simp: ended_def)
    next
      case False
      then show ?thesis
        unfolding x
        by (cases status) (auto simp: returns_def ended_def intro!: ensures_return ensures_weaken [OF ensures_False])
    qed
  qed (auto simp: ended_def)
qed

section \<open>What stopping a process guarantees\<close>

text \<open>
  C8: Stopping is ordered and honest. The target is asked with \<^verbatim>\<open>SIGINT\<close>, \<^verbatim>\<open>SIGTERM\<close>, \<^verbatim>\<open>SIGKILL\<close> in
  this order and never twice with one of them; the wrapper of a profiled workload is signalled only
  after all three and only when the workload is gone; and when a status is returned, both the process
  and its workload are gone. The internal assertion on the last timeout never fails.
\<close>

theorem shutdown_order:
  assumes "shutdown_process local_node h timeout w = (r, w')"
  shows "\<exists>k j. k \<le> 3 \<and> j \<le> 2 \<and>
    requests w' = requests w @ map ToProcess (take k [SIGINT, SIGTERM, SIGKILL]) @
                  map ToWrapper (take j [SIGTERM, SIGKILL]) \<and>
    (j > 0 \<longrightarrow> k = 3 \<and> (\<exists>p. workload_pid h = Some p \<and> \<not> alive w' p)) \<and>
    (\<forall>n. r = Inr n \<longrightarrow> \<not> alive w' (pid h) \<and> (\<forall>p. workload_pid h = Some p \<longrightarrow> \<not> alive w' p)) \<and>
    (\<forall>e. r = Inl e \<longrightarrow> exc_kind e \<noteq> AssertionErr)"
proof -
  have "local_controller.known (requests w) {} w" by (simp add: local_controller.known_def)
  then have "local_controller.shutdown_post h (requests w) r w'"
    using ensuresD [OF local_controller.shutdown_known _ assms] by blast
  then show ?thesis
    unfolding local_controller.shutdown_post_def local_controller.gone_def by auto
qed

text \<open>
  C22: Stopping takes bounded time: on the local controller it is over (with a status or an
  exception) within the configured timeout plus fourteen and a quarter seconds.
\<close>

theorem shutdown_bounded:
  assumes "shutdown_process local_node h timeout w = (r, w')" "0 \<le> timeout"
  shows "now w' \<le> now w + timeout + 57 / 4"
proof -
  have "before_time (now w) w" by (simp add: before_time_def)
  then have "now w' \<le> now w + timeout + 7 * escalation_timeout timeout + 3 / 20"
    using ensuresD [OF local_shutdown_time [OF assms(2)] _ assms(1)] by (simp add: before_time_def)
  then show ?thesis using escalation_bounds [of timeout] by linarith
qed

text \<open>
  C21: Stopping succeeds when the kill signal works: if the process, and the workload it wraps, leave
  within the escalation timeout of a \<^verbatim>\<open>SIGKILL\<close> (whatever they do on the other signals), a status is
  returned; no exception escapes.
\<close>

theorem shutdown_succeeds:
  assumes "0 \<le> timeout"
    "reaction w (shutdown_target_pid h) SIGKILL = Some d" "d \<le> escalation_timeout timeout"
    "reaction w (pid h) SIGKILL = Some d'" "d' \<le> escalation_timeout timeout"
    "pid h \<in> set (group_of w (pid h))"
  shows "\<exists>status w'. shutdown_process local_node h timeout w = (Inr status, w')"
proof -
  obtain r w' where run: "shutdown_process local_node h timeout w = (r, w')"
    by (cases "shutdown_process local_node h timeout w")
  have "killable (escalation_timeout timeout) (settings w) (shutdown_target_pid h)"
    "killable (escalation_timeout timeout) (settings w) (pid h)" "pid h \<in> set (snd (settings w) (pid h))"
    using assms by (auto simp: killable_def settings_def)
  then have "returns r"
    using ensuresD [OF local_shutdown_returns [OF assms(1)] _ run] by (simp add: under_def)
  then show ?thesis using run by (auto simp: returns_def)
qed

text \<open>A profiled receiver that ignores everything but \<^verbatim>\<open>SIGKILL\<close>, under its wrapper.\<close>

definition stubborn :: os where
  "stubborn = \<lparr>now = 0, gone_at = Map.empty,
     reaction = (\<lambda>p s. if s = SIGKILL then Some 0 else None), status_of = (\<lambda>_. 137),
     group_of = (\<lambda>g. [g]), log_open = True, requests = []\<rparr>"

definition wrapped_handle :: process_handle where
  "wrapped_handle = \<lparr>pid = 200, command = [''perf''], log_path = ''/tmp/x.log'', monitor_pid = None,
     workload_pid = Some 201\<rparr>"

lemma shutdown_order_witness:
  "\<exists>k j r w'. shutdown_process local_node wrapped_handle 1 stubborn = (r, w') \<and> k \<le> 3 \<and> j \<le> 2 \<and>
     requests w' = map ToProcess (take k [SIGINT, SIGTERM, SIGKILL]) @ map ToWrapper (take j [SIGTERM, SIGKILL])"
proof -
  obtain r w' where run: "shutdown_process local_node wrapped_handle 1 stubborn = (r, w')"
    by (cases "shutdown_process local_node wrapped_handle 1 stubborn")
  then show ?thesis using shutdown_order [OF run] by (auto simp: stubborn_def)
qed

lemma shutdown_bounded_witness:
  "\<exists>r w'. shutdown_process local_node wrapped_handle 1 stubborn = (r, w') \<and> now w' \<le> 61 / 4"
proof -
  obtain r w' where run: "shutdown_process local_node wrapped_handle 1 stubborn = (r, w')"
    by (cases "shutdown_process local_node wrapped_handle 1 stubborn")
  then show ?thesis using shutdown_bounded [OF run] by (auto simp: stubborn_def)
qed

lemma shutdown_succeeds_witness:
  "\<exists>status w'. shutdown_process local_node wrapped_handle 1 stubborn = (Inr status, w')"
  by (rule shutdown_succeeds [where d = 0 and d' = 0])
     (simp_all add: stubborn_def wrapped_handle_def escalation_timeout_def)

end
