(* ===== verification/Csv.thy ===== *)
theory Csv
  imports Numerics
begin

text \<open>
  What the harness uses of the \<^verbatim>\<open>csv\<close> module of the language: the character automaton of
  \<^verbatim>\<open>csv.reader\<close> for the default dialect (comma, double quote, doubled quotes, not strict), fed line
  by line from a file opened with \<^verbatim>\<open>newline=""\<close>, and \<^verbatim>\<open>csv.DictReader\<close>. Fields are assumed shorter
  than the reader's field limit. The lemmas show that rows of plain fields come back as written.
\<close>

section \<open>The reader\<close>

datatype csv_state = StartRecord | StartField | InField | InQuotedField | QuoteInQuotedField | EatCrnl

text \<open>State, current field reversed, finished fields reversed. A character \<open>None\<close> is the end of a line.\<close>

type_synonym csv = "csv_state \<times> string \<times> string list"

definition csv_start :: csv where
  "csv_start = (StartRecord, [], [])"

definition is_crlf :: "char \<Rightarrow> bool" where
  "is_crlf c = (ord c = 10 \<or> ord c = 13)"

definition quote_char :: char where
  "quote_char = CHR 0x22"

text \<open>A line break ends the field and the record; the end of a line also leaves the record.\<close>

definition csv_end_field :: "char option \<Rightarrow> string \<Rightarrow> string list \<Rightarrow> csv" where
  "csv_end_field c f fs = (if c = None then StartRecord else EatCrnl, [], rev f # fs)"

definition csv_start_field :: "char option \<Rightarrow> string \<Rightarrow> string list \<Rightarrow> csv" where
  "csv_start_field c f fs =
     (case c of
        None \<Rightarrow> csv_end_field c f fs
      | Some d \<Rightarrow> if is_crlf d then csv_end_field c f fs
                  else if d = quote_char then (InQuotedField, f, fs)
                  else if d = CHR '','' then (StartField, [], rev f # fs)
                  else (InField, d # f, fs))"

fun csv_char :: "char option \<Rightarrow> csv \<Rightarrow> csv" where
  "csv_char c (StartRecord, f, fs) =
     (case c of
        None \<Rightarrow> (StartRecord, f, fs)
      | Some d \<Rightarrow> if is_crlf d then (EatCrnl, f, fs) else csv_start_field c f fs)"
| "csv_char c (StartField, f, fs) = csv_start_field c f fs"
| "csv_char c (InField, f, fs) =
     (case c of
        None \<Rightarrow> csv_end_field c f fs
      | Some d \<Rightarrow> if is_crlf d then csv_end_field c f fs
                  else if d = CHR '','' then (StartField, [], rev f # fs)
                  else (InField, d # f, fs))"
| "csv_char c (InQuotedField, f, fs) =
     (case c of
        None \<Rightarrow> (InQuotedField, f, fs)
      | Some d \<Rightarrow> if d = quote_char then (QuoteInQuotedField, f, fs) else (InQuotedField, d # f, fs))"
| "csv_char c (QuoteInQuotedField, f, fs) =
     (case c of
        None \<Rightarrow> csv_end_field c f fs
      | Some d \<Rightarrow> if d = quote_char then (InQuotedField, d # f, fs)
                  else if d = CHR '','' then (StartField, [], rev f # fs)
                  else if is_crlf d then csv_end_field c f fs
                  else (InField, d # f, fs))"
| "csv_char c (EatCrnl, f, fs) = (if c = None then (StartRecord, f, fs) else (EatCrnl, f, fs))"

definition csv_line :: "csv \<Rightarrow> string \<Rightarrow> csv" where
  "csv_line st line = csv_char None (fold (\<lambda>c. csv_char (Some c)) line st)"

text \<open>
  Lines are taken until one ends with the automaton at the start of a record; a file that ends
  inside a quoted field still gives its last record.
\<close>

fun csv_records :: "csv \<Rightarrow> string list \<Rightarrow> string list list" where
  "csv_records (st, f, fs) [] =
     (if f \<noteq> [] \<or> st = InQuotedField then [rev (rev f # fs)] else [])"
| "csv_records st (l # ls) =
     (case csv_line st l of
        (StartRecord, _, fs) \<Rightarrow> rev fs # csv_records csv_start ls
      | st' \<Rightarrow> csv_records st' ls)"

text \<open>The lines of a file with their ends: a line feed, a carriage return, or both.\<close>

fun keep_lines_acc :: "string \<Rightarrow> string \<Rightarrow> string list" where
  "keep_lines_acc acc [] = (if acc = [] then [] else [rev acc])"
| "keep_lines_acc acc [c] = [rev (c # acc)]"
| "keep_lines_acc acc (c # d # cs) =
     (if ord c = 10 then rev (c # acc) # keep_lines_acc [] (d # cs)
      else if ord c = 13 then
        (if ord d = 10 then rev (d # c # acc) # keep_lines_acc [] cs
         else rev (c # acc) # keep_lines_acc [] (d # cs))
      else keep_lines_acc (c # acc) (d # cs))"

definition csv_rows :: "string \<Rightarrow> string list list" where
  "csv_rows text = csv_records csv_start (keep_lines_acc [] text)"

section \<open>Rows as dictionaries\<close>

text \<open>
  \<^verbatim>\<open>csv.DictReader\<close>: the first record names the fields, blank records are skipped, a short row
  leaves \<^verbatim>\<open>None\<close> in the missing fields. The surplus of a long row goes under the key \<^verbatim>\<open>None\<close>, which no
  reader of the harness looks up.
\<close>

fun dict_row :: "string list \<Rightarrow> string list \<Rightarrow> pyval dict \<Rightarrow> pyval dict" where
  "dict_row [] row d = d"
| "dict_row (k # ks) [] d = dict_row ks [] (dset k VNone d)"
| "dict_row (k # ks) (v # vs) d = dict_row ks vs (dset k (VStr v) d)"

definition dict_reader :: "string \<Rightarrow> string list option \<times> pyval list" where
  "dict_reader text =
     (case csv_rows text of
        [] \<Rightarrow> (None, [])
      | names # rows \<Rightarrow>
          (Some names, map (\<lambda>row. VDict (dict_row names row [])) (filter (\<lambda>row. row \<noteq> []) rows)))"

section \<open>Plain rows come back\<close>

definition plain_field :: "string \<Rightarrow> bool" where
  "plain_field s = (s \<noteq> [] \<and> (\<forall>c \<in> set s. \<not> is_crlf c \<and> c \<noteq> quote_char \<and> c \<noteq> CHR '',''))"

definition csv_text_line :: "string list \<Rightarrow> string" where
  "csv_text_line fields = join '','' fields @ [newline]"

lemma crlf_newline [simp]: "is_crlf newline"
  by (simp add: is_crlf_def)

lemma fold_plain_in_field:
  "(\<forall>c \<in> set s. \<not> is_crlf c \<and> c \<noteq> quote_char \<and> c \<noteq> CHR '','') \<Longrightarrow>
   fold (\<lambda>c. csv_char (Some c)) s (InField, f, fs) = (InField, rev s @ f, fs)"
  by (induction s arbitrary: f) auto

lemma fold_plain_field:
  assumes "plain_field s" "st = StartRecord \<or> st = StartField"
  shows "fold (\<lambda>c. csv_char (Some c)) s (st, [], fs) = (InField, rev s, fs)"
proof -
  from assms(1) obtain c cs where s: "s = c # cs" by (cases s) (auto simp: plain_field_def)
  with assms(1) have c: "\<not> is_crlf c" "c \<noteq> quote_char" "c \<noteq> CHR '',''"
    and cs: "\<forall>c \<in> set cs. \<not> is_crlf c \<and> c \<noteq> quote_char \<and> c \<noteq> CHR '',''"
    by (simp_all add: plain_field_def)
  from c have "csv_start_field (Some c) [] fs = (InField, [c], fs)" by (simp add: csv_start_field_def)
  with c assms(2) have "csv_char (Some c) (st, [], fs) = (InField, [c], fs)" by (elim disjE) simp_all
  with cs s show ?thesis by (simp add: fold_plain_in_field)
qed

lemma comma_not_crlf: "\<not> is_crlf (CHR '','')"
  by (simp add: is_crlf_def ord_def)

lemma fold_plain_row:
  "fields \<noteq> [] \<Longrightarrow> (\<forall>s \<in> set fields. plain_field s) \<Longrightarrow> st = StartRecord \<or> st = StartField \<Longrightarrow>
   fold (\<lambda>c. csv_char (Some c)) (join '','' fields) (st, [], fs) = (InField, rev (last fields), rev (butlast fields) @ fs)"
proof (induction fields arbitrary: st fs)
  case (Cons s fields)
  show ?case
  proof (cases "fields = []")
    case False
    with Cons.IH [of StartField "s # fs"] Cons.prems show ?thesis
      by (simp add: join_Cons fold_plain_field comma_not_crlf)
  qed (use Cons.prems in \<open>simp add: fold_plain_field\<close>)
qed simp

lemma csv_line_plain:
  assumes "fields \<noteq> []" "\<forall>s \<in> set fields. plain_field s"
  shows "csv_line csv_start (csv_text_line fields) = (StartRecord, [], rev fields)"
proof -
  have "rev (butlast fields @ [last fields]) = rev fields" using assms(1) by simp
  then have "last fields # rev (butlast fields) = rev fields" by simp
  with assms show ?thesis
    by (simp add: csv_line_def csv_text_line_def csv_start_def fold_plain_row csv_end_field_def)
qed

lemma keep_lines_plain:
  "(\<forall>c \<in> set l. \<not> is_crlf c) \<Longrightarrow> keep_lines_acc acc (l @ newline # s) = (rev acc @ l @ [newline]) # keep_lines_acc [] s"
proof (induction l arbitrary: acc)
  case Nil
  then show ?case by (cases s) simp_all
next
  case (Cons c l)
  then have c: "ord c \<noteq> 10" "ord c \<noteq> 13" by (auto simp: is_crlf_def)
  obtain d cs where d: "l @ newline # s = d # cs" by (cases l) auto
  have "keep_lines_acc acc ((c # l) @ newline # s) = keep_lines_acc (c # acc) (l @ newline # s)"
    using c by (simp add: d)
  with Cons show ?case by simp
qed

lemma plain_line_no_crlf:
  "(\<forall>s \<in> set fields. plain_field s) \<Longrightarrow> \<forall>c \<in> set (join '','' fields). \<not> is_crlf c"
  by (induction fields) (auto simp: join_Cons plain_field_def comma_not_crlf)

lemma csv_rows_plain:
  "(\<forall>fields \<in> set rows. fields \<noteq> [] \<and> (\<forall>s \<in> set fields. plain_field s)) \<Longrightarrow>
   csv_rows (concat (map csv_text_line rows)) = rows"
proof (induction rows)
  case Nil
  then show ?case by (simp add: csv_rows_def csv_start_def)
next
  case (Cons r rows)
  then have "csv_line csv_start (join '','' r @ [newline]) = (StartRecord, [], rev r)"
    using csv_line_plain [of r] by (simp add: csv_text_line_def)
  with Cons show ?case
    using keep_lines_plain [OF plain_line_no_crlf [of r], of "[]"]
    by (simp add: csv_rows_def csv_text_line_def)
qed

lemma plain_str_nat: "plain_field (str_nat n)"
proof -
  have "\<not> is_crlf c \<and> c \<noteq> quote_char \<and> c \<noteq> CHR '',''" if "is_digit c" for c
    using that by (auto simp: is_digit_def is_crlf_def quote_char_def ord_def)
  then show ?thesis by (auto simp: plain_field_def dest: str_nat_digits)
qed

lemma dget_dict_row:
  "length ks \<le> length vs \<Longrightarrow> distinct ks \<Longrightarrow> k \<notin> set ks \<Longrightarrow> dget (dict_row ks vs d) k = dget d k"
  by (induction ks vs d rule: dict_row.induct) auto

lemma dget_dict_row_nth:
  "length ks \<le> length vs \<Longrightarrow> distinct ks \<Longrightarrow> i < length ks \<Longrightarrow>
   dget (dict_row ks vs d) (ks ! i) = Some (VStr (vs ! i))"
proof (induction ks vs d arbitrary: i rule: dict_row.induct)
  case (3 k ks v vs d)
  then show ?case by (cases i) (simp_all add: dget_dict_row)
qed simp_all

end
