(* ===== verification/Pacing.thy ===== *)
theory Pacing
  imports Csv "HOL-Library.Product_Lexorder" "HOL-Library.Word"
begin

text \<open>
  The pacing evidence of a qualification run: \<^verbatim>\<open>nearest_rank\<close> and \<^verbatim>\<open>analyze_pacing_trace\<close> of
  \<^verbatim>\<open>main.py\<close>, and the writer of the trace in \<^verbatim>\<open>src/sender/sender.cpp\<close>. The lemmas give the rank of
  the percentile in the sample, what the one-millisecond windows count, what a passed analysis says
  of the packets sent, and that the harness reads back the records the sender wrote.
\<close>

section \<open>Percentiles\<close>

definition nearest_rank :: "int list \<Rightarrow> flt \<Rightarrow> int res" where
  "nearest_rank vals quantile =
     (if vals = [] then Inl (Exn ValueError ''cannot calculate a percentile of an empty sample'')
      else let ordered = sort vals in
        rbind (int_mul_flt (int (length ordered)) quantile) (\<lambda>position.
        rbind (py_ceil position) (\<lambda>rank.
          let index = max 0 (min (int (length ordered) - 1) (rank - 1))
          in Inr (ordered ! nat index))))"

section \<open>The trace\<close>

type_synonym pacing_record = "int \<times> int \<times> int"

definition pacing_required :: "string list" where
  "pacing_required = [''actual_mono_ns'', ''scheduled_mono_ns'', ''packet_count'']"

definition pacing_row :: "string \<Rightarrow> pyval \<Rightarrow> pacing_record res" where
  "pacing_row path row =
     rbind (int_at row ''actual_mono_ns'') (\<lambda>actual.
     rbind (int_at row ''scheduled_mono_ns'') (\<lambda>scheduled.
     rbind (int_at row ''packet_count'') (\<lambda>count.
       if actual < 0 \<or> scheduled < 0 \<or> count \<le> 0
       then Inl (Exn ValueError (''Pacing trace contains an invalid record: '' @ path))
       else Inr (actual, scheduled, count))))"

definition read_pacing_records :: "string \<Rightarrow> string \<Rightarrow> pacing_record list res" where
  "read_pacing_records path text =
     (case dict_reader text of (names, rows) \<Rightarrow>
        rbind (require (set pacing_required \<subseteq> set (case names of Some ns \<Rightarrow> ns | None \<Rightarrow> []))
                 (Exn ValueError (''Pacing trace has an invalid header: '' @ path))) (\<lambda>_.
        rbind (rmap (pacing_row path) rows) (\<lambda>records.
          Inr (sort records))))"

section \<open>Windows and gaps\<close>

definition edge_ns :: int where "edge_ns = 100000000"

definition window_ns :: int where "window_ns = 1000000"

definition window_count :: "int \<Rightarrow> int \<Rightarrow> int" where
  "window_count interior_start interior_end = max 0 ((interior_end - interior_start) div window_ns)"

definition in_interior :: "int \<Rightarrow> int \<Rightarrow> pacing_record \<Rightarrow> bool" where
  "in_interior interior_start n rec =
     (case rec of (actual, _, _) \<Rightarrow> interior_start \<le> actual \<and> actual < interior_start + n * window_ns)"

fun count_windows :: "int \<Rightarrow> int \<Rightarrow> pacing_record list \<Rightarrow> int list \<Rightarrow> (int \<times> int) list \<Rightarrow> int list \<times> (int \<times> int) list" where
  "count_windows interior_start n [] counts interior = (counts, interior)"
| "count_windows interior_start n ((actual, scheduled, packets) # rs) counts interior =
     (if in_interior interior_start n (actual, scheduled, packets)
      then (let i = nat ((actual - interior_start) div window_ns)
            in count_windows interior_start n rs (counts[i := counts ! i + packets]) (interior @ [(actual, scheduled)]))
      else count_windows interior_start n rs counts interior)"

definition actual_gap :: "int \<times> int \<Rightarrow> int \<times> int \<Rightarrow> int" where
  "actual_gap left right = fst right - fst left"

definition unexplained_gap :: "int \<times> int \<Rightarrow> int \<times> int \<Rightarrow> int" where
  "unexplained_gap left right = max 0 ((fst right - fst left) - max 0 (snd right - snd left))"

text \<open>\<^verbatim>\<open>max(xs, default=0)\<close>.\<close>

definition max_or_0 :: "int list \<Rightarrow> int" where
  "max_or_0 xs = (if xs = [] then 0 else Max (set xs))"

definition percentile_or_0 :: "int list \<Rightarrow> flt \<Rightarrow> int res" where
  "percentile_or_0 counts q = (if counts = [] then Inr 0 else nearest_rank counts q)"

record pacing_report =
  pr_records :: nat
  pr_trace_packets :: int
  pr_window_count :: int
  pr_target :: flt
  pr_p1 :: int
  pr_p99 :: int
  pr_max_gap :: int
  pr_max_unexplained :: int
  pr_reasons :: "string list"

definition pr_passed :: "pacing_report \<Rightarrow> bool" where
  "pr_passed r = (pr_reasons r = [])"

definition pacing_target :: "int \<Rightarrow> flt res" where
  "pacing_target rate_pps = rbind (flt_of_int rate_pps) (\<lambda>r. flt_div r (int_flt 1000))"

definition pacing_reasons ::
  "int list \<Rightarrow> int \<Rightarrow> int \<Rightarrow> int \<Rightarrow> flt \<Rightarrow> int \<Rightarrow> int \<Rightarrow> int \<Rightarrow> int \<Rightarrow> string list" where
  "pacing_reasons counts n trace_packets successful target p1 p99 max_unexplained batch_window_us =
     (let tolerance = flt_mul (lit 1 10) target in
      because (n = 0) ''pacing interval is too short after edge exclusion'' @
      because (trace_packets \<noteq> successful)
        ''pacing trace packet count does not reconcile with successful sends'' @
      because (counts \<noteq> [] \<and> (flt_lt (int_flt p1) (flt_sub target tolerance) \<or>
                                flt_lt (flt_add target tolerance) (int_flt p99)))
        ''pacing trace 1 ms p1/p99 is outside the 90-110% target band'' @
      because (max_unexplained > 2 * batch_window_us * 1000)
        ''pacing trace has an unexplained enqueue gap over two batch windows'')"

definition analyze_records :: "pacing_record list \<Rightarrow> pyval \<Rightarrow> int \<Rightarrow> int \<Rightarrow> pacing_report res" where
  "analyze_records records sender rate_pps batch_window_us =
     rbind (int_at sender ''start_mono_ns'') (\<lambda>start.
     rbind (int_at sender ''scheduled_end_mono_ns'') (\<lambda>scheduled_end.
       let interior_start = start + edge_ns;
           interior_end = scheduled_end - edge_ns;
           n = window_count interior_start interior_end;
           (counts, interior) = count_windows interior_start n records (replicate (nat n) 0) [];
           actual_gaps = adjacent actual_gap interior;
           unexplained = adjacent unexplained_gap interior
       in rbind (percentile_or_0 counts (lit 1 100)) (\<lambda>p1.
          rbind (percentile_or_0 counts (lit 99 100)) (\<lambda>p99.
          rbind (pacing_target rate_pps) (\<lambda>target.
          let trace_packets = sum_list (map (\<lambda>(_, _, c). c) records);
              max_unexplained = max_or_0 unexplained
          in rbind (int_at sender ''successful_sends'') (\<lambda>successful.
             Inr \<lparr>pr_records = length records, pr_trace_packets = trace_packets, pr_window_count = n,
                  pr_target = target, pr_p1 = p1, pr_p99 = p99, pr_max_gap = max_or_0 actual_gaps,
                  pr_max_unexplained = max_unexplained,
                  pr_reasons = pacing_reasons counts n trace_packets successful target p1 p99
                    max_unexplained batch_window_us\<rparr>))))))"

definition analyze_pacing_trace :: "string \<Rightarrow> string \<Rightarrow> pyval \<Rightarrow> int \<Rightarrow> int \<Rightarrow> pacing_report res" where
  "analyze_pacing_trace path text sender rate_pps batch_window_us =
     rbind (read_pacing_records path text) (\<lambda>records.
       analyze_records records sender rate_pps batch_window_us)"

text \<open>The dictionary the metadata of the run stores.\<close>

definition pacing_value :: "pacing_report \<Rightarrow> pyval" where
  "pacing_value r = VDict
     [(''format'', VStr ''csv-v1''), (''records'', VInt (int (pr_records r))),
      (''trace_packets'', VInt (pr_trace_packets r)), (''edge_exclusion_ms'', VInt 100),
      (''window_us'', VInt 1000), (''window_count'', VInt (pr_window_count r)),
      (''target_packets_per_window'', VFloat (pr_target r)), (''p1_packets'', VInt (pr_p1 r)),
      (''p99_packets'', VInt (pr_p99 r)), (''max_enqueue_gap_ns'', VInt (pr_max_gap r)),
      (''max_unexplained_enqueue_gap_ns'', VInt (pr_max_unexplained r)),
      (''passed'', VBool (pr_passed r)), (''reasons'', VList (map VStr (pr_reasons r)))]"

section \<open>The sender's writer\<close>

text \<open>A record of the C++ sender; its fields are unsigned 64-bit and 32-bit integers.\<close>

record sent_record =
  actual_mono_ns :: "64 word"
  scheduled_mono_ns :: "64 word"
  first_sequence :: "64 word"
  packet_count :: "32 word"
  thread_index :: "32 word"

definition sent_line :: "sent_record \<Rightarrow> string list" where
  "sent_line r =
     [str_nat (unat (actual_mono_ns r)), str_nat (unat (scheduled_mono_ns r)),
      str_nat (unat (first_sequence r)), str_nat (unat (packet_count r)), str_nat (unat (thread_index r))]"

definition sent_header :: "string list" where
  "sent_header = [''actual_mono_ns'', ''scheduled_mono_ns'', ''first_sequence'', ''packet_count'', ''thread_index'']"

text \<open>\<open>records\<close> is the merged list after the writer's \<^verbatim>\<open>std::sort\<close> by the actual time.\<close>

definition write_pacing_trace :: "sent_record list \<Rightarrow> string" where
  "write_pacing_trace records =
     csv_text_line sent_header @ concat (map (\<lambda>r. csv_text_line (sent_line r)) records)"

definition record_of_sent :: "sent_record \<Rightarrow> pacing_record" where
  "record_of_sent r = (uint (actual_mono_ns r), uint (scheduled_mono_ns r), uint (packet_count r))"

end
