(* ===== verification/Run_Checks.thy ===== *)
theory Run_Checks
  imports Pacing
begin

text \<open>
  The verdicts on one run in \<^verbatim>\<open>main.py\<close>: \<^verbatim>\<open>validity_reasons\<close> (every run) and
  \<^verbatim>\<open>qualification_reasons\<close> (sender qualification), with the link and throttling tests of the
  captured environment. A verdict is the list of its reasons, in the order of the checks; a check
  reads its numbers from the documents and an ill-typed or missing one raises.
\<close>

section \<open>Environment states\<close>

definition link_is_gigabit_full :: "pyval \<Rightarrow> bool res" where
  "link_is_gigabit_full state =
     rbind (py_get_dict state ''link'') (\<lambda>link.
     rbind (py_get_or link ''value'' (VStr '''')) (\<lambda>v.
       let text = py_str v in
       rbind (py_get_none link ''error'') (\<lambda>error.
         Inr (\<not> truthy error \<and> contains text ''Speed: 1000Mb/s'' \<and> contains text ''Duplex: Full''))))"

text \<open>The first match of \<^verbatim>\<open>0x([0-9a-fA-F]+)\<close>, as a number.\<close>

definition is_hex :: "char \<Rightarrow> bool" where
  "is_hex c = (is_digit c \<or> (97 \<le> ord c \<and> ord c \<le> 102) \<or> (65 \<le> ord c \<and> ord c \<le> 70))"

definition hex_val :: "char \<Rightarrow> int" where
  "hex_val c = int (if is_digit c then ord c - 48 else if 97 \<le> ord c then ord c - 87 else ord c - 55)"

definition hex_number :: "string \<Rightarrow> int" where
  "hex_number s = foldl (\<lambda>n c. 16 * n + hex_val c) 0 s"

fun hex_search :: "string \<Rightarrow> int option" where
  "hex_search (z # x # cs) =
     (if z = CHR ''0'' \<and> x = CHR ''x'' \<and> takeWhile is_hex cs \<noteq> []
      then Some (hex_number (takeWhile is_hex cs)) else hex_search (x # cs))"
| "hex_search _ = None"

definition throttling_is_clear :: "pyval \<Rightarrow> bool res" where
  "throttling_is_clear state =
     rbind (py_get_dict state ''throttled'') (\<lambda>result.
     rbind (py_get_none result ''error'') (\<lambda>error.
       if truthy error then Inr False
       else rbind (py_get_or result ''value'' (VStr '''')) (\<lambda>v.
         Inr (hex_search (py_str v) = Some 0))))"

definition throttled :: "pyval \<Rightarrow> bool res" where
  "throttled state =
     rbind (py_get_dict state ''throttled'') (\<lambda>result.
     rbind (py_get_or result ''value'' (VStr '''')) (\<lambda>v.
       Inr (case hex_search (py_str v) of Some n \<Rightarrow> n \<noteq> 0 | None \<Rightarrow> False)))"

section \<open>Qualification\<close>

text \<open>\<^verbatim>\<open>or\<close> and \<^verbatim>\<open>and\<close> on tests that may raise.\<close>

definition py_or :: "bool res \<Rightarrow> bool res \<Rightarrow> bool res" where
  "py_or a b = rbind a (\<lambda>x. if x then Inr True else b)"

definition py_and :: "bool res \<Rightarrow> bool res \<Rightarrow> bool res" where
  "py_and a b = rbind a (\<lambda>x. if x then b else Inr False)"

definition py_not :: "bool res \<Rightarrow> bool res" where
  "py_not a = rbind a (\<lambda>x. Inr (\<not> x))"

definition check :: "bool res \<Rightarrow> string \<Rightarrow> string list res" where
  "check test reason = rbind test (\<lambda>b. Inr (because b reason))"

definition differs :: "int res \<Rightarrow> int res \<Rightarrow> bool res" where
  "differs a b = rbind a (\<lambda>x. rbind b (\<lambda>y. Inr (x \<noteq> y)))"

definition rate_test :: "int \<Rightarrow> flt \<Rightarrow> bool res" where
  "rate_test rate achieved =
     rbind (int_mul_flt rate (lit 99 100)) (\<lambda>low.
       if flt_le low achieved then
         rbind (int_mul_flt rate (lit 101 100)) (\<lambda>high. Inr (\<not> flt_le achieved high))
       else Inr True)"

definition nonzero_field :: "pyval \<Rightarrow> string \<Rightarrow> string list res" where
  "nonzero_field receiver field =
     check (differs (int_or receiver field 0) (Inr 0)) (''receiver reported nonzero '' @ field)"

definition reordering_test :: "pyval \<Rightarrow> bool res" where
  "reordering_test receiver =
     rbind (int_or receiver ''receive_reordered'' 0) (\<lambda>reordered.
     rbind (int_at receiver ''unique_valid_packets'') (\<lambda>unique.
     rbind (int_div_flt reordered (max 1 unique)) (\<lambda>fraction.
       Inr (flt_le (lit 1 10000) fraction))))"

definition counter_reasons :: "string \<Rightarrow> string \<times> pyval \<Rightarrow> string list res" where
  "counter_reasons side entry =
     (case entry of (name, counter) \<Rightarrow>
        rbind (py_get_none counter ''error'') (\<lambda>error.
        rbind (if truthy error then Inr True
               else rbind (py_get_none counter ''delta'') (\<lambda>d. Inr (d = VNone))) (\<lambda>unavailable.
          if unavailable then Inr [side @ ''.'' @ name @ '' is unavailable'']
          else check (differs (int_at counter ''delta'') (Inr 0)) (side @ ''.'' @ name @ '' changed''))))"

definition side_reasons :: "pyval \<Rightarrow> string \<Rightarrow> string list res" where
  "side_reasons metadata side =
     rbind (rbind (py_get_dict metadata side) py_items) (\<lambda>items. rconcat (counter_reasons side) items)"

definition state_at :: "pyval \<Rightarrow> string \<Rightarrow> pyval res" where
  "state_at states when = py_get_dict states when"

definition environment_reasons :: "pyval \<Rightarrow> string \<Rightarrow> string list res" where
  "environment_reasons environment role =
     rbind (py_get_dict environment role) (\<lambda>states. in_order
       [check (py_or (py_not (rbind (state_at states ''before'') link_is_gigabit_full))
                     (py_not (rbind (state_at states ''after'') link_is_gigabit_full)))
          (role @ '' link was not stably 1 Gb/s full duplex''),
        check (py_or (py_not (rbind (state_at states ''before'') throttling_is_clear))
                     (py_not (rbind (state_at states ''after'') throttling_is_clear)))
          (role @ '' throttling state was unavailable or nonzero'')])"

definition outcome_failed :: "pyval \<Rightarrow> bool res" where
  "outcome_failed outcome = rbind (py_get_or outcome ''affinity_success'' (VBool False)) (\<lambda>v. Inr (\<not> truthy v))"

definition thread_outcome_test :: "pyval \<Rightarrow> bool res" where
  "thread_outcome_test sender =
     rbind (py_get_or sender ''thread_outcomes'' (VList [])) (\<lambda>outcomes.
       py_or (differs (py_len outcomes) (int_or sender ''threads'' 1))
             (rbind (py_iter outcomes) (rany outcome_failed)))"

definition listed_reasons :: "pyval \<Rightarrow> string list res" where
  "listed_reasons holder =
     rbind (rbind (py_get_or holder ''reasons'' (VList [])) py_iter) (\<lambda>rs. Inr (map py_str rs))"

definition pacing_entry_reasons :: "pyval \<Rightarrow> string list res" where
  "pacing_entry_reasons metadata =
     rbind (py_get_none metadata ''pacing'') (\<lambda>pacing.
       if is_dict pacing then listed_reasons pacing else Inr [''pacing trace analysis is missing''])"

definition accounting_checks :: "pyval \<Rightarrow> pyval \<Rightarrow> pyval \<Rightarrow> string list res list" where
  "accounting_checks metadata sender receiver =
     [check (differs (int_at sender ''failed_sends'') (Inr 0)) ''sender reported failed sends'',
      check (differs (int_at sender ''attempted_sends'')
               (rbind (int_at sender ''successful_sends'') (\<lambda>s.
                rbind (int_at sender ''failed_sends'') (\<lambda>f. Inr (s + f)))))
        ''sender packet accounting does not reconcile'',
      check (differs (int_or sender ''successful_bytes'' 0)
               (rbind (int_at sender ''successful_sends'') (\<lambda>s.
                rbind (rbind (py_index metadata ''run'') (\<lambda>run. int_at run ''payload_size'')) (\<lambda>p. Inr (s * p)))))
        ''sender byte accounting does not reconcile'',
      check (differs (int_at receiver ''unique_valid_packets'') (int_at sender ''successful_sends''))
        ''sender and receiver unique packet counts do not reconcile'',
      check (differs (int_or receiver ''unique_processed_packets'' 0) (int_at sender ''successful_sends''))
        ''sender and receiver processed packet counts do not reconcile'']"

definition qualification_checks :: "pyval \<Rightarrow> pyval \<Rightarrow> pyval \<Rightarrow> int \<Rightarrow> flt \<Rightarrow> string list res list" where
  "qualification_checks metadata sender receiver rate achieved =
     [check (rate_test rate achieved) ''achieved/requested pps is outside 99-101%''] @
     accounting_checks metadata sender receiver @
     map (nonzero_field receiver) [''receive_sequence_gaps'', ''receive_duplicates''] @
     [check (reordering_test receiver) ''receiver reordering is not below 0.01%''] @
     map (nonzero_field receiver) [''processed_sequence_gaps'', ''processed_duplicates'', ''short_packets'',
       ''invalid_magic'', ''unsupported_version'', ''spsc_overflow''] @
     map (side_reasons metadata) [''counters'', ''sender_counters''] @
     [rbind (py_get_dict metadata ''run_environment'') (\<lambda>environment.
        in_order (map (environment_reasons environment) [''receiver'', ''sender''])),
      check (thread_outcome_test sender) ''sender thread/CPU outcomes are incomplete or unsuccessful'',
      pacing_entry_reasons metadata,
      rbind (py_get_dict metadata ''validity'') listed_reasons]"

definition qualification_reasons :: "pyval \<Rightarrow> string list res" where
  "qualification_reasons metadata =
     rbind (py_index metadata ''sender_stats'') (\<lambda>sender.
     rbind (py_index metadata ''receiver_stats'') (\<lambda>receiver.
     rbind (rbind (py_index metadata ''run'') (\<lambda>run. int_at run ''requested_rate_pps'')) (\<lambda>rate.
     rbind (float_at sender ''achieved_successful_send_pps'') (\<lambda>achieved.
     rbind (in_order (qualification_checks metadata sender receiver rate achieved)) (\<lambda>reasons.
     Inr (dedup reasons))))))"

section \<open>Validity of one run\<close>

definition outcome_unsuccessful :: "pyval \<Rightarrow> bool res" where
  "outcome_unsuccessful outcome = rbind (py_get_or outcome ''success'' (VBool False)) (\<lambda>v. Inr (\<not> truthy v))"

definition outcome_reasons :: "pyval \<Rightarrow> string \<Rightarrow> string list res" where
  "outcome_reasons receiver name =
     rbind (py_get_none receiver name) (\<lambda>outcome.
       check (if outcome = VNone then Inr False
              else outcome_unsuccessful outcome)
         (name @ '' was not applied''))"

definition buffer_reasons :: "string \<Rightarrow> pyval \<Rightarrow> string list res" where
  "buffer_reasons side stats =
     rbind (int_or stats ''requested_socket_buffer_bytes'' 0) (\<lambda>requested.
     rbind (int_or stats ''observed_socket_buffer_bytes'' (- 1)) (\<lambda>observed.
       Inr (because (requested > 0 \<and> observed < requested)
              (''observed '' @ side @ '' socket buffer is below the request''))))"

definition is_zero_field :: "pyval \<Rightarrow> string \<Rightarrow> bool res" where
  "is_zero_field stats field = rbind (int_or stats field 0) (\<lambda>n. Inr (n = 0))"

definition window_test :: "pyval \<Rightarrow> string \<Rightarrow> string \<Rightarrow> string \<Rightarrow> bool res" where
  "window_test receiver packets first latest =
     py_and (rbind (int_at receiver packets) (\<lambda>n. Inr (n \<noteq> 0)))
       (py_or (is_zero_field receiver first) (is_zero_field receiver latest))"

definition negative_delta :: "pyval \<Rightarrow> bool res" where
  "negative_delta v =
     py_and (rbind (py_get_none v ''delta'') (\<lambda>d. Inr (d \<noteq> VNone)))
       (rbind (py_index v ''delta'') (\<lambda>d. py_lt d (VInt 0)))"

definition pause_reasons :: "pyval \<Rightarrow> string \<Rightarrow> string list res" where
  "pause_reasons counters name =
     rbind (py_get_dict counters name) (\<lambda>counter.
     rbind (py_get_none counter ''delta'') (\<lambda>delta.
       Inr (if delta = VNone then [name @ '' counter was unavailable'']
            else because (\<not> py_eq delta (VInt 0))
              (''802.3x pause frames were exchanged ('' @ name @ '' delta '' @ py_str delta @ '')''))))"

definition failed_probe :: "string \<times> pyval \<Rightarrow> bool res" where
  "failed_probe entry =
     (case entry of (_, result) \<Rightarrow>
        if is_dict result then rbind (py_get_none result ''error'') (\<lambda>e. Inr (truthy e)) else Inr False)"

definition metadata_reasons :: "string \<Rightarrow> pyval \<Rightarrow> string list res" where
  "metadata_reasons label state =
     rbind (py_items state) (\<lambda>items.
     rbind (rfilter failed_probe items) (\<lambda>failed.
       let missing = sort (map fst failed)
       in Inr (because (missing \<noteq> []) (label @ '' metadata unavailable: '' @ join '', '' missing))))"

definition topology_checks :: "pyval \<Rightarrow> pyval \<Rightarrow> pyval \<Rightarrow> pyval \<Rightarrow> pyval \<Rightarrow> string list res list" where
  "topology_checks counters before_state after_state sender_before sender_after =
     map (pause_reasons counters) [''nic_rx_pause'', ''nic_tx_pause''] @
     [check (py_or (throttled before_state) (throttled after_state))
        ''thermal/power throttling flag was nonzero'',
      check (if truthy sender_before \<and> truthy sender_after
             then py_or (throttled sender_before) (throttled sender_after) else Inr False)
        ''sender thermal/power throttling flag was nonzero'',
      metadata_reasons ''receiver before'' before_state,
      metadata_reasons ''receiver after'' after_state,
      metadata_reasons ''sender before'' (or_empty sender_before),
      metadata_reasons ''sender after'' (or_empty sender_after)]"

definition receipt_checks :: "int \<Rightarrow> int \<Rightarrow> int \<Rightarrow> pyval \<Rightarrow> string list res list" where
  "receipt_checks successful unique_received unique_processed receiver =
     [Inr (because (unique_received > successful) ''unique receives exceed successful submissions''),
      Inr (because (unique_processed > successful) ''unique processed exceeds successful submissions''),
      check (differs (rbind (int_at receiver ''processed_packets'') (\<lambda>p.
                      rbind (int_at receiver ''spsc_overflow'') (\<lambda>q. Inr (p + q))))
                     (int_at receiver ''valid_packets''))
        ''SPSC/processing accounting does not reconcile'']"

definition host_checks :: "pyval \<Rightarrow> pyval \<Rightarrow> pyval \<Rightarrow> string list res list" where
  "host_checks sender receiver counters =
     map (outcome_reasons receiver)
       [''receiver_affinity'', ''receiver_scheduler'', ''worker_affinity'', ''worker_scheduler''] @
     [check (rbind (py_get_dict sender ''cpu_affinity'') outcome_unsuccessful)
        ''sender affinity was not applied'',
      buffer_reasons ''receive'' receiver,
      buffer_reasons ''send'' sender,
      check (window_test receiver ''valid_packets'' ''first_receive_mono_ns'' ''last_receive_mono_ns'')
        ''receive monotonic window is missing'',
      check (window_test receiver ''processed_packets'' ''first_processing_mono_ns'' ''last_processing_mono_ns'')
        ''processing monotonic window is missing'',
      check (differs (int_or receiver ''queue_depth_at_shutdown'' 0) (Inr 0))
        ''application backlog remained after the post-sender drain'',
      check (differs (int_or receiver ''socket_pending_bytes_at_shutdown'' 0) (Inr 0))
        ''kernel socket backlog remained after the post-sender drain'',
      check (rbind (py_values counters) (rany negative_delta)) ''negative kernel or NIC counter delta'']"

definition validity_reasons ::
  "pyval \<Rightarrow> pyval \<Rightarrow> pyval \<Rightarrow> pyval \<Rightarrow> pyval \<Rightarrow> string \<Rightarrow> pyval \<Rightarrow> pyval \<Rightarrow> string list res" where
  "validity_reasons sender receiver counters before_state after_state topology sender_before sender_after =
     rbind (int_at sender ''successful_sends'') (\<lambda>successful.
     rbind (int_at receiver ''unique_valid_packets'') (\<lambda>unique_received.
     rbind (int_at receiver ''unique_processed_packets'') (\<lambda>unique_processed.
       in_order
         (receipt_checks successful unique_received unique_processed receiver @
          host_checks sender receiver counters @
          (if topology \<noteq> ''local_loopback''
           then topology_checks counters before_state after_state sender_before sender_after else [])))))"

end
