(* ===== verification/Pacing_Facts.thy ===== *)
theory Pacing_Facts
  imports Pacing
begin

text \<open>
  What the pacing analysis establishes: the position of a nearest-rank percentile in its sample, the
  contents of the one-millisecond windows, the meaning of a passed analysis for the packet stream,
  and the round trip between the sender's trace file and the harness.
\<close>

section \<open>Ranks in a sorted list\<close>

lemma sorted_nth_rank:
  assumes "sorted ys" "i < length ys"
  shows "Suc i \<le> length (filter (\<lambda>y. y \<le> ys ! i) ys)" "length (filter (\<lambda>y. y < ys ! i) ys) \<le> i"
proof -
  have split: "ys = take (Suc i) ys @ drop (Suc i) ys" "ys = take i ys @ drop i ys" by simp_all
  have le: "\<forall>y \<in> set (take (Suc i) ys). y \<le> ys ! i"
    using assms by (auto simp: in_set_conv_nth sorted_iff_nth_mono)
  have "length (filter (\<lambda>y. y \<le> ys ! i) (take (Suc i) ys)) = Suc i"
    using le assms(2) by (subst filter_True) auto
  then show "Suc i \<le> length (filter (\<lambda>y. y \<le> ys ! i) ys)"
    by (subst split(1)) (simp only: filter_append length_append)
  have "\<forall>y \<in> set (drop i ys). \<not> y < ys ! i"
    using assms by (auto simp: in_set_conv_nth sorted_iff_nth_mono not_less)
  then have "length (filter (\<lambda>y. y < ys ! i) (drop i ys)) = 0" by (simp add: filter_empty_conv)
  moreover have "length (filter (\<lambda>y. y < ys ! i) (take i ys)) \<le> i"
    using length_filter_le [of "\<lambda>y. y < ys ! i" "take i ys"] by simp
  ultimately show "length (filter (\<lambda>y. y < ys ! i) ys) \<le> i"
    by (subst split(2)) (simp only: filter_append length_append)
qed

lemma length_filter_sort: "length (filter P (sort xs)) = length (filter P xs)"
  by (metis mset_filter mset_sort size_mset)

definition rank_of :: "int \<Rightarrow> rat \<Rightarrow> int" where
  "rank_of n q = max 1 \<lceil>fl (of_int n * q)\<rceil>"

lemma rank_le:
  assumes "0 \<le> q" "q \<le> 1" "0 < n" "n \<le> 2 ^ 53"
  shows "rank_of n q \<le> n"
proof -
  have "of_int n * q \<le> of_int n * 1" using assms by (intro mult_left_mono) simp_all
  then have "fl (of_int n * q) \<le> of_int n" using assms by (intro double.rnd_le_int) simp_all
  with assms show ?thesis by (simp add: rank_of_def ceiling_le_iff)
qed

lemma nearest_rank_eq:
  assumes q: "0 \<le> q" "q \<le> 1" and n: "vals \<noteq> []" "length vals \<le> 2 ^ 53"
  shows "nearest_rank vals (Fin q) = Inr (sort vals ! nat (rank_of (int (length vals)) q - 1))"
proof -
  let ?n = "int (length vals)"
  have pos: "0 < ?n" "?n \<le> 2 ^ 53" using n by auto
  have "\<bar>of_int ?n * q\<bar> \<le> of_int ?n"
    using q pos mult_left_mono [of q 1 "of_int ?n"] by (simp add: abs_mult)
  moreover have "?n \<le> 2 ^ 200" using pos(2) by simp
  ultimately have "to_flt (of_int ?n * q) = Fin (fl (of_int ?n * q))" by (rule to_flt_small)
  moreover have "flt_of_int ?n = Inr (int_flt ?n)" using pos by (intro flt_of_int_small) simp
  ultimately have pos_eq: "int_mul_flt ?n (Fin q) = Inr (Fin (fl (of_int ?n * q)))"
    by (simp add: int_mul_flt_def flt_mul_def)
  have "rank_of ?n q \<le> ?n" using q pos by (rule rank_le)
  then have "max 0 (min (?n - 1) (\<lceil>fl (of_int ?n * q)\<rceil> - 1)) = rank_of ?n q - 1"
    by (auto simp: rank_of_def)
  then show ?thesis using n(1) pos_eq by (simp add: nearest_rank_def py_ceil_def Let_def)
qed

lemma nearest_rank_spec:
  assumes q: "0 \<le> q" "q \<le> 1" and n: "vals \<noteq> []" "length vals \<le> 2 ^ 53"
  shows "\<exists>r. nearest_rank vals (Fin q) = Inr r \<and> r \<in> set vals \<and>
    rank_of (int (length vals)) q \<le> int (length (filter (\<lambda>x. x \<le> r) vals)) \<and>
    int (length (filter (\<lambda>x. x < r) vals)) < rank_of (int (length vals)) q"
proof -
  let ?k = "rank_of (int (length vals)) q" and ?i = "nat (rank_of (int (length vals)) q - 1)"
  have "0 < int (length vals)" "int (length vals) \<le> 2 ^ 53" using n by auto
  with q have k: "1 \<le> ?k" "?k \<le> int (length vals)"
    using rank_le [of q "int (length vals)"] by (simp_all add: rank_of_def)
  then have i: "?i < length (sort vals)" by simp
  have "sort vals ! ?i \<in> set vals" using nth_mem [OF i] by simp
  with sorted_nth_rank [OF sorted_sort i] k nearest_rank_eq [OF assms] show ?thesis
    by (auto simp: length_filter_sort)
qed

text \<open>
  A nearest-rank percentile of a nonempty sample exists and is one of its values, at least the
  nominal rank (the ceiling of quantile times size, at least one) of the values are not above it,
  and fewer than that are below it.
\<close>

theorem nearest_rank_bounds:
  assumes "0 \<le> q" "q \<le> 1" and "vals \<noteq> []" "length vals \<le> 2 ^ 53"
  shows "\<exists>r. nearest_rank vals (Fin q) = Inr r \<and> r \<in> set vals \<and>
    max 1 \<lceil>fl (of_int (int (length vals)) * q)\<rceil> \<le> int (length (filter (\<lambda>x. x \<le> r) vals)) \<and>
    int (length (filter (\<lambda>x. x < r) vals)) < max 1 \<lceil>fl (of_int (int (length vals)) * q)\<rceil>"
  using nearest_rank_spec [OF assms] by (simp only: rank_of_def)

theorem nearest_rank_bounds_witness:
  "\<exists>r. nearest_rank [30, 10, 20] (Fin (1/2)) = Inr r \<and> r \<in> {10, 20, 30}"
  using nearest_rank_bounds [of "1/2" "[30, 10, 20]"] by auto

section \<open>Windows\<close>

definition packets_of :: "pacing_record \<Rightarrow> int" where
  "packets_of rec = (case rec of (_, _, c) \<Rightarrow> c)"

definition in_window :: "int \<Rightarrow> nat \<Rightarrow> pacing_record \<Rightarrow> bool" where
  "in_window interior_start i rec =
     (case rec of (actual, _, _) \<Rightarrow>
        interior_start + int i * window_ns \<le> actual \<and> actual < interior_start + (int i + 1) * window_ns)"

definition window_total :: "int \<Rightarrow> pacing_record list \<Rightarrow> nat \<Rightarrow> int" where
  "window_total interior_start rs i = sum_list (map packets_of (filter (in_window interior_start i) rs))"

lemma div_eq_bounds:
  fixes w :: int
  assumes "0 < w"
  shows "q = x div w \<longleftrightarrow> q * w \<le> x \<and> x < (q + 1) * w"
proof
  assume "q = x div w"
  then have "x = q * w + x mod w" by simp
  moreover have "0 \<le> x mod w" "x mod w < w" using assms by simp_all
  ultimately show "q * w \<le> x \<and> x < (q + 1) * w" by (simp add: algebra_simps)
next
  assume "q * w \<le> x \<and> x < (q + 1) * w"
  then show "q = x div w"
    using assms by (intro int_div_pos_eq [symmetric, where r = "x - w * q"]) (simp_all add: algebra_simps)
qed

lemma in_window_iff:
  assumes "interior_start \<le> actual"
  shows "in_window interior_start i (actual, b, c) \<longleftrightarrow> i = nat ((actual - interior_start) div window_ns)"
proof -
  have "0 \<le> (actual - interior_start) div window_ns"
    using assms by (simp add: pos_imp_zdiv_nonneg_iff window_ns_def)
  then have "i = nat ((actual - interior_start) div window_ns) \<longleftrightarrow> int i = (actual - interior_start) div window_ns"
    by linarith
  also have "\<dots> \<longleftrightarrow> int i * window_ns \<le> actual - interior_start \<and> actual - interior_start < (int i + 1) * window_ns"
    by (rule div_eq_bounds) (simp add: window_ns_def)
  finally show ?thesis by (auto simp: in_window_def)
qed

lemma window_total_Cons:
  "window_total s (r # rs) i = (if in_window s i r then packets_of r else 0) + window_total s rs i"
  by (simp add: window_total_def)

lemma count_windows_eq:
  assumes "length counts = nat n"
  shows "count_windows s n rs counts interior =
    (map (\<lambda>i. counts ! i + window_total s rs i) [0..<nat n],
     interior @ map (\<lambda>(a, b, _). (a, b)) (filter (in_interior s n) rs))"
  using assms
proof (induction s n rs counts interior rule: count_windows.induct)
  case (1 s n counts interior)
  have "map (\<lambda>i. counts ! i) [0..<length counts] = counts" by (rule map_nth)
  with 1 show ?case by (simp add: window_total_def)
next
  case (2 s n a b c rs counts interior)
  let ?i = "nat ((a - s) div window_ns)"
  show ?case
  proof (cases "in_interior s n (a, b, c)")
    case True
    then have s: "s \<le> a" and i: "?i < nat n"
      by (auto simp: in_interior_def window_ns_def)
    have "map (\<lambda>i. counts[?i := counts ! ?i + c] ! i + window_total s rs i) [0..<nat n] =
          map (\<lambda>i. counts ! i + window_total s ((a, b, c) # rs) i) [0..<nat n]"
      using s i 2(3) by (auto simp: window_total_Cons in_window_iff packets_of_def nth_list_update)
    with True 2 show ?thesis by (simp add: Let_def)
  next
    case False
    have "\<not> in_window s i (a, b, c)" if "i < nat n" for i
    proof
      assume w: "in_window s i (a, b, c)"
      have "(int i + 1) * window_ns \<le> n * window_ns" using that by (intro mult_right_mono) (auto simp: window_ns_def)
      moreover have "0 \<le> int i * window_ns" by (simp add: window_ns_def)
      ultimately show False using w False by (auto simp: in_window_def in_interior_def)
    qed
    with False 2 show ?thesis by (simp add: window_total_Cons)
  qed
qed

lemma windows_from_zero:
  "count_windows s n rs (replicate (nat n) 0) [] =
    (map (window_total s rs) [0..<nat n], map (\<lambda>(a, b, _). (a, b)) (filter (in_interior s n) rs))"
  by (subst count_windows_eq) simp_all

text \<open>
  C36: the counting loop gives, for every window, the packets of exactly the records whose actual
  time lies in its millisecond, and keeps the times of exactly the records of the interior, in order.
\<close>

theorem pacing_windows_exact:
  "count_windows interior_start n records (replicate (nat n) 0) [] =
    (map (window_total interior_start records) [0..<nat n],
     map (\<lambda>(actual, scheduled, _). (actual, scheduled)) (filter (in_interior interior_start n) records))"
  by (rule windows_from_zero)

section \<open>The thresholds\<close>

lemma pacing_band:
  assumes r: "1 \<le> rate" "rate \<le> 2 ^ 53"
  shows "\<exists>T lo hi. pacing_target rate = Inr (Fin T) \<and>
    flt_sub (Fin T) (flt_mul (lit 1 10) (Fin T)) = Fin lo \<and>
    flt_add (Fin T) (flt_mul (lit 1 10) (Fin T)) = Fin hi \<and>
    899 * of_int rate \<le> 1000000 * lo \<and> 1000000 * hi \<le> 1101 * of_int rate"
proof -
  define R :: rat where "R = of_int rate"
  define T where "T = fl (R / 1000)"
  define c where "c = fl (1 / 10)"
  define P where "P = c * T"
  define tol where "tol = fl P"
  have "of_int 1 \<le> (of_int rate :: rat)" "of_int rate \<le> (of_int (2 ^ 53) :: rat)"
    using r by (simp_all only: of_int_le_iff)
  then have R: "1 \<le> R" "R \<le> 2 ^ 53" by (simp_all add: R_def)
  have T: "999999 * R \<le> 1000000000 * T" "1000000000 * T \<le> 1000001 * R"
    using fl_millionth [of "R / 1000"] R by (simp_all add: T_def)
  have c: "999999 \<le> 10000000 * c" "10000000 * c \<le> 1000001"
    using fl_millionth [of "1 / 10"] by (simp_all add: c_def)
  have T0: "0 < T" "T \<le> 2 ^ 53" using T R by simp_all
  have "999999 * T \<le> 10000000 * c * T" "10000000 * c * T \<le> 1000001 * T"
    using c T0 by (simp_all add: mult_right_mono)
  then have cT: "999999 * T \<le> 10000000 * P" "10000000 * P \<le> 1000001 * T"
    by (simp_all only: P_def mult.assoc)
  have tol: "999999 * P \<le> 1000000 * tol" "1000000 * tol \<le> 1000001 * P"
    using fl_millionth [of P] cT T R by (simp_all add: tol_def)
  have lo: "999999 * (T - tol) \<le> 1000000 * fl (T - tol)"
    by (rule fl_millionth) (use tol cT T R in simp)
  have hi: "1000000 * fl (T + tol) \<le> 1000001 * (T + tol)"
    by (rule fl_millionth) (use tol cT T R in simp)
  have "flt_of_int rate = Inr (Fin R)" using r by (simp add: flt_of_int_small R_def)
  moreover have "to_flt (R / 1000) = Fin T" unfolding T_def
    by (rule to_flt_small [where n = "2 ^ 54"]) (use R in simp_all)
  ultimately have t: "pacing_target rate = Inr (Fin T)" by (simp add: pacing_target_def flt_div_def)
  have "to_flt P = Fin tol" unfolding tol_def
    by (rule to_flt_small [where n = "2 ^ 54"]) (use cT T0 in simp_all)
  then have m: "flt_mul (lit 1 10) (Fin T) = Fin tol" by (simp add: flt_mul_def lit_def c_def P_def)
  have "to_flt (T - tol) = Fin (fl (T - tol))" "to_flt (T + tol) = Fin (fl (T + tol))"
    by (rule to_flt_small [where n = "2 ^ 55"]; use tol cT T0 in simp)+
  then have "flt_sub (Fin T) (Fin tol) = Fin (fl (T - tol))" "flt_add (Fin T) (Fin tol) = Fin (fl (T + tol))"
    by (simp_all add: flt_sub_def negate_flt_def)
  moreover have "899 * R \<le> 1000000 * fl (T - tol)" "1000000 * fl (T + tol) \<le> 1101 * R"
    using lo hi tol cT T R by simp_all
  ultimately show ?thesis unfolding R_def [symmetric] using t m by auto
qed

text \<open>At most one percent of a sample lies below its first percentile or above its 99th.\<close>

lemma length_filter_mono: "(\<And>x. x \<in> set xs \<Longrightarrow> P x \<Longrightarrow> Q x) \<Longrightarrow> length (filter P xs) \<le> length (filter Q xs)"
  by (induction xs) (auto simp: le_SucI)

lemma below_first_percentile:
  assumes n: "1 \<le> n" "n \<le> 2 ^ 45" and m: "m < rank_of n (fl (1 / 100))"
  shows "100 * m \<le> n"
proof -
  define N :: rat where "N = of_int n"
  define q where "q = fl (1 / 100)"
  have "of_int 1 \<le> (of_int n :: rat)" "of_int n \<le> (of_int (2 ^ 45) :: rat)"
    using n by (simp_all only: of_int_le_iff)
  then have N: "1 \<le> N" "N \<le> 2 ^ 45" by (simp_all add: N_def)
  have q: "100 * q * 2 ^ 53 \<le> 2 ^ 53 + 1" "(2 ^ 53 - 1) \<le> 100 * q * 2 ^ 53"
    using fl_relative [of "1 / 100"] by (simp_all add: q_def)
  define P where "P = N * q"
  have "N * (100 * q * 2 ^ 53) \<le> N * (2 ^ 53 + 1)" "N * (2 ^ 53 - 1) \<le> N * (100 * q * 2 ^ 53)"
    using q N by (intro mult_left_mono; simp)+
  then have Nq: "100 * 2 ^ 53 * P \<le> N * (2 ^ 53 + 1)" "N * (2 ^ 53 - 1) \<le> 100 * 2 ^ 53 * P"
    by (simp_all only: P_def mult_ac)
  have pos: "1 / 1000000 \<le> P" using Nq(2) N by simp
  have "fl P * 2 ^ 53 \<le> P * (2 ^ 53 + 1)" using pos by (rule fl_relative)
  then have top: "100 * fl P < N + 1" using Nq N by simp
  show ?thesis
  proof (cases "rank_of n q = 1")
    case True
    with m n show ?thesis by (simp add: q_def)
  next
    case False
    then have "m < \<lceil>fl P\<rceil>" using m by (simp add: rank_of_def N_def q_def P_def max_def split: if_splits)
    then have "of_int m < fl P" by (simp add: less_ceiling_iff)
    with top have "of_int (100 * m) < (of_int (n + 1) :: rat)" by (simp add: N_def)
    then show ?thesis by (simp only: of_int_less_iff)
  qed
qed

lemma above_last_percentile:
  assumes n: "1 \<le> n" "n \<le> 2 ^ 45" and m: "m \<le> n - rank_of n (fl (99 / 100))"
  shows "100 * m \<le> n"
proof -
  define N :: rat where "N = of_int n"
  define q where "q = fl (99 / 100)"
  have "of_int 1 \<le> (of_int n :: rat)" "of_int n \<le> (of_int (2 ^ 45) :: rat)"
    using n by (simp_all only: of_int_le_iff)
  then have N: "1 \<le> N" "N \<le> 2 ^ 45" by (simp_all add: N_def)
  have q: "99 * (2 ^ 53 - 1) \<le> 100 * q * 2 ^ 53"
    using fl_relative [of "99 / 100"] by (simp add: q_def)
  define P where "P = N * q"
  have "N * (99 * (2 ^ 53 - 1)) \<le> N * (100 * q * 2 ^ 53)"
    using q N by (intro mult_left_mono) simp_all
  then have Nq: "N * (99 * (2 ^ 53 - 1)) \<le> 100 * 2 ^ 53 * P"
    by (simp only: P_def mult_ac)
  have pos: "1 / 1000000 \<le> P" using Nq N by simp
  have "P * (2 ^ 53 - 1) \<le> fl P * 2 ^ 53" using pos by (rule fl_relative)
  then have low: "99 * N - 1 < 100 * fl P" using Nq N by simp
  have "fl P \<le> of_int (rank_of n q)"
    by (simp add: rank_of_def N_def P_def) (metis le_of_int_ceiling max.coboundedI2 of_int_le_iff of_int_max order_trans)
  with low m have "of_int (100 * m) < (of_int (n + 1) :: rat)"
  proof -
    have "of_int m \<le> (of_int (n - rank_of n q) :: rat)" using m by (simp only: of_int_le_iff q_def)
    with low \<open>fl P \<le> of_int (rank_of n q)\<close> show ?thesis by (simp add: N_def)
  qed
  then show ?thesis by (simp only: of_int_less_iff)
qed

section \<open>What a passed analysis says\<close>

lemma analyze_records_Inr:
  assumes "analyze_records records sender rate bw = Inr r"
  obtains s e T p1 p99 k where
    "int_at sender ''start_mono_ns'' = Inr s" "int_at sender ''scheduled_end_mono_ns'' = Inr e"
    "int_at sender ''successful_sends'' = Inr k" "pacing_target rate = Inr T"
    "pr_window_count r = window_count (s + edge_ns) (e - edge_ns)"
    "percentile_or_0 (map (window_total (s + edge_ns) records) [0..<nat (pr_window_count r)]) (lit 1 100) = Inr p1"
    "percentile_or_0 (map (window_total (s + edge_ns) records) [0..<nat (pr_window_count r)]) (lit 99 100) = Inr p99"
    "pr_reasons r = pacing_reasons (map (window_total (s + edge_ns) records) [0..<nat (pr_window_count r)])
       (pr_window_count r) (sum_list (map packets_of records)) k T p1 p99
       (max_or_0 (adjacent unexplained_gap (map (\<lambda>(a, b, _). (a, b)) (filter (in_interior (s + edge_ns) (pr_window_count r)) records)))) bw"
proof -
  have p: "packets_of = (\<lambda>(_, _, c). c)" by (auto simp: packets_of_def)
  show thesis
    using assms by (auto simp: analyze_records_def Let_def windows_from_zero p rbind_Inr_iff intro!: that)
qed

lemma filter_not_above: "length (filter (\<lambda>x. r < x) xs) = length xs - length (filter (\<lambda>x. x \<le> (r :: int)) xs)"
  using sum_length_filter_compl [of "\<lambda>x. x \<le> r" xs] by (simp add: not_le)

lemma max_or_0_le: "max_or_0 xs \<le> b \<Longrightarrow> list_all (\<lambda>x. x \<le> b) xs"
  by (auto simp: max_or_0_def list_all_iff split: if_splits)

lemma lit_percent: "0 \<le> fl (1 / 100)" "fl (1 / 100) \<le> 1" "0 \<le> fl (99 / 100)" "fl (99 / 100) \<le> 1"
  by (simp_all add: fl_nonneg double.rnd_le_int [of 1, simplified])

lemma few_below:
  assumes "percentile_or_0 xs (lit 1 100) = Inr p" "xs \<noteq> []" "length xs \<le> 2 ^ 45"
  shows "100 * length (filter (\<lambda>x. x < p) xs) \<le> length xs"
proof -
  have n: "length xs \<le> 2 ^ 53" using assms(3) by simp
  from nearest_rank_spec [OF lit_percent(1,2) assms(2) n] assms(1,2)
  have "int (length (filter (\<lambda>x. x < p) xs)) < rank_of (int (length xs)) (fl (1 / 100))"
    by (auto simp: percentile_or_0_def lit_def)
  moreover have "1 \<le> int (length xs)" using assms(2) by (cases xs) simp_all
  moreover have "int (length xs) \<le> 2 ^ 45" using assms(3) by simp
  ultimately have "100 * int (length (filter (\<lambda>x. x < p) xs)) \<le> int (length xs)"
    by (intro below_first_percentile)
  then show ?thesis by simp
qed

lemma few_above:
  assumes "percentile_or_0 xs (lit 99 100) = Inr p" "xs \<noteq> []" "length xs \<le> 2 ^ 45"
  shows "100 * length (filter (\<lambda>x. p < x) xs) \<le> length xs"
proof -
  have n: "length xs \<le> 2 ^ 53" using assms(3) by simp
  from nearest_rank_spec [OF lit_percent(3,4) assms(2) n] assms(1,2)
  have "rank_of (int (length xs)) (fl (99 / 100)) \<le> int (length (filter (\<lambda>x. x \<le> p) xs))"
    by (auto simp: percentile_or_0_def lit_def)
  then have "int (length (filter (\<lambda>x. p < x) xs)) \<le> int (length xs) - rank_of (int (length xs)) (fl (99 / 100))"
    using length_filter_le [of "\<lambda>x. x \<le> p" xs] unfolding filter_not_above by linarith
  moreover have "1 \<le> int (length xs)" using assms(2) by (cases xs) simp_all
  moreover have "int (length xs) \<le> 2 ^ 45" using assms(3) by simp
  ultimately have "100 * int (length (filter (\<lambda>x. p < x) xs)) \<le> int (length xs)"
    by (intro above_last_percentile)
  then show ?thesis by simp
qed

lemma pacing_reasons_Nil_iff:
  "pacing_reasons counts n tp k T p1 p99 u bw = [] \<longleftrightarrow>
     n \<noteq> 0 \<and> tp = k \<and>
     (counts = [] \<or> \<not> flt_lt (int_flt p1) (flt_sub T (flt_mul (lit 1 10) T)) \<and>
                   \<not> flt_lt (flt_add T (flt_mul (lit 1 10) T)) (int_flt p99)) \<and>
     u \<le> 2 * bw * 1000"
  by (auto simp: pacing_reasons_def Let_def)

text \<open>The windows of a sample that are out of a band the two percentiles respect.\<close>

lemma few_outside_band:
  assumes p1: "percentile_or_0 xs (lit 1 100) = Inr p1" "(lo :: rat) \<le> of_int p1"
    and p99: "percentile_or_0 xs (lit 99 100) = Inr p99" "of_int p99 \<le> (hi :: rat)"
    and n: "xs \<noteq> []" "length xs \<le> 2 ^ 45"
    and band: "899 * of_int rate \<le> 1000000 * lo" "1000000 * hi \<le> 1101 * (of_int rate :: rat)"
  shows "100 * length (filter (\<lambda>t. 1000000 * t < 899 * rate) xs) \<le> length xs \<and>
         100 * length (filter (\<lambda>t. 1101 * rate < 1000000 * t) xs) \<le> length xs"
proof -
  have low: "t < p1" if "1000000 * t < 899 * rate" for t
  proof -
    from that have "of_int (1000000 * t) < (of_int (899 * rate) :: rat)" by (simp only: of_int_less_iff)
    with band(1) p1(2) have "of_int t < (of_int p1 :: rat)" by simp
    then show ?thesis by simp
  qed
  have high: "p99 < t" if "1101 * rate < 1000000 * t" for t
  proof -
    from that have "(of_int (1101 * rate) :: rat) < of_int (1000000 * t)" by (simp only: of_int_less_iff)
    with band(2) p99(2) have "(of_int p99 :: rat) < of_int t" by simp
    then show ?thesis by simp
  qed
  have "length (filter (\<lambda>t. 1000000 * t < 899 * rate) xs) \<le> length (filter (\<lambda>x. x < p1) xs)"
    "length (filter (\<lambda>t. 1101 * rate < 1000000 * t) xs) \<le> length (filter (\<lambda>x. p99 < x) xs)"
    by (rule length_filter_mono; use low high in blast)+
  with few_below [OF p1(1) n] few_above [OF p99(1) n] show ?thesis by linarith
qed

definition interior_gaps :: "int \<Rightarrow> int \<Rightarrow> pacing_record list \<Rightarrow> int list" where
  "interior_gaps interior_start n records =
     adjacent unexplained_gap (map (\<lambda>(a, b, _). (a, b)) (filter (in_interior interior_start n) records))"

text \<open>
  C20: when a pacing analysis passes, the trace accounts for every successful send, there is at least
  one whole millisecond window, at most one percent of the windows hold less than 89.9 % of the
  target and at most one percent more than 110.1 %, and no gap between neighbouring records exceeds
  its schedule by more than two batch windows. The margins of a tenth of a percent cover the
  rounding of the float thresholds.
\<close>

theorem pacing_passed_meaning:
  assumes run: "analyze_records records sender rate batch_window_us = Inr r" and passed: "pr_passed r"
    and start: "int_at sender ''start_mono_ns'' = Inr s"
    and rate: "1 \<le> rate" "rate \<le> 2 ^ 53" and n: "pr_window_count r \<le> 2 ^ 45"
  shows "let totals = map (window_total (s + edge_ns) records) [0..<nat (pr_window_count r)] in
    totals \<noteq> [] \<and>
    int_at sender ''successful_sends'' = Inr (sum_list (map packets_of records)) \<and>
    100 * length (filter (\<lambda>t. 1000000 * t < 899 * rate) totals) \<le> length totals \<and>
    100 * length (filter (\<lambda>t. 1101 * rate < 1000000 * t) totals) \<le> length totals \<and>
    list_all (\<lambda>gap. gap \<le> 2 * batch_window_us * 1000) (interior_gaps (s + edge_ns) (pr_window_count r) records)"
proof -
  define totals where "totals = map (window_total (s + edge_ns) records) [0..<nat (pr_window_count r)]"
  obtain e T p1 p99 k where f: "pr_window_count r = window_count (s + edge_ns) (e - edge_ns)"
    "int_at sender ''successful_sends'' = Inr k" "pacing_target rate = Inr T"
    "percentile_or_0 totals (lit 1 100) = Inr p1" "percentile_or_0 totals (lit 99 100) = Inr p99"
    "pr_reasons r = pacing_reasons totals (pr_window_count r) (sum_list (map packets_of records)) k T p1 p99
       (max_or_0 (interior_gaps (s + edge_ns) (pr_window_count r) records)) batch_window_us"
    using run start unfolding totals_def interior_gaps_def by (elim analyze_records_Inr) simp
  have ok: "pr_window_count r \<noteq> 0" "sum_list (map packets_of records) = k"
    "totals = [] \<or> \<not> flt_lt (int_flt p1) (flt_sub T (flt_mul (lit 1 10) T)) \<and>
                   \<not> flt_lt (flt_add T (flt_mul (lit 1 10) T)) (int_flt p99)"
    "max_or_0 (interior_gaps (s + edge_ns) (pr_window_count r) records) \<le> 2 * batch_window_us * 1000"
    using passed f(6) by (simp_all add: pr_passed_def pacing_reasons_Nil_iff)
  have "0 < pr_window_count r" using ok(1) f(1) by (simp add: window_count_def)
  with n have t: "totals \<noteq> []" "length totals \<le> 2 ^ 45" by (simp_all add: totals_def)
  obtain T' lo hi where b: "T = Fin T'" "flt_sub T (flt_mul (lit 1 10) T) = Fin lo"
    "flt_add T (flt_mul (lit 1 10) T) = Fin hi"
    "899 * of_int rate \<le> 1000000 * lo" "1000000 * hi \<le> 1101 * (of_int rate :: rat)"
    using pacing_band [OF rate] f(3) by auto
  have "lo \<le> of_int p1" "of_int p99 \<le> hi" using ok(3) t(1) b(2,3) by simp_all
  then have "100 * length (filter (\<lambda>t. 1000000 * t < 899 * rate) totals) \<le> length totals \<and>
         100 * length (filter (\<lambda>t. 1101 * rate < 1000000 * t) totals) \<le> length totals"
    using f(4,5) t b(4,5) by (intro few_outside_band)
  with ok(2) f(2) t(1) max_or_0_le [OF ok(4)] show ?thesis by (simp add: totals_def Let_def)
qed

definition steady_sender :: pyval where
  "steady_sender = VDict [(''start_mono_ns'', VInt 0), (''scheduled_end_mono_ns'', VInt 203000000),
     (''successful_sends'', VInt 3)]"

definition steady_records :: "pacing_record list" where
  "steady_records = [(100500000, 100500000, 1), (101500000, 101500000, 1), (102500000, 102500000, 1)]"

lemma steady_report:
  "analyze_records steady_records steady_sender 1000 1000 =
     Inr \<lparr>pr_records = 3, pr_trace_packets = 3, pr_window_count = 3, pr_target = Fin 1, pr_p1 = 1, pr_p99 = 1,
       pr_max_gap = 1000000, pr_max_unexplained = 0, pr_reasons = []\<rparr>"
  by code_simp

theorem pacing_passed_meaning_witness:
  "int_at steady_sender ''successful_sends'' = Inr (sum_list (map packets_of steady_records))"
  using pacing_passed_meaning [OF steady_report, of 0]
  by (simp add: pr_passed_def Let_def steady_sender_def int_at_VDict)

section \<open>Reading the sender's trace back\<close>

lemma plain_header: "sent_header \<noteq> [] \<and> list_all plain_field sent_header"
  by code_simp

lemma dict_reader_written:
  "dict_reader (write_pacing_trace records) =
     (Some sent_header, map (\<lambda>r. VDict (dict_row sent_header (sent_line r) [])) records)"
proof -
  have "write_pacing_trace records = concat (map csv_text_line (sent_header # map sent_line records))"
    by (simp add: write_pacing_trace_def comp_def)
  moreover have "\<forall>fields \<in> set (sent_header # map sent_line records). fields \<noteq> [] \<and> (\<forall>f \<in> set fields. plain_field f)"
    using plain_header by (auto simp: list_all_iff sent_line_def plain_str_nat)
  ultimately have "csv_rows (write_pacing_trace records) = sent_header # map sent_line records"
    by (simp only: csv_rows_plain)
  moreover have "filter (\<lambda>row. row \<noteq> []) (map sent_line records) = map sent_line records"
    by (rule filter_True) (auto simp: sent_line_def)
  ultimately show ?thesis by (simp add: dict_reader_def)
qed

lemma py_int_word: "py_int (VStr (str_nat (unat (w :: 'a::len word)))) = Inr (uint w)"
  using py_int_str_int [of "int (unat w)"] by (simp add: str_int_def)

lemma pacing_row_written:
  assumes "packet_count r \<noteq> 0"
  shows "pacing_row path (VDict (dict_row sent_header (sent_line r) [])) = Inr (record_of_sent r)"
proof -
  have "uint (packet_count r) \<noteq> 0" using assms by (simp add: uint_0_iff)
  moreover have "0 \<le> uint (packet_count r)" "0 \<le> uint (actual_mono_ns r)" "0 \<le> uint (scheduled_mono_ns r)" by simp_all
  ultimately show ?thesis
    by (simp add: pacing_row_def sent_header_def sent_line_def int_at_VDict py_int_word record_of_sent_def del: py_int.simps)
qed

text \<open>
  C37: reading the trace file the sender writes gives back its records, sorted: the actual and
  scheduled times and the packet counts, whatever 64-bit values they have.
\<close>

theorem pacing_trace_roundtrip:
  assumes "\<forall>r \<in> set records. packet_count r \<noteq> 0"
  shows "read_pacing_records path (write_pacing_trace records) = Inr (sort (map record_of_sent records))"
proof -
  have "rmap (pacing_row path) (map (\<lambda>r. VDict (dict_row sent_header (sent_line r) [])) records) =
      Inr (map record_of_sent records)"
    using assms by (induction records) (simp_all add: pacing_row_written)
  moreover have "set pacing_required \<subseteq> set sent_header" by (simp add: pacing_required_def sent_header_def)
  ultimately show ?thesis by (simp add: read_pacing_records_def dict_reader_written)
qed

theorem pacing_trace_roundtrip_witness:
  "read_pacing_records ''trace'' (write_pacing_trace
     [\<lparr>actual_mono_ns = 20, scheduled_mono_ns = 18, first_sequence = 0, packet_count = 1, thread_index = 0\<rparr>,
      \<lparr>actual_mono_ns = 9, scheduled_mono_ns = 8, first_sequence = 1, packet_count = 2, thread_index = 1\<rparr>]) =
   Inr [(9, 8, 2), (20, 18, 1)]"
  by (subst pacing_trace_roundtrip) (simp_all add: record_of_sent_def)

end
