(* ===== verification/Run_Verdicts.thy ===== *)
theory Run_Verdicts
  imports Run_Checks Pacing_Facts
begin

text \<open>
  What the verdicts mean. Each list of checks is shown to be empty exactly under a declarative
  condition on the documents: \<open>qualified_run\<close> for sender qualification (lossless end to end, quiet
  counters, healthy hosts), \<open>valid_run\<close> for every run. Also the range the float rate test leaves and
  the relation of the two throttling tests.
\<close>

section \<open>The checks, one by one\<close>

lemma check_Nil_iff [res_simps]: "check t r = Inr [] \<longleftrightarrow> t = Inr False"
  by (auto simp: check_def rbind_Inr_iff)

lemma differs_False_iff [res_simps]: "differs a b = Inr False \<longleftrightarrow> (\<exists>x. a = Inr x \<and> b = Inr x)"
  by (auto simp: differs_def rbind_Inr_iff)

lemma py_or_False_iff [res_simps]: "py_or a b = Inr False \<longleftrightarrow> a = Inr False \<and> b = Inr False"
  by (auto simp: py_or_def rbind_Inr_iff)

lemma py_and_False_iff [res_simps]: "py_and a b = Inr False \<longleftrightarrow> a = Inr False \<or> a = Inr True \<and> b = Inr False"
  by (cases a) (auto simp: py_and_def)

lemma py_not_False_iff [res_simps]: "py_not a = Inr False \<longleftrightarrow> a = Inr True"
  by (auto simp: py_not_def rbind_Inr_iff)

lemma rany_False_iff [res_simps]: "rany f xs = Inr False \<longleftrightarrow> (\<forall>x \<in> set xs. f x = Inr False)"
  by (induction xs) (auto simp: rbind_Inr_iff split: if_splits)

lemma py_items_Inr_iff [res_simps]: "py_items v = Inr d \<longleftrightarrow> v = VDict d"
  by (cases v) auto

lemma nonzero_field_Nil_iff: "nonzero_field r f = Inr [] \<longleftrightarrow> int_or r f 0 = Inr 0"
  by (auto simp: nonzero_field_def res_simps)

section \<open>Qualification\<close>

text \<open>Every packet the sender tried was sent, received once and processed, byte for byte.\<close>

definition lossless :: "pyval \<Rightarrow> pyval \<Rightarrow> int \<Rightarrow> bool" where
  "lossless sender receiver payload \<longleftrightarrow>
     (\<exists>n. int_at sender ''attempted_sends'' = Inr n \<and> int_at sender ''successful_sends'' = Inr n \<and>
        int_at sender ''failed_sends'' = Inr 0 \<and> int_or sender ''successful_bytes'' 0 = Inr (n * payload) \<and>
        int_at receiver ''unique_valid_packets'' = Inr n \<and>
        int_or receiver ''unique_processed_packets'' 0 = Inr n)"

lemma accounting_iff:
  "in_order (accounting_checks metadata sender receiver) = Inr [] \<longleftrightarrow>
   (\<exists>run payload. py_index metadata ''run'' = Inr run \<and> int_at run ''payload_size'' = Inr payload \<and>
      lossless sender receiver payload)"
  unfolding in_order_Nil_iff accounting_checks_def lossless_def
  by (auto simp: check_Nil_iff differs_False_iff rbind_Inr_iff)

text \<open>No counter of the side moved, and each was read on both occasions.\<close>

definition quiet_counter :: "pyval \<Rightarrow> bool" where
  "quiet_counter c \<longleftrightarrow>
     (\<exists>e delta. c = VDict e \<and> \<not> truthy (dget_or e ''error'' VNone) \<and> dget e ''delta'' = Some delta \<and> py_int delta = Inr 0)"

lemma counter_reasons_Nil_iff: "counter_reasons side entry = Inr [] \<longleftrightarrow> quiet_counter (snd entry)"
proof (cases "snd entry")
  case (VDict e)
  then obtain name where e: "entry = (name, VDict e)" by (cases entry) simp
  have "py_int VNone \<noteq> Inr n" for n by simp
  then show ?thesis
    by (auto simp: counter_reasons_def quiet_counter_def e res_simps int_at_def dget_or_def
        split: if_splits option.splits simp del: py_int.simps)
qed (cases entry; simp add: counter_reasons_def quiet_counter_def py_get_or_def)+

definition quiet_side :: "pyval \<Rightarrow> string \<Rightarrow> bool" where
  "quiet_side metadata side \<longleftrightarrow>
     (\<exists>d. py_get_dict metadata side = Inr (VDict d) \<and> list_all quiet_counter (map snd d))"

lemma side_reasons_Nil_iff: "side_reasons metadata side = Inr [] \<longleftrightarrow> quiet_side metadata side"
  by (auto simp: side_reasons_def quiet_side_def res_simps rconcat_Nil_iff list_all_iff counter_reasons_Nil_iff)

definition healthy_state :: "pyval \<Rightarrow> bool" where
  "healthy_state st \<longleftrightarrow> link_is_gigabit_full st = Inr True \<and> throttling_is_clear st = Inr True"

definition healthy_host :: "pyval \<Rightarrow> string \<Rightarrow> bool" where
  "healthy_host environment role \<longleftrightarrow>
     (\<exists>states before after. py_get_dict environment role = Inr states \<and>
        py_get_dict states ''before'' = Inr before \<and> py_get_dict states ''after'' = Inr after \<and>
        healthy_state before \<and> healthy_state after)"

lemma environment_reasons_Nil_iff: "environment_reasons environment role = Inr [] \<longleftrightarrow> healthy_host environment role"
  by (auto simp: environment_reasons_def healthy_host_def healthy_state_def in_order_Nil_iff state_at_def res_simps
      simp del: in_order_simps)

definition threads_placed :: "pyval \<Rightarrow> bool" where
  "threads_placed sender \<longleftrightarrow>
     (\<exists>outcomes os n. py_get_or sender ''thread_outcomes'' (VList []) = Inr outcomes \<and>
        py_len outcomes = Inr n \<and> int_or sender ''threads'' 1 = Inr n \<and> py_iter outcomes = Inr os \<and>
        list_all (\<lambda>o1. \<exists>v. py_get_or o1 ''affinity_success'' (VBool False) = Inr v \<and> truthy v) os)"

lemma thread_outcome_iff: "thread_outcome_test sender = Inr False \<longleftrightarrow> threads_placed sender"
  by (auto simp: thread_outcome_test_def threads_placed_def outcome_failed_def res_simps list_all_iff)

definition nothing_listed :: "pyval \<Rightarrow> bool" where
  "nothing_listed holder \<longleftrightarrow>
     (\<exists>v. py_get_or holder ''reasons'' (VList []) = Inr v \<and> py_iter v = Inr [])"

lemma listed_reasons_Nil_iff: "listed_reasons holder = Inr [] \<longleftrightarrow> nothing_listed holder"
  by (auto simp: listed_reasons_def nothing_listed_def res_simps)

definition clean_pacing :: "pyval \<Rightarrow> bool" where
  "clean_pacing metadata \<longleftrightarrow>
     (\<exists>p. py_get_none metadata ''pacing'' = Inr p \<and> is_dict p \<and> nothing_listed p)"

lemma pacing_entry_iff: "pacing_entry_reasons metadata = Inr [] \<longleftrightarrow> clean_pacing metadata"
  by (auto simp: pacing_entry_reasons_def clean_pacing_def res_simps listed_reasons_Nil_iff split: if_splits)

definition quiet_receiver :: "pyval \<Rightarrow> bool" where
  "quiet_receiver receiver \<longleftrightarrow>
     list_all (\<lambda>f. int_or receiver f 0 = Inr 0)
       [''receive_sequence_gaps'', ''receive_duplicates'', ''processed_sequence_gaps'', ''processed_duplicates'',
        ''short_packets'', ''invalid_magic'', ''unsupported_version'', ''spsc_overflow'']"

definition clean_surroundings :: "pyval \<Rightarrow> pyval \<Rightarrow> pyval \<Rightarrow> bool" where
  "clean_surroundings metadata sender receiver \<longleftrightarrow>
     quiet_receiver receiver \<and> reordering_test receiver = Inr False \<and>
     list_all (quiet_side metadata) [''counters'', ''sender_counters''] \<and>
     (\<exists>environment. py_get_dict metadata ''run_environment'' = Inr environment \<and>
        list_all (healthy_host environment) [''receiver'', ''sender'']) \<and>
     threads_placed sender \<and> clean_pacing metadata \<and>
     (\<exists>v. py_get_dict metadata ''validity'' = Inr v \<and> nothing_listed v)"

definition qualified_run :: "pyval \<Rightarrow> bool" where
  "qualified_run metadata \<longleftrightarrow>
     (\<exists>sender receiver run rate payload achieved.
        py_index metadata ''sender_stats'' = Inr sender \<and> py_index metadata ''receiver_stats'' = Inr receiver \<and>
        py_index metadata ''run'' = Inr run \<and> int_at run ''requested_rate_pps'' = Inr rate \<and>
        int_at run ''payload_size'' = Inr payload \<and>
        float_at sender ''achieved_successful_send_pps'' = Inr achieved \<and>
        rate_test rate achieved = Inr False \<and> lossless sender receiver payload \<and>
        clean_surroundings metadata sender receiver)"

lemma in_order_append: "in_order (xs @ ys) = Inr [] \<longleftrightarrow> in_order xs = Inr [] \<and> in_order ys = Inr []"
  by (auto simp: in_order_Nil_iff)

lemma in_order_map: "in_order (map f xs) = Inr [] \<longleftrightarrow> list_all (\<lambda>x. f x = Inr []) xs"
  by (auto simp: in_order_Nil_iff list_all_iff simp del: in_order_simps)

lemma in_order_some:
  "in_order [a] = Inr [] \<longleftrightarrow> a = Inr []"
  "in_order [a, b, c, d] = Inr [] \<longleftrightarrow> a = Inr [] \<and> b = Inr [] \<and> c = Inr [] \<and> d = Inr []"
  by (auto simp: in_order_Nil_iff simp del: in_order_simps)

lemma qualification_checks_iff:
  "in_order (qualification_checks metadata sender receiver rate achieved) = Inr [] \<longleftrightarrow>
     rate_test rate achieved = Inr False \<and>
     (\<exists>run payload. py_index metadata ''run'' = Inr run \<and> int_at run ''payload_size'' = Inr payload \<and>
        lossless sender receiver payload) \<and>
     clean_surroundings metadata sender receiver"
proof -
  have "quiet_receiver receiver \<longleftrightarrow>
      list_all (\<lambda>f. int_or receiver f 0 = Inr 0) [''receive_sequence_gaps'', ''receive_duplicates''] \<and>
      list_all (\<lambda>f. int_or receiver f 0 = Inr 0) [''processed_sequence_gaps'', ''processed_duplicates'',
        ''short_packets'', ''invalid_magic'', ''unsupported_version'', ''spsc_overflow'']"
    by (simp add: quiet_receiver_def)
  then show ?thesis
    unfolding qualification_checks_def in_order_append in_order_some in_order_map check_Nil_iff accounting_iff
      nonzero_field_Nil_iff side_reasons_Nil_iff rbind_Inr_iff environment_reasons_Nil_iff thread_outcome_iff
      pacing_entry_iff listed_reasons_Nil_iff clean_surroundings_def
    by blast
qed

lemma dedup_tail: "(\<exists>rs. m = Inr rs \<and> (Inr (dedup rs) :: 'a list res) = Inr []) \<longleftrightarrow> m = Inr []"
  by auto

lemma qualification_reasons_iff: "qualification_reasons metadata = Inr [] \<longleftrightarrow> qualified_run metadata"
proof -
  have "qualification_reasons metadata = Inr [] \<longleftrightarrow>
    (\<exists>sender. py_index metadata ''sender_stats'' = Inr sender \<and>
      (\<exists>receiver. py_index metadata ''receiver_stats'' = Inr receiver \<and>
        (\<exists>rate. (\<exists>run. py_index metadata ''run'' = Inr run \<and> int_at run ''requested_rate_pps'' = Inr rate) \<and>
          (\<exists>achieved. float_at sender ''achieved_successful_send_pps'' = Inr achieved \<and>
             in_order (qualification_checks metadata sender receiver rate achieved) = Inr []))))"
    unfolding qualification_reasons_def rbind_Inr_iff dedup_tail ..
  then show ?thesis
    unfolding qualified_run_def qualification_checks_iff by (metis sum.inject(2))
qed


section \<open>The rate band\<close>

lemma rate_test_spec:
  assumes r: "1 \<le> rate" "rate \<le> 2 ^ 53" and ok: "rate_test rate achieved = Inr False"
  shows "\<exists>x. achieved = Fin x \<and> 989 * of_int rate \<le> 1000 * x \<and> 1000 * x \<le> 1011 * of_int rate"
proof -
  obtain l h where l: "int_mul_flt rate (lit 99 100) = Inr (Fin l)" "999998 * (of_int rate * 99) \<le> 100000000 * l"
    and h: "int_mul_flt rate (lit 101 100) = Inr (Fin h)" "100000000 * h \<le> 1000003 * (of_int rate * 101)"
    using int_mul_lit [OF r, of 99] int_mul_lit [OF r, of 101] by auto
  have band: "flt_le (Fin l) achieved" "flt_le achieved (Fin h)"
    using ok l(1) h(1) by (auto simp: rate_test_def split: if_splits)
  then obtain x where x: "achieved = Fin x" by (cases achieved) auto
  have "of_int 1 \<le> (of_int rate :: rat)" using r by (simp only: of_int_le_iff)
  with band l(2) h(2) show ?thesis by (auto simp: x)
qed

text \<open>
  A run that qualifies achieved, as a finite number, between 98.9 % and 101.1 % of the requested
  rate: the float test neither lets a NaN or an infinity through nor widens its band by more than a
  tenth of a percent.
\<close>

theorem qualified_rate_bounds:
  assumes "qualification_reasons metadata = Inr []"
    and "py_index metadata ''sender_stats'' = Inr sender"
    and "py_index metadata ''run'' = Inr run" and "int_at run ''requested_rate_pps'' = Inr rate"
    and "1 \<le> rate" "rate \<le> 2 ^ 53"
  shows "\<exists>x. float_at sender ''achieved_successful_send_pps'' = Inr (Fin x) \<and>
    989 * of_int rate \<le> 1000 * x \<and> 1000 * x \<le> 1011 * of_int rate"
proof -
  from assms(1-4) obtain achieved where a: "float_at sender ''achieved_successful_send_pps'' = Inr achieved"
    "rate_test rate achieved = Inr False"
    by (auto simp: qualification_reasons_iff qualified_run_def)
  with rate_test_spec [OF assms(5,6) a(2)] show ?thesis by auto
qed

section \<open>Throttling\<close>

text \<open>
  The two throttling tests agree on the safe side: a state the qualification accepts as clear is
  never one the validity check calls throttled.
\<close>

theorem clear_is_not_throttled:
  assumes "throttling_is_clear state = Inr True"
  shows "throttled state = Inr False"
proof -
  obtain r v where "py_get_dict state ''throttled'' = Inr r" "py_get_or r ''value'' (VStr '''') = Inr v"
    "hex_search (py_str v) = Some 0"
    using assms by (auto simp: throttling_is_clear_def rbind_Inr_iff split: if_splits)
  then show ?thesis by (simp add: throttled_def)
qed

section \<open>Validity\<close>

definition applied :: "pyval \<Rightarrow> string \<Rightarrow> bool" where
  "applied receiver name \<longleftrightarrow>
     (\<exists>outcome. py_get_none receiver name = Inr outcome \<and> (outcome = VNone \<or> outcome_unsuccessful outcome = Inr False))"

definition buffer_granted :: "pyval \<Rightarrow> bool" where
  "buffer_granted stats \<longleftrightarrow>
     (\<exists>requested observed. int_or stats ''requested_socket_buffer_bytes'' 0 = Inr requested \<and>
        int_or stats ''observed_socket_buffer_bytes'' (- 1) = Inr observed \<and>
        (requested \<le> 0 \<or> requested \<le> observed))"

definition window_seen :: "pyval \<Rightarrow> string \<Rightarrow> string \<Rightarrow> string \<Rightarrow> bool" where
  "window_seen receiver packets first latest \<longleftrightarrow>
     int_at receiver packets = Inr 0 \<or>
     (\<exists>n a b. int_at receiver packets = Inr n \<and> int_or receiver first 0 = Inr a \<and> a \<noteq> 0 \<and>
        int_or receiver latest 0 = Inr b \<and> b \<noteq> 0)"

definition receipts_ok :: "pyval \<Rightarrow> pyval \<Rightarrow> bool" where
  "receipts_ok sender receiver \<longleftrightarrow>
     (\<exists>sent received processed handled dropped.
        int_at sender ''successful_sends'' = Inr sent \<and>
        int_at receiver ''unique_valid_packets'' = Inr received \<and> received \<le> sent \<and>
        int_at receiver ''unique_processed_packets'' = Inr processed \<and> processed \<le> sent \<and>
        int_at receiver ''processed_packets'' = Inr handled \<and> int_at receiver ''spsc_overflow'' = Inr dropped \<and>
        int_at receiver ''valid_packets'' = Inr (handled + dropped))"

definition host_ok :: "pyval \<Rightarrow> pyval \<Rightarrow> pyval \<Rightarrow> bool" where
  "host_ok sender receiver counters \<longleftrightarrow>
     list_all (applied receiver) [''receiver_affinity'', ''receiver_scheduler'', ''worker_affinity'', ''worker_scheduler''] \<and>
     (\<exists>outcome. py_get_dict sender ''cpu_affinity'' = Inr outcome \<and> outcome_unsuccessful outcome = Inr False) \<and>
     buffer_granted receiver \<and> buffer_granted sender \<and>
     window_seen receiver ''valid_packets'' ''first_receive_mono_ns'' ''last_receive_mono_ns'' \<and>
     window_seen receiver ''processed_packets'' ''first_processing_mono_ns'' ''last_processing_mono_ns'' \<and>
     int_or receiver ''queue_depth_at_shutdown'' 0 = Inr 0 \<and>
     int_or receiver ''socket_pending_bytes_at_shutdown'' 0 = Inr 0 \<and>
     (\<exists>cs. py_values counters = Inr cs \<and> list_all (\<lambda>c. negative_delta c = Inr False) cs)"

definition no_pause :: "pyval \<Rightarrow> string \<Rightarrow> bool" where
  "no_pause counters name \<longleftrightarrow>
     (\<exists>c d. py_get_dict counters name = Inr c \<and> py_get_none c ''delta'' = Inr d \<and> py_eq d (VInt 0))"

definition state_complete :: "pyval \<Rightarrow> bool" where
  "state_complete state \<longleftrightarrow> (\<exists>d. state = VDict d \<and> list_all (\<lambda>entry. failed_probe entry = Inr False) d)"

definition network_ok :: "pyval \<Rightarrow> pyval \<Rightarrow> pyval \<Rightarrow> pyval \<Rightarrow> pyval \<Rightarrow> bool" where
  "network_ok counters before after sender_before sender_after \<longleftrightarrow>
     list_all (no_pause counters) [''nic_rx_pause'', ''nic_tx_pause''] \<and>
     throttled before = Inr False \<and> throttled after = Inr False \<and>
     (truthy sender_before \<and> truthy sender_after \<longrightarrow>
        throttled sender_before = Inr False \<and> throttled sender_after = Inr False) \<and>
     list_all state_complete [before, after, or_empty sender_before, or_empty sender_after]"

definition valid_run :: "pyval \<Rightarrow> pyval \<Rightarrow> pyval \<Rightarrow> pyval \<Rightarrow> pyval \<Rightarrow> string \<Rightarrow> pyval \<Rightarrow> pyval \<Rightarrow> bool" where
  "valid_run sender receiver counters before after topology sender_before sender_after \<longleftrightarrow>
     receipts_ok sender receiver \<and> host_ok sender receiver counters \<and>
     (topology = ''local_loopback'' \<or> network_ok counters before after sender_before sender_after)"

lemma outcome_reasons_Nil_iff: "outcome_reasons receiver name = Inr [] \<longleftrightarrow> applied receiver name"
proof -
  have "(if v = VNone then Inr False else outcome_unsuccessful v) = Inr False \<longleftrightarrow>
      v = VNone \<or> outcome_unsuccessful v = Inr False" for v by simp
  then show ?thesis unfolding outcome_reasons_def applied_def rbind_Inr_iff check_Nil_iff by (simp only:)
qed

lemma buffer_reasons_Nil_iff: "buffer_reasons side stats = Inr [] \<longleftrightarrow> buffer_granted stats"
  by (auto simp: buffer_reasons_def buffer_granted_def res_simps not_less)

lemma window_test_iff: "window_test receiver packets first latest = Inr False \<longleftrightarrow> window_seen receiver packets first latest"
  by (auto simp: window_test_def window_seen_def is_zero_field_def res_simps)

lemma pause_reasons_Nil_iff: "pause_reasons counters name = Inr [] \<longleftrightarrow> no_pause counters name"
proof -
  have "(if d = VNone then [a] else because (\<not> py_eq d (VInt 0)) b) = [] \<longleftrightarrow> py_eq d (VInt 0)" for d a b
    by (cases d) simp_all
  then show ?thesis unfolding pause_reasons_def no_pause_def rbind_Inr_iff sum.inject by simp
qed

lemma rfilter_Nil_iff: "rfilter f xs = Inr [] \<longleftrightarrow> list_all (\<lambda>x. f x = Inr False) xs"
  by (induction xs) (auto simp: rbind_Inr_iff split: if_splits)

lemma metadata_reasons_Nil_iff: "metadata_reasons label state = Inr [] \<longleftrightarrow> state_complete state"
proof -
  have "sort (map fst xs) = [] \<longleftrightarrow> xs = []" for xs :: "(string \<times> pyval) list"
    by (metis length_0_conv length_map length_sort)
  then show ?thesis
    by (auto simp: metadata_reasons_def state_complete_def res_simps rfilter_Nil_iff Let_def)
qed

lemma topology_checks_iff:
  "in_order (topology_checks counters before after sb sa) = Inr [] \<longleftrightarrow> network_ok counters before after sb sa"
  by (simp only: topology_checks_def in_order_append in_order_map pause_reasons_Nil_iff network_ok_def)
    (auto simp: in_order_Nil_iff check_Nil_iff py_or_False_iff metadata_reasons_Nil_iff simp del: in_order_simps)

lemma host_checks_iff: "in_order (host_checks sender receiver counters) = Inr [] \<longleftrightarrow> host_ok sender receiver counters"
  by (simp only: host_checks_def in_order_append in_order_map outcome_reasons_Nil_iff host_ok_def)
    (auto simp: in_order_Nil_iff check_Nil_iff rbind_Inr_iff buffer_reasons_Nil_iff window_test_iff differs_False_iff
      rany_False_iff list_all_iff simp del: in_order_simps)

lemma receipt_checks_iff:
  "in_order (receipt_checks s u p receiver) = Inr [] \<longleftrightarrow>
     u \<le> s \<and> p \<le> s \<and> (\<exists>h d. int_at receiver ''processed_packets'' = Inr h \<and> int_at receiver ''spsc_overflow'' = Inr d \<and>
        int_at receiver ''valid_packets'' = Inr (h + d))"
  by (auto simp: receipt_checks_def in_order_Nil_iff check_Nil_iff differs_False_iff rbind_Inr_iff not_less
      simp del: in_order_simps)

lemma validity_reasons_iff:
  "validity_reasons sender receiver counters before after topology sb sa = Inr [] \<longleftrightarrow>
   valid_run sender receiver counters before after topology sb sa"
proof -
  have "in_order (if topology \<noteq> ''local_loopback'' then topology_checks counters before after sb sa else []) = Inr [] \<longleftrightarrow>
    topology = ''local_loopback'' \<or> network_ok counters before after sb sa"
    by (cases "topology = ''local_loopback''") (simp_all only: topology_checks_iff in_order_simps simp_thms if_True if_False)
  then show ?thesis
    unfolding validity_reasons_def valid_run_def receipts_ok_def rbind_Inr_iff in_order_append host_checks_iff
      receipt_checks_iff
    by blast
qed


section \<open>A run that qualifies\<close>

definition clear_state :: pyval where
  "clear_state = VDict
     [(''link'', VDict [(''value'', VStr ''Speed: 1000Mb/s Duplex: Full'')]),
      (''throttled'', VDict [(''value'', VStr ''throttled=0x0'')])]"

definition clear_host :: pyval where
  "clear_host = VDict [(''before'', clear_state), (''after'', clear_state)]"

definition good_sender :: pyval where
  "good_sender = VDict
     [(''attempted_sends'', VInt 3), (''successful_sends'', VInt 3), (''failed_sends'', VInt 0),
      (''successful_bytes'', VInt 192), (''achieved_successful_send_pps'', VFloat (Fin 1000)),
      (''thread_outcomes'', VList [VDict [(''affinity_success'', VBool True)]])]"

definition good_receiver :: pyval where
  "good_receiver = VDict [(''unique_valid_packets'', VInt 3), (''unique_processed_packets'', VInt 3)]"

definition good_metadata :: pyval where
  "good_metadata = VDict
     [(''sender_stats'', good_sender), (''receiver_stats'', good_receiver),
      (''run'', VDict [(''requested_rate_pps'', VInt 1000), (''payload_size'', VInt 64)]),
      (''counters'', VDict [(''nic_rx_dropped'', VDict [(''delta'', VInt 0), (''error'', VNone)])]),
      (''run_environment'', VDict [(''receiver'', clear_host), (''sender'', clear_host)]),
      (''pacing'', VDict [(''reasons'', VList [])]),
      (''validity'', VDict [(''reasons'', VList [])])]"

lemma good_metadata_qualifies: "qualification_reasons good_metadata = Inr []"
  by code_simp

theorem qualified_rate_bounds_witness:
  "\<exists>x. float_at good_sender ''achieved_successful_send_pps'' = Inr (Fin x) \<and> 989000 \<le> 1000 * x \<and> 1000 * x \<le> 1011000"
  using qualified_rate_bounds [OF good_metadata_qualifies, of good_sender
    "VDict [(''requested_rate_pps'', VInt 1000), (''payload_size'', VInt 64)]" 1000]
  by (simp add: good_metadata_def int_at_VDict)

theorem clear_is_not_throttled_witness: "throttled clear_state = Inr False"
  by (rule clear_is_not_throttled) code_simp

end
