(* ===== verification/Profile_Evidence.thy ===== *)
theory Profile_Evidence
  imports Paths
begin

text \<open>
  \<^verbatim>\<open>validate_profile_session\<close> of \<^verbatim>\<open>analysis/profile_tools.py\<close>: the completeness check of the twelve-run
  profile evidence set over the files of a session. A session is accepted exactly when the declarative
  \<open>complete_evidence\<close> holds; everything else is an error of a known class.
\<close>

section \<open>Reading files\<close>

definition require_nonempty :: "file_system \<Rightarrow> pure_path \<Rightarrow> string \<Rightarrow> unit res" where
  "require_nonempty fs path description =
     require (case fs_file fs path of Some f \<Rightarrow> file_size f \<noteq> 0 | None \<Rightarrow> False)
       (Exn ValueError (''Missing or empty '' @ description @ '': '' @ path_str path))"

definition unreadable :: "exc_class \<Rightarrow> bool" where
  "unreadable k = (is_os_error k \<or> k = UnicodeDecodeErr \<or> k = JSONDecodeErr)"

definition malformed :: "string \<Rightarrow> pure_path \<Rightarrow> string \<Rightarrow> exn" where
  "malformed description path why = Exn ValueError (''Malformed '' @ description @ '': '' @ path_str path @ '': '' @ why)"

definition read_json_object :: "file_system \<Rightarrow> pure_path \<Rightarrow> string \<Rightarrow> pyval res" where
  "read_json_object fs path description =
     rbind (require_nonempty fs path description) (\<lambda>_.
     rbind (case file_document fs path of
              Inl e \<Rightarrow> Inl (if unreadable (exc_kind e) then malformed description path (exc_text e) else e)
            | Inr v \<Rightarrow> Inr v) (\<lambda>v.
     rbind (require (is_dict v) (malformed description path ''expected a JSON object'')) (\<lambda>_. Inr v)))"

section \<open>One run of the manifest\<close>

definition ve :: "string \<Rightarrow> exn" where
  "ve text = Exn ValueError text"

definition required_text :: "pyval \<Rightarrow> exn \<Rightarrow> string res" where
  "required_text v e = (case v of VStr s \<Rightarrow> if s \<noteq> [] then Inr s else Inl e | _ \<Rightarrow> Inl e)"

definition required_dict :: "pyval \<Rightarrow> exn \<Rightarrow> unit res" where
  "required_dict v e = require (is_dict v) e"

definition entry_names :: "int \<Rightarrow> pyval \<Rightarrow> (string \<times> string) res" where
  "entry_names index run_entry =
     (let no_metadata = ve (''Run '' @ str_int index @ '' is missing manifest metadata'') in
      rbind (required_dict run_entry no_metadata) (\<lambda>_.
      rbind (py_get_none run_entry ''metadata'') (\<lambda>metadata_name.
      rbind (py_get_none run_entry ''trace'') (\<lambda>trace_name.
      rbind (required_text metadata_name no_metadata) (\<lambda>m.
      rbind (required_text trace_name (ve (''Run '' @ str_int index @ '' is missing its trace path''))) (\<lambda>t.
        Inr (m, t)))))))"

definition run_identity :: "pyval \<Rightarrow> pure_path \<Rightarrow> pyval \<Rightarrow> string list \<Rightarrow> string res" where
  "run_identity run_entry metadata_path metadata run_ids =
     rbind (py_get_none metadata ''run_id'') (\<lambda>v.
     rbind (required_text v (ve (''Run metadata is missing run_id: '' @ path_str metadata_path))) (\<lambda>run_id.
     rbind (require (run_id \<notin> set run_ids) (ve (''Duplicate run_id: '' @ run_id))) (\<lambda>_.
     rbind (py_get_none run_entry ''run_id'') (\<lambda>listed.
     rbind (require (listed = VStr run_id)
       (ve (''Manifest and metadata run_id disagree for '' @ path_str metadata_path))) (\<lambda>_.
     Inr run_id)))))"

definition run_verdict :: "string \<Rightarrow> pyval \<Rightarrow> unit res" where
  "run_verdict run_id metadata =
     rbind (py_get_none metadata ''validity'') (\<lambda>validity.
     rbind (required_dict validity (ve (''Profile run is invalid: '' @ run_id))) (\<lambda>_.
     rbind (py_get_none validity ''valid'') (\<lambda>valid.
     rbind (require (valid = VBool True) (ve (''Profile run is invalid: '' @ run_id))) (\<lambda>_.
     rbind (py_get_none metadata ''run'') (\<lambda>run_description.
     rbind (required_dict run_description (ve (''Run is missing run metadata: '' @ run_id))) (\<lambda>_.
     rbind (py_get_none run_description ''campaign'') (\<lambda>campaign.
       require (campaign = VStr ''profile'') (ve (''Run is not in the profile campaign: '' @ run_id)))))))))"

definition positive_pid :: "pyval \<Rightarrow> bool" where
  "positive_pid v = (case v of VInt n \<Rightarrow> 0 < n | _ \<Rightarrow> False)"

definition run_processes :: "string \<Rightarrow> pyval \<Rightarrow> unit res" where
  "run_processes run_id metadata =
     rbind (py_get_none metadata ''processes'') (\<lambda>processes.
     rbind (required_dict processes (ve (''Run is missing process metadata: '' @ run_id))) (\<lambda>_.
     rbind (py_get_none processes ''receiver_pid'') (\<lambda>receiver_pid.
     rbind (py_get_none processes ''profile_wrapper_pid'') (\<lambda>wrapper_pid.
     rbind (require (positive_pid receiver_pid \<and> positive_pid wrapper_pid)
       (ve (''Run has invalid receiver/profile-wrapper PIDs: '' @ run_id))) (\<lambda>_.
     require (receiver_pid \<noteq> wrapper_pid)
       (ve (''Receiver and profile-wrapper PIDs alias in '' @ run_id)))))))"

definition meta_suffix :: string where "meta_suffix = ''_meta.json''"

definition run_artifacts :: "file_system \<Rightarrow> pure_path \<Rightarrow> pure_path \<Rightarrow> string \<Rightarrow> pyval \<Rightarrow> unit res" where
  "run_artifacts fs trace_path metadata_path run_id metadata =
     rbind (require_nonempty fs trace_path (''trace for '' @ run_id)) (\<lambda>_.
     rbind (require (endswith (path_name metadata_path) meta_suffix)
       (ve (''Unexpected metadata filename: '' @ path_str metadata_path))) (\<lambda>_.
     let name = path_name metadata_path;
         stats_path = path_with_name metadata_path
           (take (length name - length meta_suffix) name @ ''_rx_stats.json'')
     in rbind (read_json_object fs stats_path (''receiver stats for '' @ run_id)) (\<lambda>_.
        rbind (py_get_none metadata ''receiver_stats'') (\<lambda>stats.
          required_dict stats (ve (''Run metadata is missing receiver stats: '' @ run_id))))))"

definition stat_artifact :: "file_system \<Rightarrow> pure_path \<Rightarrow> string \<Rightarrow> pyval \<Rightarrow> unit res" where
  "stat_artifact fs folder run_id profile =
     rbind (py_get_none profile ''artifact'') (\<lambda>artifact.
     rbind (required_text artifact (ve (''Stat run is missing its perf artifact: '' @ run_id))) (\<lambda>a.
     require_nonempty fs (path_div folder a) (''perf stat artifact for '' @ run_id)))"

definition record_artifacts :: "file_system \<Rightarrow> pure_path \<Rightarrow> string \<Rightarrow> pyval \<Rightarrow> unit res" where
  "record_artifacts fs folder run_id profile =
     rbind (py_get_none profile ''perf_data'') (\<lambda>perf_data.
     rbind (py_get_none profile ''report'') (\<lambda>report.
     rbind (required_text perf_data (ve (''Record run is missing its perf artifact: '' @ run_id))) (\<lambda>d.
     rbind (required_text report (ve (''Record run is missing its perf report: '' @ run_id))) (\<lambda>r.
     rbind (require_nonempty fs (path_div folder d) (''perf record artifact for '' @ run_id)) (\<lambda>_.
     require_nonempty fs (path_div folder r) (''perf record report for '' @ run_id))))))"

definition known_mode :: "string \<Rightarrow> pyval \<Rightarrow> string res" where
  "known_mode run_id mode =
     rbind (py_in_set mode [VStr ''stat'', VStr ''record'']) (\<lambda>known.
     rbind (require known (ve (''Unexpected profile mode for '' @ run_id @ '': '' @ py_repr mode))) (\<lambda>_.
     Inr (if mode = VStr ''stat'' then ''stat'' else ''record'')))"

definition profile_mode :: "file_system \<Rightarrow> pure_path \<Rightarrow> string \<Rightarrow> pyval \<Rightarrow> string res" where
  "profile_mode fs metadata_path run_id metadata =
     rbind (py_get_none metadata ''profile'') (\<lambda>profile.
     rbind (required_dict profile (ve (''Run is missing profile metadata: '' @ run_id))) (\<lambda>_.
     rbind (py_get_none profile ''mode'') (\<lambda>v.
     rbind (known_mode run_id v) (\<lambda>mode.
     rbind (if mode = ''stat'' then stat_artifact fs (path_parent metadata_path) run_id profile
            else record_artifacts fs (path_parent metadata_path) run_id profile) (\<lambda>_.
     Inr mode)))))"

section \<open>The whole session\<close>

text \<open>What the loop remembers: the modes so far, the run identifiers and the metadata paths seen.\<close>

record evidence_seen =
  seen_modes :: "string list"
  seen_ids :: "string list"
  seen_paths :: "pure_path list"

definition check_run :: "file_system \<Rightarrow> pure_path \<Rightarrow> int \<Rightarrow> pyval \<Rightarrow> evidence_seen \<Rightarrow> evidence_seen res" where
  "check_run fs session index run_entry seen =
     rbind (entry_names index run_entry) (\<lambda>(metadata_name, trace_name).
     let metadata_path = path_div session metadata_name in
     rbind (require (metadata_path \<notin> set (seen_paths seen))
       (ve (''Duplicate metadata path in manifest: '' @ metadata_name))) (\<lambda>_.
     rbind (read_json_object fs metadata_path ''run metadata'') (\<lambda>metadata.
     rbind (run_identity run_entry metadata_path metadata (seen_ids seen)) (\<lambda>run_id.
     rbind (run_verdict run_id metadata) (\<lambda>_.
     rbind (run_processes run_id metadata) (\<lambda>_.
     rbind (run_artifacts fs (path_div session trace_name) metadata_path run_id metadata) (\<lambda>_.
     rbind (profile_mode fs metadata_path run_id metadata) (\<lambda>mode.
     Inr \<lparr>seen_modes = seen_modes seen @ [mode], seen_ids = seen_ids seen @ [run_id],
          seen_paths = seen_paths seen @ [metadata_path]\<rparr>))))))))"

fun check_runs :: "file_system \<Rightarrow> pure_path \<Rightarrow> int \<Rightarrow> pyval list \<Rightarrow> evidence_seen \<Rightarrow> evidence_seen res" where
  "check_runs fs session index [] seen = Inr seen"
| "check_runs fs session index (run_entry # entries) seen =
     rbind (check_run fs session index run_entry seen) (\<lambda>seen'.
       check_runs fs session (index + 1) entries seen')"

definition nothing_seen :: evidence_seen where
  "nothing_seen = \<lparr>seen_modes = [], seen_ids = [], seen_paths = []\<rparr>"

definition twelve_runs :: "pyval \<Rightarrow> pyval list res" where
  "twelve_runs runs =
     (case runs of
        VList entries \<Rightarrow>
          if length entries = 12 then Inr entries
          else Inl (ve (''Expected exactly 12 profile runs, found '' @ str_int (int (length entries))))
      | _ \<Rightarrow> Inl (ve ''Expected exactly 12 profile runs, found missing''))"

definition manifest_runs :: "file_system \<Rightarrow> pure_path \<Rightarrow> pyval list res" where
  "manifest_runs fs session =
     rbind (read_json_object fs (path_div session ''session_manifest.json'') ''session manifest'') (\<lambda>manifest.
     rbind (py_get_none manifest ''runs'') twelve_runs)"

definition validate_profile_session :: "file_system \<Rightarrow> pure_path \<Rightarrow> pure_path res" where
  "validate_profile_session fs session =
     rbind (require (fs_is_dir fs session)
       (ve (''Profile session is not a directory: '' @ path_str session))) (\<lambda>_.
     rbind (manifest_runs fs session) (\<lambda>runs.
     rbind (check_runs fs session 1 runs nothing_seen) (\<lambda>seen.
       let stats = length (filter (\<lambda>m. m = ''stat'') (seen_modes seen));
           records = length (filter (\<lambda>m. m = ''record'') (seen_modes seen))
       in rbind (require (stats = 9 \<and> records = 3)
            (ve (''Expected 9 stat and 3 record runs, found '' @ str_int (int stats) @ '' stat and '' @
                 str_int (int records) @ '' record''))) (\<lambda>_.
          Inr (fs_resolve fs session)))))"

section \<open>Complete evidence\<close>

definition nonempty_file :: "file_system \<Rightarrow> pure_path \<Rightarrow> bool" where
  "nonempty_file fs path \<longleftrightarrow> (\<exists>f. fs_file fs path = Some f \<and> file_size f \<noteq> 0)"

definition json_object_at :: "file_system \<Rightarrow> pure_path \<Rightarrow> pyval dict \<Rightarrow> bool" where
  "json_object_at fs path d \<longleftrightarrow> (\<exists>f. fs_file fs path = Some f \<and> file_size f \<noteq> 0 \<and> file_json f = Inr (VDict d))"

definition text_entry :: "pyval dict \<Rightarrow> string \<Rightarrow> string \<Rightarrow> bool" where
  "text_entry d k s \<longleftrightarrow> dget d k = Some (VStr s) \<and> s \<noteq> []"

definition artifact_file :: "file_system \<Rightarrow> pure_path \<Rightarrow> pyval dict \<Rightarrow> string \<Rightarrow> bool" where
  "artifact_file fs folder profile k \<longleftrightarrow> (\<exists>s. text_entry profile k s \<and> nonempty_file fs (path_div folder s))"

definition stats_path_of :: "pure_path \<Rightarrow> pure_path" where
  "stats_path_of path =
     path_with_name path (take (length (path_name path) - length meta_suffix) (path_name path) @ ''_rx_stats.json'')"

definition mode_evidence :: "file_system \<Rightarrow> pure_path \<Rightarrow> pyval dict \<Rightarrow> string \<Rightarrow> bool" where
  "mode_evidence fs folder profile mode \<longleftrightarrow>
     mode = ''stat'' \<and> dget profile ''mode'' = Some (VStr ''stat'') \<and> artifact_file fs folder profile ''artifact'' \<or>
     mode = ''record'' \<and> dget profile ''mode'' = Some (VStr ''record'') \<and>
       artifact_file fs folder profile ''perf_data'' \<and> artifact_file fs folder profile ''report''"

definition metadata_evidence :: "pyval dict \<Rightarrow> bool" where
  "metadata_evidence md \<longleftrightarrow>
     (\<exists>v. dget md ''validity'' = Some (VDict v) \<and> dget v ''valid'' = Some (VBool True)) \<and>
     (\<exists>r. dget md ''run'' = Some (VDict r) \<and> dget r ''campaign'' = Some (VStr ''profile'')) \<and>
     (\<exists>p a b. dget md ''processes'' = Some (VDict p) \<and> dget p ''receiver_pid'' = Some (VInt a) \<and>
        dget p ''profile_wrapper_pid'' = Some (VInt b) \<and> 0 < a \<and> 0 < b \<and> a \<noteq> b) \<and>
     (\<exists>s. dget md ''receiver_stats'' = Some (VDict s))"

definition run_evidence :: "file_system \<Rightarrow> pure_path \<Rightarrow> pyval \<Rightarrow> pure_path \<times> string \<times> string \<Rightarrow> bool" where
  "run_evidence fs session run_entry found \<longleftrightarrow>
     (case found of (path, run_id, mode) \<Rightarrow>
        \<exists>entry metadata_name trace_name md stats profile.
          run_entry = VDict entry \<and> text_entry entry ''metadata'' metadata_name \<and> path = path_div session metadata_name \<and>
          text_entry entry ''trace'' trace_name \<and> nonempty_file fs (path_div session trace_name) \<and>
          json_object_at fs path md \<and> text_entry md ''run_id'' run_id \<and> dget entry ''run_id'' = Some (VStr run_id) \<and>
          metadata_evidence md \<and>
          endswith (path_name path) meta_suffix \<and> json_object_at fs (stats_path_of path) stats \<and>
          dget md ''profile'' = Some (VDict profile) \<and> mode_evidence fs (path_parent path) profile mode)"

lemma is_dict_iff: "is_dict v \<longleftrightarrow> (\<exists>d. v = VDict d)"
  by (cases v) auto

lemma required_text_Inr_iff: "required_text v e = Inr s \<longleftrightarrow> v = VStr s \<and> s \<noteq> []"
  by (cases v) (auto simp: required_text_def)

lemma require_nonempty_iff: "require_nonempty fs path descr = Inr u \<longleftrightarrow> nonempty_file fs path"
  by (auto simp: require_nonempty_def nonempty_file_def require_Inr_iff split: option.splits)

lemma read_json_object_iff: "read_json_object fs path descr = Inr v \<longleftrightarrow> (\<exists>d. v = VDict d \<and> json_object_at fs path d)"
proof (cases "file_document fs path")
  case (Inl e)
  then have "\<not> json_object_at fs path d" for d
    by (auto simp: json_object_at_def file_document_def)
  with Inl show ?thesis by (simp add: read_json_object_def rbind_Inr_iff)
next
  case (Inr w)
  then have "json_object_at fs path d \<longleftrightarrow> nonempty_file fs path \<and> w = VDict d" for d
    by (auto simp: json_object_at_def nonempty_file_def file_document_def split: option.splits)
  with Inr show ?thesis
    by (auto simp: read_json_object_def rbind_Inr_iff require_nonempty_iff require_Inr_iff is_dict_iff)
qed

lemma entry_names_iff:
  "entry_names index run_entry = Inr (m, t) \<longleftrightarrow>
     (\<exists>entry. run_entry = VDict entry \<and> text_entry entry ''metadata'' m \<and> text_entry entry ''trace'' t)"
  by (auto simp: entry_names_def Let_def rbind_Inr_iff required_dict_def require_Inr_iff is_dict_iff
      required_text_Inr_iff text_entry_def)

lemma run_identity_iff:
  "run_identity (VDict entry) path (VDict md) ids = Inr i \<longleftrightarrow>
     text_entry md ''run_id'' i \<and> i \<notin> set ids \<and> dget entry ''run_id'' = Some (VStr i)"
  by (auto simp: run_identity_def rbind_Inr_iff require_Inr_iff required_text_Inr_iff text_entry_def)

lemma run_verdict_iff:
  "run_verdict i (VDict md) = Inr u \<longleftrightarrow>
     (\<exists>v. dget md ''validity'' = Some (VDict v) \<and> dget v ''valid'' = Some (VBool True)) \<and>
     (\<exists>r. dget md ''run'' = Some (VDict r) \<and> dget r ''campaign'' = Some (VStr ''profile''))"
  by (auto simp: run_verdict_def rbind_Inr_iff required_dict_def require_Inr_iff is_dict_iff)

lemma positive_pid_iff: "positive_pid v \<longleftrightarrow> (\<exists>n. v = VInt n \<and> 0 < n)"
  by (cases v) (auto simp: positive_pid_def)

lemma run_processes_iff:
  "run_processes i (VDict md) = Inr u \<longleftrightarrow>
     (\<exists>p a b. dget md ''processes'' = Some (VDict p) \<and> dget p ''receiver_pid'' = Some (VInt a) \<and>
        dget p ''profile_wrapper_pid'' = Some (VInt b) \<and> 0 < a \<and> 0 < b \<and> a \<noteq> b)"
  unfolding run_processes_def
  by (auto simp: rbind_Inr_iff required_dict_def require_Inr_iff is_dict_iff positive_pid_iff)

lemma run_artifacts_iff:
  "run_artifacts fs trace path i (VDict md) = Inr u \<longleftrightarrow>
     nonempty_file fs trace \<and> endswith (path_name path) meta_suffix \<and>
     (\<exists>stats. json_object_at fs (stats_path_of path) stats) \<and>
     (\<exists>s. dget md ''receiver_stats'' = Some (VDict s))"
  by (auto simp: run_artifacts_def Let_def rbind_Inr_iff required_dict_def require_Inr_iff is_dict_iff
      require_nonempty_iff read_json_object_iff stats_path_of_def)

lemma in_modes_iff:
  "py_in_set v [VStr ''stat'', VStr ''record''] = Inr True \<longleftrightarrow> v = VStr ''stat'' \<or> v = VStr ''record''"
  by (cases v) (auto simp: py_in_set_def hash_ok_def py_eq_VStr_iff)

lemma known_mode_iff: "known_mode i v = Inr m \<longleftrightarrow> v = VStr m \<and> (m = ''stat'' \<or> m = ''record'')"
proof -
  have "known_mode i v = Inr m \<longleftrightarrow> py_in_set v [VStr ''stat'', VStr ''record''] = Inr True \<and>
      m = (if v = VStr ''stat'' then ''stat'' else ''record'')"
    unfolding known_mode_def rbind_Inr_iff require_Inr_iff by auto
  then show ?thesis unfolding in_modes_iff by auto
qed

lemma stat_artifact_iff:
  "stat_artifact fs folder i (VDict profile) = Inr u \<longleftrightarrow> artifact_file fs folder profile ''artifact''"
  by (auto simp: stat_artifact_def artifact_file_def text_entry_def rbind_Inr_iff require_nonempty_iff required_text_Inr_iff)

lemma record_artifacts_iff:
  "record_artifacts fs folder i (VDict profile) = Inr u \<longleftrightarrow>
     artifact_file fs folder profile ''perf_data'' \<and> artifact_file fs folder profile ''report''"
  unfolding record_artifacts_def artifact_file_def text_entry_def py_get_or_VDict rbind_simps
    rbind_Inr_iff require_nonempty_iff required_text_Inr_iff dget_or_None_iff by blast

lemma profile_mode_iff:
  "profile_mode fs path i (VDict md) = Inr mode \<longleftrightarrow>
     (\<exists>profile. dget md ''profile'' = Some (VDict profile) \<and> mode_evidence fs (path_parent path) profile mode)"
proof -
  have "profile_mode fs path i (VDict md) = Inr mode \<longleftrightarrow>
    (\<exists>profile. dget md ''profile'' = Some (VDict profile) \<and> dget profile ''mode'' = Some (VStr mode) \<and>
       (mode = ''stat'' \<or> mode = ''record'') \<and>
       (if mode = ''stat'' then stat_artifact fs (path_parent path) i (VDict profile)
        else record_artifacts fs (path_parent path) i (VDict profile)) = Inr ())"
    unfolding profile_mode_def required_dict_def rbind_Inr_iff require_Inr_iff known_mode_iff is_dict_iff
    by auto
  also have "\<dots> \<longleftrightarrow> (\<exists>profile. dget md ''profile'' = Some (VDict profile) \<and> mode_evidence fs (path_parent path) profile mode)"
    unfolding mode_evidence_def by (intro ex_cong1 conj_cong refl) (auto simp: stat_artifact_iff record_artifacts_iff)
  finally show ?thesis .
qed

lemma run_artifacts_pair:
  "metadata_evidence md \<longleftrightarrow>
     (\<exists>u. run_verdict i (VDict md) = Inr u) \<and> (\<exists>u. run_processes i (VDict md) = Inr u) \<and>
     (\<exists>s. dget md ''receiver_stats'' = Some (VDict s))"
  unfolding metadata_evidence_def run_verdict_iff run_processes_iff by blast

lemma check_run_iff:
  "check_run fs session index run_entry seen = Inr seen' \<longleftrightarrow>
     (\<exists>path i m. run_evidence fs session run_entry (path, i, m) \<and>
        path \<notin> set (seen_paths seen) \<and> i \<notin> set (seen_ids seen) \<and>
        seen' = \<lparr>seen_modes = seen_modes seen @ [m], seen_ids = seen_ids seen @ [i], seen_paths = seen_paths seen @ [path]\<rparr>)"
  (is "?lhs \<longleftrightarrow> ?rhs")
proof
  assume ?lhs
  then obtain mname tname md i m where r:
    "entry_names index run_entry = Inr (mname, tname)" "path_div session mname \<notin> set (seen_paths seen)"
    "json_object_at fs (path_div session mname) md"
    "run_identity run_entry (path_div session mname) (VDict md) (seen_ids seen) = Inr i"
    "\<exists>u. run_verdict i (VDict md) = Inr u" "\<exists>u. run_processes i (VDict md) = Inr u"
    "\<exists>u. run_artifacts fs (path_div session tname) (path_div session mname) i (VDict md) = Inr u"
    "profile_mode fs (path_div session mname) i (VDict md) = Inr m"
    "seen' = \<lparr>seen_modes = seen_modes seen @ [m], seen_ids = seen_ids seen @ [i], seen_paths = seen_paths seen @ [path_div session mname]\<rparr>"
    by (auto simp: check_run_def Let_def rbind_Inr_iff require_Inr_iff read_json_object_iff)
  from r(1) obtain entry where e: "run_entry = VDict entry" "text_entry entry ''metadata'' mname" "text_entry entry ''trace'' tname"
    by (auto simp: entry_names_iff)
  from r(4) have i: "text_entry md ''run_id'' i" "i \<notin> set (seen_ids seen)" "dget entry ''run_id'' = Some (VStr i)"
    by (simp_all add: e(1) run_identity_iff)
  from r(7) obtain stats where a: "nonempty_file fs (path_div session tname)" "endswith (path_name (path_div session mname)) meta_suffix"
    "json_object_at fs (stats_path_of (path_div session mname)) stats" "\<exists>s. dget md ''receiver_stats'' = Some (VDict s)"
    by (auto simp: run_artifacts_iff)
  from r(8) obtain profile where p: "dget md ''profile'' = Some (VDict profile)"
    "mode_evidence fs (path_parent (path_div session mname)) profile m" by (auto simp: profile_mode_iff)
  have "metadata_evidence md" using r(5,6) a(4) run_artifacts_pair by blast
  with e i a p r(3) have "run_evidence fs session run_entry (path_div session mname, i, m)"
    by (auto simp: run_evidence_def)
  with r(2,9) i(2) show ?rhs by blast
next
  assume ?rhs
  then obtain path i m where f: "run_evidence fs session run_entry (path, i, m)"
    "path \<notin> set (seen_paths seen)" "i \<notin> set (seen_ids seen)"
    "seen' = \<lparr>seen_modes = seen_modes seen @ [m], seen_ids = seen_ids seen @ [i], seen_paths = seen_paths seen @ [path]\<rparr>"
    by blast
  then obtain entry mname tname md stats profile where e:
    "run_entry = VDict entry" "text_entry entry ''metadata'' mname" "path = path_div session mname"
    "text_entry entry ''trace'' tname" "nonempty_file fs (path_div session tname)" "json_object_at fs path md"
    "text_entry md ''run_id'' i" "dget entry ''run_id'' = Some (VStr i)" "metadata_evidence md"
    "endswith (path_name path) meta_suffix" "json_object_at fs (stats_path_of path) stats"
    "dget md ''profile'' = Some (VDict profile)" "mode_evidence fs (path_parent path) profile m"
    by (auto simp: run_evidence_def)
  from e(9) have v: "run_verdict i (VDict md) = Inr ()" "run_processes i (VDict md) = Inr ()"
    by (simp_all add: run_artifacts_pair [of md i])
  have "entry_names index run_entry = Inr (mname, tname)" using e by (simp add: entry_names_iff)
  moreover have "read_json_object fs path ''run metadata'' = Inr (VDict md)" using e by (simp add: read_json_object_iff)
  moreover have "run_identity run_entry path (VDict md) (seen_ids seen) = Inr i" using e f by (simp add: run_identity_iff)
  moreover have "run_artifacts fs (path_div session tname) path i (VDict md) = Inr ()"
    using e by (auto simp: run_artifacts_iff metadata_evidence_def)
  moreover have "profile_mode fs path i (VDict md) = Inr m" using e by (auto simp: profile_mode_iff)
  ultimately show ?lhs using f e(3) v by (simp add: check_run_def Let_def)
qed

lemma check_runs_iff:
  assumes "distinct (seen_ids seen)" "distinct (seen_paths seen)"
  shows "check_runs fs session index entries seen = Inr seen' \<longleftrightarrow>
    (\<exists>found. list_all2 (run_evidence fs session) entries found \<and>
       seen' = \<lparr>seen_modes = seen_modes seen @ map (snd \<circ> snd) found,
                seen_ids = seen_ids seen @ map (fst \<circ> snd) found, seen_paths = seen_paths seen @ map fst found\<rparr> \<and>
       distinct (seen_ids seen @ map (fst \<circ> snd) found) \<and> distinct (seen_paths seen @ map fst found))"
  using assms
proof (induction entries arbitrary: index seen)
  case Nil
  then show ?case by (cases seen) auto
next
  case (Cons e entries)
  define after where "after t = \<lparr>seen_modes = seen_modes seen @ [snd (snd t)], seen_ids = seen_ids seen @ [fst (snd t)],
    seen_paths = seen_paths seen @ [fst t]\<rparr>" for t :: "pure_path \<times> string \<times> string"
  have "check_runs fs session index (e # entries) seen = Inr seen' \<longleftrightarrow>
    (\<exists>t. run_evidence fs session e t \<and> fst t \<notin> set (seen_paths seen) \<and> fst (snd t) \<notin> set (seen_ids seen) \<and>
       check_runs fs session (index + 1) entries (after t) = Inr seen')"
    by (auto simp: rbind_Inr_iff check_run_iff after_def)
  also have "\<dots> \<longleftrightarrow> (\<exists>t. run_evidence fs session e t \<and> fst t \<notin> set (seen_paths seen) \<and> fst (snd t) \<notin> set (seen_ids seen) \<and>
    (\<exists>found. list_all2 (run_evidence fs session) entries found \<and>
       seen' = \<lparr>seen_modes = seen_modes (after t) @ map (snd \<circ> snd) found,
                seen_ids = seen_ids (after t) @ map (fst \<circ> snd) found, seen_paths = seen_paths (after t) @ map fst found\<rparr> \<and>
       distinct (seen_ids (after t) @ map (fst \<circ> snd) found) \<and> distinct (seen_paths (after t) @ map fst found)))"
    using Cons.prems by (intro ex_cong conj_cong refl Cons.IH) (simp_all add: after_def)
  also have "\<dots> \<longleftrightarrow> (\<exists>found. list_all2 (run_evidence fs session) (e # entries) found \<and>
       seen' = \<lparr>seen_modes = seen_modes seen @ map (snd \<circ> snd) found,
                seen_ids = seen_ids seen @ map (fst \<circ> snd) found, seen_paths = seen_paths seen @ map fst found\<rparr> \<and>
       distinct (seen_ids seen @ map (fst \<circ> snd) found) \<and> distinct (seen_paths seen @ map fst found))"
    (is "_ \<longleftrightarrow> (\<exists>found. ?Q found)")
  proof (intro iffI; elim exE conjE)
    fix t found
    assume "run_evidence fs session e t" "list_all2 (run_evidence fs session) entries found"
      "seen' = \<lparr>seen_modes = seen_modes (after t) @ map (snd \<circ> snd) found,
                seen_ids = seen_ids (after t) @ map (fst \<circ> snd) found, seen_paths = seen_paths (after t) @ map fst found\<rparr>"
      "distinct (seen_ids (after t) @ map (fst \<circ> snd) found)" "distinct (seen_paths (after t) @ map fst found)"
    then have "?Q (t # found)" by (simp add: after_def)
    then show "\<exists>found. ?Q found" by blast
  next
    fix found
    assume q: "list_all2 (run_evidence fs session) (e # entries) found"
      "seen' = \<lparr>seen_modes = seen_modes seen @ map (snd \<circ> snd) found,
                seen_ids = seen_ids seen @ map (fst \<circ> snd) found, seen_paths = seen_paths seen @ map fst found\<rparr>"
      "distinct (seen_ids seen @ map (fst \<circ> snd) found)" "distinct (seen_paths seen @ map fst found)"
    then obtain t rest where "found = t # rest" "run_evidence fs session e t" "list_all2 (run_evidence fs session) entries rest"
      by (auto simp: list_all2_Cons1)
    with q show "\<exists>t. run_evidence fs session e t \<and> fst t \<notin> set (seen_paths seen) \<and> fst (snd t) \<notin> set (seen_ids seen) \<and>
      (\<exists>found. list_all2 (run_evidence fs session) entries found \<and>
       seen' = \<lparr>seen_modes = seen_modes (after t) @ map (snd \<circ> snd) found,
                seen_ids = seen_ids (after t) @ map (fst \<circ> snd) found, seen_paths = seen_paths (after t) @ map fst found\<rparr> \<and>
       distinct (seen_ids (after t) @ map (fst \<circ> snd) found) \<and> distinct (seen_paths (after t) @ map fst found))"
      by (intro exI [of _ t] conjI exI [of _ rest]) (simp_all add: after_def)
  qed
  finally show ?case .
qed

text \<open>
  A complete evidence set: a directory whose manifest lists twelve runs, each with its evidence, all
  run identifiers and all metadata files distinct, nine of them statistics and three recordings.
\<close>

definition complete_evidence :: "file_system \<Rightarrow> pure_path \<Rightarrow> bool" where
  "complete_evidence fs session \<longleftrightarrow>
     fs_is_dir fs session \<and>
     (\<exists>manifest entries found.
        json_object_at fs (path_div session ''session_manifest.json'') manifest \<and>
        dget manifest ''runs'' = Some (VList entries) \<and> length entries = 12 \<and>
        list_all2 (run_evidence fs session) entries found \<and>
        distinct (map fst found) \<and> distinct (map (fst \<circ> snd) found) \<and>
        length (filter (\<lambda>m. m = ''stat'') (map (snd \<circ> snd) found)) = 9 \<and>
        length (filter (\<lambda>m. m = ''record'') (map (snd \<circ> snd) found)) = 3)"

lemma twelve_runs_iff: "twelve_runs v = Inr entries \<longleftrightarrow> v = VList entries \<and> length entries = 12"
  by (cases v) (auto simp: twelve_runs_def)

lemma manifest_runs_iff:
  "manifest_runs fs session = Inr entries \<longleftrightarrow>
     (\<exists>manifest. json_object_at fs (path_div session ''session_manifest.json'') manifest \<and>
        dget manifest ''runs'' = Some (VList entries) \<and> length entries = 12)"
  by (auto simp: manifest_runs_def rbind_Inr_iff read_json_object_iff twelve_runs_iff)

lemma validate_profile_session_iff:
  "validate_profile_session fs session = Inr p \<longleftrightarrow> complete_evidence fs session \<and> p = fs_resolve fs session"
proof -
  have runs: "rbind (check_runs fs session 1 entries nothing_seen) g = Inr p \<longleftrightarrow>
    (\<exists>found. list_all2 (run_evidence fs session) entries found \<and> distinct (map fst found) \<and> distinct (map (fst \<circ> snd) found) \<and>
       g \<lparr>seen_modes = map (snd \<circ> snd) found, seen_ids = map (fst \<circ> snd) found, seen_paths = map fst found\<rparr> = Inr p)"
    for entries g
    unfolding rbind_Inr_iff by (subst check_runs_iff) (auto simp: nothing_seen_def)
  have count: "rbind (require b e) (\<lambda>_. Inr q) = Inr p \<longleftrightarrow> b \<and> p = (q :: pure_path)" for b e q
    by (auto simp: rbind_Inr_iff require_Inr_iff)
  have manifest: "rbind (manifest_runs fs session) g = Inr p \<longleftrightarrow>
    (\<exists>manifest entries. json_object_at fs (path_div session ''session_manifest.json'') manifest \<and>
       dget manifest ''runs'' = Some (VList entries) \<and> length entries = 12 \<and> g entries = Inr p)" for g
    unfolding rbind_Inr_iff manifest_runs_iff by blast
  have dir: "rbind (require (fs_is_dir fs session) e) (\<lambda>_. m) = Inr p \<longleftrightarrow> fs_is_dir fs session \<and> m = Inr p" for e m
    by (auto simp: rbind_Inr_iff require_Inr_iff)
  show ?thesis
    unfolding validate_profile_session_def complete_evidence_def Let_def dir manifest runs count
      evidence_seen.select_convs by blast
qed

text \<open>
  C18: validating a profile session succeeds exactly when its evidence is complete, and then returns
  the resolved session path.
\<close>

theorem profile_session_complete:
  "validate_profile_session fs session = Inr p \<longleftrightarrow> complete_evidence fs session \<and> p = fs_resolve fs session"
  by (rule validate_profile_session_iff)

end
