(* ===== verification/Perf_Counters.thy ===== *)
theory Perf_Counters
  imports Paths
begin

text \<open>
  The \<^verbatim>\<open>perf stat\<close> evidence of \<^verbatim>\<open>analysis/profile_tools.py\<close>: \<^verbatim>\<open>parse_perf_stat\<close>,
  \<^verbatim>\<open>perf_running_percentages\<close> and the per-run row of \<^verbatim>\<open>summarize_profiles\<close>. An event that was not
  counted has the value \<open>None\<close>, one that is absent from the file has no entry; the lemmas show that
  neither ever becomes a number in a row.
\<close>

section \<open>Reading the counter file\<close>

type_synonym counters = "flt option dict"

definition float_or_none :: "string \<Rightarrow> flt option" where
  "float_or_none text = (case py_float_str text of Inr x \<Rightarrow> Some x | Inl e \<Rightarrow> None)"

definition remove_blanks :: "string \<Rightarrow> string" where
  "remove_blanks s = filter (\<lambda>c. c \<noteq> blank) s"

definition stat_line :: "string \<Rightarrow> counters \<Rightarrow> counters" where
  "stat_line raw_line counters =
     (if raw_line = [] \<or> startswith raw_line ''#'' then counters
      else let fields = split_on CHR '','' raw_line in
        if length fields < 3 then counters
        else let value_text = strip (fields ! 0); event = strip (fields ! 2) in
          if startswith value_text ''<'' then dset event None counters
          else dset event (float_or_none (remove_blanks value_text)) counters)"

definition parse_perf_stat :: "string \<Rightarrow> counters" where
  "parse_perf_stat text = fold stat_line (splitlines text) []"

definition running_line :: "string \<Rightarrow> counters \<Rightarrow> counters" where
  "running_line raw_line percentages =
     (let fields = split_on CHR '','' raw_line in
      if length fields < 5 \<or> strip (fields ! 2) = [] then percentages
      else dset (strip (fields ! 2)) (float_or_none (strip (fields ! 4))) percentages)"

definition perf_running_percentages :: "string \<Rightarrow> counters" where
  "perf_running_percentages text = fold running_line (splitlines text) []"

section \<open>One row of the summary\<close>

definition DEFAULT_EVENTS :: "string list" where
  "DEFAULT_EVENTS =
     [''task-clock'', ''cycles'', ''instructions'', ''branches'', ''branch-misses'',
      ''cache-references'', ''cache-misses'', ''context-switches'', ''cpu-migrations'',
      ''page-faults'', ''syscalls:sys_enter_recvfrom'', ''syscalls:sys_enter_recvmmsg'']"

text \<open>\<^verbatim>\<open>counters.get(event)\<close>: an absent event and an uncounted one both give \<^verbatim>\<open>None\<close>.\<close>

definition known :: "counters \<Rightarrow> string \<Rightarrow> flt option" where
  "known counters event = (case dget counters event of Some v \<Rightarrow> v | None \<Rightarrow> None)"

definition multiplexed :: "counters \<Rightarrow> counters \<Rightarrow> string \<Rightarrow> bool" where
  "multiplexed counters running event =
     (case (known counters event, known running event) of
        (Some _, Some r) \<Rightarrow> flt_lt r (Fin 90) | _ \<Rightarrow> False)"

definition severely_multiplexed :: "counters \<Rightarrow> counters \<Rightarrow> string list" where
  "severely_multiplexed counters running =
     sort (filter (multiplexed counters running) [''cycles'', ''instructions'', ''cache-misses'', ''context-switches''])"

definition unavailable_events :: "counters \<Rightarrow> string list" where
  "unavailable_events counters = sort (filter (\<lambda>e. dget counters e = Some None) DEFAULT_EVENTS)"

definition absent_events :: "counters \<Rightarrow> string list" where
  "absent_events counters = sort (filter (\<lambda>e. dget counters e = None) DEFAULT_EVENTS)"

definition recv_syscalls :: "counters \<Rightarrow> flt option" where
  "recv_syscalls counters =
     (case (known counters ''syscalls:sys_enter_recvfrom'', known counters ''syscalls:sys_enter_recvmmsg'') of
        (Some a, Some b) \<Rightarrow> Some (flt_add (flt_add (Fin 0) a) b) | _ \<Rightarrow> None)"

definition opt_value :: "flt option \<Rightarrow> pyval" where
  "opt_value v = (case v of Some x \<Rightarrow> VFloat x | None \<Rightarrow> VNone)"

text \<open>\<^verbatim>\<open>value / divisor if value is not None and divisor else None\<close>, for an integer and a float divisor.\<close>

definition per_count :: "flt option \<Rightarrow> int \<Rightarrow> pyval res" where
  "per_count v n =
     (case v of
        None \<Rightarrow> Inr VNone
      | Some x \<Rightarrow> if n = 0 then Inr VNone
                  else rbind (flt_of_int n) (\<lambda>m. rbind (flt_div x m) (\<lambda>q. Inr (VFloat q))))"

definition per_float :: "flt option \<Rightarrow> flt \<Rightarrow> pyval res" where
  "per_float v y =
     (case v of
        None \<Rightarrow> Inr VNone
      | Some x \<Rightarrow> if y = Fin 0 then Inr VNone else rbind (flt_div x y) (\<lambda>q. Inr (VFloat q)))"

definition profile_columns :: "counters \<Rightarrow> pyval \<Rightarrow> pyval \<Rightarrow> pyval \<Rightarrow> int \<Rightarrow> pyval list \<Rightarrow> pyval dict" where
  "profile_columns counters run_id receiver batch processed ratios =
     [(''run_id'', run_id), (''receiver'', receiver), (''batch_size'', batch), (''processed_packets'', VInt processed)] @
     zip [''cycles_per_packet'', ''instructions_per_packet'', ''cache_misses_per_packet'',
          ''receive_syscalls_per_packet'', ''context_switches_per_second'', ''context_switches_per_packet'', ''ipc''] ratios @
     [(''unavailable_events'', VStr (join ''; '' (unavailable_events counters))),
      (''absent_events'', VStr (join ''; '' (absent_events counters)))] @
     map (\<lambda>e. (''event_'' @ e, opt_value (known counters e))) DEFAULT_EVENTS"

definition profile_ratios :: "counters \<Rightarrow> int \<Rightarrow> flt \<Rightarrow> pyval list res" where
  "profile_ratios counters processed elapsed =
     rbind (per_count (known counters ''cycles'') processed) (\<lambda>cycles_pp.
     rbind (per_count (known counters ''instructions'') processed) (\<lambda>instructions_pp.
     rbind (per_count (known counters ''cache-misses'') processed) (\<lambda>misses_pp.
     rbind (per_count (recv_syscalls counters) processed) (\<lambda>syscalls_pp.
     rbind (per_float (known counters ''context-switches'') elapsed) (\<lambda>switches_ps.
     rbind (per_count (known counters ''context-switches'') processed) (\<lambda>switches_pp.
     rbind (case known counters ''cycles'' of
              None \<Rightarrow> Inr VNone | Some c \<Rightarrow> per_float (known counters ''instructions'') c) (\<lambda>ipc.
     Inr [cycles_pp, instructions_pp, misses_pp, syscalls_pp, switches_ps, switches_pp, ipc])))))))"

definition profile_row :: "pyval \<Rightarrow> counters \<Rightarrow> counters \<Rightarrow> pyval dict res" where
  "profile_row metadata counters running =
     rbind (if severely_multiplexed counters running = [] then Inr ()
            else rbind (py_index metadata ''run_id'') (\<lambda>run_id.
              Inl (Exn ValueError (py_str run_id @ '' requires rerun due to severe multiplexing: '' @
                                   join '', '' (severely_multiplexed counters running))))) (\<lambda>_.
     rbind (rbind (py_index metadata ''receiver_stats'') (\<lambda>r. int_at r ''unique_processed_packets'')) (\<lambda>processed.
     rbind (rbind (py_index metadata ''sender_stats'') (\<lambda>s. float_at s ''elapsed_seconds'')) (\<lambda>elapsed.
     rbind (py_index metadata ''run_id'') (\<lambda>run_id.
     rbind (rbind (py_index metadata ''run'') (\<lambda>r. py_index r ''receiver_variant'')) (\<lambda>receiver.
     rbind (rbind (py_index metadata ''run'') (\<lambda>r. py_index r ''batch_size'')) (\<lambda>batch.
     rbind (profile_ratios counters processed elapsed) (\<lambda>ratios.
     Inr (profile_columns counters run_id receiver batch processed ratios))))))))"

text \<open>The rows of a session: the runs profiled in another mode are passed over, no row is an error.\<close>

definition read_file_text :: "file_system \<Rightarrow> pure_path \<Rightarrow> string res" where
  "read_file_text fs path = (case fs_file fs path of
     Some f \<Rightarrow> file_text f | None \<Rightarrow> Inl (Exn FileNotFoundError (path_str path)))"

definition path_operand :: "pyval \<Rightarrow> string res" where
  "path_operand v = (case v of VStr s \<Rightarrow> Inr s
     | _ \<Rightarrow> Inl (Exn TypeError ''unsupported operand type(s) for /''))"

definition session_row :: "file_system \<Rightarrow> pure_path \<Rightarrow> pyval dict list res" where
  "session_row fs metadata_path =
     rbind (file_document fs metadata_path) (\<lambda>metadata.
     rbind (py_get_dict metadata ''profile'') (\<lambda>profile.
     rbind (py_get_none profile ''mode'') (\<lambda>mode.
     if mode \<noteq> VStr ''stat'' then Inr []
     else rbind (rbind (py_index profile ''artifact'') path_operand) (\<lambda>artifact.
          rbind (read_file_text fs (path_div (path_parent metadata_path) artifact)) (\<lambda>text.
          rbind (profile_row metadata (parse_perf_stat text) (perf_running_percentages text)) (\<lambda>row.
          Inr [row]))))))"

text \<open>\<open>metadata_paths\<close> is the sorted result of the glob; the rows go to \<^verbatim>\<open>profile_summary.csv\<close>.\<close>

definition summarize_profiles :: "file_system \<Rightarrow> pure_path list \<Rightarrow> pyval dict list res" where
  "summarize_profiles fs metadata_paths =
     rbind (rconcat (session_row fs) metadata_paths) (\<lambda>rows.
     if rows = [] then Inl (Exn ValueError ''No perf stat metadata found'') else Inr rows)"

section \<open>Unknown counters stay unknown\<close>

lemma per_count_None_iff: "per_count v n = Inr w \<Longrightarrow> w = VNone \<longleftrightarrow> v = None \<or> n = 0"
  by (auto simp: per_count_def rbind_Inr_iff split: option.splits if_splits)

lemma recv_syscalls_None_iff:
  "recv_syscalls counters = None \<longleftrightarrow>
     known counters ''syscalls:sys_enter_recvfrom'' = None \<or> known counters ''syscalls:sys_enter_recvmmsg'' = None"
  by (auto simp: recv_syscalls_def split: option.splits)

lemma severely_multiplexed_Nil_iff:
  "severely_multiplexed counters running = [] \<longleftrightarrow>
     list_all (\<lambda>e. \<not> multiplexed counters running e) [''cycles'', ''instructions'', ''cache-misses'', ''context-switches'']"
proof -
  have "sort xs = [] \<longleftrightarrow> xs = []" for xs :: "string list"
    by (metis length_0_conv length_sort)
  then show ?thesis by (simp only: severely_multiplexed_def filter_empty_conv list_all_iff)
qed

lemma dget_profile_columns:
  "dget (profile_columns counters r1 r2 b n [c, i, m, s, sw, p, ipc]) ''cycles_per_packet'' = Some c"
  "dget (profile_columns counters r1 r2 b n [c, i, m, s, sw, p, ipc]) ''instructions_per_packet'' = Some i"
  "dget (profile_columns counters r1 r2 b n [c, i, m, s, sw, p, ipc]) ''cache_misses_per_packet'' = Some m"
  "dget (profile_columns counters r1 r2 b n [c, i, m, s, sw, p, ipc]) ''receive_syscalls_per_packet'' = Some s"
  "dget (profile_columns counters r1 r2 b n [c, i, m, s, sw, p, ipc]) ''context_switches_per_packet'' = Some p"
  by (simp_all add: profile_columns_def)

lemma profile_row_columns:
  assumes "profile_row metadata counters running = Inr row"
    and "py_index metadata ''receiver_stats'' = Inr stats" "int_at stats ''unique_processed_packets'' = Inr processed"
  obtains run_id receiver batch c i m s sw p ipc where "severely_multiplexed counters running = []"
    "per_count (known counters ''cycles'') processed = Inr c"
    "per_count (known counters ''instructions'') processed = Inr i"
    "per_count (known counters ''cache-misses'') processed = Inr m"
    "per_count (recv_syscalls counters) processed = Inr s"
    "per_count (known counters ''context-switches'') processed = Inr p"
    "row = profile_columns counters run_id receiver batch processed [c, i, m, s, sw, p, ipc]"
proof -
  have clear: "severely_multiplexed counters running = []"
    using assms(1) by (auto simp: profile_row_def rbind_Inr_iff split: if_splits)
  obtain run_id receiver batch elapsed ratios where r: "profile_ratios counters processed elapsed = Inr ratios"
    "row = profile_columns counters run_id receiver batch processed ratios"
    using assms by (auto simp: profile_row_def rbind_Inr_iff)
  from r(1) obtain c i m s sw p ipc where "per_count (known counters ''cycles'') processed = Inr c"
    "per_count (known counters ''instructions'') processed = Inr i"
    "per_count (known counters ''cache-misses'') processed = Inr m"
    "per_count (recv_syscalls counters) processed = Inr s"
    "per_count (known counters ''context-switches'') processed = Inr p" "ratios = [c, i, m, s, sw, p, ipc]"
    unfolding profile_ratios_def rbind_Inr_iff sum.inject by blast
  with clear r(2) that show thesis by blast
qed

lemma clear_events:
  "severely_multiplexed counters running = [] \<Longrightarrow>
   list_all (\<lambda>e. multiplexed counters running e = False) [''cycles'', ''instructions'', ''cache-misses'', ''context-switches'']"
  by (simp add: severely_multiplexed_Nil_iff)


definition stat_metadata :: pyval where
  "stat_metadata = VDict
     [(''run_id'', VStr ''r1''), (''run'', VDict [(''receiver_variant'', VStr ''batched''), (''batch_size'', VInt 64)]),
      (''receiver_stats'', VDict [(''unique_processed_packets'', VInt 4)]),
      (''sender_stats'', VDict [(''elapsed_seconds'', VFloat (Fin 2))])]"

definition stat_counters :: counters where
  "stat_counters = [(''cycles'', Some (Fin 400)), (''instructions'', Some (Fin 800)), (''cache-misses'', None)]"

definition stat_row :: "pyval dict" where
  "stat_row = (case profile_row stat_metadata stat_counters [] of Inr row \<Rightarrow> row | Inl e \<Rightarrow> [])"

lemma stat_row_eq: "profile_row stat_metadata stat_counters [] = Inr stat_row"
proof -
  have "isl (profile_row stat_metadata stat_counters []) = False" by code_simp
  then show ?thesis by (cases "profile_row stat_metadata stat_counters []") (simp_all add: stat_row_def)
qed


section \<open>The counter file comes back\<close>

text \<open>
  A line of \<^verbatim>\<open>perf stat -x,\<close>: the count or \<^verbatim>\<open><not counted>\<close>, the unit, the event, the time it ran and
  the percentage of the run it was counted.
\<close>

definition perf_line :: "string \<times> nat option \<times> nat \<Rightarrow> string" where
  "perf_line entry =
     (case entry of (event, v, percent) \<Rightarrow>
        join '','' [case v of Some n \<Rightarrow> str_nat n | None \<Rightarrow> ''<not counted>'', [], event, ''1000'',
                  str_nat percent @ ''.00''])"

definition perf_text :: "(string \<times> nat option \<times> nat) list \<Rightarrow> string" where
  "perf_text entries = concat (map (\<lambda>l. l @ [newline]) (map perf_line entries))"

definition event_ok :: "string \<Rightarrow> bool" where
  "event_ok e = (word_ok e \<and> CHR '','' \<notin> set e)"

lemma split_on_nonempty: "split_on sep s \<noteq> []"
  by (induction s) (auto split: list.splits)

lemma split_on_join:
  "fs \<noteq> [] \<Longrightarrow> list_all (\<lambda>f. sep \<notin> set f) fs \<Longrightarrow> split_on sep (join [sep] fs) = fs"
proof (induction fs)
  case (Cons f fs)
  have word: "split_on sep (f @ s) = (case split_on sep s of [] \<Rightarrow> [f] | w # ws \<Rightarrow> (f @ w) # ws)" if "sep \<notin> set f" for f s
    using that by (induction f) (auto simp: split_on_nonempty split: list.splits)
  show ?case
  proof (cases "fs = []")
    case True
    with Cons.prems word [of f "[]"] show ?thesis by simp
  next
    case False
    with Cons word [of f "sep # join [sep] fs"] show ?thesis by (simp add: join_Cons)
  qed
qed simp

lemma digit_not_special:
  assumes "is_digit c"
  shows "c \<noteq> CHR ''e''" "c \<noteq> CHR ''.''" "c \<noteq> CHR ''i''" "c \<noteq> CHR ''n''" "c \<noteq> CHR ''-''" "c \<noteq> CHR ''+''"
    "c \<noteq> CHR '',''" "c \<noteq> CHR ''<''" "c \<noteq> CHR ''#''" "c \<noteq> blank" "lower_char c = c" "\<not> is_linebreak c"
  using assms by (auto simp: is_digit_def ord_def lower_char_def is_linebreak_def)

lemma lower_digits: "(\<forall>c \<in> set s. is_digit c) \<Longrightarrow> map lower_char s = s"
  by (induction s) (auto simp: digit_not_special)

lemma unsigned_flt_digits:
  assumes "digits_acc 0 False s = Some n" "\<forall>c \<in> set s. is_digit c" "s \<noteq> []"
    and "t = [] \<or> t = ''.00''"
  shows "unsigned_flt (s @ t) = Some (to_flt (of_nat n))"
proof -
  have p10: "pow10 0 = 1" by (simp add: pow10_def)
  have zeros: "digits_part [] = Some 0" "digits_part ''00'' = Some 0" by code_simp+
  have "\<not> is_digit (CHR ''e'')" "\<not> is_digit (CHR ''.'')" by code_simp+
  then have s: "CHR ''e'' \<notin> set s" and d: "CHR ''.'' \<notin> set s" using assms(2) by blast+
  have "CHR ''e'' \<notin> set t" using assms(4) by (elim disjE) simp_all
  with s have e: "CHR ''e'' \<notin> set (s @ t)" by simp
  have "partition1 CHR ''e'' (s @ t) = (s @ t, False, [])" using e by (rule partition1_absent)
  moreover have "partition1 CHR ''.'' (s @ t) = (s, t \<noteq> [], if t = [] then [] else ''00'')"
    using assms(4) d by (auto simp: partition1_absent partition1_found)
  moreover have "digits_part s = Some n" using assms(1,3) by (simp add: digits_part_def)
  moreover have "digits_part (if t = [] then [] else ''00'') = Some 0" using zeros by (simp split: if_split)
  ultimately have "unsigned_float (s @ t) = Some (of_nat n)"
    using assms(3) by (simp add: unsigned_float_def p10)
  moreover obtain c cs where "s = c # cs" using assms(3) by (cases s) auto
  moreover have "is_digit c" using assms(2) \<open>s = c # cs\<close> by simp
  then have "c \<noteq> CHR ''i''" "c \<noteq> CHR ''n''" by (rule digit_not_special)+
  ultimately show ?thesis by (simp add: unsigned_flt_def)
qed

lemma float_of_digits:
  assumes "t = [] \<or> t = ''.00''"
  shows "float_or_none (str_nat n @ t) = Some (to_flt (of_nat n))"
proof -
  let ?s = "str_nat n"
  have d: "\<forall>c \<in> set ?s. is_digit c" by (auto dest: str_nat_digits)
  have t: "map lower_char t = t" "\<forall>c \<in> set t. \<not> is_space c"
    using assms by (auto simp: lower_char_def is_space_def ord_def)
  have "strip (?s @ t) = ?s @ t" using d t(2) by (intro strip_no_space) (auto simp: digit_not_space)
  then have low: "map lower_char (strip (?s @ t)) = ?s @ t" using d t(1) by (simp add: lower_digits)
  obtain c cs where s: "?s = c # cs" by (cases ?s) auto
  then have "is_digit c" using d by auto
  then have c: "c \<noteq> CHR ''-''" "c \<noteq> CHR ''+''" by (rule digit_not_special)+
  have "unsigned_flt (?s @ t) = Some (to_flt (of_nat n))"
    using d assms by (intro unsigned_flt_digits) (auto simp: digits_acc_str_nat)
  then show ?thesis using low c by (simp add: float_or_none_def py_float_str_def flt_of_str_def s)
qed

lemma perf_fields:
  assumes "event_ok e"
  shows "split_on CHR '','' (perf_line (e, v, p)) =
    [case v of Some n \<Rightarrow> str_nat n | None \<Rightarrow> ''<not counted>'', [], e, ''1000'', str_nat p @ ''.00'']"
proof -
  have digits: "CHR '','' \<notin> set (str_nat n)" for n by (auto dest: str_nat_digits digit_not_special(7))
  have "list_all (\<lambda>f. CHR '','' \<notin> set f)
      [case v of Some n \<Rightarrow> str_nat n | None \<Rightarrow> ''<not counted>'', [], e, ''1000'', str_nat p @ ''.00'']"
    using assms digits by (cases v) (simp_all add: event_ok_def)
  then show ?thesis unfolding perf_line_def prod.case by (intro split_on_join) simp_all
qed

lemma str_nat_head: obtains c cs where "str_nat n = c # cs" "is_digit c"
  using str_nat_digits [of "hd (str_nat n)" n] by (cases "str_nat n") auto

lemma strip_digits: "strip (str_nat n) = str_nat n"
  by (rule strip_no_space) (auto dest: str_nat_digits digit_not_space)

lemma perf_line_shape:
  "perf_line (e, v, p) \<noteq> []" "\<not> startswith (perf_line (e, v, p)) ''#''"
proof -
  obtain c cs where "(case v of Some n \<Rightarrow> str_nat n | None \<Rightarrow> ''<not counted>'') = c # cs" "c \<noteq> CHR ''#''"
  proof (cases v)
    case (Some n)
    obtain c cs where "str_nat n = c # cs" "is_digit c" by (rule str_nat_head)
    with Some show thesis using digit_not_special(9) by (intro that) simp_all
  qed (use that in auto)
  then show "perf_line (e, v, p) \<noteq> []" "\<not> startswith (perf_line (e, v, p)) ''#''"
    by (simp_all add: perf_line_def join_Cons)
qed

lemma stat_line_perf:
  assumes "event_ok e"
  shows "stat_line (perf_line (e, v, p)) d = dset e (map_option (\<lambda>n. to_flt (of_nat n)) v) d"
proof -
  have e: "strip e = e" using assms by (intro strip_no_space) (simp add: event_ok_def word_ok_def)
  show ?thesis
  proof (cases v)
    case None
    have "startswith (strip ''<not counted>'') ''<''" by code_simp
    with None e perf_line_shape [of e v p] show ?thesis
      by (simp add: stat_line_def perf_fields [OF assms] Let_def)
  next
    case (Some n)
    obtain c cs where s: "str_nat n = c # cs" and "is_digit c" by (rule str_nat_head)
    then have "\<not> startswith (str_nat n) ''<''" using digit_not_special(8) by (auto simp: s)
    moreover have "remove_blanks (str_nat n) = str_nat n"
      unfolding remove_blanks_def by (rule filter_True) (auto dest: str_nat_digits digit_not_special(10))
    ultimately show ?thesis using Some e perf_line_shape [of e v p] float_of_digits [of "[]" n]
      by (simp add: stat_line_def perf_fields [OF assms] Let_def strip_digits)
  qed
qed

lemma running_line_perf:
  assumes "event_ok e"
  shows "running_line (perf_line (e, v, p)) d = dset e (Some (to_flt (of_nat p))) d"
proof -
  have e: "strip e = e" "e \<noteq> []" using assms by (auto simp: event_ok_def word_ok_def intro: strip_no_space)
  have "\<forall>c \<in> set ''.00''. \<not> is_space c" by code_simp
  then have "strip (str_nat p @ ''.00'') = str_nat p @ ''.00''"
    using str_nat_digits [of _ p] digit_not_space by (intro strip_no_space) auto
  then show ?thesis using e float_of_digits [of "''.00''" p]
    by (simp add: running_line_def perf_fields [OF assms] Let_def)
qed

lemma dset_fresh: "k \<notin> set (dkeys d) \<Longrightarrow> dset k v d = d @ [(k, v)]"
  by (induction d) auto

lemma fold_fresh:
  assumes "\<And>x d. x \<in> set xs \<Longrightarrow> step x d = dset (key x) (val x) d"
    and "distinct (map key xs)" "set (map key xs) \<inter> set (dkeys d) = {}"
  shows "fold step xs d = d @ map (\<lambda>x. (key x, val x)) xs"
  using assms
proof (induction xs arbitrary: d)
  case (Cons x xs)
  then have "step x d = d @ [(key x, val x)]" by (simp add: dset_fresh)
  moreover have "fold step xs (d @ [(key x, val x)]) = (d @ [(key x, val x)]) @ map (\<lambda>x. (key x, val x)) xs"
    using Cons.prems by (intro Cons.IH) auto
  ultimately show ?case by simp
qed simp

lemma splitlines_perf_text:
  assumes "\<forall>x \<in> set entries. event_ok (fst x)"
  shows "splitlines (perf_text entries) = map perf_line entries"
proof -
  have ok: "line_ok (join '','' fs)" if "list_all line_ok fs" for fs
    using that by (induction fs) (auto simp: join_Cons line_ok_def is_linebreak_def ord_def)
  have digits: "line_ok (str_nat n)" for n by (auto simp: line_ok_def dest: str_nat_digits digit_not_special(12))
  have fixed: "line_ok ''<not counted>''" "line_ok ''1000''" "line_ok ''.00''" by code_simp+
  have "line_ok (perf_line (e, v, p))" if "event_ok e" for e v p
  proof -
    have "line_ok e" using that linebreak_is_space by (auto simp: line_ok_def event_ok_def word_ok_def)
    then have "list_all line_ok [case v of Some n \<Rightarrow> str_nat n | None \<Rightarrow> ''<not counted>'', [], e, ''1000'', str_nat p @ ''.00'']"
      using digits fixed by (cases v) (auto simp: line_ok_def)
    then show ?thesis by (simp only: perf_line_def prod.case ok)
  qed
  then have "\<forall>l \<in> set (map perf_line entries). line_ok l" using assms by auto
  then show ?thesis unfolding perf_text_def by (rule splitlines_terminated)
qed

text \<open>
  C39: for distinct events the two parsers read a counter file back entry by entry: every count as
  the double nearest to it, every uncounted event as \<open>None\<close>, and every running percentage.
\<close>

theorem perf_stat_roundtrip:
  assumes "\<forall>x \<in> set entries. event_ok (fst x)" and "distinct (map fst entries)"
  shows "parse_perf_stat (perf_text entries) =
      map (\<lambda>(e, v, p). (e, map_option (\<lambda>n. to_flt (of_nat n)) v)) entries \<and>
    perf_running_percentages (perf_text entries) = map (\<lambda>(e, v, p). (e, Some (to_flt (of_nat p)))) entries"
proof -
  have "fold (stat_line \<circ> perf_line) entries [] =
      [] @ map (\<lambda>x. (fst x, map_option (\<lambda>n. to_flt (of_nat n)) (fst (snd x)))) entries"
    using assms by (intro fold_fresh) (auto simp: stat_line_perf)
  moreover have "fold (running_line \<circ> perf_line) entries [] =
      [] @ map (\<lambda>x. (fst x, Some (to_flt (of_nat (snd (snd x)))))) entries"
    using assms by (intro fold_fresh) (auto simp: running_line_perf)
  ultimately show ?thesis
    by (simp add: parse_perf_stat_def perf_running_percentages_def splitlines_perf_text [OF assms(1)] fold_map
        case_prod_beta comp_def)
qed

theorem perf_stat_roundtrip_witness:
  "parse_perf_stat (perf_text [(''cycles'', Some 400, 100), (''page-faults'', None, 0)]) =
     [(''cycles'', Some (to_flt 400)), (''page-faults'', None)]"
proof -
  have "event_ok ''cycles''" "event_ok ''page-faults''" by code_simp+
  then show ?thesis
    using perf_stat_roundtrip [of "[(''cycles'', Some 400, 100), (''page-faults'', None, 0)]"] by simp
qed

end
