(* ===== verification/Run_Summary.thy ===== *)
theory Run_Summary
  imports Numerics
begin

text \<open>
  The per-run summary of \<^verbatim>\<open>analysis/generate_summary.py\<close>: \<^verbatim>\<open>validate_metadata\<close>, the window rates, the
  tail-quantile gate and \<^verbatim>\<open>summarize_run\<close> with its sustainability rule. What the data frame library
  computes (a quantile of a series, the latency columns of a trace) is a parameter.
\<close>

section \<open>Metadata\<close>

definition REQUIRED_TOP_LEVEL :: "string list" where
  "REQUIRED_TOP_LEVEL =
     [''schema_version'', ''run_id'', ''repetition_id'', ''topology'', ''run'', ''sender_stats'', ''receiver_stats'',
      ''counters'', ''environment'']"

definition REQUIRED_RUN_FIELDS :: "string list" where
  "REQUIRED_RUN_FIELDS =
     [''receiver_variant'', ''requested_rate_pps'', ''duration_seconds'', ''payload_size'', ''mode'',
      ''burst_size'', ''batch_size'', ''work_ns'']"

definition sender_required :: "string list" where
  "sender_required =
     [''attempted_sends'', ''successful_sends'', ''failed_sends'', ''elapsed_seconds'', ''achieved_successful_send_pps'']"

definition receiver_required :: "string list" where
  "receiver_required =
     [''datagrams_received'', ''valid_packets'', ''processed_packets'', ''short_packets'', ''invalid_magic'', ''spsc_overflow'']"

definition v2_fields :: "string list" where
  "v2_fields =
     [''unique_valid_packets'', ''unique_processed_packets'', ''receive_sequence_gaps'', ''receive_duplicates'',
      ''receive_reordered'']"

definition value_error :: "string \<Rightarrow> exn" where
  "value_error text = Exn ValueError text"

text \<open>\<^verbatim>\<open>sorted(required - d.keys())\<close>.\<close>

definition missing_fields :: "string list \<Rightarrow> pyval dict \<Rightarrow> string list" where
  "missing_fields required d = sort (filter (\<lambda>k. k \<notin> set (dkeys d)) required)"

definition require_fields :: "string list \<Rightarrow> pyval dict \<Rightarrow> string \<Rightarrow> unit res" where
  "require_fields required d text =
     require (missing_fields required d = []) (value_error (text @ join '', '' (missing_fields required d)))"

text \<open>
  The statistics must be a dictionary with the required fields. The message of the error lists
  \<^verbatim>\<open>required - set(stats or {})\<close>, and building it can itself raise when the value is not iterable or
  holds values without a hash.
\<close>

definition stats_error :: "string list \<Rightarrow> pyval \<Rightarrow> string \<Rightarrow> exn res" where
  "stats_error required v text =
     rbind (py_iter (or_empty v)) (\<lambda>ks.
     rbind (riter hash_ok ks) (\<lambda>_.
     Inr (value_error (text @ join '', '' (sort (filter (\<lambda>k. \<not> (\<exists>w \<in> set ks. py_eq w (VStr k))) required))))))"

definition require_stats :: "string list \<Rightarrow> pyval \<Rightarrow> string \<Rightarrow> unit res" where
  "require_stats required v text =
     (case v of
        VDict d \<Rightarrow> if missing_fields required d = [] then Inr () else rbind (stats_error required v text) Inl
      | _ \<Rightarrow> rbind (stats_error required v text) Inl)"

definition handled_packets :: "pyval \<Rightarrow> int res" where
  "handled_packets receiver =
     rbind (int_at receiver ''processed_packets'') (\<lambda>p. rbind (int_at receiver ''spsc_overflow'') (\<lambda>q. Inr (p + q)))"

definition validate_v2 :: "pyval \<Rightarrow> pyval \<Rightarrow> unit res" where
  "validate_v2 metadata receiver =
     rbind (riter (\<lambda>field. rbind (py_contains receiver field) (\<lambda>b.
       require b (value_error (''receiver_stats missing v2 field: '' @ field)))) v2_fields) (\<lambda>_.
     rbind (py_get_none metadata ''validity'') (\<lambda>validity.
     rbind (require (is_dict validity) (value_error ''v2 metadata requires validity verdict'')) (\<lambda>_.
     rbind (handled_packets receiver) (\<lambda>handled.
     rbind (int_at receiver ''valid_packets'') (\<lambda>valid.
     require (handled = valid) (value_error ''v2 processed plus SPSC overflow must equal valid received packets''))))))"

definition validate_accounting :: "pyval \<Rightarrow> pyval \<Rightarrow> unit res" where
  "validate_accounting sender receiver =
     rbind (int_at sender ''attempted_sends'') (\<lambda>attempted.
     rbind (int_at sender ''successful_sends'') (\<lambda>successful.
     rbind (int_at sender ''failed_sends'') (\<lambda>failed.
     rbind (require (attempted = successful + failed) (value_error ''sender attempts must equal successes plus failures'')) (\<lambda>_.
     rbind (handled_packets receiver) (\<lambda>handled.
     rbind (int_at receiver ''valid_packets'') (\<lambda>valid.
     require (handled \<le> valid) (value_error ''processed plus SPSC overflow exceeds valid received packets'')))))))"

definition validate_metadata :: "pyval \<Rightarrow> pyval res" where
  "validate_metadata metadata =
     (case metadata of
        VDict d \<Rightarrow>
          rbind (require_fields REQUIRED_TOP_LEVEL d ''Run metadata missing fields: '') (\<lambda>_.
          rbind (py_index metadata ''topology'') (\<lambda>topology.
          rbind (py_in_set topology (map VStr [''local_loopback'', ''distributed_ethernet'', ''external_generator''])) (\<lambda>known.
          rbind (require known
            (value_error ''topology must be local_loopback, distributed_ethernet, or external_generator'')) (\<lambda>_.
          rbind (py_get_none metadata ''run'') (\<lambda>run.
          rbind (case run of VDict r \<Rightarrow> require_fields REQUIRED_RUN_FIELDS r ''Run settings missing fields: ''
                 | _ \<Rightarrow> Inl (value_error ''run metadata must be an object'')) (\<lambda>_.
          rbind (py_get_none metadata ''sender_stats'') (\<lambda>sender.
          rbind (py_get_none metadata ''receiver_stats'') (\<lambda>receiver.
          rbind (require_stats sender_required sender ''sender_stats missing fields: '') (\<lambda>_.
          rbind (require_stats receiver_required receiver ''receiver_stats missing fields: '') (\<lambda>_.
          rbind (validate_accounting sender receiver) (\<lambda>_.
          rbind (int_or metadata ''schema_version'' 1) (\<lambda>version.
          rbind (if version \<ge> 2 then validate_v2 metadata receiver else Inr ()) (\<lambda>_.
          Inr metadata)))))))))))))
      | _ \<Rightarrow> Inl (value_error ''Run metadata must be an object''))"

section \<open>Tail quantiles\<close>

definition minimum_samples_for :: "flt \<Rightarrow> int res" where
  "minimum_samples_for q =
     rbind (flt_div (Fin 1) (flt_sub (Fin 1) q)) py_ceil"

text \<open>\<open>quantile\<close> is the linear quantile of a series of \<open>n\<close> values.\<close>

definition tail_quantile :: "(flt \<Rightarrow> flt) \<Rightarrow> int \<Rightarrow> flt \<Rightarrow> flt option res" where
  "tail_quantile quantile n q =
     rbind (minimum_samples_for q) (\<lambda>needed. Inr (if n < needed then None else Some (quantile q)))"

section \<open>One run\<close>

text \<open>\<^verbatim>\<open>_window_rate\<close>: packets per second over a monotonic window, none when it is unusable.\<close>

definition window_rate :: "pyval \<Rightarrow> pyval \<Rightarrow> int \<Rightarrow> pyval res" where
  "window_rate first_ns last_ns packets =
     (if first_ns = VNone \<or> last_ns = VNone then Inr VNone
      else rbind (py_int last_ns) (\<lambda>b. rbind (py_int first_ns) (\<lambda>a.
        let span = b - a in
        if span \<le> 0 then Inr VNone
        else rbind (int_mul_flt packets (int_flt 1000000000)) (\<lambda>x.
             rbind (flt_of_int span) (\<lambda>s. rbind (flt_div x s) (\<lambda>r. Inr (VFloat r)))))))"

record run_figures =
  rf_successful :: int
  rf_received :: int
  rf_processed :: int
  rf_elapsed :: flt

definition run_figures_of :: "pyval \<Rightarrow> pyval \<Rightarrow> run_figures res" where
  "run_figures_of sender receiver =
     rbind (int_at sender ''successful_sends'') (\<lambda>successful.
     rbind (rbind (py_index receiver ''valid_packets'') (\<lambda>v. rbind (py_get_or receiver ''unique_valid_packets'' v) py_int)) (\<lambda>received.
     rbind (rbind (py_index receiver ''processed_packets'') (\<lambda>v. rbind (py_get_or receiver ''unique_processed_packets'' v) py_int)) (\<lambda>processed.
     rbind (float_at sender ''elapsed_seconds'') (\<lambda>elapsed.
     Inr \<lparr>rf_successful = successful, rf_received = received, rf_processed = processed, rf_elapsed = elapsed\<rparr>))))"

definition rate_over :: "int \<Rightarrow> flt \<Rightarrow> flt res" where
  "rate_over packets elapsed =
     (if flt_lt (Fin 0) elapsed then rbind (flt_of_int packets) (\<lambda>p. flt_div p elapsed) else Inr (Fin 0))"

definition loss_pct :: "int \<Rightarrow> int \<Rightarrow> flt res" where
  "loss_pct loss successful =
     (if successful = 0 then Inr (Fin 0)
      else rbind (int_mul_flt loss (Fin 100)) (\<lambda>x. rbind (flt_of_int successful) (\<lambda>s. flt_div x s)))"

definition sustainable :: "bool \<Rightarrow> int \<Rightarrow> int \<Rightarrow> run_figures \<Rightarrow> flt \<Rightarrow> flt \<Rightarrow> bool res" where
  "sustainable run_valid failures rate f offered application_loss_pct =
     (if run_valid \<and> failures = 0 \<and> rate > 0 \<and> rf_successful f > 0 \<and> rf_processed f > 0 \<and>
         flt_lt (Fin 0) (rf_elapsed f)
      then rbind (int_mul_flt rate (lit 99 100)) (\<lambda>low.
        Inr (flt_le low offered \<and> flt_le (Fin 0) application_loss_pct \<and> flt_le application_loss_pct (lit 1 10)))
      else Inr False)"

text \<open>
  \<^verbatim>\<open>summarize_run\<close> builds its row column by column, in this order. \<open>frame_length\<close> is the number of
  trace rows, \<open>latency\<close> the columns \<^verbatim>\<open>_latency_fields\<close> computes from them.
\<close>

type_synonym column = "string \<times> pyval res"

definition build_row :: "column list \<Rightarrow> pyval dict res" where
  "build_row columns = rmap (\<lambda>(k, m). rbind m (\<lambda>v. Inr (k, v))) columns"

definition as_vint :: "int res \<Rightarrow> pyval res" where
  "as_vint m = rbind m (\<lambda>n. Inr (VInt n))"

definition as_vflt :: "flt res \<Rightarrow> pyval res" where
  "as_vflt m = rbind m (\<lambda>x. Inr (VFloat x))"

definition delta_of :: "pyval \<Rightarrow> string \<Rightarrow> pyval res" where
  "delta_of metadata name =
     rbind (py_index metadata ''counters'') (\<lambda>counters.
     rbind (py_get_dict counters name) (\<lambda>counter. py_get_none counter ''delta''))"

definition validity_entry :: "pyval \<Rightarrow> string \<Rightarrow> pyval \<Rightarrow> pyval res" where
  "validity_entry metadata k dflt = rbind (py_get_dict metadata ''validity'') (\<lambda>v. py_get_or v k dflt)"

definition py_join :: "string \<Rightarrow> pyval \<Rightarrow> string res" where
  "py_join sep v =
     rbind (py_iter v) (\<lambda>xs.
     rbind (rmap (\<lambda>x. case x of VStr s \<Rightarrow> Inr s
                      | _ \<Rightarrow> Inl (Exn TypeError ''sequence item: expected str instance'')) xs) (\<lambda>ss.
     Inr (join sep ss)))"

definition identity_columns :: "pyval \<Rightarrow> pyval \<Rightarrow> pyval \<Rightarrow> string \<Rightarrow> column list" where
  "identity_columns metadata run sender trace_path =
     [(''run_id'', py_index metadata ''run_id''), (''repetition_id'', py_index metadata ''repetition_id''),
      (''topology'', py_index metadata ''topology''), (''trace_path'', Inr (VStr trace_path)),
      (''campaign'', py_get_or run ''campaign'' (VStr ''legacy'')), (''receiver'', py_index run ''receiver_variant''),
      (''requested_rate_pps'', as_vint (int_at run ''requested_rate_pps''))]"

definition rate_columns :: "pyval \<Rightarrow> pyval \<Rightarrow> run_figures \<Rightarrow> column list" where
  "rate_columns sender receiver f =
     [(''offered_pps'', as_vflt (rate_over (rf_successful f) (rf_elapsed f))),
      (''received_pps'', as_vflt (rate_over (rf_received f) (rf_elapsed f))),
      (''processed_pps'', as_vflt (rate_over (rf_processed f) (rf_elapsed f))),
      (''achieved_sender_rate_pps'', as_vflt (float_at sender ''achieved_successful_send_pps'')),
      (''sender_runtime_seconds'', Inr (VFloat (rf_elapsed f))),
      (''send_attempts'', as_vint (int_at sender ''attempted_sends'')),
      (''send_successes'', Inr (VInt (rf_successful f))),
      (''send_failures'', as_vint (int_at sender ''failed_sends'')),
      (''received_packets'', Inr (VInt (rf_received f))), (''processed_packets'', Inr (VInt (rf_processed f))),
      (''ingress_loss'', Inr (VInt (rf_successful f - rf_received f))),
      (''application_loss'', Inr (VInt (rf_successful f - rf_processed f))),
      (''ingress_loss_pct'', as_vflt (loss_pct (rf_successful f - rf_received f) (rf_successful f))),
      (''application_loss_pct'', as_vflt (loss_pct (rf_successful f - rf_processed f) (rf_successful f))),
      (''sequence_gap_loss'', as_vint (int_or receiver ''receive_sequence_gaps'' 0)),
      (''duplicates'', as_vint (int_or receiver ''receive_duplicates'' 0)),
      (''reordered'', as_vint (int_or receiver ''receive_reordered'' 0)),
      (''processed_sequence_gaps'', as_vint (int_or receiver ''processed_sequence_gaps'' 0))]"

definition host_columns :: "pyval \<Rightarrow> pyval \<Rightarrow> pyval \<Rightarrow> int \<Rightarrow> column list" where
  "host_columns metadata sender receiver frame_length =
     [(''udp_rcvbuf_errors_delta'', delta_of metadata ''udp_rcvbuf_errors''),
      (''nic_rx_dropped_delta'', delta_of metadata ''nic_rx_dropped''),
      (''nic_rx_errors_delta'', delta_of metadata ''nic_rx_errors''),
      (''nic_rx_missed_errors_delta'', delta_of metadata ''nic_rx_missed_errors''),
      (''spsc_overflow'', as_vint (int_at receiver ''spsc_overflow'')),
      (''receive_syscalls'', as_vint (int_or receiver ''receive_syscalls'' 0)),
      (''sampled_packets'', as_vint (int_or receiver ''sampled_packets'' frame_length)),
      (''requested_receive_buffer_bytes'', as_vint (int_or receiver ''requested_socket_buffer_bytes'' 0)),
      (''observed_receive_buffer_bytes'', as_vint (int_or receiver ''observed_socket_buffer_bytes'' 0)),
      (''requested_send_buffer_bytes'', as_vint (int_or sender ''requested_socket_buffer_bytes'' 0)),
      (''observed_send_buffer_bytes'', as_vint (int_or sender ''observed_socket_buffer_bytes'' 0)),
      (''drain_duration_ns'', as_vint (int_or receiver ''drain_duration_ns'' 0)),
      (''queue_depth_at_shutdown'', as_vint (int_or receiver ''queue_depth_at_shutdown'' 0)),
      (''socket_pending_bytes_at_shutdown'', as_vint (int_or receiver ''socket_pending_bytes_at_shutdown'' 0))]"

definition setting_columns :: "pyval \<Rightarrow> pyval \<Rightarrow> column list" where
  "setting_columns metadata run =
     [(''run_valid'', rbind (validity_entry metadata ''valid'' (VBool True)) (\<lambda>v. Inr (VBool (truthy v)))),
      (''invalid_reasons'', rbind (validity_entry metadata ''reasons'' (VList [])) (\<lambda>v.
         rbind (py_join ''; '' v) (\<lambda>s. Inr (VStr s)))),
      (''mode'', py_index run ''mode''), (''burst_size'', as_vint (int_at run ''burst_size'')),
      (''batch_size'', as_vint (int_at run ''batch_size'')), (''payload_size'', as_vint (int_at run ''payload_size'')),
      (''duration_seconds'', as_vflt (float_at run ''duration_seconds'')),
      (''work_ns'', as_vint (int_at run ''work_ns'')), (''sample_every'', as_vint (int_or run ''sample_every'' 1))]"

definition packets_per_syscall :: "pyval \<Rightarrow> int \<Rightarrow> pyval res" where
  "packets_per_syscall receiver received =
     rbind (int_or receiver ''receive_syscalls'' 0) (\<lambda>syscalls.
       if syscalls = 0 then Inr VNone
       else rbind (rbind (py_get_or receiver ''valid_packets'' (VInt received)) py_float) (\<lambda>x.
            rbind (flt_of_int syscalls) (\<lambda>s. as_vflt (flt_div x s))))"

definition window_columns :: "pyval \<Rightarrow> pyval \<Rightarrow> pyval \<Rightarrow> run_figures \<Rightarrow> column list" where
  "window_columns metadata sender receiver f =
     [(''receive_window_pps'', rbind (py_get_none receiver ''first_receive_mono_ns'') (\<lambda>a.
         rbind (py_get_none receiver ''last_receive_mono_ns'') (\<lambda>b. window_rate a b (rf_received f)))),
      (''processing_window_pps'', rbind (py_get_none receiver ''first_processing_mono_ns'') (\<lambda>a.
         rbind (py_get_none receiver ''last_processing_mono_ns'') (\<lambda>b. window_rate a b (rf_processed f)))),
      (''packets_per_receive_syscall'', packets_per_syscall receiver (rf_received f)),
      (''truncated_packets'', as_vint (int_or receiver ''truncated_packets'' 0)),
      (''receive_out_of_window'', as_vint (int_or receiver ''receive_out_of_window'' 0)),
      (''nic_rx_pause_delta'', delta_of metadata ''nic_rx_pause''),
      (''nic_tx_pause_delta'', delta_of metadata ''nic_tx_pause''),
      (''pacing_lateness_p50_ns'', rbind (py_get_none sender ''pacing_lateness_ns'') (\<lambda>l. py_get_none (or_empty l) ''p50'')),
      (''pacing_lateness_p99_ns'', rbind (py_get_none sender ''pacing_lateness_ns'') (\<lambda>l. py_get_none (or_empty l) ''p99'')),
      (''zero_loss_run'', Inr (VBool (rf_successful f - rf_processed f = 0 \<and> rf_successful f - rf_received f = 0)))]"

definition base_columns :: "pyval \<Rightarrow> pyval \<Rightarrow> pyval \<Rightarrow> pyval \<Rightarrow> run_figures \<Rightarrow> int \<Rightarrow> string \<Rightarrow> column list" where
  "base_columns metadata run sender receiver f frame_length trace_path =
     identity_columns metadata run sender trace_path @ rate_columns sender receiver f @
     host_columns metadata sender receiver frame_length @ setting_columns metadata run @
     window_columns metadata sender receiver f"

definition sustainable_column :: "pyval \<Rightarrow> pyval \<Rightarrow> pyval \<Rightarrow> run_figures \<Rightarrow> pyval res" where
  "sustainable_column metadata run sender f =
     rbind (validity_entry metadata ''valid'' (VBool True)) (\<lambda>valid.
     rbind (int_at sender ''failed_sends'') (\<lambda>failures.
     rbind (int_at run ''requested_rate_pps'') (\<lambda>rate.
     rbind (rate_over (rf_successful f) (rf_elapsed f)) (\<lambda>offered.
     rbind (loss_pct (rf_successful f - rf_processed f) (rf_successful f)) (\<lambda>pct.
     rbind (sustainable (truthy valid) failures rate f offered pct) (\<lambda>b. Inr (VBool b)))))))"

definition clock_offset_suspect :: "pyval \<Rightarrow> bool res" where
  "clock_offset_suspect minimum =
     (if minimum = VNone \<or> minimum = VFloat NaN then Inr False
      else rbind (py_float minimum) (\<lambda>x. Inr (flt_lt x (Fin 0))))"

definition summarize_run :: "pyval \<Rightarrow> int \<Rightarrow> pyval dict res \<Rightarrow> string \<Rightarrow> pyval dict res" where
  "summarize_run metadata frame_length latency trace_path =
     rbind (validate_metadata metadata) (\<lambda>_.
     rbind (py_index metadata ''run'') (\<lambda>run.
     rbind (py_index metadata ''sender_stats'') (\<lambda>sender.
     rbind (py_index metadata ''receiver_stats'') (\<lambda>receiver.
     rbind (run_figures_of sender receiver) (\<lambda>f.
     rbind (build_row (base_columns metadata run sender receiver f frame_length trace_path)) (\<lambda>row.
     rbind (sustainable_column metadata run sender f) (\<lambda>gate.
     rbind latency (\<lambda>fields.
     let full = fold (\<lambda>(k, v) d. dset k v d) fields (row @ [(''sustainable_run'', gate)]) in
     rbind (clock_offset_suspect (dget_or full ''receive_latency_min_us'' VNone)) (\<lambda>suspect.
     Inr (dset ''clock_offset_suspect'' (VBool suspect) full))))))))))"

end
