(* ===== verification/Summary_Facts.thy ===== *)
theory Summary_Facts
  imports Run_Summary
begin

text \<open>
  What the run summary guarantees: the contract of \<^verbatim>\<open>validate_metadata\<close> as a declarative predicate,
  the meaning of the sustainability verdict in integers, and the sample sizes below which a tail
  quantile is withheld.
\<close>

section \<open>The metadata contract\<close>

definition has_fields :: "string list \<Rightarrow> pyval \<Rightarrow> bool" where
  "has_fields required v \<longleftrightarrow> (\<exists>d. v = VDict d \<and> list_all (\<lambda>k. k \<in> set (dkeys d)) required)"

definition balanced_books :: "pyval \<Rightarrow> pyval \<Rightarrow> bool" where
  "balanced_books sender receiver \<longleftrightarrow>
     (\<exists>successful failed handled dropped valid.
        int_at sender ''successful_sends'' = Inr successful \<and> int_at sender ''failed_sends'' = Inr failed \<and>
        int_at sender ''attempted_sends'' = Inr (successful + failed) \<and>
        int_at receiver ''processed_packets'' = Inr handled \<and> int_at receiver ''spsc_overflow'' = Inr dropped \<and>
        int_at receiver ''valid_packets'' = Inr valid \<and> handled + dropped \<le> valid)"

definition exact_books :: "pyval \<Rightarrow> bool" where
  "exact_books receiver \<longleftrightarrow>
     (\<exists>handled dropped. int_at receiver ''processed_packets'' = Inr handled \<and>
        int_at receiver ''spsc_overflow'' = Inr dropped \<and> int_at receiver ''valid_packets'' = Inr (handled + dropped))"

definition acceptable_metadata :: "pyval \<Rightarrow> bool" where
  "acceptable_metadata metadata \<longleftrightarrow>
     (\<exists>d topology run sender receiver version.
        metadata = VDict d \<and> has_fields REQUIRED_TOP_LEVEL metadata \<and>
        dget d ''topology'' = Some (VStr topology) \<and>
        topology \<in> {''local_loopback'', ''distributed_ethernet'', ''external_generator''} \<and>
        dget d ''run'' = Some run \<and> has_fields REQUIRED_RUN_FIELDS run \<and>
        dget d ''sender_stats'' = Some sender \<and> has_fields sender_required sender \<and>
        dget d ''receiver_stats'' = Some receiver \<and> has_fields receiver_required receiver \<and>
        balanced_books sender receiver \<and> int_or metadata ''schema_version'' 1 = Inr version \<and>
        (version < 2 \<or> has_fields v2_fields receiver \<and> (\<exists>v. dget d ''validity'' = Some (VDict v)) \<and> exact_books receiver))"

lemma missing_fields_Nil_iff: "missing_fields required d = [] \<longleftrightarrow> list_all (\<lambda>k. k \<in> set (dkeys d)) required"
proof -
  have "sort xs = [] \<longleftrightarrow> xs = []" for xs :: "string list"
    by (metis length_0_conv length_sort)
  then show ?thesis by (simp only: missing_fields_def filter_empty_conv list_all_iff not_not)
qed

lemma require_fields_iff: "require_fields required d text = Inr u \<longleftrightarrow> has_fields required (VDict d)"
  by (simp add: require_fields_def require_Inr_iff missing_fields_Nil_iff has_fields_def)

lemma require_stats_iff: "require_stats required v text = Inr u \<longleftrightarrow> has_fields required v"
proof -
  have none: "rbind m Inl \<noteq> Inr ()" for m :: "exn res"
    by (cases m) simp_all
  show ?thesis
    by (cases v) (simp_all add: require_stats_def has_fields_def missing_fields_Nil_iff none)
qed

lemma py_contains_dict: "py_contains (VDict d) k = Inr (k \<in> set (dkeys d))"
  by (simp add: domIff dom_map_of_conv_image_fst [symmetric])

lemma v2_fields_iff:
  "riter (\<lambda>field. rbind (py_contains (VDict d) field) (\<lambda>b. require b (e field))) fs = Inr u \<longleftrightarrow> has_fields fs (VDict d)"
  unfolding py_contains_dict rbind_simps riter_Inr_iff require_Inr_iff by (simp add: has_fields_def list_all_iff)

lemma validate_v2_iff:
  "validate_v2 (VDict d) (VDict r) = Inr u \<longleftrightarrow>
     has_fields v2_fields (VDict r) \<and> (\<exists>v. dget d ''validity'' = Some (VDict v)) \<and> exact_books (VDict r)"
proof -
  have dict: "is_dict (dget_or d ''validity'' VNone) \<longleftrightarrow> (\<exists>v. dget d ''validity'' = Some (VDict v))"
    by (auto simp: dget_or_def elim!: is_dictE split: option.splits)
  have fields: "rbind (riter (\<lambda>field. rbind (py_contains (VDict r) field) (\<lambda>b. require b (e field))) fs) (\<lambda>_. m) = Inr u \<longleftrightarrow>
      has_fields fs (VDict r) \<and> m = Inr u" for e fs m
    unfolding rbind_Inr_iff [of "riter _ _"] v2_fields_iff by simp
  show ?thesis
    unfolding validate_v2_def fields py_get_or_VDict rbind_simps dict [symmetric] exact_books_def handled_packets_def
    by (simp add: rbind_Inr_iff require_Inr_iff) blast
qed

lemma validate_accounting_iff: "validate_accounting sender receiver = Inr u \<longleftrightarrow> balanced_books sender receiver"
  unfolding validate_accounting_def balanced_books_def handled_packets_def
  by (auto simp: rbind_Inr_iff require_Inr_iff)

lemma known_topology_iff:
  "py_in_set v (map VStr ts) = Inr True \<longleftrightarrow> (\<exists>t. v = VStr t \<and> t \<in> set ts)"
  by (cases v) (auto simp: py_in_set_def hash_ok_def py_eq_VStr_iff)

lemma has_fields_dget_or:
  "has_fields required (dget_or d k VNone) \<longleftrightarrow> (\<exists>v. dget d k = Some v \<and> has_fields required v)"
  by (auto simp: dget_or_def has_fields_def split: option.splits)

lemma require_run_iff:
  "(case v of VDict r \<Rightarrow> require_fields required r text | _ \<Rightarrow> Inl e) = Inr u \<longleftrightarrow> has_fields required v"
  by (cases v) (simp_all add: require_fields_iff, simp_all add: has_fields_def)

lemma guard_iff: "(m = Inr () \<longleftrightarrow> P) \<Longrightarrow> rbind m (\<lambda>_. n) = Inr y \<longleftrightarrow> P \<and> n = Inr y"
  by (auto simp: rbind_Inr_iff)

lemma topology_guard:
  "rbind (py_in_set v (map VStr ts)) (\<lambda>known. rbind (require known e) (\<lambda>_. m)) = Inr y \<longleftrightarrow>
     (\<exists>t. v = VStr t \<and> t \<in> set ts) \<and> m = Inr y"
  unfolding known_topology_iff [symmetric] by (auto simp: rbind_Inr_iff require_Inr_iff)

lemma version_guard:
  "rbind (int_or metadata k 1) (\<lambda>version. rbind (if version \<ge> 2 then m else Inr ()) (\<lambda>_. Inr x)) = Inr y \<longleftrightarrow>
     (\<exists>version. int_or metadata k 1 = Inr version \<and> (version < 2 \<or> m = Inr ())) \<and> x = y"
  by (auto simp: rbind_Inr_iff split: if_splits)

lemma validate_metadata_dict:
  "validate_metadata (VDict d) = Inr r \<longleftrightarrow>
     has_fields REQUIRED_TOP_LEVEL (VDict d) \<and>
     (\<exists>topology. dget d ''topology'' = Some topology \<and>
        (\<exists>t. topology = VStr t \<and> t \<in> set [''local_loopback'', ''distributed_ethernet'', ''external_generator''])) \<and>
     has_fields REQUIRED_RUN_FIELDS (dget_or d ''run'' VNone) \<and>
     has_fields sender_required (dget_or d ''sender_stats'' VNone) \<and>
     has_fields receiver_required (dget_or d ''receiver_stats'' VNone) \<and>
     balanced_books (dget_or d ''sender_stats'' VNone) (dget_or d ''receiver_stats'' VNone) \<and>
     (\<exists>version. int_or (VDict d) ''schema_version'' 1 = Inr version \<and>
        (version < 2 \<or> validate_v2 (VDict d) (dget_or d ''receiver_stats'' VNone) = Inr ())) \<and> VDict d = r"
  unfolding validate_metadata_def pyval.case py_get_or_VDict rbind_simps
    guard_iff [OF require_fields_iff] guard_iff [OF require_run_iff] guard_iff [OF require_stats_iff]
    guard_iff [OF validate_accounting_iff] topology_guard version_guard rbind_Inr_iff [of "py_index _ _"]
    py_index_VDict_Inr
  by blast

lemma validate_metadata_iff: "validate_metadata metadata = Inr r \<longleftrightarrow> acceptable_metadata metadata \<and> r = metadata"
proof (cases metadata)
  case (VDict d)
  have v2: "has_fields receiver_required receiver \<Longrightarrow> validate_v2 (VDict d) receiver = Inr () \<longleftrightarrow>
      has_fields v2_fields receiver \<and> (\<exists>v. dget d ''validity'' = Some (VDict v)) \<and> exact_books receiver" for receiver
    by (cases receiver) (simp_all only: validate_v2_iff, simp_all add: has_fields_def)
  have "validate_metadata (VDict d) = Inr r \<longleftrightarrow>
    has_fields REQUIRED_TOP_LEVEL (VDict d) \<and>
    (\<exists>t. dget d ''topology'' = Some (VStr t) \<and> t \<in> {''local_loopback'', ''distributed_ethernet'', ''external_generator''}) \<and>
    (\<exists>run. dget d ''run'' = Some run \<and> has_fields REQUIRED_RUN_FIELDS run) \<and>
    (\<exists>sender receiver. dget d ''sender_stats'' = Some sender \<and> has_fields sender_required sender \<and>
       dget d ''receiver_stats'' = Some receiver \<and> has_fields receiver_required receiver \<and>
       balanced_books sender receiver \<and>
       (\<exists>version. int_or (VDict d) ''schema_version'' 1 = Inr version \<and>
          (version < 2 \<or> validate_v2 (VDict d) receiver = Inr ()))) \<and> VDict d = r"
    unfolding validate_metadata_dict has_fields_dget_or by (auto simp del: One_nat_def)
  also have "\<dots> \<longleftrightarrow>
    has_fields REQUIRED_TOP_LEVEL (VDict d) \<and>
    (\<exists>t. dget d ''topology'' = Some (VStr t) \<and> t \<in> {''local_loopback'', ''distributed_ethernet'', ''external_generator''}) \<and>
    (\<exists>run. dget d ''run'' = Some run \<and> has_fields REQUIRED_RUN_FIELDS run) \<and>
    (\<exists>sender receiver. dget d ''sender_stats'' = Some sender \<and> has_fields sender_required sender \<and>
       dget d ''receiver_stats'' = Some receiver \<and> has_fields receiver_required receiver \<and>
       balanced_books sender receiver \<and>
       (\<exists>version. int_or (VDict d) ''schema_version'' 1 = Inr version \<and>
          (version < 2 \<or> has_fields v2_fields receiver \<and> (\<exists>v. dget d ''validity'' = Some (VDict v)) \<and> exact_books receiver))) \<and>
    VDict d = r"
    by (intro ex_cong1 conj_cong refl) (simp_all only: v2)
  also have "\<dots> \<longleftrightarrow> acceptable_metadata (VDict d) \<and> r = VDict d"
    unfolding acceptable_metadata_def pyval.inject by blast
  finally show ?thesis by (simp only: VDict)
qed (simp_all add: validate_metadata_def acceptable_metadata_def)

text \<open>
  C17: \<^verbatim>\<open>validate_metadata\<close> accepts exactly the documents of the declarative contract and returns them
  unchanged: every required field present, a known topology, sender attempts equal to successes plus
  failures, handled packets within the valid ones, and from schema version 2 on the unique counts, a
  verdict and an exact balance.
\<close>

theorem metadata_contract: "validate_metadata metadata = Inr r \<longleftrightarrow> acceptable_metadata metadata \<and> r = metadata"
  by (rule validate_metadata_iff)

section \<open>Tail quantiles\<close>

lemma minimum_samples:
  "minimum_samples_for (lit 1 2) = Inr 2"
  "minimum_samples_for (lit 99 100) = Inr 100"
  "minimum_samples_for (lit 999 1000) = Inr 1000"
  by code_simp+

text \<open>
  A median is reported from 2 samples on, a p99 from 100 and a p99.9 from 1000, in spite of the
  rounding in \<^verbatim>\<open>1.0 / (1.0 - q)\<close>; a smaller sample gives no value, never its maximum.
\<close>

theorem tail_quantile_gate:
  "tail_quantile quantile n (lit 1 2) = Inr (if n < 2 then None else Some (quantile (lit 1 2))) \<and>
   tail_quantile quantile n (lit 99 100) = Inr (if n < 100 then None else Some (quantile (lit 99 100))) \<and>
   tail_quantile quantile n (lit 999 1000) = Inr (if n < 1000 then None else Some (quantile (lit 999 1000)))"
  by (simp only: tail_quantile_def minimum_samples rbind_simps simp_thms)

section \<open>Sustainability\<close>

lemma loss_pct_pos:
  assumes "1 \<le> loss" "loss \<le> 2 ^ 53" "1 \<le> s" "s \<le> 2 ^ 53"
  shows "\<exists>x. (loss_pct loss s = Inr (Fin x) \<and> loss_pct (- loss) s = Inr (Fin (- x))) \<and>
    0 < x \<and> 99 * of_int loss \<le> x * of_int s \<and> 99999 * of_int loss \<le> 1000 * x * of_int s"
proof -
  define L S where "L = (of_int loss :: rat)" and "S = (of_int s :: rat)"
  have L: "1 \<le> L" "L \<le> 2 ^ 53" and S: "1 \<le> S" "S \<le> 2 ^ 53"
    using rat_of_bounds [OF assms(1,2)] rat_of_bounds [OF assms(3,4)] by (simp_all add: L_def S_def)
  define X where "X = fl (L * 100)"
  have X: "999999 * (L * 100) \<le> 1000000 * X" "1000000 * X \<le> 1000001 * (L * 100)"
    using fl_millionth [of "L * 100"] L by (simp_all add: X_def)
  have tiny: "1 / 2 ^ 100 \<le> X / S"
  proof -
    have "1 / 2 ^ 100 * S \<le> X" using X L S by simp
    then show ?thesis using S by (simp add: pos_le_divide_eq)
  qed
  have big: "X / S \<le> of_int (2 ^ 62)"
  proof -
    have "X / S \<le> X / 1" using S X L by (intro divide_left_mono) simp_all
    then show ?thesis using X L by simp
  qed
  have x: "999999 * (X / S) \<le> 1000000 * fl (X / S)" using tiny by (rule fl_millionth)
  have pos: "0 < X / S" using X L S by simp
  have finite: "to_flt (L * 100) = Fin X" "to_flt (X / S) = Fin (fl (X / S))" "to_flt (- (L * 100)) = Fin (- X)"
    "to_flt (- (X / S)) = Fin (- fl (X / S))"
    using to_flt_small [of "L * 100" "2 ^ 62"] to_flt_small [of "X / S" "2 ^ 62"] to_flt_small [of "- (L * 100)" "2 ^ 62"]
      to_flt_small [of "- (X / S)" "2 ^ 62"] L big pos
    by (simp_all add: X_def fl_minus)
  have conv: "flt_of_int loss = Inr (Fin L)" "flt_of_int (- loss) = Inr (Fin (- L))" "flt_of_int s = Inr (Fin S)"
    using assms by (simp_all add: flt_of_int_small L_def S_def)
  have "loss_pct loss s = Inr (Fin (fl (X / S)))" "loss_pct (- loss) s = Inr (Fin (- fl (X / S)))"
    using assms(3) S finite by (simp_all add: loss_pct_def int_mul_flt_def conv flt_mul_def flt_div_def)
  moreover have "0 < fl (X / S)" using x pos by simp
  moreover have "999999 * X \<le> 1000000 * (fl (X / S) * S)"
    using mult_right_mono [OF x, of S] S by (simp add: mult.assoc)
  then have "99 * L \<le> fl (X / S) * S" "99999 * L \<le> 1000 * fl (X / S) * S" using X L by simp_all
  ultimately show ?thesis unfolding L_def S_def by blast
qed

lemma loss_pct_gate:
  assumes "1 \<le> s" "s \<le> 2 ^ 53" "\<bar>loss\<bar> \<le> 2 ^ 53" and "loss_pct loss s = Inr pct"
    and "flt_le (Fin 0) pct" "flt_le pct (lit 1 10)"
  shows "0 \<le> loss \<and> 1000000 * loss \<le> 1001 * s"
proof -
  have tenth: "1000000 * fl (1 / 10) \<le> 100001" using fl_millionth [of "1 / 10"] by simp
  consider "loss = 0" | "1 \<le> loss" | "1 \<le> - loss" by linarith
  then show ?thesis
  proof cases
    case 1
    with assms(1) show ?thesis by simp
  next
    case 2
    then obtain x where x: "loss_pct loss s = Inr (Fin x)" "0 < x" "99999 * of_int loss \<le> 1000 * x * of_int s"
      using loss_pct_pos [of loss s] assms(1-3) by auto
    have S: "(1 :: rat) \<le> of_int s" using assms(1,2) rat_of_bounds by blast
    have "x \<le> fl (1 / 10)" using assms(4,6) x(1) by (auto simp: lit_def)
    then have "1000 * x * of_int s \<le> 1000 * fl (1 / 10) * of_int s" using S by (intro mult_right_mono) simp_all
    also have "\<dots> * 1000 \<le> 100001 * of_int s" using mult_right_mono [OF tenth, of "of_int s"] S by simp
    finally have "99999000 * of_int loss \<le> (100001 * of_int s :: rat)" using x(3) by simp
    then have "of_int (1000000 * loss) \<le> (of_int (1001 * s) :: rat)" using S by simp
    then have "1000000 * loss \<le> 1001 * s" by (simp only: of_int_le_iff)
    with 2 show ?thesis by simp
  next
    case 3
    then obtain x where "loss_pct loss s = Inr (Fin (- x))" "0 < x"
      using loss_pct_pos [of "- loss" s] assms(1-3) by auto
    with assms(4,5) show ?thesis by auto
  qed
qed

lemma offered_gate:
  assumes "1 \<le> s" "s \<le> 2 ^ 53" "1 \<le> rate" "rate \<le> 2 ^ 53" and "flt_lt (Fin 0) elapsed"
    and offered: "rate_over s elapsed = Inr offered"
    and low: "int_mul_flt rate (lit 99 100) = Inr low" and ok: "flt_le low offered"
  shows "\<exists>e. elapsed = Fin e \<and> 0 < e \<and> 989 * of_int rate * e \<le> 1000 * of_int s"
proof -
  define R S where "R = (of_int rate :: rat)" and "S = (of_int s :: rat)"
  have R: "1 \<le> R" "R \<le> 2 ^ 53" and S: "1 \<le> S" "S \<le> 2 ^ 53"
    using rat_of_bounds [OF assms(3,4)] rat_of_bounds [OF assms(1,2)] by (simp_all add: R_def S_def)
  obtain m where m: "low = Fin m" "99 * 999998 * R \<le> 100000000 * m"
    using int_mul_lit [OF assms(3,4), of 99] low by (auto simp: R_def)
  have div: "flt_div (Fin S) elapsed = Inr offered"
    using offered assms(5) flt_of_int_small [of s] assms(1,2) by (simp add: rate_over_def S_def)
  show ?thesis
  proof (cases elapsed)
    case (Fin e)
    then have e: "0 < e" using assms(5) by simp
    have off: "offered = to_flt (S / e)" using div e Fin by (simp add: flt_div_def)
    have y0: "0 < S / e" using e S by simp
    have "989 * R \<le> 1000 * (S / e)"
    proof (cases "S / e \<le> pow2 200")
      case True
      then have "to_flt (S / e) = Fin (fl (S / e))" using y0 by (intro to_flt_finite) simp
      then have le: "m \<le> fl (S / e)" using ok m(1) off by simp
      have "\<not> S / e < 1 / 2"
      proof
        assume "S / e < 1 / 2"
        then have "fl (S / e) \<le> fl (1 / 2)" by (intro fl_mono) simp
        then have "1000000 * fl (S / e) \<le> 500001" using fl_millionth [of "1 / 2"] by simp
        with le m(2) R show False by simp
      qed
      then have "1 / 2 \<le> S / e" by (simp only: not_less)
      moreover have "1 / 2 ^ 100 \<le> (1 / 2 :: rat)" by simp
      ultimately have "1 / 2 ^ 100 \<le> S / e" by (rule order_trans [rotated])
      then have "1000000 * fl (S / e) \<le> 1000001 * (S / e)" by (rule fl_millionth)
      with le m(2) R show ?thesis by linarith
    next
      case False
      have "(2 :: rat) ^ 53 < pow2 200" by (simp add: pow2_def)
      with False R show ?thesis by simp
    qed
    then have "989 * R * e \<le> 1000 * (S / e) * e" using e by (intro mult_right_mono) simp_all
    with e Fin show ?thesis by (simp add: R_def S_def)
  next
    case PInf
    then have "offered = Fin 0" using div by (simp add: flt_div_def)
    with ok m R show ?thesis by simp
  qed (use assms(5) in simp_all)
qed

text \<open>
  C40: a run the summary calls sustainable was valid, had no failed send, carried traffic, lost between
  nothing and 0.1001 % of its packets before processing, and was offered at no less than 98.9 % of the
  requested rate over a finite positive time. No empty, infinite or not-a-number figure passes.
\<close>

theorem sustainable_run_meaning:
  assumes "sustainable_column metadata run sender f = Inr (VBool True)"
    and "rf_successful f \<le> 2 ^ 53" "rf_processed f \<le> 2 ^ 53"
    and "int_at run ''requested_rate_pps'' = Inr rate" "rate \<le> 2 ^ 53"
  shows "(\<exists>v. validity_entry metadata ''valid'' (VBool True) = Inr v \<and> truthy v) \<and>
    int_at sender ''failed_sends'' = Inr 0 \<and> 0 < rate \<and>
    0 < rf_processed f \<and> rf_processed f \<le> rf_successful f \<and>
    1000000 * (rf_successful f - rf_processed f) \<le> 1001 * rf_successful f \<and>
    (\<exists>e. rf_elapsed f = Fin e \<and> 0 < e \<and> 989 * of_int rate * e \<le> 1000 * of_int (rf_successful f))"
proof -
  obtain v offered pct low where v: "validity_entry metadata ''valid'' (VBool True) = Inr v" "truthy v"
    and failures: "int_at sender ''failed_sends'' = Inr 0"
    and pos: "0 < rate" "0 < rf_successful f" "0 < rf_processed f" "flt_lt (Fin 0) (rf_elapsed f)"
    and offered: "rate_over (rf_successful f) (rf_elapsed f) = Inr offered"
    and pct: "loss_pct (rf_successful f - rf_processed f) (rf_successful f) = Inr pct"
    and low: "int_mul_flt rate (lit 99 100) = Inr low"
    and ok: "flt_le low offered" "flt_le (Fin 0) pct" "flt_le pct (lit 1 10)"
    using assms(1,4) by (auto simp: sustainable_column_def sustainable_def rbind_Inr_iff split: if_splits)
  have "0 \<le> rf_successful f - rf_processed f \<and>
      1000000 * (rf_successful f - rf_processed f) \<le> 1001 * rf_successful f"
    using pos assms(2,3) by (intro loss_pct_gate [OF _ _ _ pct ok(2,3)]) linarith+
  moreover have "\<exists>e. rf_elapsed f = Fin e \<and> 0 < e \<and> 989 * of_int rate * e \<le> 1000 * of_int (rf_successful f)"
    using pos assms(2,5) by (intro offered_gate [OF _ _ _ _ _ offered low ok(1)]) linarith+
  ultimately show ?thesis using v failures pos by auto
qed

definition sustained_figures :: run_figures where
  "sustained_figures = \<lparr>rf_successful = 30000, rf_received = 30000, rf_processed = 29990, rf_elapsed = Fin 30\<rparr>"

lemma sustained_column:
  "sustainable_column (VDict []) (VDict [(''requested_rate_pps'', VInt 1000)]) (VDict [(''failed_sends'', VInt 0)])
     sustained_figures = Inr (VBool True)"
  by code_simp

theorem sustainable_run_meaning_witness:
  "1000000 * (rf_successful sustained_figures - rf_processed sustained_figures) \<le> 1001 * rf_successful sustained_figures"
  using sustainable_run_meaning [OF sustained_column, of 1000] by (simp add: sustained_figures_def int_at_VDict)

end
