(* ===== verification/Run_Metadata.thy ===== *)
theory Run_Metadata
  imports Run_Checks Planning Commands Counters
begin

text \<open>
  The part of \<^verbatim>\<open>execute_run\<close> (\<^verbatim>\<open>main.py\<close>) that only computes: the settings a run reads from the
  configuration, the names of its artifacts on the nodes and in the session directory, the two
  commands with the profiling wrapper, and the metadata document built from what was observed.
\<close>

section \<open>The settings of a run\<close>

record run_context =
  rc_global :: pyval
  rc_runtime :: "pyval dict"
  rc_receiver :: pyval
  rc_sender :: pyval
  rc_benchmark :: pyval
  rc_receiver_root :: string
  rc_sender_root :: string
  rc_sender_runtime :: "pyval dict"

fun as_dict :: "pyval \<Rightarrow> pyval dict res" where
  "as_dict (VDict d) = Inr d"
| "as_dict v = Inl (Exn TypeError (repr_str (type_name v) @ '' object is not a mapping''))"

definition run_context_of :: "pyval \<Rightarrow> run_tuple \<Rightarrow> run_context res" where
  "run_context_of config item =
     rbind (py_index config ''global'') (\<lambda>g.
     rbind (rbind (py_index g ''runtime'') as_dict) (\<lambda>runtime.
     rbind (py_index g ''nodes'') (\<lambda>nodes.
     rbind (rbind (py_index config ''benchmarks'') (\<lambda>bs. py_nth bs (benchmark_index item))) (\<lambda>benchmark.
     rbind (py_index nodes ''receiver'') (\<lambda>receiver.
     rbind (node_project_root g receiver) (\<lambda>receiver_root.
     rbind (py_index nodes ''sender'') (\<lambda>sender.
     rbind (node_project_root g sender) (\<lambda>sender_root.
     rbind (node_runtime runtime sender) (\<lambda>sender_runtime.
     Inr \<lparr>rc_global = g, rc_runtime = runtime, rc_receiver = receiver, rc_sender = sender,
          rc_benchmark = benchmark, rc_receiver_root = receiver_root, rc_sender_root = sender_root,
          rc_sender_runtime = sender_runtime\<rparr>)))))))))"

definition sender_setting :: "run_context \<Rightarrow> string \<Rightarrow> pyval res" where
  "sender_setting c k = rbind (py_index (rc_benchmark c) ''sender'') (\<lambda>s. py_index s k)"

definition sender_setting_or :: "run_context \<Rightarrow> string \<Rightarrow> pyval \<Rightarrow> pyval res" where
  "sender_setting_or c k dflt = rbind (py_index (rc_benchmark c) ''sender'') (\<lambda>s. py_get_or s k dflt)"

definition receiver_setting_or :: "run_context \<Rightarrow> string \<Rightarrow> pyval \<Rightarrow> pyval res" where
  "receiver_setting_or c k dflt = rbind (py_index (rc_benchmark c) ''receiver'') (\<lambda>s. py_get_or s k dflt)"

definition runtime_float :: "run_context \<Rightarrow> string \<Rightarrow> flt res" where
  "runtime_float c k = float_at (VDict (rc_runtime c)) k"

section \<open>Artifacts\<close>

text \<open>
  \<open>ra_dir\<close> is the benchmark's directory in the session, \<open>ra_base\<close> the common start of the names on the
  nodes, \<open>ra_profile\<close> the value of the benchmark's \<^verbatim>\<open>profile\<close> key.
\<close>

record artifact_names =
  ra_id :: string
  ra_dir :: pure_path
  ra_base :: string
  ra_pacing :: bool
  ra_profile :: pyval

definition run_artifacts_of :: "string \<Rightarrow> pure_path \<Rightarrow> run_tuple \<Rightarrow> run_context \<Rightarrow> artifact_names res" where
  "run_artifacts_of session_id dir item c =
     rbind (sender_setting_or c ''pacing_trace'' (VBool False)) (\<lambda>pacing.
     rbind (py_get_none (rc_benchmark c) ''profile'') (\<lambda>profile.
     rbind (hash_ok profile) (\<lambda>_.
     Inr \<lparr>ra_id = run_id item, ra_dir = dir, ra_base = ''/tmp/nll_'' @ session_id @ ''_'' @ run_id item,
          ra_pacing = truthy pacing, ra_profile = profile\<rparr>)))"

definition remote_trace :: "artifact_names \<Rightarrow> string" where
  "remote_trace a = ra_base a @ ''.bin''"

definition remote_rx_stats :: "artifact_names \<Rightarrow> string" where
  "remote_rx_stats a = ra_base a @ ''_rx.json''"

definition remote_tx_stats :: "artifact_names \<Rightarrow> string" where
  "remote_tx_stats a = ra_base a @ ''_tx.json''"

definition remote_pacing_trace :: "artifact_names \<Rightarrow> string option" where
  "remote_pacing_trace a = (if ra_pacing a then Some (ra_base a @ ''_pacing.csv'') else None)"

definition receiver_log :: "artifact_names \<Rightarrow> string" where
  "receiver_log a = ra_base a @ ''_receiver.log''"

definition sender_log :: "artifact_names \<Rightarrow> string" where
  "sender_log a = ra_base a @ ''_sender.log''"

definition stat_profile :: "artifact_names \<Rightarrow> bool" where
  "stat_profile a = (ra_profile a = VStr ''stat'')"

definition record_profile :: "artifact_names \<Rightarrow> bool" where
  "record_profile a = (ra_profile a = VStr ''record'')"

definition profiled :: "artifact_names \<Rightarrow> bool" where
  "profiled a = (stat_profile a \<or> record_profile a)"

definition remote_profile :: "artifact_names \<Rightarrow> string" where
  "remote_profile a = ra_base a @ (if stat_profile a then ''_perf_stat.csv'' else ''_perf.data'')"

definition receiver_artifacts :: "artifact_names \<Rightarrow> string list" where
  "receiver_artifacts a =
     [remote_trace a, remote_rx_stats a, receiver_log a, receiver_log a @ ''.status'', receiver_log a @ ''.pid''] @
     (if profiled a then [remote_profile a, receiver_log a @ ''.workload.pid''] else [])"

definition sender_artifacts :: "artifact_names \<Rightarrow> string list" where
  "sender_artifacts a =
     [remote_tx_stats a, sender_log a, sender_log a @ ''.status'', sender_log a @ ''.pid''] @
     (case remote_pacing_trace a of Some p \<Rightarrow> [p] | None \<Rightarrow> [])"

definition local_file :: "artifact_names \<Rightarrow> string \<Rightarrow> pure_path" where
  "local_file a suffix = path_div (ra_dir a) (ra_id a @ suffix)"

section \<open>Commands\<close>

definition workload_commands :: "run_context \<Rightarrow> artifact_names \<Rightarrow> run_tuple \<Rightarrow> (string list \<times> string list) res" where
  "workload_commands c a item =
     rbind (receiver_command (rc_receiver_root c) (rc_benchmark c) (VDict (rc_runtime c)) (remote_trace a)
              (remote_rx_stats a) (batch item)) (\<lambda>rx.
     rbind (benchmark_ip (rc_receiver c)) (\<lambda>ip.
     rbind (sender_command (rc_sender_root c) ip (rc_benchmark c) (VDict (rc_sender_runtime c))
              (remote_tx_stats a) (rate item) (burst item) (remote_pacing_trace a)) (\<lambda>tx.
     Inr (rx, tx))))"

definition DEFAULT_PERF_EVENTS :: "string list" where
  "DEFAULT_PERF_EVENTS =
     [''task-clock'', ''cycles'', ''instructions'', ''branches'', ''branch-misses'', ''cache-references'',
      ''cache-misses'', ''context-switches'', ''cpu-migrations'', ''page-faults'',
      ''syscalls:sys_enter_recvfrom'', ''syscalls:sys_enter_recvmmsg'']"

definition perf_events :: "run_context \<Rightarrow> pyval list res" where
  "perf_events c =
     rbind (py_get_or (rc_benchmark c) ''perf_events'' (VList (map VStr DEFAULT_PERF_EVENTS))) py_iter"

definition event_name :: "pyval \<Rightarrow> string res" where
  "event_name v = (case v of VStr s \<Rightarrow> Inr s | _ \<Rightarrow> Inl (no_attribute v ''startswith''))"

text \<open>\<^verbatim>\<open>for event in list(events)\<close>: a tracepoint the node does not list is taken out.\<close>

fun supported_events :: "string \<Rightarrow> string list \<Rightarrow> string list \<times> string list \<Rightarrow> string list \<times> string list" where
  "supported_events perf_list [] (events, unavailable) = (events, unavailable)"
| "supported_events perf_list (e # es) (events, unavailable) =
     (if startswith e ''syscalls:'' \<and> \<not> contains perf_list (drop 9 e)
      then supported_events perf_list es (remove1 e events, unavailable @ [e])
      else supported_events perf_list es (events, unavailable))"

definition stat_command :: "artifact_names \<Rightarrow> string list \<Rightarrow> string list \<Rightarrow> string list" where
  "stat_command a events rx =
     [''perf'', ''stat'', ''-x,'', ''-o'', remote_profile a, ''-e'', join '','' events, ''--''] @ rx"

definition record_command :: "artifact_names \<Rightarrow> string list \<Rightarrow> string list" where
  "record_command a rx =
     [''perf'', ''record'', ''-o'', remote_profile a, ''-F'', ''99'', ''-g'', ''--call-graph'', ''fp'', ''--''] @ rx"

definition is_receiver_binary :: "string \<Rightarrow> bool" where
  "is_receiver_binary part = (path_name (path_of part) \<in> set RECEIVER_BINARIES)"

fun first_index :: "('a \<Rightarrow> bool) \<Rightarrow> 'a list \<Rightarrow> int \<Rightarrow> int res" where
  "first_index p [] i = Inl (Exn StopIteration [])"
| "first_index p (x # xs) i = (if p x then Inr i else first_index p xs (i + 1))"

definition workload_index :: "artifact_names \<Rightarrow> string list \<Rightarrow> int option res" where
  "workload_index a rx =
     (if profiled a then rbind (first_index is_receiver_binary rx 0) (\<lambda>i. Inr (Some i)) else Inr None)"

section \<open>The metadata document\<close>

text \<open>What the measuring part of a run observed.\<close>

record run_observation =
  ob_receiver_pid :: int
  ob_wrapper_pid :: "int option"
  ob_sender_pid :: int
  ob_silence :: flt
  ob_before :: pyval
  ob_after :: pyval
  ob_sender_before :: pyval
  ob_sender_after :: pyval
  ob_counters :: "delta dict"
  ob_sender_counters :: "delta dict"

definition int_value :: "int option \<Rightarrow> pyval" where
  "int_value x = (case x of Some n \<Rightarrow> VInt n | None \<Rightarrow> VNone)"

definition text_value :: "string option \<Rightarrow> pyval" where
  "text_value x = (case x of Some s \<Rightarrow> VStr s | None \<Rightarrow> VNone)"

definition strings :: "string list \<Rightarrow> pyval" where
  "strings xs = VList (map VStr xs)"

definition delta_document :: "delta \<Rightarrow> pyval" where
  "delta_document d = VDict
     [(''before'', int_value (delta_before d)), (''after'', int_value (delta_after d)),
      (''delta'', int_value (delta_value d)), (''error'', text_value (delta_error d))]"

definition counters_document :: "delta dict \<Rightarrow> pyval" where
  "counters_document ds = VDict (map (\<lambda>(k, d). (k, delta_document d)) ds)"

definition run_document :: "run_context \<Rightarrow> artifact_names \<Rightarrow> run_tuple \<Rightarrow> pyval \<Rightarrow> pyval dict res" where
  "run_document c a item receiver_stats =
     rbind (py_get_or (rc_benchmark c) ''contributes_to_claim_measurements''
              (VBool (campaign item \<notin> {''pilot'', ''profile''}))) (\<lambda>contributes.
     rbind (py_index receiver_stats ''variant'') (\<lambda>variant.
     rbind (sender_setting c ''duration_seconds'') (\<lambda>duration.
     rbind (sender_setting c ''payload_size'') (\<lambda>payload.
     rbind (sender_setting c ''mode'') (\<lambda>mode.
     rbind (sender_setting_or c ''send_batch_max'' (VInt 1)) (\<lambda>batch_max.
     rbind (sender_setting_or c ''batch_window_us'' (VInt 10)) (\<lambda>window_us.
     rbind (sender_setting_or c ''threads'' (VInt 1)) (\<lambda>threads.
     rbind (sender_setting_or c ''cpus'' VNone) (\<lambda>cpus.
     rbind (receiver_setting_or c ''work_ns'' (VInt 0)) (\<lambda>work.
     rbind (receiver_setting_or c ''sample_every'' (VInt 1)) (\<lambda>sample_every.
     Inr
       [(''campaign'', VStr (campaign item)), (''contributes_to_claim_measurements'', contributes),
        (''receiver_variant'', variant), (''requested_rate_pps'', rate item), (''duration_seconds'', duration),
        (''payload_size'', payload), (''mode'', mode), (''burst_size'', burst item),
        (''send_batch_max'', batch_max), (''batch_window_us'', window_us), (''sender_threads'', threads),
        (''sender_cpus'', cpus), (''pacing_trace_enabled'', VBool (ra_pacing a)), (''batch_size'', batch item),
        (''work_ns'', work), (''sample_every'', sample_every),
        (''post_sender_drain_seconds'', dget_or (rc_runtime c) ''post_sender_drain_seconds'' (VFloat (Fin 1)))])))))))))))"

definition process_document :: "run_observation \<Rightarrow> string list \<Rightarrow> string list \<Rightarrow> pyval dict" where
  "process_document ob rx tx =
     [(''receiver_pid'', VInt (ob_receiver_pid ob)), (''sender_pid'', VInt (ob_sender_pid ob)),
      (''receiver_command'', strings rx), (''sender_command'', strings tx),
      (''control_plane_silent_seconds'', VFloat (ob_silence ob))] @
     (case ob_wrapper_pid ob of Some p \<Rightarrow> [(''profile_wrapper_pid'', VInt p)] | None \<Rightarrow> [])"

definition per_second :: "int \<Rightarrow> flt \<Rightarrow> pyval res" where
  "per_second n elapsed =
     (if flt_lt (Fin 0) elapsed
      then rbind (flt_of_int n) (\<lambda>m. rbind (flt_div m elapsed) (\<lambda>q. Inr (VFloat q)))
      else Inr (VFloat (Fin 0)))"

definition lost_percent :: "int \<Rightarrow> int \<Rightarrow> pyval res" where
  "lost_percent loss successful =
     (if successful \<noteq> 0
      then rbind (int_mul_flt loss (Fin 100)) (\<lambda>x. rbind (flt_of_int successful) (\<lambda>s.
           rbind (flt_div x s) (\<lambda>q. Inr (VFloat q))))
      else Inr (VFloat (Fin 0)))"

definition accounting_document :: "pyval \<Rightarrow> int \<Rightarrow> int \<Rightarrow> int \<Rightarrow> flt \<Rightarrow> pyval dict res" where
  "accounting_document requested successful received processed elapsed =
     rbind (per_second successful elapsed) (\<lambda>offered_pps.
     rbind (per_second received elapsed) (\<lambda>received_pps.
     rbind (per_second processed elapsed) (\<lambda>processed_pps.
     rbind (lost_percent (successful - received) successful) (\<lambda>ingress_pct.
     rbind (lost_percent (successful - processed) successful) (\<lambda>application_pct.
     Inr
       [(''requested_rate_pps'', requested), (''offered_pps'', offered_pps), (''received_pps'', received_pps),
        (''processed_pps'', processed_pps), (''ingress_loss'', VInt (successful - received)),
        (''application_loss'', VInt (successful - processed)), (''ingress_loss_pct'', ingress_pct),
        (''application_loss_pct'', application_pct)])))))"

definition state_document :: "pyval \<Rightarrow> pyval \<Rightarrow> pyval" where
  "state_document before after = VDict [(''before'', before), (''after'', after)]"

definition verdict_document :: "string \<Rightarrow> string list \<Rightarrow> pyval" where
  "verdict_document verdict reasons = VDict [(verdict, VBool (reasons = [])), (''reasons'', strings reasons)]"

definition metadata_document ::
  "string \<Rightarrow> run_context \<Rightarrow> artifact_names \<Rightarrow> run_tuple \<Rightarrow> string list \<Rightarrow> string list \<Rightarrow> pyval \<Rightarrow>
   run_observation \<Rightarrow> pyval \<Rightarrow> pyval \<Rightarrow> pyval dict res" where
  "metadata_document session_id c a item rx tx environment ob sender_stats receiver_stats =
     rbind (int_at sender_stats ''successful_sends'') (\<lambda>successful.
     rbind (int_at receiver_stats ''unique_valid_packets'') (\<lambda>received.
     rbind (int_at receiver_stats ''unique_processed_packets'') (\<lambda>processed.
     rbind (float_at sender_stats ''elapsed_seconds'') (\<lambda>elapsed.
     rbind (rbind (py_index (rc_global c) ''topology'') raw_argument) (\<lambda>topology.
     rbind (validity_reasons sender_stats receiver_stats (counters_document (ob_counters ob)) (ob_before ob)
              (ob_after ob) topology (ob_sender_before ob) (ob_sender_after ob)) (\<lambda>reasons.
     rbind (run_document c a item receiver_stats) (\<lambda>run.
     rbind (accounting_document (rate item) successful received processed elapsed) (\<lambda>accounting.
     rbind (py_index (rc_global c) ''tuning_state'') (\<lambda>tuning.
     Inr
       [(''schema_version'', VInt 2), (''session_id'', VStr session_id), (''run_id'', VStr (ra_id a)),
        (''repetition_id'', VInt (repetition item)), (''topology'', VStr topology), (''run'', VDict run),
        (''processes'', VDict (process_document ob rx tx)), (''sender_stats'', sender_stats),
        (''receiver_stats'', receiver_stats), (''packet_accounting'', VDict accounting),
        (''counters'', counters_document (ob_counters ob)),
        (''sender_counters'', counters_document (ob_sender_counters ob)),
        (''run_environment'', VDict
           [(''receiver'', state_document (ob_before ob) (ob_after ob)),
            (''sender'', state_document (ob_sender_before ob) (ob_sender_after ob))]),
        (''validity'', verdict_document ''valid'' reasons), (''configured_tuning_state'', tuning),
        (''environment'', environment)])))))))))"

text \<open>The entries some runs add.\<close>

definition int_operand :: "pyval \<Rightarrow> int res" where
  "int_operand v =
     (if is_int v then Inr (as_int v)
      else Inl (Exn TypeError (''unsupported operand type: '' @ repr_str (type_name v))))"

definition pacing_entry :: "run_context \<Rightarrow> artifact_names \<Rightarrow> run_tuple \<Rightarrow> pyval \<Rightarrow> string \<Rightarrow> pyval res" where
  "pacing_entry c a item sender_stats text =
     rbind (sender_setting_or c ''batch_window_us'' (VInt 10)) (\<lambda>w. rbind (py_int w) (\<lambda>window_us.
     rbind (int_operand (rate item)) (\<lambda>r.
     rbind (analyze_pacing_trace (path_str (local_file a ''_pacing.csv'')) text sender_stats r window_us) (\<lambda>report.
     rbind (as_dict (pacing_value report)) (\<lambda>d.
     Inr (VDict (dset ''artifact'' (VStr (path_name (local_file a ''_pacing.csv''))) d)))))))"

definition add_pacing ::
  "run_context \<Rightarrow> artifact_names \<Rightarrow> run_tuple \<Rightarrow> pyval \<Rightarrow> string option \<Rightarrow> pyval dict \<Rightarrow> pyval dict res" where
  "add_pacing c a item sender_stats trace metadata =
     (case trace of
        None \<Rightarrow> Inr metadata
      | Some text \<Rightarrow> rbind (pacing_entry c a item sender_stats text) (\<lambda>p. Inr (dset ''pacing'' p metadata)))"

definition add_qualification :: "run_tuple \<Rightarrow> pyval dict \<Rightarrow> pyval dict res" where
  "add_qualification item metadata =
     (if campaign item = QUALIFICATION
      then rbind (qualification_reasons (VDict metadata)) (\<lambda>failures.
           Inr (dset ''qualification'' (verdict_document ''passed'' failures) metadata))
      else Inr metadata)"

definition stat_entry :: "artifact_names \<Rightarrow> string list \<Rightarrow> pyval" where
  "stat_entry a unavailable = VDict
     [(''mode'', VStr ''stat''), (''artifact'', VStr (path_name (local_file a ''_perf_stat.csv''))),
      (''unavailable_events'', strings unavailable), (''contributes_to_claim_measurements'', VBool False)]"

definition record_entry :: "artifact_names \<Rightarrow> pyval" where
  "record_entry a = VDict
     [(''mode'', VStr ''record''), (''report'', VStr (path_name (local_file a ''_perf_report.txt''))),
      (''perf_data'', VStr (path_name (local_file a ''.perf.data''))), (''contributes_to_claim_measurements'', VBool False)]"

lemma raw_argument_Inr: "raw_argument v = Inr s \<longleftrightarrow> v = VStr s"
  by (cases v) (auto simp: raw_argument_def)

lemma run_artifacts_of_Inr:
  "run_artifacts_of session_id dir item c = Inr a \<Longrightarrow> ra_id a = run_id item \<and> ra_dir a = dir"
  by (auto simp: run_artifacts_of_def rbind_Inr_iff)

end
