(* ===== verification/Run_Execution.thy ===== *)
theory Run_Execution
  imports Run_Metadata Shutdown
begin

text \<open>
  \<^verbatim>\<open>execute_run\<close> of \<^verbatim>\<open>main.py\<close>: one benchmark run over two controllers and the orchestrator's own
  file system and clock, with its cleanup. Every operation on a node or on the host is an action of
  its own that may raise; the three local variables the cleanup looks at are part of the state.
  Timeouts are finite (the model raises \<^verbatim>\<open>OverflowError\<close> for an infinite one); what \<^verbatim>\<open>progress\<close> prints
  is left out.
\<close>

section \<open>Nodes and the host\<close>

text \<open>The operations of \<^verbatim>\<open>NodeController\<close> beside the ones \<open>node_ops\<close> has.\<close>

record 'w controller =
  ctl_ops :: "'w node_ops"
  ctl_run :: "string list \<Rightarrow> rat \<Rightarrow> ('w, string) act"
  ctl_start :: "string list \<Rightarrow> string \<Rightarrow> int option \<Rightarrow> ('w, process_handle) act"
  ctl_fetch :: "string \<Rightarrow> pure_path \<Rightarrow> ('w, unit) act"
  ctl_remove :: "string list \<Rightarrow> ('w, unit) act"
  ctl_close :: "('w, unit) act"

text \<open>
  What the orchestrator does on its own machine: sleeping, directories, the size of a regular file
  (none when the path is not one), reading a file as text or as JSON, writing text or a JSON document.
\<close>

record 'w host =
  host_sleep :: "rat \<Rightarrow> ('w, unit) act"
  host_mkdir :: "pure_path \<Rightarrow> ('w, unit) act"
  host_size :: "pure_path \<Rightarrow> ('w, nat option) act"
  host_text :: "pure_path \<Rightarrow> ('w, string) act"
  host_json :: "pure_path \<Rightarrow> ('w, pyval) act"
  host_write_text :: "pure_path \<Rightarrow> string \<Rightarrow> ('w, unit) act"
  host_write_json :: "pure_path \<Rightarrow> pyval \<Rightarrow> ('w, unit) act"

text \<open>The two nodes and the host of a run.\<close>

record 'w lab =
  rx_node :: "'w controller"
  tx_node :: "'w controller"
  host_ops :: "'w host"

section \<open>The state of a run\<close>

record 'w running =
  outer :: 'w
  active_receiver :: "process_handle option"
  active_sender :: "process_handle option"
  cleanup_eligible :: bool

definition outside :: "('w, 'a) act \<Rightarrow> ('w running, 'a) act" where
  "outside m s = (case m (outer s) of (r, w) \<Rightarrow> (r, s\<lparr>outer := w\<rparr>))"

definition aupdate :: "('w \<Rightarrow> 'w) \<Rightarrow> ('w, unit) act" where
  "aupdate f w = (Inr (), f w)"

definition require_that :: "bool \<Rightarrow> exn \<Rightarrow> ('w, unit) act" where
  "require_that b e = alift (require b e)"

section \<open>Probes\<close>

text \<open>\<^verbatim>\<open>probe\<close>: every failure of the command becomes an error text.\<close>

definition probe_document :: "string res \<Rightarrow> pyval" where
  "probe_document r = (case r of
     Inr v \<Rightarrow> VDict [(''value'', VStr v), (''error'', VNone)]
   | Inl e \<Rightarrow> VDict [(''value'', VNone), (''error'', VStr (exc_text e))])"

definition node_probe :: "'w controller \<Rightarrow> string list res \<Rightarrow> ('w, pyval) act" where
  "node_probe node cmd w =
     (case cmd of
        Inl e \<Rightarrow> (Inr (probe_document (Inl e)), w)
      | Inr args \<Rightarrow> (case ctl_run node args 30 w of (r, w') \<Rightarrow> (Inr (probe_document r), w')))"

definition THERMAL_SCRIPT :: string where
  "THERMAL_SCRIPT = ''vcgencmd measure_temp 2>/dev/null || cat /sys/class/thermal/thermal_zone0/temp''"

definition THROTTLED_SCRIPT :: string where
  "THROTTLED_SCRIPT = ''vcgencmd get_throttled 2>/dev/null || echo unavailable''"

definition CLOCK_SCRIPT :: string where
  "CLOCK_SCRIPT =
     ''for f in /sys/devices/system/cpu/cpu*/cpufreq/scaling_cur_freq; do test -r '' @ [CHR 0x22] @ ''$f'' @ [CHR 0x22] @
     '' && printf '' @ [CHR 0x27] @ ''%s='' @ [CHR 0x27, blank, CHR 0x22] @ ''$f'' @ [CHR 0x22] @ '' && cat '' @
     [CHR 0x22] @ ''$f'' @ [CHR 0x22] @ ''; done''"

definition state_commands :: "pyval \<Rightarrow> (string \<times> string list res) list" where
  "state_commands interface =
     [(''thermal'', Inr [''sh'', ''-c'', THERMAL_SCRIPT]), (''throttled'', Inr [''sh'', ''-c'', THROTTLED_SCRIPT]),
      (''link'', rbind (raw_argument interface) (\<lambda>i. Inr [''ethtool'', i])),
      (''offloads'', rbind (raw_argument interface) (\<lambda>i. Inr [''ethtool'', ''-k'', i])),
      (''pause'', rbind (raw_argument interface) (\<lambda>i. Inr [''ethtool'', ''-a'', i])),
      (''clock_state'', Inr [''sh'', ''-c'', CLOCK_SCRIPT])]"

fun probe_all :: "'w controller \<Rightarrow> (string \<times> string list res) list \<Rightarrow> ('w, pyval dict) act" where
  "probe_all node [] = areturn []"
| "probe_all node ((name, cmd) # rest) =
     abind (node_probe node cmd) (\<lambda>v. abind (probe_all node rest) (\<lambda>vs. areturn ((name, v) # vs)))"

definition run_state :: "'w controller \<Rightarrow> pyval \<Rightarrow> ('w, pyval) act" where
  "run_state node interface = abind (probe_all node (state_commands interface)) (\<lambda>d. areturn (VDict d))"

text \<open>The counters are read by one command; its result goes through \<open>snapshot_counters\<close>.\<close>

definition node_snapshot :: "'w controller \<Rightarrow> pyval \<Rightarrow> ('w, int sample dict) act" where
  "node_snapshot node interface w =
     (case ctl_run node [''sh'', ''-c'', snapshot_script (py_str interface)] 30 w of
        (r, w') \<Rightarrow> (snapshot_counters (\<lambda>_. r) (py_str interface), w'))"

section \<open>Files of the host\<close>

definition require_nonempty_file :: "'w host \<Rightarrow> pure_path \<Rightarrow> string \<Rightarrow> ('w, unit) act" where
  "require_nonempty_file host path description =
     abind (host_size host path) (\<lambda>size.
     require_that (size \<noteq> None \<and> size \<noteq> Some 0)
       (Exn RuntimeError (description @ '' is missing or empty: '' @ path_str path)))"

definition safe_read_json :: "'w host \<Rightarrow> pure_path \<Rightarrow> ('w, pyval) act" where
  "safe_read_json host path =
     abind (host_json host path) (\<lambda>v.
     abind (require_that (is_dict v) (ve (''Expected JSON object in '' @ path_str path))) (\<lambda>_. areturn v))"

text \<open>\<^verbatim>\<open>time.sleep(x)\<close> and a timeout taken from the configuration.\<close>

definition sleep_seconds :: "flt \<Rightarrow> rat res" where
  "sleep_seconds x = (case x of
     Fin r \<Rightarrow> if 0 \<le> r then Inr r else Inl (ve ''sleep length must be non-negative'')
   | NaN \<Rightarrow> Inl (ve ''Invalid value NaN (not a number)'')
   | PInf \<Rightarrow> Inl (Exn OverflowError ''timestamp too large to convert to C PyTime_t'')
   | NInf \<Rightarrow> Inl (Exn OverflowError ''timestamp too large to convert to C PyTime_t''))"

definition finite_seconds :: "flt \<Rightarrow> rat res" where
  "finite_seconds x = (case x of Fin r \<Rightarrow> Inr r | _ \<Rightarrow> Inl (Exn OverflowError ''timeout is not finite''))"

definition shutdown_timeout :: "run_context \<Rightarrow> rat res" where
  "shutdown_timeout c = rbind (runtime_float c ''shutdown_timeout_seconds'') finite_seconds"

text \<open>How long the control plane stays silent while the sender runs.\<close>

definition silence_of :: "pyval \<Rightarrow> pyval dict \<Rightarrow> flt res" where
  "silence_of benchmark runtime =
     rbind (rbind (py_index benchmark ''sender'') (\<lambda>s. float_at s ''duration_seconds'')) (\<lambda>duration.
     rbind (py_float (dget_or runtime ''post_sender_drain_seconds'' (VFloat (Fin 1)))) (\<lambda>drain.
     Inr (flt_add duration drain)))"

definition silence_seconds :: "run_context \<Rightarrow> flt res" where
  "silence_seconds c = silence_of (rc_benchmark c) (rc_runtime c)"

section \<open>The stages of a run\<close>

definition runtime_error :: "string \<Rightarrow> exn" where
  "runtime_error text = Exn RuntimeError text"

definition set_receiver :: "process_handle option \<Rightarrow> ('w running, unit) act" where
  "set_receiver h = aupdate (active_receiver_update (\<lambda>_. h))"

definition set_sender :: "process_handle option \<Rightarrow> ('w running, unit) act" where
  "set_sender h = aupdate (active_sender_update (\<lambda>_. h))"

definition start_receiver ::
  "'w lab \<Rightarrow> run_context \<Rightarrow> artifact_names \<Rightarrow> string list \<Rightarrow> ('w running, process_handle) act" where
  "start_receiver L c a rx =
     abind (alift (workload_index a rx)) (\<lambda>index.
     abind (outside (ctl_start (rx_node L) rx (receiver_log a) index)) (\<lambda>h.
     abind (set_receiver (Some h)) (\<lambda>_.
     abind (alift (rbind (runtime_float c ''receiver_startup_seconds'') sleep_seconds)) (\<lambda>t.
     abind (outside (host_sleep (host_ops L) t)) (\<lambda>_.
     abind (outside (process_exists (ctl_ops (rx_node L)) (shutdown_target_pid h))) (\<lambda>up.
     abind (require_that up (runtime_error (''Receiver exited during startup: PID '' @ str_int (shutdown_target_pid h))))
       (\<lambda>_. areturn h)))))))"

text \<open>
  The slow state probes are outside the fast counter reads, on both sides of the timed interval.
\<close>

record readings =
  rd_state :: pyval
  rd_sender_state :: pyval
  rd_counters :: "int sample dict"
  rd_sender_counters :: "int sample dict"

definition read_before :: "'w lab \<Rightarrow> pyval \<Rightarrow> pyval \<Rightarrow> ('w, readings) act" where
  "read_before L interface sender_interface =
     abind (run_state (rx_node L) interface) (\<lambda>state.
     abind (run_state (tx_node L) sender_interface) (\<lambda>sender_state.
     abind (node_snapshot (rx_node L) interface) (\<lambda>counters.
     abind (node_snapshot (tx_node L) sender_interface) (\<lambda>sender_counters.
     areturn \<lparr>rd_state = state, rd_sender_state = sender_state, rd_counters = counters,
              rd_sender_counters = sender_counters\<rparr>))))"

definition read_after :: "'w lab \<Rightarrow> pyval \<Rightarrow> pyval \<Rightarrow> ('w, readings) act" where
  "read_after L interface sender_interface =
     abind (node_snapshot (rx_node L) interface) (\<lambda>counters.
     abind (node_snapshot (tx_node L) sender_interface) (\<lambda>sender_counters.
     abind (run_state (rx_node L) interface) (\<lambda>state.
     abind (run_state (tx_node L) sender_interface) (\<lambda>sender_state.
     areturn \<lparr>rd_state = state, rd_sender_state = sender_state, rd_counters = counters,
              rd_sender_counters = sender_counters\<rparr>))))"

definition timed_interval ::
  "'w lab \<Rightarrow> run_context \<Rightarrow> artifact_names \<Rightarrow> string list \<Rightarrow> ('w running, flt \<times> process_handle) act" where
  "timed_interval L c a tx =
     abind (outside (ctl_start (tx_node L) tx (sender_log a) None)) (\<lambda>h.
     abind (set_sender (Some h)) (\<lambda>_.
     abind (alift (silence_seconds c)) (\<lambda>silence.
     abind (alift (sleep_seconds silence)) (\<lambda>t.
     abind (outside (host_sleep (host_ops L) t)) (\<lambda>_.
     abind (alift (shutdown_timeout c)) (\<lambda>limit.
     abind (outside (wait_process (ctl_ops (tx_node L)) h limit)) (\<lambda>status.
     abind (set_sender None) (\<lambda>_.
     abind (require_that (status = 0)
       (runtime_error (''Sender failed with status '' @ str_int status @ '': PID '' @ str_int (pid h))))
       (\<lambda>_. areturn (silence, h))))))))))"

definition wrapper_note :: "process_handle \<Rightarrow> string" where
  "wrapper_note h =
     (if workload_pid h = None then [] else '' (profile wrapper PID '' @ str_int (wrapper_pid h) @ '')'')"

definition require_gone :: "'w controller \<Rightarrow> process_handle \<Rightarrow> ('w, unit) act" where
  "require_gone node h = (case workload_pid h of
     None \<Rightarrow> areturn ()
   | Some p \<Rightarrow> abind (process_exists (ctl_ops node) p) (\<lambda>up.
       require_that (\<not> up) (runtime_error (''Profiled receiver PID '' @ str_int p @ '' survived wrapper exit''))))"

definition stop_receiver :: "'w lab \<Rightarrow> run_context \<Rightarrow> process_handle \<Rightarrow> ('w running, unit) act" where
  "stop_receiver L c h =
     abind (alift (shutdown_timeout c)) (\<lambda>limit.
     abind (outside (shutdown_process (ctl_ops (rx_node L)) h limit)) (\<lambda>status.
     abind (set_receiver None) (\<lambda>_.
     abind (require_that (status = 0)
       (runtime_error (''Receiver failed with status '' @ str_int status @ '': PID '' @
          str_int (shutdown_target_pid h) @ wrapper_note h))) (\<lambda>_.
     outside (require_gone (rx_node L) h)))))"

section \<open>Collecting the results\<close>

definition fetch_pacing :: "'w lab \<Rightarrow> artifact_names \<Rightarrow> ('w, unit) act" where
  "fetch_pacing L a = (case remote_pacing_trace a of
     None \<Rightarrow> areturn ()
   | Some remote \<Rightarrow>
       abind (ctl_fetch (tx_node L) remote (local_file a ''_pacing.csv'')) (\<lambda>_.
       require_nonempty_file (host_ops L) (local_file a ''_pacing.csv'') ''sender pacing trace''))"

definition fetch_results :: "'w lab \<Rightarrow> artifact_names \<Rightarrow> ('w, pyval \<times> pyval) act" where
  "fetch_results L a =
     (let rx_path = local_file a ''_rx_stats.json''; tx_path = local_file a ''_tx_stats.json'' in
     abind (ctl_fetch (rx_node L) (remote_trace a) (local_file a ''.bin'')) (\<lambda>_.
     abind (ctl_fetch (rx_node L) (remote_rx_stats a) rx_path) (\<lambda>_.
     abind (ctl_fetch (tx_node L) (remote_tx_stats a) tx_path) (\<lambda>_.
     abind (fetch_pacing L a) (\<lambda>_.
     abind (require_nonempty_file (host_ops L) rx_path ''receiver stats'') (\<lambda>_.
     abind (require_nonempty_file (host_ops L) tx_path ''sender stats'') (\<lambda>_.
     abind (safe_read_json (host_ops L) rx_path) (\<lambda>receiver_stats.
     abind (safe_read_json (host_ops L) tx_path) (\<lambda>sender_stats.
     areturn (sender_stats, receiver_stats))))))))))"

definition read_pacing :: "'w lab \<Rightarrow> artifact_names \<Rightarrow> ('w, string option) act" where
  "read_pacing L a =
     (if ra_pacing a
      then abind (host_text (host_ops L) (local_file a ''_pacing.csv'')) (\<lambda>t. areturn (Some t))
      else areturn None)"

definition collect_profile :: "'w lab \<Rightarrow> artifact_names \<Rightarrow> string list \<Rightarrow> pyval dict \<Rightarrow> ('w, pyval dict) act" where
  "collect_profile L a unavailable metadata =
     (if stat_profile a then
        abind (ctl_fetch (rx_node L) (remote_profile a) (local_file a ''_perf_stat.csv'')) (\<lambda>_.
        abind (require_nonempty_file (host_ops L) (local_file a ''_perf_stat.csv'') ''perf stat artifact'') (\<lambda>_.
        areturn (dset ''profile'' (stat_entry a unavailable) metadata)))
      else if record_profile a then
        abind (ctl_run (rx_node L) [''perf'', ''report'', ''--stdio'', ''-i'', remote_profile a] 120) (\<lambda>report.
        abind (require_that (strip report \<noteq> []) (runtime_error ''perf report produced empty output'')) (\<lambda>_.
        abind (host_write_text (host_ops L) (local_file a ''_perf_report.txt'') (report @ [newline])) (\<lambda>_.
        abind (ctl_fetch (rx_node L) (remote_profile a) (local_file a ''.perf.data'')) (\<lambda>_.
        abind (require_nonempty_file (host_ops L) (local_file a ''.perf.data'') ''perf record artifact'') (\<lambda>_.
        areturn (dset ''profile'' (record_entry a) metadata))))))
      else areturn metadata)"

section \<open>The run\<close>

text \<open>What is settled before any process is started.\<close>

record run_setup =
  su_context :: run_context
  su_artifacts :: artifact_names
  su_rx_command :: "string list"
  su_tx_command :: "string list"
  su_interface :: pyval
  su_unavailable :: "string list"

definition profile_command ::
  "'w lab \<Rightarrow> run_context \<Rightarrow> artifact_names \<Rightarrow> string list \<Rightarrow> ('w, string list \<times> string list) act" where
  "profile_command L c a rx =
     (if stat_profile a then
        abind (alift (perf_events c)) (\<lambda>vs.
        abind (ctl_run (rx_node L) [''perf'', ''list''] 60) (\<lambda>perf_list.
        abind (alift (rmap event_name vs)) (\<lambda>events.
        case supported_events perf_list events (events, []) of
          (kept, unavailable) \<Rightarrow> areturn (stat_command a kept rx, unavailable))))
      else areturn (if record_profile a then record_command a rx else rx, []))"

definition prepare_run ::
  "'w lab \<Rightarrow> pyval \<Rightarrow> string \<Rightarrow> pure_path \<Rightarrow> run_tuple \<Rightarrow> ('w, run_setup) act" where
  "prepare_run L config session_id session_dir item =
     abind (alift (run_context_of config item)) (\<lambda>c.
     abind (alift (raw_argument (benchmark_name item))) (\<lambda>name.
     abind (host_mkdir (host_ops L) (path_div session_dir name)) (\<lambda>_.
     abind (alift (run_artifacts_of session_id (path_div session_dir name) item c)) (\<lambda>a.
     abind (alift (workload_commands c a item)) (\<lambda>(rx, tx).
     abind (alift (py_index (rc_receiver c) ''interface'')) (\<lambda>interface.
     abind (profile_command L c a rx) (\<lambda>(rx', unavailable).
     areturn \<lparr>su_context = c, su_artifacts = a, su_rx_command = rx', su_tx_command = tx,
              su_interface = interface, su_unavailable = unavailable\<rparr>)))))))"

definition observe ::
  "process_handle \<Rightarrow> process_handle \<Rightarrow> flt \<Rightarrow> readings \<Rightarrow> readings \<Rightarrow> run_observation" where
  "observe receiver sender silence before after =
     \<lparr>ob_receiver_pid = shutdown_target_pid receiver,
      ob_wrapper_pid = (if workload_pid receiver = None then None else Some (wrapper_pid receiver)),
      ob_sender_pid = pid sender, ob_silence = silence, ob_before = rd_state before, ob_after = rd_state after,
      ob_sender_before = rd_sender_state before, ob_sender_after = rd_sender_state after,
      ob_counters = counter_deltas (rd_counters before) (rd_counters after),
      ob_sender_counters = counter_deltas (rd_sender_counters before) (rd_sender_counters after)\<rparr>"

text \<open>The processes: start the receiver, bracket the silent interval with readings, stop the receiver.\<close>

definition measure_run :: "'w lab \<Rightarrow> run_setup \<Rightarrow> ('w running, run_observation) act" where
  "measure_run L su =
     (let c = su_context su; a = su_artifacts su in
     abind (start_receiver L c a (su_rx_command su)) (\<lambda>receiver.
     abind (alift (py_get_or (rc_sender c) ''interface'' (su_interface su))) (\<lambda>sender_interface.
     abind (outside (read_before L (su_interface su) sender_interface)) (\<lambda>before.
     abind (timed_interval L c a (su_tx_command su)) (\<lambda>(silence, sender).
     abind (outside (read_after L (su_interface su) sender_interface)) (\<lambda>after.
     abind (stop_receiver L c receiver) (\<lambda>_.
     areturn (observe receiver sender silence before after))))))))"

text \<open>The document of a measured run, with the files it is built from.\<close>

definition assemble ::
  "'w lab \<Rightarrow> run_setup \<Rightarrow> string \<Rightarrow> pyval \<Rightarrow> run_tuple \<Rightarrow> run_observation \<Rightarrow> ('w, pyval dict) act" where
  "assemble L su session_id environment item ob =
     (let c = su_context su; a = su_artifacts su in
     abind (fetch_results L a) (\<lambda>(sender_stats, receiver_stats).
     abind (alift (metadata_document session_id c a item (su_rx_command su) (su_tx_command su) environment ob
                     sender_stats receiver_stats)) (\<lambda>base.
     abind (read_pacing L a) (\<lambda>trace.
     abind (alift (rbind (add_pacing c a item sender_stats trace base) (add_qualification item))) (\<lambda>judged.
     collect_profile L a (su_unavailable su) judged)))))"

definition path_relative :: "pure_path \<Rightarrow> pure_path \<Rightarrow> string res" where
  "path_relative p base =
     (let n = length (path_parts base) in
      if path_root p = path_root base \<and> take n (path_parts p) = path_parts base
      then Inr (path_str \<lparr>path_root = [], path_parts = drop n (path_parts p)\<rparr>)
      else Inl (ve (repr_str (path_str p) @ '' is not in the subpath of '' @ repr_str (path_str base))))"

record run_result =
  rr_id :: string
  rr_metadata :: string
  rr_trace :: string
  rr_document :: "pyval dict"

definition metadata_path :: "artifact_names \<Rightarrow> pure_path" where
  "metadata_path a = local_file a ''_meta.json''"

definition result_of :: "artifact_names \<Rightarrow> pure_path \<Rightarrow> pyval dict \<Rightarrow> run_result res" where
  "result_of a session_dir document =
     rbind (path_relative (metadata_path a) session_dir) (\<lambda>m.
     rbind (path_relative (local_file a ''.bin'') session_dir) (\<lambda>t.
     Inr \<lparr>rr_id = ra_id a, rr_metadata = m, rr_trace = t, rr_document = document\<rparr>))"

definition run_body ::
  "'w lab \<Rightarrow> run_setup \<Rightarrow> string \<Rightarrow> pure_path \<Rightarrow> pyval \<Rightarrow> run_tuple \<Rightarrow> ('w running, run_result) act" where
  "run_body L su session_id session_dir environment item =
     abind (measure_run L su) (\<lambda>ob.
     abind (outside (assemble L su session_id environment item ob)) (\<lambda>document.
     abind (outside (host_write_json (host_ops L) (metadata_path (su_artifacts su)) (VDict document))) (\<lambda>_.
     abind (aupdate (cleanup_eligible_update (\<lambda>_. True))) (\<lambda>_.
     alift (result_of (su_artifacts su) session_dir document)))))"

text \<open>
  The \<^verbatim>\<open>finally\<close> block: a process still active is shut down, whatever that raises; the artifacts on the
  nodes are removed only when the run has been recorded.
\<close>

definition stop_quietly :: "'w controller \<Rightarrow> run_context \<Rightarrow> process_handle option \<Rightarrow> ('w, unit) act" where
  "stop_quietly node c active = (case active of
     None \<Rightarrow> areturn ()
   | Some h \<Rightarrow>
       acatch (\<lambda>_. True)
         (abind (alift (shutdown_timeout c)) (\<lambda>limit.
          abind (shutdown_process (ctl_ops node) h limit) (\<lambda>_. areturn ())))
         (\<lambda>_. areturn ()))"

definition remove_artifacts :: "'w lab \<Rightarrow> artifact_names \<Rightarrow> ('w, unit) act" where
  "remove_artifacts L a =
     abind (ctl_remove (rx_node L) (receiver_artifacts a)) (\<lambda>_.
     ctl_remove (tx_node L) (sender_artifacts a))"

definition cleanup :: "'w lab \<Rightarrow> run_setup \<Rightarrow> ('w running, unit) act" where
  "cleanup L su =
     abind (\<lambda>s. outside (stop_quietly (tx_node L) (su_context su) (active_sender s)) s) (\<lambda>_.
     abind (\<lambda>s. outside (stop_quietly (rx_node L) (su_context su) (active_receiver s)) s) (\<lambda>_.
     (\<lambda>s. if cleanup_eligible s then outside (remove_artifacts L (su_artifacts su)) s else areturn () s)))"

definition guarded_run ::
  "'w lab \<Rightarrow> run_setup \<Rightarrow> string \<Rightarrow> pure_path \<Rightarrow> pyval \<Rightarrow> run_tuple \<Rightarrow> ('w, run_result) act" where
  "guarded_run L su session_id session_dir environment item w =
     (case afinally (run_body L su session_id session_dir environment item) (cleanup L su)
        \<lparr>outer = w, active_receiver = None, active_sender = None, cleanup_eligible = False\<rparr> of
        (r, s) \<Rightarrow> (r, outer s))"

definition execute_run ::
  "'w lab \<Rightarrow> pyval \<Rightarrow> string \<Rightarrow> pure_path \<Rightarrow> pyval \<Rightarrow> run_tuple \<Rightarrow> ('w, run_result) act" where
  "execute_run L config session_id session_dir environment item =
     abind (prepare_run L config session_id session_dir item) (\<lambda>su.
     guarded_run L su session_id session_dir environment item)"

end
