(* ===== verification/Run_Protocol.thy ===== *)
theory Run_Protocol
  imports Run_Execution
begin

text \<open>
  What one run does to its two nodes, as a protocol. The controllers and the host are observed: each
  of their operations leaves an event, whatever it is and however it ends. The protocol is a machine
  over these events; the lemmas show that every run of the model, on arbitrary controllers, follows
  it: the sender starts only under a running receiver, the control plane is silent for the whole
  timed interval, what was started is waited for or signalled, and the artifacts on the nodes are
  removed only after the record of the run has been written.
\<close>

section \<open>Observed controllers\<close>

datatype side = OnReceiver | OnSender

datatype run_event =
    Started side bool
  | Waited side bool
  | Signalled side
  | Called side
  | Removed side
  | Slept rat
  | Recorded pure_path bool
  | Local

fun succeeded :: "'a res \<Rightarrow> bool" where
  "succeeded (Inr _) = True"
| "succeeded (Inl _) = False"

definition logged :: "('a res \<Rightarrow> run_event) \<Rightarrow> ('w, 'a) act \<Rightarrow> ('w \<times> run_event list, 'a) act" where
  "logged ev m s = (case m (fst s) of (r, w) \<Rightarrow> (r, (w, snd s @ [ev r])))"

definition logged_ops :: "side \<Rightarrow> 'w node_ops \<Rightarrow> ('w \<times> run_event list) node_ops" where
  "logged_ops who ops =
     \<lparr>signal_process = \<lambda>h s. logged (\<lambda>_. Signalled who) (signal_process ops h s),
      signal_wrapper = \<lambda>h s. logged (\<lambda>_. Signalled who) (signal_wrapper ops h s),
      wait_process = \<lambda>h t. logged (\<lambda>r. Waited who (succeeded r)) (wait_process ops h t),
      wait_pid_exit = \<lambda>p t. logged (\<lambda>_. Called who) (wait_pid_exit ops p t),
      process_exists = \<lambda>p. logged (\<lambda>_. Called who) (process_exists ops p)\<rparr>"

definition logged_controller :: "side \<Rightarrow> 'w controller \<Rightarrow> ('w \<times> run_event list) controller" where
  "logged_controller who c =
     \<lparr>ctl_ops = logged_ops who (ctl_ops c),
      ctl_run = \<lambda>cmd t. logged (\<lambda>_. Called who) (ctl_run c cmd t),
      ctl_start = \<lambda>cmd log i. logged (\<lambda>r. Started who (succeeded r)) (ctl_start c cmd log i),
      ctl_fetch = \<lambda>remote path. logged (\<lambda>_. Called who) (ctl_fetch c remote path),
      ctl_remove = \<lambda>ps. logged (\<lambda>_. Removed who) (ctl_remove c ps),
      ctl_close = logged (\<lambda>_. Called who) (ctl_close c)\<rparr>"

definition logged_host :: "'w host \<Rightarrow> ('w \<times> run_event list) host" where
  "logged_host h =
     \<lparr>host_sleep = \<lambda>t. logged (\<lambda>_. Slept t) (host_sleep h t),
      host_mkdir = \<lambda>p. logged (\<lambda>_. Local) (host_mkdir h p),
      host_size = \<lambda>p. logged (\<lambda>_. Local) (host_size h p),
      host_text = \<lambda>p. logged (\<lambda>_. Local) (host_text h p),
      host_json = \<lambda>p. logged (\<lambda>_. Local) (host_json h p),
      host_write_text = \<lambda>p t. logged (\<lambda>_. Local) (host_write_text h p t),
      host_write_json = \<lambda>p v. logged (\<lambda>r. Recorded p (succeeded r)) (host_write_json h p v)\<rparr>"

definition logged_lab :: "'w lab \<Rightarrow> ('w \<times> run_event list) lab" where
  "logged_lab L =
     \<lparr>rx_node = logged_controller OnReceiver (rx_node L), tx_node = logged_controller OnSender (tx_node L),
      host_ops = logged_host (host_ops L)\<rparr>"

section \<open>The protocol\<close>

text \<open>
  The sender is off, just launched, running in the silent interval, or left over after a wait that
  failed. The receiver is up or not, the run recorded or not. No state means the protocol was broken.
\<close>

datatype sender_phase = Off | Launched | Quiet | Leftover

record run_phase =
  ph_up :: bool
  ph_sender :: sender_phase
  ph_recorded :: bool

fun sender_step :: "rat \<Rightarrow> bool \<Rightarrow> sender_phase \<Rightarrow> run_event \<Rightarrow> sender_phase option" where
  "sender_step silence up Off e =
     (if e = Started OnSender True then (if up then Some Launched else None) else Some Off)"
| "sender_step silence up Launched e = (if e = Slept silence then Some Quiet else None)"
| "sender_step silence up Quiet e =
     (if e = Waited OnSender True \<or> e = Signalled OnSender then Some Off
      else if e = Waited OnSender False then Some Leftover else None)"
| "sender_step silence up Leftover e =
     (if e = Signalled OnSender then Some Off else if e = Started OnSender True then None else Some Leftover)"

fun receiver_step :: "bool \<Rightarrow> run_event \<Rightarrow> bool option" where
  "receiver_step up (Started OnReceiver True) = (if up then None else Some True)"
| "receiver_step up (Signalled OnReceiver) = Some False"
| "receiver_step up e = Some up"

fun record_step :: "pure_path \<Rightarrow> bool \<Rightarrow> run_event \<Rightarrow> bool option" where
  "record_step path noted (Recorded p ok) = Some (noted \<or> ok \<and> p = path)"
| "record_step path noted (Removed who) = (if noted then Some True else None)"
| "record_step path noted e = Some noted"

definition protocol_step :: "rat \<Rightarrow> pure_path \<Rightarrow> run_event \<Rightarrow> run_phase \<Rightarrow> run_phase option" where
  "protocol_step silence path e p =
     (case (receiver_step (ph_up p) e, sender_step silence (ph_up p) (ph_sender p) e,
            record_step path (ph_recorded p) e) of
        (Some up, Some sender, Some recorded) \<Rightarrow>
          Some \<lparr>ph_up = up, ph_sender = sender, ph_recorded = recorded\<rparr>
      | _ \<Rightarrow> None)"

definition start_phase :: run_phase where
  "start_phase = \<lparr>ph_up = False, ph_sender = Off, ph_recorded = False\<rparr>"

definition phase_after :: "rat \<Rightarrow> pure_path \<Rightarrow> run_event list \<Rightarrow> run_phase option" where
  "phase_after silence path events =
     foldl (\<lambda>p e. Option.bind p (protocol_step silence path e)) (Some start_phase) events"

section \<open>What keeps a state\<close>

abbreviation keeps :: "('w \<Rightarrow> bool) \<Rightarrow> ('w, 'a) act \<Rightarrow> bool" where
  "keeps I m \<equiv> ensures I m (\<lambda>_. I)"

text \<open>\<open>yields S E\<close>: the state satisfies \<open>S\<close> after a normal end and \<open>E\<close> after an exception.\<close>

definition yields :: "('w \<Rightarrow> bool) \<Rightarrow> ('w \<Rightarrow> bool) \<Rightarrow> 'a res \<Rightarrow> 'w \<Rightarrow> bool" where
  "yields S E r w = (if succeeded r then S w else E w)"

named_theorems keeping \<open>state predicates an action keeps\<close>

lemma keeps_bind [keeping]: "keeps I m \<Longrightarrow> (\<And>x. keeps I (f x)) \<Longrightarrow> keeps I (abind m f)"
  by (rule ensures_bind [where R = "\<lambda>_. I"]) simp_all

lemma keeps_return [keeping]: "keeps I (areturn x)"
  by (simp add: ensures_return)

lemma keeps_lift [keeping]: "keeps I (alift r)"
  by (simp add: ensures_def act_simps)

lemma keeps_raise [keeping]: "keeps I (araise e)"
  by (simp add: ensures_raise)

lemma keeps_require [keeping]: "keeps I (require_that b e)"
  by (simp add: require_that_def keeps_lift)

lemma keeps_catch [keeping]: "keeps I m \<Longrightarrow> (\<And>e. keeps I (h e)) \<Longrightarrow> keeps I (acatch K m h)"
  by (rule ensures_catch [where R = "\<lambda>_. I"]) simp_all

lemma keeps_if [keeping]: "(b \<Longrightarrow> keeps I m) \<Longrightarrow> (\<not> b \<Longrightarrow> keeps I n) \<Longrightarrow> keeps I (if b then m else n)"
  by simp

lemma keeps_option [keeping]:
  "(v = None \<Longrightarrow> keeps I m) \<Longrightarrow> (\<And>x. v = Some x \<Longrightarrow> keeps I (f x)) \<Longrightarrow> keeps I (case v of None \<Rightarrow> m | Some x \<Rightarrow> f x)"
  by (cases v) auto

lemma keeps_prod [keeping]: "(\<And>x y. keeps I (f x y)) \<Longrightarrow> keeps I (case p of (x, y) \<Rightarrow> f x y)"
  by (cases p) auto

lemma yields_simps: "yields S E (Inr x) = S" "yields S E (Inl e) = E"
  by (simp_all add: yields_def fun_eq_iff)

lemma yields_bind:
  "ensures P m (yields R E) \<Longrightarrow> (\<And>x. ensures R (f x) (yields Q E)) \<Longrightarrow> ensures P (abind m f) (yields Q E)"
  by (erule ensures_bind) (simp_all add: yields_simps)

lemma yields_kept: "keeps P m \<Longrightarrow> (\<And>s. P s \<Longrightarrow> E s) \<Longrightarrow> ensures P m (yields P E)"
  by (erule ensures_weaken) (auto simp: yields_def)

lemma yields_prod: "(\<And>x y. ensures P (f x y) Q) \<Longrightarrow> ensures P (case p of (x, y) \<Rightarrow> f x y) Q"
  by (cases p) auto

lemma yields_return: "(\<And>s. P s \<Longrightarrow> Q s) \<Longrightarrow> ensures P (areturn x) (yields Q E)"
  by (auto simp: ensures_def yields_def act_simps)

section \<open>Composite operations\<close>

text \<open>A node operation that every operation of a controller keeps, the shutdown sequence keeps.\<close>

locale steady_node =
  fixes node :: "'w node_ops" and I :: "'w \<Rightarrow> bool"
  assumes signal_keeps: "keeps I (signal_process node h s)"
    and wrapper_keeps: "keeps I (signal_wrapper node h s)"
    and wait_keeps: "keeps I (wait_process node h t)"
    and exit_keeps: "keeps I (wait_pid_exit node p t)"
    and exists_keeps: "keeps I (process_exists node p)"
begin

lemma try_wait_keeps: "keeps I (try_wait node h t latest)"
  unfolding try_wait_def by (intro keeping wait_keeps)

lemma stages_keep: "keeps I (shutdown_stages node h esc stages latest)"
proof (induction stages arbitrary: latest)
  case (Cons stage stages)
  obtain s t where stage: "stage = (s, t)" by (cases stage)
  show ?case unfolding stage shutdown_stages.simps
    by (intro keeping signal_keeps try_wait_keeps exit_keeps Cons.IH)
qed (simp add: keeping)

lemma raise_last_keeps: "keeps I (raise_last latest)"
  unfolding raise_last_def by (intro keeping)

lemma wrapper_stages_keep: "keeps I (wrapper_stages node h esc stages latest)"
proof (induction stages arbitrary: latest)
  case (Cons s stages)
  show ?case unfolding wrapper_stages.simps by (intro keeping wrapper_keeps try_wait_keeps Cons.IH)
qed (simp add: raise_last_keeps)

lemma after_stages_keeps:
  "keeps I (case x of (status, latest) \<Rightarrow> (case status of
     Some n \<Rightarrow> areturn n
   | None \<Rightarrow> (case workload_pid h of
       Some p \<Rightarrow> abind (process_exists node p) (\<lambda>b.
         if b then raise_last latest else wrapper_stages node h esc [SIGTERM, SIGKILL] latest)
     | None \<Rightarrow> raise_last latest)))"
  by (intro keeping raise_last_keeps exists_keeps wrapper_stages_keep)

text \<open>The first thing the sequence does is to signal the process; what that reaches, the rest keeps.\<close>

lemma stages_reach:
  assumes "ensures P (signal_process node h s) (\<lambda>_. I)"
  shows "ensures P (shutdown_stages node h esc ((s, t) # stages) latest) (\<lambda>_. I)"
  unfolding shutdown_stages.simps
  by (intro ensures_bind [OF assms] keeping try_wait_keeps exit_keeps stages_keep)

lemma shutdown_reaches:
  assumes "ensures P (signal_process node h SIGINT) (\<lambda>_. I)"
  shows "ensures P (shutdown_process node h timeout) (\<lambda>_. I)"
  unfolding shutdown_process_def Let_def
  by (intro ensures_bind [OF stages_reach [OF assms]] after_stages_keeps)

end

text \<open>What the readings, the preparation and the collection of a run keep: any predicate that commands,
  transfers, probes of the host and sleeping keep.\<close>

locale calm_lab =
  fixes L :: "'w lab" and I :: "'w \<Rightarrow> bool"
  assumes rx_run_keeps: "keeps I (ctl_run (rx_node L) cmd t)"
    and tx_run_keeps: "keeps I (ctl_run (tx_node L) cmd t)"
    and rx_fetch_keeps: "keeps I (ctl_fetch (rx_node L) remote path)"
    and tx_fetch_keeps: "keeps I (ctl_fetch (tx_node L) remote path)"
    and rx_exists_keeps: "keeps I (process_exists (ctl_ops (rx_node L)) p)"
    and sleep_keeps: "keeps I (host_sleep (host_ops L) d)"
    and mkdir_keeps: "keeps I (host_mkdir (host_ops L) path)"
    and size_keeps: "keeps I (host_size (host_ops L) path)"
    and text_keeps: "keeps I (host_text (host_ops L) path)"
    and json_keeps: "keeps I (host_json (host_ops L) path)"
    and write_text_keeps: "keeps I (host_write_text (host_ops L) path text)"
begin

lemma probe_keeps:
  assumes "\<And>args. keeps I (ctl_run node args 30)"
  shows "keeps I (node_probe node cmd)"
  by (rule ensuresI)
    (auto simp: node_probe_def split: sum.splits prod.splits dest: ensuresD [OF assms])

lemma probe_all_keeps:
  assumes "\<And>args. keeps I (ctl_run node args 30)"
  shows "keeps I (probe_all node cmds)"
proof (induction cmds)
  case (Cons c cmds)
  obtain name cmd where c: "c = (name, cmd)" by (cases c)
  show ?case unfolding c probe_all.simps by (intro keeping probe_keeps assms Cons.IH)
qed (simp add: keeping)

lemma snapshot_keeps:
  assumes "\<And>args. keeps I (ctl_run node args 30)"
  shows "keeps I (node_snapshot node interface)"
  by (rule ensuresI) (auto simp: node_snapshot_def split: prod.splits dest: ensuresD [OF assms])

lemma state_keeps: "(\<And>args. keeps I (ctl_run node args 30)) \<Longrightarrow> keeps I (run_state node interface)"
  unfolding run_state_def by (intro keeping probe_all_keeps)

lemma before_keeps: "keeps I (read_before L i j)"
  unfolding read_before_def by (intro keeping state_keeps snapshot_keeps rx_run_keeps tx_run_keeps)

lemma after_keeps: "keeps I (read_after L i j)"
  unfolding read_after_def by (intro keeping state_keeps snapshot_keeps rx_run_keeps tx_run_keeps)

lemma nonempty_keeps: "keeps I (require_nonempty_file (host_ops L) path description)"
  unfolding require_nonempty_file_def by (intro keeping size_keeps)

lemma read_json_keeps: "keeps I (safe_read_json (host_ops L) path)"
  unfolding safe_read_json_def by (intro keeping json_keeps)

lemma fetch_keeps: "keeps I (fetch_results L a)"
  unfolding fetch_results_def fetch_pacing_def Let_def
  by (intro keeping rx_fetch_keeps tx_fetch_keeps nonempty_keeps read_json_keeps)

lemma assemble_keeps: "keeps I (assemble L su session_id environment item ob)"
  unfolding assemble_def read_pacing_def collect_profile_def Let_def
  by (intro keeping fetch_keeps rx_fetch_keeps nonempty_keeps text_keeps rx_run_keeps write_text_keeps)

lemma prepare_keeps: "keeps I (prepare_run L config session_id session_dir item)"
  unfolding prepare_run_def profile_command_def
  by (intro keeping rx_run_keeps mkdir_keeps)

lemma gone_keeps: "keeps I (require_gone (rx_node L) h)"
  unfolding require_gone_def by (intro keeping rx_exists_keeps)

end

section \<open>Phases of the observed run\<close>

abbreviation phase :: "bool \<Rightarrow> sender_phase \<Rightarrow> bool \<Rightarrow> run_phase" where
  "phase up sender recorded \<equiv> \<lparr>ph_up = up, ph_sender = sender, ph_recorded = recorded\<rparr>"

definition in_phase :: "rat \<Rightarrow> pure_path \<Rightarrow> run_phase \<Rightarrow> 'w \<times> run_event list \<Rightarrow> bool" where
  "in_phase silence path ph s \<longleftrightarrow> phase_after silence path (snd s) = Some ph"

lemma phase_after_snoc:
  "phase_after silence path (es @ [e]) = Option.bind (phase_after silence path es) (protocol_step silence path e)"
  by (simp add: phase_after_def)

lemma logged_moves:
  "(\<And>r. protocol_step silence path (ev r) ph = Some (ph' r)) \<Longrightarrow>
   ensures (in_phase silence path ph) (logged ev m) (\<lambda>r. in_phase silence path (ph' r))"
  by (auto simp: ensures_def logged_def in_phase_def phase_after_snoc split: prod.split)

lemma logged_keeps:
  "(\<And>r. protocol_step silence path (ev r) ph = Some ph) \<Longrightarrow>
   keeps (in_phase silence path ph) (logged ev m)"
  by (rule logged_moves)

lemmas observed_simps = logged_lab_def logged_controller_def logged_host_def logged_ops_def

lemma observed_node [simp]:
  "ctl_ops (rx_node (logged_lab L)) = logged_ops OnReceiver (ctl_ops (rx_node L))"
  "ctl_ops (tx_node (logged_lab L)) = logged_ops OnSender (ctl_ops (tx_node L))"
  by (simp_all add: observed_simps)

interpretation calm: calm_lab "logged_lab L" "in_phase silence path (phase up Off recorded)"
  for L silence path up recorded
  by unfold_locales (simp_all add: observed_simps protocol_step_def logged_keeps)

interpretation rx_down: steady_node "logged_ops OnReceiver ops" "in_phase silence path (phase False Off recorded)"
  for ops silence path recorded
  by unfold_locales (simp_all add: logged_ops_def protocol_step_def logged_keeps)

interpretation tx_down: steady_node "logged_ops OnSender ops" "in_phase silence path (phase up Off recorded)"
  for ops silence path up recorded
  by unfold_locales (simp_all add: logged_ops_def protocol_step_def logged_keeps)

lemma receiver_shutdown:
  "ensures (in_phase silence path (phase up Off recorded)) (shutdown_process (logged_ops OnReceiver ops) h t)
     (\<lambda>_. in_phase silence path (phase False Off recorded))"
  by (rule rx_down.shutdown_reaches)
    (simp add: logged_ops_def, rule logged_moves, simp add: protocol_step_def)

lemma sender_shutdown:
  assumes "sender \<noteq> Launched"
  shows "ensures (in_phase silence path (phase up sender recorded)) (shutdown_process (logged_ops OnSender ops) h t)
     (\<lambda>_. in_phase silence path (phase up Off recorded))"
  using assms
  by (intro tx_down.shutdown_reaches, cases sender)
    (simp_all add: logged_ops_def logged_moves protocol_step_def)

section \<open>The stages follow the protocol\<close>

lemma abind_alift_Inr [simp]: "abind (alift (Inr x)) f = f x"
  by (simp add: fun_eq_iff abind_def act_simps)

text \<open>\<open>stands\<close> ties the phase to the local variables, \<open>safe\<close> is what the cleanup can start from.\<close>

definition stands :: "rat \<Rightarrow> pure_path \<Rightarrow> run_phase \<Rightarrow> bool \<Rightarrow> bool \<Rightarrow> bool \<Rightarrow>
    ('w \<times> run_event list) running \<Rightarrow> bool" where
  "stands silence path ph receiver sender eligible s \<longleftrightarrow>
     in_phase silence path ph (outer s) \<and> (active_receiver s \<noteq> None) = receiver \<and>
     (active_sender s \<noteq> None) = sender \<and> cleanup_eligible s = eligible"

definition safe :: "rat \<Rightarrow> pure_path \<Rightarrow> ('w \<times> run_event list) running \<Rightarrow> bool" where
  "safe silence path s \<longleftrightarrow>
     (\<exists>up sender recorded. in_phase silence path (phase up sender recorded) (outer s) \<and> sender \<noteq> Launched \<and>
        (up \<longrightarrow> active_receiver s \<noteq> None) \<and> (sender \<noteq> Off \<longrightarrow> active_sender s \<noteq> None) \<and>
        (cleanup_eligible s \<longrightarrow> recorded))"

lemma stands_safe:
  "stands silence path (phase up sd recorded) receiver sender eligible s \<Longrightarrow> sd \<noteq> Launched \<Longrightarrow>
   up \<longrightarrow> receiver \<Longrightarrow> sd \<noteq> Off \<longrightarrow> sender \<Longrightarrow> eligible \<longrightarrow> recorded \<Longrightarrow> safe silence path s"
  unfolding stands_def safe_def by blast

lemma outside_moves:
  assumes "ensures (in_phase silence path ph) m (\<lambda>r. in_phase silence path (ph' r))"
  shows "ensures (stands silence path ph receiver sender eligible) (outside m)
    (\<lambda>r. stands silence path (ph' r) receiver sender eligible)"
  by (rule ensuresI) (auto simp: stands_def outside_def split: prod.splits dest: ensuresD [OF assms])

lemma outside_keeps [keeping]:
  "keeps (in_phase silence path ph) m \<Longrightarrow> keeps (stands silence path ph receiver sender eligible) (outside m)"
  by (rule outside_moves)

lemma set_receiver_moves:
  "ensures (stands silence path ph receiver sender eligible) (set_receiver h)
     (yields (stands silence path ph (h \<noteq> None) sender eligible) E)"
  by (simp add: ensures_def set_receiver_def aupdate_def stands_def yields_simps)

lemma set_sender_moves:
  "ensures (stands silence path ph receiver sender eligible) (set_sender h)
     (yields (stands silence path ph receiver (h \<noteq> None) eligible) E)"
  by (simp add: ensures_def set_sender_def aupdate_def stands_def yields_simps)

text \<open>An operation with one phase when it succeeds and another when it fails.\<close>

lemma outside_yields:
  assumes "ensures (in_phase silence path ph) m
      (\<lambda>r. in_phase silence path (if succeeded r then phase up sd recorded else phase up' sd' recorded'))"
    and "sd' \<noteq> Launched" "up' \<longrightarrow> receiver" "sd' \<noteq> Off \<longrightarrow> sender" "eligible \<longrightarrow> recorded'"
  shows "ensures (stands silence path ph receiver sender eligible) (outside m)
    (yields (stands silence path (phase up sd recorded) receiver sender eligible) (safe silence path))"
  by (rule ensures_weaken [OF outside_moves [OF assms(1)]])
    (auto simp: yields_def intro: stands_safe [OF _ assms(2-)] split: if_splits)

lemma calm_yields:
  assumes "keeps (stands silence path (phase up sd recorded) receiver sender eligible) m"
    and "sd \<noteq> Launched" "up \<longrightarrow> receiver" "sd \<noteq> Off \<longrightarrow> sender" "eligible \<longrightarrow> recorded"
  shows "ensures (stands silence path (phase up sd recorded) receiver sender eligible) m
    (yields (stands silence path (phase up sd recorded) receiver sender eligible) (safe silence path))"
  using assms(1) by (rule yields_kept) (rule stands_safe [OF _ assms(2-)])

lemmas calm_exists = calm.rx_exists_keeps [simplified]

lemma start_receiver_protocol:
  "ensures (stands silence path (phase False Off False) False False False)
     (start_receiver (logged_lab L) c a rx)
     (yields (stands silence path (phase True Off False) True False False) (safe silence path))"
proof -
  have "ensures (in_phase silence path (phase False Off False)) (ctl_start (rx_node (logged_lab L)) rx log i)
    (\<lambda>r. in_phase silence path (if succeeded r then phase True Off False else phase False Off False))" for log i
    by (simp add: observed_simps, rule logged_moves, simp add: protocol_step_def)
  note start = outside_yields [OF this]
  show ?thesis unfolding start_receiver_def
    by (rule yields_bind [OF calm_yields [OF keeps_lift]], simp_all)
      (intro yields_bind [OF start] yields_bind [OF set_receiver_moves [where h = "Some _", simplified]]
         calm_yields keeping calm.sleep_keeps calm_exists; simp)
qed

lemma timed_interval_protocol:
  assumes "silence_seconds c = Inr x" "sleep_seconds x = Inr silence" "shutdown_timeout c = Inr limit"
  shows "ensures (stands silence path (phase True Off False) True False False)
     (timed_interval (logged_lab L) c a tx)
     (yields (stands silence path (phase True Off False) True False False) (safe silence path))"
proof -
  have "ensures (in_phase silence path (phase True Off False)) (ctl_start (tx_node (logged_lab L)) tx log i)
    (\<lambda>r. in_phase silence path (if succeeded r then phase True Launched False else phase True Off False))" for log i
    by (simp add: observed_simps, rule logged_moves, simp add: protocol_step_def)
  note start = outside_yields [OF this]
  have "ensures (in_phase silence path (phase True Launched False)) (host_sleep (host_ops (logged_lab L)) silence)
    (\<lambda>r. in_phase silence path (if succeeded r then phase True Quiet False else phase True Quiet False))"
    by (simp add: observed_simps, rule logged_moves, simp add: protocol_step_def)
  note sleep = outside_yields [OF this]
  have "ensures (in_phase silence path (phase True Quiet False))
      (wait_process (logged_ops OnSender (ctl_ops (tx_node L))) h limit)
    (\<lambda>r. in_phase silence path (if succeeded r then phase True Off False else phase True Leftover False))" for h
    by (simp add: logged_ops_def, rule logged_moves, simp add: protocol_step_def)
  note wait = outside_yields [OF this]
  show ?thesis unfolding timed_interval_def assms abind_alift_Inr observed_node
    by (intro yields_bind [OF start] yields_bind [OF set_sender_moves [where h = "Some _", simplified]]
         yields_bind [OF sleep] yields_bind [OF wait] yields_bind [OF set_sender_moves [where h = None, simplified]]
         calm_yields keeping; simp)
qed

lemma stop_receiver_protocol:
  assumes "shutdown_timeout c = Inr limit"
  shows "ensures (stands silence path (phase True Off False) True False False)
     (stop_receiver (logged_lab L) c h)
     (yields (stands silence path (phase False Off False) False False False) (safe silence path))"
proof -
  have "ensures (in_phase silence path (phase True Off False))
      (shutdown_process (logged_ops OnReceiver (ctl_ops (rx_node L))) h limit)
    (\<lambda>r. in_phase silence path (if succeeded r then phase False Off False else phase False Off False))"
    by (simp add: receiver_shutdown)
  note shutdown = outside_yields [OF this]
  show ?thesis unfolding stop_receiver_def assms abind_alift_Inr observed_node
    by (intro yields_bind [OF shutdown] yields_bind [OF set_receiver_moves [where h = None, simplified]]
         calm_yields keeping calm.gone_keeps; simp)
qed

lemma measure_protocol:
  assumes "silence_seconds (su_context su) = Inr x" "sleep_seconds x = Inr silence"
    "shutdown_timeout (su_context su) = Inr limit"
  shows "ensures (stands silence path (phase False Off False) False False False)
     (measure_run (logged_lab L) su)
     (yields (stands silence path (phase False Off False) False False False) (safe silence path))"
  unfolding measure_run_def Let_def
  by (intro yields_bind [OF start_receiver_protocol] yields_bind [OF timed_interval_protocol [OF assms]]
       yields_bind [OF stop_receiver_protocol [OF assms(3)]] yields_prod yields_return
       yields_bind [OF calm_yields [OF keeps_lift]]
       yields_bind [OF calm_yields [OF outside_keeps [OF calm.before_keeps]]]
       yields_bind [OF calm_yields [OF outside_keeps [OF calm.after_keeps]]]; simp)

lemma run_body_protocol:
  assumes "silence_seconds (su_context su) = Inr x" "sleep_seconds x = Inr silence"
    "shutdown_timeout (su_context su) = Inr limit" "path = metadata_path (su_artifacts su)"
  shows "ensures (stands silence path (phase False Off False) False False False)
     (run_body (logged_lab L) su session_id session_dir environment item)
     (\<lambda>r s. safe silence path s \<and> (isl r \<or> stands silence path (phase False Off True) False False True s))"
proof -
  have "ensures (in_phase silence path (phase False Off False))
      (host_write_json (host_ops (logged_lab L)) (metadata_path (su_artifacts su)) (VDict document))
    (\<lambda>r. in_phase silence path (if succeeded r then phase False Off True else phase False Off False))" for document
    by (simp add: observed_simps, rule logged_moves, simp add: protocol_step_def assms(4))
  note recording = outside_yields [OF this]
  have eligible: "ensures (stands silence path (phase False Off True) False False False)
      (aupdate (cleanup_eligible_update (\<lambda>_. True)))
      (yields (stands silence path (phase False Off True) False False True) (safe silence path))"
    by (simp add: ensures_def aupdate_def stands_def yields_simps)
  have "ensures (stands silence path (phase False Off False) False False False)
     (run_body (logged_lab L) su session_id session_dir environment item)
     (yields (stands silence path (phase False Off True) False False True) (safe silence path))"
    unfolding run_body_def
    by (intro yields_bind [OF measure_protocol [OF assms(1-3)]]
         yields_bind [OF calm_yields [OF outside_keeps [OF calm.assemble_keeps]]]
         yields_bind [OF recording] yields_bind [OF eligible] calm_yields keeping; simp)
  moreover have "yields (stands silence path (phase False Off True) False False True) (safe silence path) r s \<Longrightarrow>
      safe silence path s \<and> (isl r \<or> stands silence path (phase False Off True) False False True s)"
    for r :: "run_result res" and s :: "('w \<times> run_event list) running"
    by (cases r) (auto simp: yields_simps intro: stands_safe)
  ultimately show ?thesis by (rule_tac ensures_weaken)
qed

lemma stop_quietly_reaches:
  assumes "shutdown_timeout c = Inr limit"
    and "\<And>h. active = Some h \<Longrightarrow> ensures P (shutdown_process (ctl_ops node) h limit) (\<lambda>_. Q)"
    and "\<And>w. active = None \<Longrightarrow> P w \<Longrightarrow> Q w"
  shows "ensures P (stop_quietly node c active) (\<lambda>r w. r = Inr () \<and> Q w)"
proof (cases active)
  case (Some h)
  show ?thesis unfolding stop_quietly_def Some assms(1) abind_alift_Inr option.simps
    by (rule ensuresI)
      (auto simp: acatch_def abind_def act_simps split: prod.splits sum.splits dest: ensuresD [OF assms(2) [OF Some]])
qed (auto simp: stop_quietly_def intro: ensures_return assms(3))

definition released :: "rat \<Rightarrow> pure_path \<Rightarrow> bool \<Rightarrow> 'w \<times> run_event list \<Rightarrow> bool" where
  "released silence path recorded s \<longleftrightarrow> in_phase silence path (phase False Off recorded) s"

lemma outside_run: "outside m s = (r, s') \<Longrightarrow> \<exists>w. m (outer s) = (r, w) \<and> s' = s\<lparr>outer := w\<rparr>"
  by (auto simp: outside_def split: prod.splits)

lemma remove_keeps: "keeps (released silence path True) (remove_artifacts (logged_lab L) a)"
  unfolding remove_artifacts_def released_def [abs_def]
  by (intro keeping; simp add: observed_simps, rule logged_keeps, simp add: protocol_step_def)

text \<open>The cleanup from a safe state: both processes are down, and nothing is removed unless recorded.\<close>

lemma cleanup_protocol:
  assumes "shutdown_timeout (su_context su) = Inr limit"
    and "in_phase silence path (phase up sender recorded) (outer s)" "sender \<noteq> Launched"
    "up \<longrightarrow> active_receiver s \<noteq> None" "sender \<noteq> Off \<longrightarrow> active_sender s \<noteq> None"
    "cleanup_eligible s \<longrightarrow> recorded"
    and run: "cleanup (logged_lab L) su s = (r, s')"
  shows "released silence path recorded (outer s')"
proof -
  let ?stop_tx = "stop_quietly (tx_node (logged_lab L)) (su_context su) (active_sender s)"
  let ?stop_rx = "stop_quietly (rx_node (logged_lab L)) (su_context su) (active_receiver s)"
  have "ensures (in_phase silence path (phase up sender recorded)) ?stop_tx
      (\<lambda>r w. r = Inr () \<and> in_phase silence path (phase up Off recorded) w)"
    using assms(1,3,5) by (intro stop_quietly_reaches [where limit = limit]) (auto intro: sender_shutdown)
  moreover obtain r1 w1 where tx: "?stop_tx (outer s) = (r1, w1)" by (cases "?stop_tx (outer s)")
  ultimately have w1: "r1 = Inr () \<and> in_phase silence path (phase up Off recorded) w1" using assms(2) by (rule_tac ensuresD)
  have "ensures (in_phase silence path (phase up Off recorded)) ?stop_rx
      (\<lambda>r w. r = Inr () \<and> released silence path recorded w)"
    unfolding released_def [abs_def]
    using assms(1,4) by (intro stop_quietly_reaches [where limit = limit]) (auto intro: receiver_shutdown)
  moreover obtain r2 w2 where rx: "?stop_rx w1 = (r2, w2)" by (cases "?stop_rx w1")
  ultimately have w2: "r2 = Inr () \<and> released silence path recorded w2" using w1 by (blast dest: ensuresD)
  have removed: "released silence path recorded w3"
    if "remove_artifacts (logged_lab L) a w2 = (r3, w3)" "cleanup_eligible s" for a r3 w3
    using ensuresD [OF remove_keeps _ that(1)] w2 that(2) assms(6) by simp
  show ?thesis
    using run removed w1 w2 tx rx
    by (auto simp: cleanup_def abind_def outside_def act_simps split: prod.splits sum.splits if_splits)
qed

section \<open>The whole run\<close>

definition run_silence :: "pyval \<Rightarrow> run_tuple \<Rightarrow> rat res" where
  "run_silence config item =
     rbind (run_context_of config item) (\<lambda>c. rbind (silence_seconds c) sleep_seconds)"

definition run_limit :: "pyval \<Rightarrow> run_tuple \<Rightarrow> rat res" where
  "run_limit config item = rbind (run_context_of config item) shutdown_timeout"

definition record_path :: "pure_path \<Rightarrow> run_tuple \<Rightarrow> pure_path" where
  "record_path session_dir item =
     path_div (path_div session_dir (py_str (benchmark_name item))) (run_id item @ ''_meta.json'')"

lemma prepare_run_settles:
  assumes "prepare_run L config session_id session_dir item w = (Inr su, w')"
  shows "run_context_of config item = Inr (su_context su)"
    "metadata_path (su_artifacts su) = record_path session_dir item" "ra_id (su_artifacts su) = run_id item"
proof -
  from assms obtain c a name where "run_context_of config item = Inr c" "raw_argument (benchmark_name item) = Inr name"
    "run_artifacts_of session_id (path_div session_dir name) item c = Inr a"
    "su_context su = c" "su_artifacts su = a"
    by (auto simp: prepare_run_def act_simps split: prod.splits)
  then show "run_context_of config item = Inr (su_context su)"
    "metadata_path (su_artifacts su) = record_path session_dir item" "ra_id (su_artifacts su) = run_id item"
    by (auto simp: metadata_path_def local_file_def record_path_def raw_argument_Inr dest: run_artifacts_of_Inr)
qed

lemma guarded_run_protocol:
  assumes "silence_seconds (su_context su) = Inr x" "sleep_seconds x = Inr silence"
    "shutdown_timeout (su_context su) = Inr limit" "path = metadata_path (su_artifacts su)"
    and start: "in_phase silence path start_phase w"
    and run: "guarded_run (logged_lab L) su session_id session_dir environment item w = (r, w')"
  shows "\<exists>recorded. released silence path recorded w' \<and> (isl r \<or> recorded)"
proof -
  let ?s = "\<lparr>outer = w, active_receiver = None, active_sender = None, cleanup_eligible = False\<rparr>"
  obtain r1 s1 where body: "run_body (logged_lab L) su session_id session_dir environment item ?s = (r1, s1)"
    by (cases "run_body (logged_lab L) su session_id session_dir environment item ?s")
  have "stands silence path (phase False Off False) False False False ?s"
    using start by (simp add: stands_def start_phase_def)
  from ensuresD [OF run_body_protocol [OF assms(1-4)] this body]
  have safe: "safe silence path s1" and ok: "isl r1 \<or> stands silence path (phase False Off True) False False True s1"
    by blast+
  obtain r2 s2 where cl: "cleanup (logged_lab L) su s1 = (r2, s2)" by (cases "cleanup (logged_lab L) su s1")
  from run body cl have w': "w' = outer s2" and r: "isl r1 \<Longrightarrow> isl r"
    by (auto simp: guarded_run_def afinally_def split: sum.splits)
  from safe obtain up sd recorded where s1: "in_phase silence path (phase up sd recorded) (outer s1)"
    "sd \<noteq> Launched" "up \<longrightarrow> active_receiver s1 \<noteq> None" "sd \<noteq> Off \<longrightarrow> active_sender s1 \<noteq> None"
    "cleanup_eligible s1 \<longrightarrow> recorded"
    by (auto simp: safe_def)
  then have "released silence path recorded w'"
    unfolding w' by (rule_tac cleanup_protocol [OF assms(3)]) (use cl in auto)
  moreover have "recorded \<or> isl r"
    using ok s1(5) r by (auto simp: stands_def)
  ultimately show ?thesis by blast
qed

lemma execute_run_phase:
  assumes "run_silence config item = Inr silence" "run_limit config item = Inr limit"
    and run: "execute_run (logged_lab L) config session_id session_dir environment item (w, []) = (r, w')"
  shows "\<exists>recorded. released silence (record_path session_dir item) recorded w' \<and> (isl r \<or> recorded)"
proof -
  let ?path = "record_path session_dir item"
  have start: "in_phase silence ?path start_phase (w, [])" by (simp add: in_phase_def phase_after_def)
  obtain r1 w1 where p: "prepare_run (logged_lab L) config session_id session_dir item (w, []) = (r1, w1)"
    by (cases "prepare_run (logged_lab L) config session_id session_dir item (w, [])")
  have w1: "in_phase silence ?path start_phase w1"
    using ensuresD [OF calm.prepare_keeps _ p] start unfolding start_phase_def by blast
  show ?thesis
  proof (cases r1)
    case (Inl e)
    with run p have "isl r \<and> w' = w1" by (auto simp: execute_run_def abind_def)
    with w1 show ?thesis by (auto simp: released_def start_phase_def)
  next
    case (Inr su)
    note settled = prepare_run_settles [OF p [unfolded Inr]]
    from assms(1,2) settled(1) obtain x where "silence_seconds (su_context su) = Inr x"
      "sleep_seconds x = Inr silence" "shutdown_timeout (su_context su) = Inr limit"
      by (auto simp: run_silence_def run_limit_def rbind_Inr_iff)
    moreover have "guarded_run (logged_lab L) su session_id session_dir environment item w1 = (r, w')"
      using run p Inr by (simp add: execute_run_def abind_def)
    ultimately show ?thesis using guarded_run_protocol w1 settled(2) by metis
  qed
qed


definition lab_config :: pyval where
  "lab_config = VDict
     [(''global'', VDict
        [(''remote_project_root'', VStr ''/opt/nll''),
         (''nodes'', VDict [(''receiver'', VDict [(''interface'', VStr ''eth0'')]), (''sender'', VDict [])]),
         (''runtime'', VDict [(''shutdown_timeout_seconds'', VInt 5), (''post_sender_drain_seconds'', VInt 2)])]),
      (''benchmarks'', VList [VDict [(''sender'', VDict [(''duration_seconds'', VInt 10)])]])]"

definition lab_item :: run_tuple where
  "lab_item = \<lparr>benchmark_index = 0, benchmark_name = VStr ''raw'', campaign = ''raw'', repetition = 1,
     rate = VInt 1000, burst = VInt 1, batch = VInt 32\<rparr>"

lemma lab_settings:
  "run_silence lab_config lab_item = Inr 12" "run_limit lab_config lab_item = Inr 5"
  by code_simp+


end
