(* ===== verification/Run_Records.thy ===== *)
theory Run_Records
  imports Run_Execution Summary_Facts Run_Verdicts
begin

text \<open>
  The record of a run and its reader: what \<^verbatim>\<open>execute_run\<close> writes as metadata, held against what
  \<^verbatim>\<open>validate_metadata\<close> of the summary asks for. Everything the orchestrator adds is always there, so
  only the topology and the two statistics files of the C++ processes decide.
\<close>

section \<open>The keys of a record\<close>

text \<open>The optional entries do not touch the ones the summary checks.\<close>

definition extends :: "pyval dict \<Rightarrow> pyval dict \<Rightarrow> bool" where
  "extends base document \<longleftrightarrow>
     (\<forall>k. k \<noteq> ''pacing'' \<and> k \<noteq> ''qualification'' \<and> k \<noteq> ''profile'' \<longrightarrow> dget document k = dget base k)"

lemma extends_refl: "extends d d"
  by (simp add: extends_def)

lemma extends_dset:
  "extends base d \<Longrightarrow> k = ''pacing'' \<or> k = ''qualification'' \<or> k = ''profile'' \<Longrightarrow> extends base (dset k v d)"
  by (auto simp: extends_def)

lemma add_pacing_extends: "add_pacing c a item stats trace d = Inr d' \<Longrightarrow> extends base d \<Longrightarrow> extends base d'"
  by (auto simp: add_pacing_def rbind_Inr_iff extends_dset split: option.splits)

lemma add_qualification_extends: "add_qualification item d = Inr d' \<Longrightarrow> extends base d \<Longrightarrow> extends base d'"
  by (auto simp: add_qualification_def rbind_Inr_iff extends_dset split: if_splits)

lemma collect_profile_extends:
  "collect_profile L a unavailable d w = (Inr d', w') \<Longrightarrow> extends base d \<Longrightarrow> extends base d'"
  by (auto simp: collect_profile_def act_simps extends_dset split: if_splits)

lemma assemble_base:
  assumes "assemble L su session_id environment item ob w = (Inr document, w')"
  obtains base sender receiver where
    "metadata_document session_id (su_context su) (su_artifacts su) item (su_rx_command su) (su_tx_command su)
       environment ob sender receiver = Inr base"
    "extends base document"
proof -
  from assms obtain sender receiver base trace judged v where
    base: "metadata_document session_id (su_context su) (su_artifacts su) item (su_rx_command su) (su_tx_command su)
       environment ob sender receiver = Inr base"
    and judged: "rbind (add_pacing (su_context su) (su_artifacts su) item sender trace base) (add_qualification item) = Inr judged"
    and profile: "collect_profile L (su_artifacts su) (su_unavailable su) judged v = (Inr document, w')"
    unfolding assemble_def Let_def by (fastforce simp: act_simps split: prod.splits)
  from judged obtain paced where "add_pacing (su_context su) (su_artifacts su) item sender trace base = Inr paced"
    "add_qualification item paced = Inr judged" by (auto simp: rbind_Inr_iff)
  then have "extends base judged"
    using add_pacing_extends add_qualification_extends extends_refl by blast
  then have "extends base document" using profile by (rule_tac collect_profile_extends)
  with base show thesis by (rule that)
qed

lemma run_document_fields:
  "run_document c a item receiver = Inr run \<Longrightarrow> has_fields REQUIRED_RUN_FIELDS (VDict run)"
  by (auto simp: run_document_def rbind_Inr_iff has_fields_def REQUIRED_RUN_FIELDS_def)

text \<open>What the base document holds under the keys the summary reads.\<close>

lemma metadata_document_entries:
  assumes "metadata_document session_id c a item rx tx environment ob sender receiver = Inr base"
  obtains topology reasons run where
    "py_index (rc_global c) ''topology'' = Inr (VStr topology)" "dget base ''topology'' = Some (VStr topology)"
    "dget base ''run'' = Some (VDict run)" "has_fields REQUIRED_RUN_FIELDS (VDict run)"
    "dget base ''sender_stats'' = Some sender" "dget base ''receiver_stats'' = Some receiver"
    "dget base ''schema_version'' = Some (VInt 2)" "dget base ''validity'' = Some (verdict_document ''valid'' reasons)"
    "validity_reasons sender receiver (counters_document (ob_counters ob)) (ob_before ob) (ob_after ob) topology
       (ob_sender_before ob) (ob_sender_after ob) = Inr reasons"
    "list_all (\<lambda>k. dget base k \<noteq> None) REQUIRED_TOP_LEVEL"
proof -
  from assms obtain topology reasons run accounting tuning where
    topology: "py_index (rc_global c) ''topology'' = Inr (VStr topology)"
    and reasons: "validity_reasons sender receiver (counters_document (ob_counters ob)) (ob_before ob) (ob_after ob)
       topology (ob_sender_before ob) (ob_sender_after ob) = Inr reasons"
    and run: "run_document c a item receiver = Inr run"
    and base: "base =
       [(''schema_version'', VInt 2), (''session_id'', VStr session_id), (''run_id'', VStr (ra_id a)),
        (''repetition_id'', VInt (repetition item)), (''topology'', VStr topology), (''run'', VDict run),
        (''processes'', VDict (process_document ob rx tx)), (''sender_stats'', sender),
        (''receiver_stats'', receiver), (''packet_accounting'', VDict accounting),
        (''counters'', counters_document (ob_counters ob)),
        (''sender_counters'', counters_document (ob_sender_counters ob)),
        (''run_environment'', VDict
           [(''receiver'', state_document (ob_before ob) (ob_after ob)),
            (''sender'', state_document (ob_sender_before ob) (ob_sender_after ob))]),
        (''validity'', verdict_document ''valid'' reasons), (''configured_tuning_state'', tuning),
        (''environment'', environment)]"
    unfolding metadata_document_def rbind_Inr_iff by (metis raw_argument_Inr sum.inject(2))
  show thesis
    by (rule that [OF topology _ _ run_document_fields [OF run] _ _ _ _ reasons])
      (simp_all add: base REQUIRED_TOP_LEVEL_def)
qed

section \<open>What decides\<close>

definition known_topology :: "string \<Rightarrow> bool" where
  "known_topology t \<longleftrightarrow> t \<in> {''local_loopback'', ''distributed_ethernet'', ''external_generator''}"

definition usable_stats :: "pyval \<Rightarrow> pyval \<Rightarrow> bool" where
  "usable_stats sender receiver \<longleftrightarrow>
     has_fields sender_required sender \<and> has_fields receiver_required receiver \<and> has_fields v2_fields receiver \<and>
     balanced_books sender receiver \<and> exact_books receiver"

lemma has_fields_dict: "has_fields ks (VDict d) \<longleftrightarrow> list_all (\<lambda>k. dget d k \<noteq> None) ks"
  by (simp add: has_fields_def list_all_iff map_of_eq_None_iff)

lemma extends_top_level:
  assumes "extends base document" "list_all (\<lambda>k. dget base k \<noteq> None) REQUIRED_TOP_LEVEL"
  shows "has_fields REQUIRED_TOP_LEVEL (VDict document)"
  using assms unfolding has_fields_dict extends_def by (simp add: REQUIRED_TOP_LEVEL_def)

lemma valid_means_exact:
  "validity_reasons sender receiver counters before after topology sb sa = Inr [] \<Longrightarrow> exact_books receiver"
  unfolding validity_reasons_iff valid_run_def receipts_ok_def exact_books_def by blast

lemma assembled_acceptable:
  assumes "assemble L su session_id environment item ob w = (Inr document, w')"
  shows "\<exists>topology sender receiver reasons.
    py_index (rc_global (su_context su)) ''topology'' = Inr (VStr topology) \<and>
    dget document ''sender_stats'' = Some sender \<and> dget document ''receiver_stats'' = Some receiver \<and>
    dget document ''validity'' = Some (verdict_document ''valid'' reasons) \<and>
    (acceptable_metadata (VDict document) \<longleftrightarrow> known_topology topology \<and> usable_stats sender receiver) \<and>
    (reasons = [] \<longrightarrow> exact_books receiver)"
proof -
  obtain base sender receiver where
    base: "metadata_document session_id (su_context su) (su_artifacts su) item (su_rx_command su) (su_tx_command su)
       environment ob sender receiver = Inr base" and ext: "extends base document"
    by (rule assemble_base [OF assms])
  obtain topology reasons run where
    topology: "py_index (rc_global (su_context su)) ''topology'' = Inr (VStr topology)"
    and entries: "dget base ''topology'' = Some (VStr topology)" "dget base ''run'' = Some (VDict run)"
      "dget base ''sender_stats'' = Some sender" "dget base ''receiver_stats'' = Some receiver"
      "dget base ''schema_version'' = Some (VInt 2)" "dget base ''validity'' = Some (verdict_document ''valid'' reasons)"
    and run: "has_fields REQUIRED_RUN_FIELDS (VDict run)"
    and reasons: "validity_reasons sender receiver (counters_document (ob_counters ob)) (ob_before ob) (ob_after ob)
       topology (ob_sender_before ob) (ob_sender_after ob) = Inr reasons"
    and top: "list_all (\<lambda>k. dget base k \<noteq> None) REQUIRED_TOP_LEVEL"
    by (rule metadata_document_entries [OF base])
  have found: "dget document ''topology'' = Some (VStr topology)" "dget document ''run'' = Some (VDict run)"
    "dget document ''sender_stats'' = Some sender" "dget document ''receiver_stats'' = Some receiver"
    "dget document ''schema_version'' = Some (VInt 2)"
    "dget document ''validity'' = Some (verdict_document ''valid'' reasons)"
    using ext entries by (simp_all add: extends_def)
  have version: "int_or (VDict document) ''schema_version'' 1 = Inr 2"
    using found(5) by (simp add: int_or_VDict)
  have verdict: "\<exists>v. verdict_document ''valid'' reasons = VDict v" by (simp add: verdict_document_def)
  have "acceptable_metadata (VDict document) \<longleftrightarrow> known_topology topology \<and> usable_stats sender receiver"
    unfolding acceptable_metadata_def known_topology_def usable_stats_def pyval.inject
    using found version verdict run extends_top_level [OF ext top] by auto
  moreover have "reasons = [] \<longrightarrow> exact_books receiver" using valid_means_exact reasons by blast
  ultimately show ?thesis using topology found by blast
qed

text \<open>
  C16: The record of a run satisfies the reader's contract: for the metadata \<^verbatim>\<open>execute_run\<close> assembles, on
  any nodes and with or without pacing, qualification and profile entries, \<^verbatim>\<open>validate_metadata\<close> accepts it
  exactly when the topology is one of the three known ones and the statistics the C++ processes left
  have their fields and balance; for a run recorded as valid the receiver's books are exact.
\<close>

theorem recorded_metadata_accepted:
  assumes "assemble L su session_id environment item ob w = (Inr document, w')"
  shows "\<exists>topology sender receiver reasons.
    py_index (rc_global (su_context su)) ''topology'' = Inr (VStr topology) \<and>
    dget document ''sender_stats'' = Some sender \<and> dget document ''receiver_stats'' = Some receiver \<and>
    dget document ''validity'' = Some (verdict_document ''valid'' reasons) \<and>
    (validate_metadata (VDict document) = Inr (VDict document) \<longleftrightarrow>
       known_topology topology \<and> usable_stats sender receiver) \<and>
    (reasons = [] \<longrightarrow> exact_books receiver)"
  using assembled_acceptable [OF assms] by (simp add: validate_metadata_iff)

section \<open>A run whose files are at hand\<close>

definition idle_node :: "unit controller" where
  "idle_node =
     \<lparr>ctl_ops = \<lparr>signal_process = \<lambda>_ _. areturn (), signal_wrapper = \<lambda>_ _. areturn (), wait_process = \<lambda>_ _. areturn 0,
        wait_pid_exit = \<lambda>_ _. areturn True, process_exists = \<lambda>_. areturn False\<rparr>,
      ctl_run = \<lambda>_ _. areturn [], ctl_start = \<lambda>_ _ _. araise (runtime_error []), ctl_fetch = \<lambda>_ _. areturn (),
      ctl_remove = \<lambda>_. areturn (), ctl_close = areturn ()\<rparr>"

definition sample_sender :: pyval where
  "sample_sender = VDict
     [(''attempted_sends'', VInt 10), (''successful_sends'', VInt 10), (''failed_sends'', VInt 0),
      (''elapsed_seconds'', VInt 2), (''achieved_successful_send_pps'', VInt 5)]"

definition sample_receiver :: pyval where
  "sample_receiver = VDict
     [(''variant'', VStr ''baseline''), (''datagrams_received'', VInt 10), (''valid_packets'', VInt 10),
      (''processed_packets'', VInt 10), (''short_packets'', VInt 0), (''invalid_magic'', VInt 0),
      (''spsc_overflow'', VInt 0), (''unique_valid_packets'', VInt 10), (''unique_processed_packets'', VInt 10)]"

definition files_lab :: "unit lab" where
  "files_lab =
     \<lparr>rx_node = idle_node, tx_node = idle_node,
      host_ops = \<lparr>host_sleep = \<lambda>_. areturn (), host_mkdir = \<lambda>_. areturn (), host_size = \<lambda>_. areturn (Some 1),
        host_text = \<lambda>_. areturn [],
        host_json = \<lambda>p. areturn (if endswith (path_str p) ''_tx_stats.json'' then sample_sender else sample_receiver),
        host_write_text = \<lambda>_ _. areturn (), host_write_json = \<lambda>_ _. areturn ()\<rparr>\<rparr>"

definition files_item :: run_tuple where
  "files_item = \<lparr>benchmark_index = 0, benchmark_name = VStr ''raw'', campaign = ''raw'', repetition = 1,
     rate = VInt 5, burst = VInt 1, batch = VInt 32\<rparr>"

definition files_setup :: run_setup where
  "files_setup =
     \<lparr>su_context = \<lparr>rc_global = VDict [(''topology'', VStr ''local_loopback''), (''tuning_state'', VNone)], rc_runtime = [],
        rc_receiver = VDict [], rc_sender = VDict [],
        rc_benchmark = VDict [(''sender'', VDict [(''duration_seconds'', VInt 2), (''payload_size'', VInt 64),
          (''mode'', VStr ''steady'')]), (''receiver'', VDict [])],
        rc_receiver_root = ''/opt'', rc_sender_root = ''/opt'', rc_sender_runtime = []\<rparr>,
      su_artifacts = \<lparr>ra_id = ''raw_r01'', ra_dir = path_of ''/data/raw'', ra_base = ''/tmp/nll'', ra_pacing = False,
        ra_profile = VNone\<rparr>,
      su_rx_command = [], su_tx_command = [], su_interface = VStr ''lo'', su_unavailable = []\<rparr>"

definition files_observation :: run_observation where
  "files_observation =
     \<lparr>ob_receiver_pid = 7, ob_wrapper_pid = None, ob_sender_pid = 8, ob_silence = Fin 3, ob_before = VDict [],
      ob_after = VDict [], ob_sender_before = VDict [], ob_sender_after = VDict [], ob_counters = [],
      ob_sender_counters = []\<rparr>"

lemma files_assembled:
  "\<exists>document. assemble files_lab files_setup ''s'' (VDict []) files_item files_observation () = (Inr document, ())"
proof -
  have "isl (fst (assemble files_lab files_setup ''s'' (VDict []) files_item files_observation ())) = False"
    by code_simp
  moreover obtain r where
    "assemble files_lab files_setup ''s'' (VDict []) files_item files_observation () = (r, ())"
    by (cases "assemble files_lab files_setup ''s'' (VDict []) files_item files_observation ()") auto
  ultimately show ?thesis by (cases r) simp_all
qed

theorem recorded_metadata_accepted_witness:
  "\<exists>document topology sender receiver.
     assemble files_lab files_setup ''s'' (VDict []) files_item files_observation () = (Inr document, ()) \<and>
     dget document ''sender_stats'' = Some sender \<and> dget document ''receiver_stats'' = Some receiver \<and>
     (validate_metadata (VDict document) = Inr (VDict document) \<longleftrightarrow>
        known_topology topology \<and> usable_stats sender receiver)"
proof -
  obtain document where
    run: "assemble files_lab files_setup ''s'' (VDict []) files_item files_observation () = (Inr document, ())"
    using files_assembled by blast
  from recorded_metadata_accepted [OF run] run show ?thesis by blast
qed

end
