(* ===== verification/Campaign.thy ===== *)
theory Campaign
  imports Run_Execution
begin

text \<open>
  \<^verbatim>\<open>run_campaign\<close> of \<^verbatim>\<open>main.py\<close>: connecting to the nodes, freezing the environment, building, the loop over
  the qualification runs, freezing the comparison runs from their outcome, the loop over those, the
  retry of a run whose transport failed, and the manifest kept on disk. Times of day, file digests and
  the connections themselves are parameters. The lemmas say which runs a finished campaign has made,
  in which order, and when a run is made twice.
\<close>

section \<open>The frozen environment of a machine\<close>

definition GOVERNOR_SCRIPT :: string where
  "GOVERNOR_SCRIPT =
     ''for f in /sys/devices/system/cpu/cpu*/cpufreq/scaling_governor; do test -r '' @ [CHR 0x22] @ ''$f'' @ [CHR 0x22] @
     '' && printf '' @ [CHR 0x27] @ ''%s='' @ [CHR 0x27, blank, CHR 0x22] @ ''$f'' @ [CHR 0x22] @ '' && cat '' @
     [CHR 0x22] @ ''$f'' @ [CHR 0x22] @ ''; done''"

definition AFFINITY_SCRIPT :: string where
  "AFFINITY_SCRIPT =
     ''for f in /proc/irq/*/smp_affinity_list; do test -r '' @ [CHR 0x22] @ ''$f'' @ [CHR 0x22] @
     '' && printf '' @ [CHR 0x27] @ ''%s='' @ [CHR 0x27, blank, CHR 0x22] @ ''$f'' @ [CHR 0x22] @ '' && cat '' @
     [CHR 0x22] @ ''$f'' @ [CHR 0x22] @ ''; done''"

definition machine_commands :: "string \<Rightarrow> (string \<times> string list) list" where
  "machine_commands project_root =
     [(''hostname'', [''hostname'']), (''kernel'', [''uname'', ''-a'']), (''cpu'', [''lscpu'']),
      (''compiler'', [''c++'', ''--version'']), (''cmake'', [''cmake'', ''--version'']),
      (''git_commit'', [''git'', ''-C'', project_root, ''rev-parse'', ''HEAD'']),
      (''git_status'', [''git'', ''-C'', project_root, ''status'', ''--porcelain'']),
      (''chrony_tracking'', [''chronyc'', ''tracking'']), (''chrony_sources'', [''chronyc'', ''sources'', ''-v'']),
      (''governor'', [''sh'', ''-c'', GOVERNOR_SCRIPT]), (''clock_state'', [''sh'', ''-c'', CLOCK_SCRIPT]),
      (''thermal'', [''sh'', ''-c'', THERMAL_SCRIPT]), (''throttled'', [''sh'', ''-c'', THROTTLED_SCRIPT]),
      (''socket_maxima'', [''sysctl'', ''net.core.rmem_max'', ''net.core.wmem_max''])]"

definition interface_commands :: "pyval \<Rightarrow> (string \<times> string list) list res" where
  "interface_commands interface =
     (if truthy interface then
        rbind (raw_argument interface) (\<lambda>i. Inr
          [(''interface'', [''ip'', ''-details'', ''link'', ''show'', ''dev'', i]), (''driver'', [''ethtool'', ''-i'', i]),
           (''link'', [''ethtool'', i]), (''offloads'', [''ethtool'', ''-k'', i]),
           (''irq_lines'', [''sh'', ''-c'', ''grep -F '' @ shlex_quote i @ '' /proc/interrupts || true'']),
           (''irq_affinity'', [''sh'', ''-c'', AFFINITY_SCRIPT])])
      else Inr [])"

definition git_dirty :: "pyval dict \<Rightarrow> pyval res" where
  "git_dirty metadata =
     rbind (py_index (VDict metadata) ''git_status'') (\<lambda>status.
     rbind (py_index status ''error'') (\<lambda>e.
     rbind (py_index status ''value'') (\<lambda>v.
     Inr (VDict [(''value'', if e = VNone then VBool (truthy v) else VNone), (''error'', e)]))))"

definition collect_machine_metadata :: "'w controller \<Rightarrow> string \<Rightarrow> pyval \<Rightarrow> ('w, pyval) act" where
  "collect_machine_metadata node project_root interface =
     abind (alift (interface_commands interface)) (\<lambda>more.
     abind (probe_all node (map (\<lambda>(name, cmd). (name, Inr cmd)) (machine_commands project_root @ more))) (\<lambda>metadata.
     abind (alift (git_dirty metadata)) (\<lambda>dirty.
     areturn (VDict (dset ''git_dirty'' dirty metadata)))))"

section \<open>Building\<close>

definition build_node :: "'w controller \<Rightarrow> string \<Rightarrow> pyval \<Rightarrow> ('w, unit) act" where
  "build_node node project_root runtime =
     abind (alift (py_get_or runtime ''build_preset'' (VStr ''dev''))) (\<lambda>preset.
     abind (ctl_run node [''cmake'', ''--preset'', py_str preset, ''-S'', project_root] 120) (\<lambda>_.
     abind (alift (binary_dir project_root runtime)) (\<lambda>dir.
     abind (ctl_run node [''cmake'', ''--build'', path_str dir, ''-j2''] 900) (\<lambda>_.
     areturn ()))))"

section \<open>Nodes and their connections\<close>

text \<open>A host is local or reached over a connection that may fail to open.\<close>

record 'w network =
  nw_local :: "'w controller"
  nw_remote :: "string \<Rightarrow> pyval \<Rightarrow> ('w, 'w controller) act"

definition get_node :: "'w network \<Rightarrow> string \<Rightarrow> pyval \<Rightarrow> ('w, 'w controller) act" where
  "get_node net host user = (if is_local host then areturn (nw_local net) else nw_remote net host user)"

record campaign_setup =
  cs_config :: pyval
  cs_session_id :: string
  cs_session_dir :: pure_path
  cs_environment :: pyval
  cs_rx_host :: string
  cs_tx_host :: string
  cs_user :: pyval

text \<open>The sender's controller is the receiver's own object when both roles are on one management host.\<close>

definition shared_node :: "campaign_setup \<Rightarrow> bool" where
  "shared_node cs = (cs_tx_host cs = cs_rx_host cs)"

record 'w session =
  sn_world :: 'w
  sn_rx :: "'w controller"
  sn_tx :: "'w controller"
  sn_completed :: nat

definition in_session :: "('w, 'a) act \<Rightarrow> ('w session, 'a) act" where
  "in_session m s = (case m (sn_world s) of (r, w) \<Rightarrow> (r, s\<lparr>sn_world := w\<rparr>))"

definition with_session :: "('w session \<Rightarrow> ('w session, 'a) act) \<Rightarrow> ('w session, 'a) act" where
  "with_session f s = f s s"

definition close_quietly :: "'w controller \<Rightarrow> ('w, unit) act" where
  "close_quietly node = acatch (\<lambda>_. True) (ctl_close node) (\<lambda>_. areturn ())"

definition set_nodes :: "'w controller \<Rightarrow> 'w controller \<Rightarrow> ('w session, unit) act" where
  "set_nodes rx tx = aupdate (\<lambda>s. s\<lparr>sn_rx := rx, sn_tx := tx\<rparr>)"

definition reconnect_nodes :: "'w network \<Rightarrow> campaign_setup \<Rightarrow> ('w session, unit) act" where
  "reconnect_nodes net cs =
     abind (with_session (\<lambda>s. in_session (close_quietly (sn_rx s)))) (\<lambda>_.
     abind (with_session (\<lambda>s. if shared_node cs then areturn () else in_session (close_quietly (sn_tx s)))) (\<lambda>_.
     abind (in_session (get_node net (cs_rx_host cs) (cs_user cs))) (\<lambda>rx.
     abind (with_session (\<lambda>s. set_nodes rx (sn_tx s))) (\<lambda>_.
     abind (if shared_node cs then areturn rx else in_session (get_node net (cs_tx_host cs) (cs_user cs))) (\<lambda>tx.
     set_nodes rx tx)))))"

section \<open>One run of the campaign\<close>

definition MAX_RUN_ATTEMPTS :: nat where "MAX_RUN_ATTEMPTS = 2"

definition transport_failure :: "exc_class \<Rightarrow> bool" where
  "transport_failure k \<longleftrightarrow> k \<in> {ConnectionErr, EOFErr, TimeoutErr, TimeoutExpired, SSHException}"

text \<open>\<^verbatim>\<open>round(x)\<close>: to the nearest integer, ties to the even one.\<close>

definition py_round :: "flt \<Rightarrow> int res" where
  "py_round x = (case x of
     Fin r \<Rightarrow>
       let f = \<lfloor>r\<rfloor>; d = r - of_int f in
       Inr (if d < 1 / 2 then f else if 1 / 2 < d then f + 1 else if even f then f else f + 1)
   | NaN \<Rightarrow> Inl (ve ''cannot convert float NaN to integer'')
   | _ \<Rightarrow> Inl (Exn OverflowError ''cannot convert float infinity to integer''))"

definition format_duration :: "flt \<Rightarrow> string res" where
  "format_duration seconds =
     rbind (py_round seconds) (\<lambda>n.
     let total_seconds = max 0 n; hours = total_seconds div 3600; remainder = total_seconds mod 3600 in
     Inr (pad2 hours @ '':'' @ pad2 (remainder div 60) @ '':'' @ pad2 (remainder mod 60)))"

text \<open>The announcement of a run computes its silence; that is all of it that can fail.\<close>

definition announce :: "campaign_setup \<Rightarrow> run_tuple \<Rightarrow> string res" where
  "announce cs item =
     rbind (rbind (py_index (cs_config cs) ''benchmarks'') (\<lambda>bs. py_nth bs (benchmark_index item))) (\<lambda>benchmark.
     rbind (rbind (py_index (cs_config cs) ''global'') (\<lambda>g. rbind (py_index g ''runtime'') as_dict)) (\<lambda>runtime.
     rbind (silence_of benchmark runtime) format_duration))"

definition one_attempt :: "'w host \<Rightarrow> campaign_setup \<Rightarrow> run_tuple \<Rightarrow> ('w session, run_result) act" where
  "one_attempt host cs item =
     with_session (\<lambda>s. in_session
       (execute_run \<lparr>rx_node = sn_rx s, tx_node = sn_tx s, host_ops = host\<rparr> (cs_config cs) (cs_session_id cs)
          (cs_session_dir cs) (cs_environment cs) item))"

fun run_attempts ::
  "'w network \<Rightarrow> 'w host \<Rightarrow> campaign_setup \<Rightarrow> run_tuple \<Rightarrow> nat \<Rightarrow> ('w session, run_result) act" where
  "run_attempts net host cs item 0 = araise (runtime_error ''run produced no result'')"
| "run_attempts net host cs item (Suc remaining) =
     acatch transport_failure (one_attempt host cs item) (\<lambda>e.
       if remaining = 0 then araise e
       else abind (reconnect_nodes net cs) (\<lambda>_. run_attempts net host cs item remaining))"

definition execute_with_progress ::
  "'w network \<Rightarrow> 'w host \<Rightarrow> campaign_setup \<Rightarrow> run_tuple \<Rightarrow> ('w session, run_result) act" where
  "execute_with_progress net host cs item =
     abind (alift (announce cs item)) (\<lambda>_.
     abind (run_attempts net host cs item MAX_RUN_ATTEMPTS) (\<lambda>result.
     abind (aupdate (sn_completed_update Suc)) (\<lambda>_. areturn result)))"

section \<open>The manifest\<close>

definition run_entry :: "run_result \<Rightarrow> pyval" where
  "run_entry r = VDict
     [(''run_id'', VStr (rr_id r)), (''metadata'', VStr (rr_metadata r)), (''trace'', VStr (rr_trace r))]"

definition item_entry :: "run_tuple \<Rightarrow> pyval" where
  "item_entry t = VDict
     [(''benchmark_index'', VInt (int (benchmark_index t))), (''benchmark_name'', benchmark_name t),
      (''campaign'', VStr (campaign t)), (''repetition'', VInt (repetition t)), (''rate'', rate t),
      (''burst'', burst t), (''batch'', batch t)]"

definition manifest_with :: "pyval dict \<Rightarrow> run_result list \<Rightarrow> pyval dict" where
  "manifest_with base results = dset ''runs'' (VList (map run_entry results)) base"

definition manifest_path :: "campaign_setup \<Rightarrow> pure_path" where
  "manifest_path cs = path_div (cs_session_dir cs) ''session_manifest.json''"

definition write_manifest ::
  "'w host \<Rightarrow> campaign_setup \<Rightarrow> pyval dict \<Rightarrow> run_result list \<Rightarrow> ('w session, unit) act" where
  "write_manifest host cs base results =
     in_session (host_write_json host (manifest_path cs) (VDict (manifest_with base results)))"

section \<open>The campaign\<close>

text \<open>The loop over a list of runs: every result is in the manifest on disk before the next run starts.\<close>

fun run_all ::
  "'w network \<Rightarrow> 'w host \<Rightarrow> campaign_setup \<Rightarrow> pyval dict \<Rightarrow> run_tuple list \<Rightarrow> run_result list \<Rightarrow>
   ('w session, run_result list) act" where
  "run_all net host cs base [] results = areturn results"
| "run_all net host cs base (item # items) results =
     abind (execute_with_progress net host cs item) (\<lambda>r.
     abind (write_manifest host cs base (results @ [r])) (\<lambda>_.
     run_all net host cs base items (results @ [r])))"

definition eligible_rates :: "run_tuple list \<Rightarrow> run_result list \<Rightarrow> int list option res" where
  "eligible_rates qualification results =
     (if qualification = [] then Inr None
      else rbind (qualification_rates (map (\<lambda>r. VDict (rr_document r)) results)) (\<lambda>rates. Inr (Some rates)))"

definition rates_value :: "int list option \<Rightarrow> pyval" where
  "rates_value eligible = (case eligible of None \<Rightarrow> VNone | Some rates \<Rightarrow> VList (map VInt rates))"

definition frozen_manifest :: "pyval dict \<Rightarrow> int list option \<Rightarrow> run_tuple list \<Rightarrow> pyval dict" where
  "frozen_manifest base eligible frozen =
     dset ''frozen_comparative_order'' (VList (map item_entry frozen))
       (dset ''eligible_rates_pps'' (rates_value eligible) base)"

text \<open>The result: the runs made, the comparison list frozen in between and the final manifest.\<close>

record campaign_outcome =
  co_results :: "run_result list"
  co_eligible :: "int list option"
  co_frozen :: "run_tuple list"
  co_manifest :: "pyval dict"

definition campaign_runs ::
  "'w network \<Rightarrow> 'w host \<Rightarrow> campaign_setup \<Rightarrow> pyval dict \<Rightarrow> run_tuple list \<Rightarrow> run_tuple list \<Rightarrow>
   ('w session, campaign_outcome) act" where
  "campaign_runs net host cs base qualification comparative =
     abind (run_all net host cs base qualification []) (\<lambda>qualified.
     abind (alift (eligible_rates qualification qualified)) (\<lambda>eligible.
     abind (alift (freeze_comparative (cs_config cs) eligible comparative)) (\<lambda>frozen.
     let base' = frozen_manifest base eligible frozen in
     abind (write_manifest host cs base' qualified) (\<lambda>_.
     abind (run_all net host cs base' frozen qualified) (\<lambda>results.
     areturn \<lparr>co_results = results, co_eligible = eligible, co_frozen = frozen,
              co_manifest = manifest_with base' results\<rparr>)))))"

text \<open>Building is skipped on request; the sender's machine is built when it is not the receiver's build.\<close>

record build_plan =
  bp_skip :: bool
  bp_rx_root :: string
  bp_tx_root :: string
  bp_rx_runtime :: "pyval dict"
  bp_tx_runtime :: "pyval dict"

definition build_all :: "campaign_setup \<Rightarrow> build_plan \<Rightarrow> ('w session, unit) act" where
  "build_all cs bp =
     (if bp_skip bp then areturn ()
      else abind (with_session (\<lambda>s. in_session (build_node (sn_rx s) (bp_rx_root bp) (VDict (bp_rx_runtime bp))))) (\<lambda>_.
        if shared_node cs \<and> bp_tx_root bp = bp_rx_root bp \<and> py_eq (VDict (bp_tx_runtime bp)) (VDict (bp_rx_runtime bp))
        then areturn ()
        else with_session (\<lambda>s. in_session (build_node (sn_tx s) (bp_tx_root bp) (VDict (bp_tx_runtime bp))))))"

definition close_nodes :: "campaign_setup \<Rightarrow> ('w session, unit) act" where
  "close_nodes cs =
     abind (with_session (\<lambda>s. in_session (ctl_close (sn_rx s)))) (\<lambda>_.
     with_session (\<lambda>s. if shared_node cs then areturn () else in_session (ctl_close (sn_tx s))))"

definition campaign_body ::
  "'w network \<Rightarrow> 'w host \<Rightarrow> campaign_setup \<Rightarrow> build_plan \<Rightarrow> pyval dict \<Rightarrow> run_tuple list \<Rightarrow> run_tuple list \<Rightarrow>
   ('w session, campaign_outcome) act" where
  "campaign_body net host cs bp base qualification comparative =
     afinally
       (abind (build_all cs bp) (\<lambda>_. campaign_runs net host cs base qualification comparative))
       (close_nodes cs)"

section \<open>The whole campaign\<close>

text \<open>
  What the launch takes from outside: the two times of day, the directory of the program, the
  resolution of a path, the text and the digest of the configuration file.
\<close>

record launch =
  la_session_id :: string
  la_created :: string
  la_here :: pure_path
  la_resolve :: "pure_path \<Rightarrow> pure_path"
  la_config_path :: pure_path
  la_config_text :: string
  la_config_sha256 :: string

definition session_directory :: "launch \<Rightarrow> pyval \<Rightarrow> pure_path res" where
  "session_directory la g =
     rbind (py_get_or g ''local_project_root'' (VStr (path_str (la_here la)))) (\<lambda>root. rbind (raw_argument root) (\<lambda>text.
     rbind (rbind (py_index g ''local_data_dir'') raw_argument) (\<lambda>data.
     let local_root = (if path_str (path_of text) = ''.'' then la_here la else path_of text) in
     Inr (la_resolve la (path_div (path_div local_root data) (''session_'' @ la_session_id la))))))"

definition machine_entry ::
  "bool \<Rightarrow> 'w controller \<Rightarrow> string \<Rightarrow> pyval \<Rightarrow> ('w, pyval) act" where
  "machine_entry collected node project_root interface =
     (if collected then collect_machine_metadata node project_root interface else areturn (VDict []))"

definition initial_manifest ::
  "launch \<Rightarrow> pyval \<Rightarrow> pyval dict \<Rightarrow> pyval \<Rightarrow> run_tuple list \<Rightarrow> run_tuple list \<Rightarrow> pyval dict res" where
  "initial_manifest la g runtime environment qualification comparative =
     rbind (py_index g ''topology'') (\<lambda>topology.
     rbind (py_int (dget_or runtime ''shuffle_seed'' (VInt 477))) (\<lambda>seed.
     rbind (py_get_none g ''benchmark_commit'') (\<lambda>commit.
     rbind (py_index g ''tuning_state'') (\<lambda>tuning.
     Inr
       [(''schema_version'', VInt 2), (''session_id'', VStr (la_session_id la)), (''created_utc'', VStr (la_created la)),
        (''topology'', topology), (''shuffle_seed'', VInt seed),
        (''config_file'', VStr (path_str (la_resolve la (la_config_path la)))),
        (''config_snapshot'', VStr ''config_snapshot.yaml''), (''config_sha256'', VStr (la_config_sha256 la)),
        (''benchmark_commit'', commit), (''tuning_state'', tuning), (''environment'', environment),
        (''qualification_order'', VList (map item_entry qualification)),
        (''candidate_comparative_order'', VList (map item_entry comparative)), (''eligible_rates_pps'', VNone),
        (''frozen_comparative_order'', VNone), (''runs'', VList [])]))))"

text \<open>The settings read from the configuration once it has been validated.\<close>

record campaign_settings =
  ca_global :: pyval
  ca_runtime :: "pyval dict"
  ca_receiver :: pyval
  ca_sender :: pyval
  ca_rx_host :: string
  ca_tx_host :: string
  ca_user :: pyval

definition campaign_settings_of :: "pyval \<Rightarrow> campaign_settings res" where
  "campaign_settings_of config =
     rbind (py_index config ''global'') (\<lambda>g.
     rbind (rbind (py_index g ''runtime'') as_dict) (\<lambda>runtime.
     rbind (py_index g ''nodes'') (\<lambda>nodes.
     rbind (py_index nodes ''receiver'') (\<lambda>receiver. rbind (management_host receiver) (\<lambda>rx_host.
     rbind (py_index nodes ''sender'') (\<lambda>sender. rbind (management_host sender) (\<lambda>tx_host.
     rbind (py_index g ''user'') (\<lambda>user.
     Inr \<lparr>ca_global = g, ca_runtime = runtime, ca_receiver = receiver, ca_sender = sender, ca_rx_host = rx_host,
          ca_tx_host = tx_host, ca_user = user\<rparr>))))))))"

definition build_plan_of :: "bool \<Rightarrow> campaign_settings \<Rightarrow> build_plan res" where
  "build_plan_of skip_build ca =
     rbind (node_project_root (ca_global ca) (ca_receiver ca)) (\<lambda>rx_root.
     rbind (node_project_root (ca_global ca) (ca_sender ca)) (\<lambda>tx_root.
     rbind (node_runtime (ca_runtime ca) (ca_receiver ca)) (\<lambda>rx_runtime.
     rbind (node_runtime (ca_runtime ca) (ca_sender ca)) (\<lambda>tx_runtime.
     Inr \<lparr>bp_skip = skip_build, bp_rx_root = rx_root, bp_tx_root = tx_root, bp_rx_runtime = rx_runtime,
          bp_tx_runtime = tx_runtime\<rparr>))))"

definition collect_environment ::
  "'w network \<Rightarrow> launch \<Rightarrow> campaign_settings \<Rightarrow> build_plan \<Rightarrow> 'w controller \<Rightarrow> 'w controller \<Rightarrow> ('w, pyval) act" where
  "collect_environment net la ca bp rx tx =
     abind (alift (py_index (ca_global ca) ''metadata_collection'')) (\<lambda>collection. let collected = truthy collection in
     abind (if collected then alift (py_index (ca_receiver ca) ''interface'') else areturn VNone) (\<lambda>interface.
     abind (machine_entry collected rx (bp_rx_root bp) interface) (\<lambda>receiver.
     abind (alift (py_get_none (ca_sender ca) ''interface'')) (\<lambda>sender_interface.
     abind (machine_entry collected tx (bp_tx_root bp) sender_interface) (\<lambda>sender.
     abind (machine_entry collected (nw_local net) (path_str (la_here la)) VNone) (\<lambda>orchestrator.
     areturn (VDict [(''receiver'', receiver), (''sender'', sender), (''orchestrator'', orchestrator)])))))))"

definition run_campaign ::
  "'w network \<Rightarrow> 'w host \<Rightarrow> launch \<Rightarrow> (int \<Rightarrow> nat \<Rightarrow> nat \<Rightarrow> nat) \<Rightarrow> pyval \<Rightarrow> bool \<Rightarrow> ('w, pure_path) act" where
  "run_campaign net host la draw config skip_build =
     abind (alift (validate_config config)) (\<lambda>_.
     abind (alift (campaign_settings_of config)) (\<lambda>ca.
     abind (get_node net (ca_rx_host ca) (ca_user ca)) (\<lambda>rx.
     abind (if ca_tx_host ca = ca_rx_host ca then areturn rx else get_node net (ca_tx_host ca) (ca_user ca)) (\<lambda>tx.
     abind (alift (session_directory la (ca_global ca))) (\<lambda>dir.
     abind (host_mkdir host dir) (\<lambda>_.
     abind (host_write_text host (path_div dir ''config_snapshot.yaml'') (la_config_text la)) (\<lambda>_.
     abind (alift (make_run_tuples draw config)) (\<lambda>(qualification, comparative).
     abind (alift (build_plan_of skip_build ca)) (\<lambda>bp.
     abind (collect_environment net la ca bp rx tx) (\<lambda>environment.
     abind (alift (initial_manifest la (ca_global ca) (ca_runtime ca) environment qualification comparative)) (\<lambda>base.
     let cs = \<lparr>cs_config = config, cs_session_id = la_session_id la, cs_session_dir = dir,
               cs_environment = environment, cs_rx_host = ca_rx_host ca, cs_tx_host = ca_tx_host ca,
               cs_user = ca_user ca\<rparr> in
     abind (host_write_json host (manifest_path cs) (VDict base)) (\<lambda>_.
     (\<lambda>w. case campaign_body net host cs bp base qualification comparative
               \<lparr>sn_world = w, sn_rx = rx, sn_tx = tx, sn_completed = 0\<rparr> of
             (r, s) \<Rightarrow> (rbind r (\<lambda>_. Inr dir), sn_world s))))))))))))))"

section \<open>What a campaign has done\<close>

lemma in_session_Inr: "in_session m s = (Inr x, s') \<longleftrightarrow> (\<exists>w. m (sn_world s) = (Inr x, w) \<and> s' = s\<lparr>sn_world := w\<rparr>)"
  by (auto simp: in_session_def split: prod.split)

lemma execute_run_id:
  assumes "execute_run L config session_id session_dir environment item w = (Inr r, w')"
  shows "rr_id r = run_id item"
proof -
  from assms obtain su v where prepared: "prepare_run L config session_id session_dir item w = (Inr su, v)"
    and run: "guarded_run L su session_id session_dir environment item v = (Inr r, w')"
    by (auto simp: execute_run_def act_simps)
  from run obtain s s' where "run_body L su session_id session_dir environment item s = (Inr r, s')"
    by (auto simp: guarded_run_def afinally_def split: prod.splits sum.splits)
  then obtain document where "result_of (su_artifacts su) session_dir document = Inr r"
    by (auto simp: run_body_def act_simps)
  then have "rr_id r = ra_id (su_artifacts su)" by (auto simp: result_of_def rbind_Inr_iff)
  moreover have "ra_id (su_artifacts su) = run_id item"
    using prepared by (auto simp: prepare_run_def act_simps split: prod.splits dest: run_artifacts_of_Inr)
  ultimately show ?thesis by simp
qed

text \<open>\<open>completes n s s'\<close>: the step from \<open>s\<close> to \<open>s'\<close> counted \<open>n\<close> completed runs.\<close>

lemma one_attempt_id:
  "one_attempt host cs item s = (Inr r, s') \<Longrightarrow> rr_id r = run_id item \<and> sn_completed s' = sn_completed s"
  by (auto simp: one_attempt_def with_session_def in_session_Inr dest: execute_run_id)

lemma reconnect_completed: "reconnect_nodes net cs s = (r, s') \<Longrightarrow> sn_completed s' = sn_completed s"
  by (auto simp: reconnect_nodes_def abind_def with_session_def in_session_def set_nodes_def aupdate_def
      areturn_def split: prod.splits sum.splits if_splits)

lemma one_attempt_completed: "one_attempt host cs item s = (r, s') \<Longrightarrow> sn_completed s' = sn_completed s"
  by (auto simp: one_attempt_def with_session_def in_session_def split: prod.splits)

lemma run_attempts_id:
  "run_attempts net host cs item n s = (Inr r, s') \<Longrightarrow> rr_id r = run_id item \<and> sn_completed s' = sn_completed s"
proof (induction n arbitrary: s)
  case (Suc n)
  obtain r1 s1 where first: "one_attempt host cs item s = (r1, s1)" by (cases "one_attempt host cs item s")
  show ?case
  proof (cases r1)
    case (Inr x)
    with first Suc.prems show ?thesis by (auto simp: acatch_def dest: one_attempt_id)
  next
    case (Inl e)
    with first Suc.prems obtain v where "reconnect_nodes net cs s1 = (Inr (), v)"
      "run_attempts net host cs item n v = (Inr r, s')"
      by (auto simp: acatch_def act_simps split: if_splits)
    with Suc.IH first show ?thesis by (metis reconnect_completed one_attempt_completed)
  qed
qed (simp add: act_simps)

lemma execute_with_progress_id:
  "execute_with_progress net host cs item s = (Inr r, s') \<Longrightarrow>
   rr_id r = run_id item \<and> sn_completed s' = Suc (sn_completed s)"
  by (auto simp: execute_with_progress_def act_simps aupdate_def dest: run_attempts_id)

lemma run_all_results:
  "run_all net host cs base items results s = (Inr results', s') \<Longrightarrow>
   \<exists>made. results' = results @ made \<and> map rr_id made = map run_id items \<and>
     sn_completed s' = sn_completed s + length made"
proof (induction items arbitrary: results s)
  case (Cons item items)
  from Cons.prems obtain r u v where run: "execute_with_progress net host cs item s = (Inr r, u)"
    and recorded: "write_manifest host cs base (results @ [r]) u = (Inr (), v)"
    and rest: "run_all net host cs base items (results @ [r]) v = (Inr results', s')"
    by (auto simp: act_simps)
  from recorded have "sn_completed v = sn_completed u" by (auto simp: write_manifest_def in_session_Inr)
  with Cons.IH [OF rest] execute_with_progress_id [OF run] show ?case by auto
qed (auto simp: act_simps)

lemma campaign_runs_spec:
  assumes "campaign_runs net host cs base qualification comparative s = (Inr outcome, s')"
  shows "\<exists>qualified compared.
    co_results outcome = qualified @ compared \<and> map rr_id qualified = map run_id qualification \<and>
    eligible_rates qualification qualified = Inr (co_eligible outcome) \<and>
    freeze_comparative (cs_config cs) (co_eligible outcome) comparative = Inr (co_frozen outcome) \<and>
    map rr_id compared = map run_id (co_frozen outcome) \<and>
    dget (co_manifest outcome) ''runs'' = Some (VList (map run_entry (qualified @ compared))) \<and>
    dget (co_manifest outcome) ''frozen_comparative_order'' = Some (VList (map item_entry (co_frozen outcome))) \<and>
    sn_completed s' = sn_completed s + length (co_results outcome)"
proof -
  from assms obtain trials eligible frozen results u v where
    first: "run_all net host cs base qualification [] s = (Inr trials, u)"
    and eligible: "eligible_rates qualification trials = Inr eligible"
    and frozen: "freeze_comparative (cs_config cs) eligible comparative = Inr frozen"
    and recorded: "write_manifest host cs (frozen_manifest base eligible frozen) trials u = (Inr (), v)"
    and second: "run_all net host cs (frozen_manifest base eligible frozen) frozen trials v = (Inr results, s')"
    and outcome: "outcome = \<lparr>co_results = results, co_eligible = eligible, co_frozen = frozen,
      co_manifest = manifest_with (frozen_manifest base eligible frozen) results\<rparr>"
    by (auto simp: campaign_runs_def act_simps Let_def)
  from recorded have "sn_completed v = sn_completed u" by (auto simp: write_manifest_def in_session_Inr)
  with run_all_results [OF first] run_all_results [OF second] obtain made where
    "results = trials @ made" "map rr_id trials = map run_id qualification" "map rr_id made = map run_id frozen"
    "sn_completed s' = sn_completed s + length trials + length made"
    by auto
  then show ?thesis
    by (intro exI [of _ trials] exI [of _ made])
      (simp add: outcome eligible frozen manifest_with_def frozen_manifest_def)
qed


section \<open>When a run is made twice\<close>

text \<open>Only a transport failure leads to a second attempt, after a reconnection, and that one is final.\<close>

lemma attempts_twice:
  "run_attempts net host cs item MAX_RUN_ATTEMPTS s =
     (case one_attempt host cs item s of
        (Inr r, s1) \<Rightarrow> (Inr r, s1)
      | (Inl e, s1) \<Rightarrow>
          if transport_failure (exc_kind e)
          then (case reconnect_nodes net cs s1 of
                  (Inl e', s2) \<Rightarrow> (Inl e', s2)
                | (Inr _, s2) \<Rightarrow> one_attempt host cs item s2)
          else (Inl e, s1))"
  by (simp add: MAX_RUN_ATTEMPTS_def numeral_2_eq_2 acatch_def abind_def araise_def
      split: prod.split sum.split)

text \<open>
  A laboratory that counts the metadata documents written. Its nodes run every process but answer no
  probe, and the first removal of remote artifacts after a document has been written loses the connection when \<open>dropping\<close>.
\<close>

definition counting_node :: "bool \<Rightarrow> nat controller" where
  "counting_node dropping =
     \<lparr>ctl_ops = \<lparr>signal_process = \<lambda>_ _. areturn (), signal_wrapper = \<lambda>_ _. areturn (), wait_process = \<lambda>_ _. areturn 0,
        wait_pid_exit = \<lambda>_ _. areturn True, process_exists = \<lambda>_. areturn True\<rparr>,
      ctl_run = \<lambda>_ _. araise (runtime_error ''command not found''),
      ctl_start = \<lambda>cmd log _. areturn
        \<lparr>pid = 7, command = cmd, log_path = log, monitor_pid = None, workload_pid = None\<rparr>,
      ctl_fetch = \<lambda>_ _. areturn (),
      ctl_remove = \<lambda>_ n. if dropping \<and> n = 1 then (Inl (Exn SSHException ''connection lost''), n) else (Inr (), n),
      ctl_close = areturn ()\<rparr>"

definition run_sender_stats :: pyval where
  "run_sender_stats = VDict [(''successful_sends'', VInt 10), (''elapsed_seconds'', VInt 5)]"

definition run_receiver_stats :: pyval where
  "run_receiver_stats = VDict
     [(''variant'', VStr ''batched''), (''valid_packets'', VInt 10), (''processed_packets'', VInt 10),
      (''spsc_overflow'', VInt 0), (''unique_valid_packets'', VInt 10), (''unique_processed_packets'', VInt 10)]"

definition counting_host :: "nat host" where
  "counting_host =
     \<lparr>host_sleep = \<lambda>_. areturn (), host_mkdir = \<lambda>_. areturn (), host_size = \<lambda>_. areturn (Some 1),
      host_text = \<lambda>_. areturn [],
      host_json = \<lambda>p. areturn (if endswith (path_str p) ''_tx_stats.json'' then run_sender_stats else run_receiver_stats),
      host_write_text = \<lambda>_ _. areturn (),
      host_write_json = \<lambda>p _ n. (Inr (), if endswith (path_str p) ''_meta.json'' then Suc n else n)\<rparr>"

definition counting_network :: "bool \<Rightarrow> nat network" where
  "counting_network dropping =
     \<lparr>nw_local = counting_node dropping, nw_remote = \<lambda>_ _. areturn (counting_node dropping)\<rparr>"

definition counting_setup :: campaign_setup where
  "counting_setup =
     \<lparr>cs_config = example_config [VInt 1000], cs_session_id = ''s'', cs_session_dir = path_of ''/data/session_s'',
      cs_environment = VDict [], cs_rx_host = ''localhost'', cs_tx_host = ''localhost'', cs_user = VStr ''nll''\<rparr>"

definition counting_item :: run_tuple where
  "counting_item = \<lparr>benchmark_index = 1, benchmark_name = VStr ''compare'', campaign = ''comparison'',
     repetition = 1, rate = VInt 1000, burst = VInt 1, batch = VInt 32\<rparr>"

definition counting_session :: "bool \<Rightarrow> nat session" where
  "counting_session dropping =
     \<lparr>sn_world = 0, sn_rx = counting_node dropping, sn_tx = counting_node dropping, sn_completed = 0\<rparr>"

definition counting_lab :: "bool \<Rightarrow> nat lab" where
  "counting_lab dropping =
     \<lparr>rx_node = counting_node dropping, tx_node = counting_node dropping, host_ops = counting_host\<rparr>"

definition counting_context :: run_context where
  "counting_context =
     \<lparr>rc_global = VDict example_global, rc_runtime = example_runtime, rc_receiver = VDict example_node,
      rc_sender = VDict example_node, rc_benchmark = VDict (example_benchmark [VInt 1000] ''compare'' ''comparison''),
      rc_receiver_root = ''/opt/nll'', rc_sender_root = ''/opt/nll'', rc_sender_runtime = example_runtime\<rparr>"

definition counting_artifacts :: artifact_names where
  "counting_artifacts =
     \<lparr>ra_id = run_id counting_item, ra_dir = path_of ''/data/session_s/compare'',
      ra_base = ''/tmp/nll_s_'' @ run_id counting_item, ra_pacing = False, ra_profile = VNone\<rparr>"

abbreviation counting_plan :: "string list \<Rightarrow> string list \<Rightarrow> run_setup" where
  "counting_plan rx tx \<equiv>
     \<lparr>su_context = counting_context, su_artifacts = counting_artifacts, su_rx_command = rx, su_tx_command = tx,
      su_interface = VStr ''lo'', su_unavailable = []\<rparr>"

abbreviation idle_run :: "nat \<Rightarrow> nat running" where
  "idle_run n \<equiv> \<lparr>outer = n, active_receiver = None, active_sender = None, cleanup_eligible = False\<rparr>"

abbreviation recorded_run :: "nat \<Rightarrow> nat running" where
  "recorded_run n \<equiv> \<lparr>outer = n, active_receiver = None, active_sender = None, cleanup_eligible = True\<rparr>"

lemma counting_commands:
  "\<not> isl (workload_commands counting_context counting_artifacts counting_item)"
  by code_simp

lemma counting_names:
  "run_context_of (cs_config counting_setup) counting_item = Inr counting_context"
  "run_artifacts_of ''s'' (path_of ''/data/session_s/compare'') counting_item counting_context = Inr counting_artifacts"
  "path_div (cs_session_dir counting_setup) ''compare'' = path_of ''/data/session_s/compare''"
  "profile_command (counting_lab dropping) counting_context counting_artifacts rx n = (Inr (rx, []), n)"
  by code_simp+

definition unanswered :: "string list \<Rightarrow> pyval" where
  "unanswered names = VDict (map (\<lambda>n. (n, probe_document (Inl (runtime_error ''command not found'')))) names)"

definition unread :: "string list \<Rightarrow> delta dict" where
  "unread names = map (\<lambda>n. (n, \<lparr>delta_before = None, delta_after = None, delta_value = None,
     delta_error = Some ''command not found''\<rparr>)) names"

definition counting_state :: pyval where
  "counting_state = unanswered [''thermal'', ''throttled'', ''link'', ''offloads'', ''pause'', ''clock_state'']"

definition counting_counters :: "delta dict" where
  "counting_counters = unread
     [''nic_rx_crc_errors'', ''nic_rx_dropped'', ''nic_rx_errors'', ''nic_rx_missed_errors'', ''nic_rx_pause'',
      ''nic_tx_carrier_errors'', ''nic_tx_dropped'', ''nic_tx_errors'', ''nic_tx_pause'', ''qdisc_drops'',
      ''udp_rcvbuf_errors'', ''udp_sndbuf_errors'', ''udp_socket_drops'']"

definition counting_observation :: run_observation where
  "counting_observation =
     \<lparr>ob_receiver_pid = 7, ob_wrapper_pid = None, ob_sender_pid = 7, ob_silence = Fin 6, ob_before = counting_state,
      ob_after = counting_state, ob_sender_before = counting_state, ob_sender_after = counting_state,
      ob_counters = counting_counters, ob_sender_counters = counting_counters\<rparr>"

lemma counting_measure:
  "measure_run (counting_lab dropping) (counting_plan rx tx) (idle_run n) = (Inr counting_observation, idle_run n)"
  by code_simp

lemma counting_assemble:
  "(case assemble (counting_lab dropping) (counting_plan rx tx) ''s'' (VDict []) counting_item counting_observation n of
      (r, n') \<Rightarrow> (isl r, n')) = (False, n)"
  by code_simp

lemma counting_result:
  "\<not> isl (result_of counting_artifacts (path_of ''/data/session_s'') document)"
  "endswith (path_str (metadata_path counting_artifacts)) ''_meta.json'' = True"
  by code_simp+

lemma not_isl: "\<not> isl r \<Longrightarrow> \<exists>x. r = Inr x"
  by (cases r) simp_all

lemma counting_record:
  "host_write_json (host_ops (counting_lab dropping)) (metadata_path counting_artifacts) v n = (Inr (), Suc n)"
  by (simp add: counting_lab_def counting_host_def counting_result(2))

lemma counting_body:
  "\<exists>r. run_body (counting_lab dropping) (counting_plan rx tx) ''s'' (path_of ''/data/session_s'') (VDict []) counting_item
     (idle_run n) = (Inr r, recorded_run (Suc n))"
proof -
  obtain r n' where "assemble (counting_lab dropping) (counting_plan rx tx) ''s'' (VDict []) counting_item
      counting_observation n = (r, n')" by (metis surj_pair)
  with counting_assemble [of dropping rx tx n] obtain document where
    assembled: "assemble (counting_lab dropping) (counting_plan rx tx) ''s'' (VDict []) counting_item
      counting_observation n = (Inr document, n)" by (auto dest: not_isl)
  obtain r where "result_of counting_artifacts (path_of ''/data/session_s'') document = Inr r"
    using not_isl [OF counting_result(1)] by blast
  with assembled show ?thesis
    by (simp add: run_body_def abind_def counting_measure outside_def counting_record aupdate_def alift_run)
qed

lemma counting_cleanup:
  "cleanup (counting_lab dropping) (counting_plan rx tx) (recorded_run n) =
     (if dropping \<and> n = 1 then Inl (Exn SSHException ''connection lost'') else Inr (),
      recorded_run n)"
  by (simp add: cleanup_def abind_def outside_def stop_quietly_def areturn_def remove_artifacts_def counting_lab_def
      counting_node_def)

lemma counting_prepare:
  "\<exists>rx tx. prepare_run (counting_lab dropping) (cs_config counting_setup) ''s'' (cs_session_dir counting_setup)
     counting_item n = (Inr (counting_plan rx tx), n)"
proof -
  obtain rx tx where "workload_commands counting_context counting_artifacts counting_item = Inr (rx, tx)"
    using not_isl [OF counting_commands] by auto
  moreover have "raw_argument (benchmark_name counting_item) = Inr ''compare''"
    "py_index (rc_receiver counting_context) ''interface'' = Inr (VStr ''lo'')"
    "host_mkdir (host_ops (counting_lab dropping)) = (\<lambda>_. areturn ())"
    by (simp_all add: counting_item_def raw_argument_def counting_context_def example_node_def py_index_VDict_Some
        counting_lab_def counting_host_def)
  ultimately show ?thesis
    by (auto simp: prepare_run_def counting_names abind_def alift_run areturn_run)
qed

lemma counting_execute:
  "\<exists>r. execute_run (counting_lab dropping) (cs_config counting_setup) ''s'' (cs_session_dir counting_setup) (VDict [])
     counting_item n =
     (if dropping \<and> n = 0 then Inl (Exn SSHException ''connection lost'') else Inr r, Suc n)"
proof -
  obtain rx tx where "prepare_run (counting_lab dropping) (cs_config counting_setup) ''s'' (cs_session_dir counting_setup)
     counting_item n = (Inr (counting_plan rx tx), n)" using counting_prepare by blast
  moreover obtain r where "run_body (counting_lab dropping) (counting_plan rx tx) ''s'' (path_of ''/data/session_s'') (VDict [])
     counting_item (idle_run n) = (Inr r, recorded_run (Suc n))" using counting_body by blast
  moreover have "cs_session_dir counting_setup = path_of ''/data/session_s''" by (simp add: counting_setup_def)
  ultimately show ?thesis
    by (auto simp: execute_run_def abind_def guarded_run_def afinally_def counting_cleanup)
qed

lemma counting_attempt:
  "\<exists>r. one_attempt counting_host counting_setup counting_item (counting_session dropping \<lparr>sn_world := n\<rparr>) =
     (if dropping \<and> n = 0 then Inl (Exn SSHException ''connection lost'') else Inr r,
      counting_session dropping \<lparr>sn_world := Suc n\<rparr>)"
  using counting_execute [where dropping = dropping and n = n]
  by (auto simp: one_attempt_def with_session_def in_session_def counting_session_def counting_lab_def counting_setup_def)

lemma counting_reconnect:
  "reconnect_nodes (counting_network dropping) counting_setup (counting_session dropping \<lparr>sn_world := n\<rparr>) =
     (Inr (), counting_session dropping \<lparr>sn_world := n\<rparr>)"
  by (simp add: reconnect_nodes_def abind_def with_session_def in_session_def close_quietly_def acatch_def areturn_def
      counting_session_def counting_node_def counting_setup_def shared_node_def get_node_def is_local_def
      LOOPBACK_HOSTS_def set_nodes_def aupdate_def counting_network_def)

lemma counting_announce: "\<not> isl (announce counting_setup counting_item)"
  by code_simp

text \<open>
  A run whose record is on disk is measured again, and its record overwritten, when only the removal of
  the remote artifacts fails with a transport error.
\<close>

lemma recorded_run_measured_again:
  "\<exists>r. execute_with_progress (counting_network True) counting_host counting_setup counting_item (counting_session True) =
     (Inr r, (counting_session True) \<lparr>sn_world := 2, sn_completed := 1\<rparr>)"
proof -
  have start: "counting_session True = counting_session True \<lparr>sn_world := 0\<rparr>" by (simp add: counting_session_def)
  obtain label where "announce counting_setup counting_item = Inr label" using not_isl [OF counting_announce] by blast
  moreover obtain r where "one_attempt counting_host counting_setup counting_item (counting_session True \<lparr>sn_world := 1\<rparr>) =
     (Inr r, counting_session True \<lparr>sn_world := 2\<rparr>)"
    using counting_attempt [where dropping = True and n = 1] by (auto simp: numeral_2_eq_2)
  moreover obtain e where "one_attempt counting_host counting_setup counting_item (counting_session True) =
     (Inl (Exn SSHException e), counting_session True \<lparr>sn_world := 1\<rparr>)"
    using counting_attempt [where dropping = True and n = 0] start by auto
  ultimately have "run_attempts (counting_network True) counting_host counting_setup counting_item MAX_RUN_ATTEMPTS
      (counting_session True) = (Inr r, counting_session True \<lparr>sn_world := 2\<rparr>)"
    by (simp add: attempts_twice transport_failure_def counting_reconnect)
  with \<open>announce counting_setup counting_item = Inr label\<close> show ?thesis
    by (simp add: execute_with_progress_def abind_def alift_run aupdate_def areturn_run counting_session_def)
qed

lemma counting_manifest:
  "write_manifest counting_host counting_setup base results s = (Inr (), s)"
proof -
  have "endswith (path_str (manifest_path counting_setup)) ''_meta.json'' = False" by code_simp
  then show ?thesis by (simp add: write_manifest_def in_session_def counting_host_def)
qed

lemma counting_campaign_finishes:
  "\<exists>outcome s'. campaign_runs (counting_network False) counting_host counting_setup [] [] [counting_item]
     (counting_session False) = (Inr outcome, s')"
proof -
  obtain label where "announce counting_setup counting_item = Inr label" using not_isl [OF counting_announce] by blast
  moreover have "counting_session False = counting_session False \<lparr>sn_world := 0\<rparr>" by (simp add: counting_session_def)
  with counting_attempt [where dropping = False and n = 0] obtain r s where
    "one_attempt counting_host counting_setup counting_item (counting_session False) = (Inr r, s)" by auto
  ultimately have "\<exists>r s. execute_with_progress (counting_network False) counting_host counting_setup counting_item
      (counting_session False) = (Inr r, s)"
    by (auto simp: execute_with_progress_def abind_def alift_run attempts_twice aupdate_def areturn_run)
  then show ?thesis
    by (auto simp: campaign_runs_def eligible_rates_def freeze_comparative_def abind_def alift_run areturn_run
        counting_manifest Let_def)
qed


end
