(* ===== verification/Preflight.thy ===== *)
theory Preflight
  imports Campaign Run_Verdicts
begin

text \<open>
  \<^verbatim>\<open>preflight\<close> and \<^verbatim>\<open>main\<close> of \<^verbatim>\<open>main.py\<close>: the checks of both nodes before an Ethernet campaign, the report they
  give, and the command line's exit status. The program's entry takes the configuration file, the
  campaign and the analysis as actions; the lemmas say when a node has nothing against it, what a report
  proves about both nodes, and what the exit status means.
\<close>

section \<open>Asking a node\<close>

definition timed_probe :: "'w controller \<Rightarrow> string list res \<Rightarrow> rat \<Rightarrow> ('w, pyval) act" where
  "timed_probe node cmd timeout w =
     (case cmd of
        Inl e \<Rightarrow> (Inr (probe_document (Inl e)), w)
      | Inr args \<Rightarrow> (case ctl_run node args timeout w of (r, w') \<Rightarrow> (Inr (probe_document r), w')))"

type_synonym question = "string \<times> string list res \<times> rat"

fun ask_all :: "'w controller \<Rightarrow> question list \<Rightarrow> ('w, pyval dict) act" where
  "ask_all node [] = areturn []"
| "ask_all node ((name, cmd, timeout) # rest) =
     abind (timed_probe node cmd timeout) (\<lambda>v. abind (ask_all node rest) (\<lambda>vs. areturn ((name, v) # vs)))"

definition repository_questions :: "string \<Rightarrow> question list" where
  "repository_questions project_root =
     [(''commit'', Inr [''git'', ''-C'', project_root, ''rev-parse'', ''HEAD''], 30),
      (''clean'', Inr [''git'', ''-C'', project_root, ''status'', ''--porcelain''], 30),
      (''perf'', Inr [''perf'', ''--version''], 30),
      (''chrony'', Inr [''chronyc'', ''tracking''], 30),
      (''throttled'', Inr [''sh'', ''-c'', ''vcgencmd get_throttled 2>/dev/null || false''], 30)]"

text \<open>\<^verbatim>\<open>sorted(RECEIVER_BINARIES)\<close> is the order of the list.\<close>

definition capability_question :: "pure_path \<Rightarrow> question" where
  "capability_question dir =
     (''capabilities'', Inr (''getcap'' # map (\<lambda>binary. path_str (path_div dir binary)) RECEIVER_BINARIES), 30)"

definition test_questions :: "string \<Rightarrow> pure_path \<Rightarrow> question list" where
  "test_questions project_root dir =
     [(''ctest'', Inr [''ctest'', ''--test-dir'', path_str dir, ''--output-on-failure''], 1800),
      (''pytest'', Inr [path_str (path_div (path_of project_root) ''.venv/bin/python''), ''-m'', ''pytest'', ''-q''], 1800)]"

definition not_applicable :: "pyval dict" where
  "not_applicable = [(''capabilities'', VDict [(''value'', VStr ''not applicable''), (''error'', VNone)])]"

definition link_questions :: "pyval \<Rightarrow> question list" where
  "link_questions interface =
     (if truthy interface then [(''link'', rbind (raw_argument interface) (\<lambda>i. Inr [''ethtool'', i]), 30)] else [])"

definition ask_capabilities :: "'w controller \<Rightarrow> bool \<Rightarrow> pure_path \<Rightarrow> ('w, pyval dict) act" where
  "ask_capabilities node receiving dir =
     (if receiving then ask_all node [capability_question dir] else areturn not_applicable)"

text \<open>The probes of one node, in their order; the link is asked only when an interface is configured.\<close>

definition preflight_probes ::
  "'w controller \<Rightarrow> bool \<Rightarrow> string \<Rightarrow> pyval \<Rightarrow> pyval dict \<Rightarrow> ('w, pyval dict) act" where
  "preflight_probes node receiving project_root node_config role_runtime =
     abind (ask_all node (repository_questions project_root)) (\<lambda>repository.
     abind (alift (binary_dir project_root (VDict role_runtime))) (\<lambda>dir.
     abind (ask_capabilities node receiving dir) (\<lambda>capabilities.
     abind (ask_all node (test_questions project_root dir)) (\<lambda>tests.
     abind (alift (py_get_none node_config ''interface'')) (\<lambda>interface.
     abind (ask_all node (link_questions interface)) (\<lambda>link.
     areturn (repository @ capabilities @ tests @ link)))))))"

section \<open>What is wrong with a node\<close>

definition check_value :: "pyval dict \<Rightarrow> string \<Rightarrow> pyval res" where
  "check_value checks name = rbind (py_index (VDict checks) name) (\<lambda>p. py_index p ''value'')"

definition check_error :: "pyval dict \<Rightarrow> string \<Rightarrow> pyval res" where
  "check_error checks name = rbind (py_index (VDict checks) name) (\<lambda>p. py_index p ''error'')"

definition value_text :: "pyval dict \<Rightarrow> string \<Rightarrow> string res" where
  "value_text checks name = rbind (check_value checks name) (\<lambda>v. Inr (py_str v))"

text \<open>\<^verbatim>\<open>str(d.get(name, {}).get("value", ""))\<close>\<close>

definition optional_text :: "pyval \<Rightarrow> string \<Rightarrow> string res" where
  "optional_text d name =
     rbind (py_get_dict d name) (\<lambda>p. rbind (py_get_or p ''value'' (VStr [])) (\<lambda>v. Inr (py_str v)))"

text \<open>All matches of \<^verbatim>\<open>=\s*(\d+)\<close>: the digits after an equals sign.\<close>

function equals_digits :: "string \<Rightarrow> string list" where
  "equals_digits [] = []"
| "equals_digits (c # s) =
     (let ds = takeWhile is_digit (dropWhile is_space s) in
      if c = CHR ''='' \<and> ds \<noteq> [] then ds # equals_digits (dropWhile is_digit (dropWhile is_space s))
      else equals_digits s)"
  by pat_completeness auto

termination
proof (relation "measure length", goal_cases)
  case (2 c s x)
  have "length (dropWhile is_digit (dropWhile is_space s)) \<le> length s"
    by (rule order_trans [OF length_dropWhile_le length_dropWhile_le])
  then show ?case by simp
qed simp_all

definition unavailable :: "pyval dict \<Rightarrow> string \<Rightarrow> string list res" where
  "unavailable checks name =
     check (rbind (check_error checks name) (\<lambda>e. Inr (truthy e))) (name @ '' unavailable or failed'')"

definition capability_test :: "pyval dict \<Rightarrow> bool res" where
  "capability_test checks =
     rbind (value_text checks ''capabilities'') (\<lambda>text. let capability_lines = splitlines text in
     Inr (length capability_lines \<noteq> length RECEIVER_BINARIES \<or>
          list_ex (\<lambda>line. \<not> contains line ''cap_sys_nice'') capability_lines))"

definition link_test :: "pyval dict \<Rightarrow> pyval \<Rightarrow> bool res" where
  "link_test checks node_config =
     rbind (optional_text (VDict checks) ''link'') (\<lambda>link_text.
     rbind (py_get_none node_config ''interface'') (\<lambda>interface.
     Inr (truthy interface \<and>
          (\<not> contains link_text ''Speed: 1000Mb/s'' \<or> \<not> contains link_text ''Duplex: Full''))))"

definition clock_test :: "pyval dict \<Rightarrow> bool res" where
  "clock_test checks =
     rbind (value_text checks ''chrony'') (\<lambda>text. Inr (\<not> contains text ''Leap status     : Normal''))"

definition throttling_test :: "pyval dict \<Rightarrow> bool res" where
  "throttling_test checks =
     rbind (py_index (VDict checks) ''throttled'') (\<lambda>p. throttled (VDict [(''throttled'', p)]))"

definition incomplete_reasons :: "pyval \<Rightarrow> string list res" where
  "incomplete_reasons metadata =
     rbind (py_items metadata) (\<lambda>items.
     rbind (rfilter failed_probe items) (\<lambda>failed. let incomplete = sort (map fst failed) in
     Inr (because (incomplete \<noteq> []) (''incomplete metadata: '' @ join '', '' incomplete))))"

definition governor_test :: "pyval \<Rightarrow> bool res" where
  "governor_test metadata =
     rbind (optional_text metadata ''governor'') (\<lambda>governor.
     Inr (governor \<noteq> [] \<and> list_ex (\<lambda>line. \<not> endswith line ''=performance'') (splitlines governor)))"

definition configured_buffer :: "pyval \<Rightarrow> int res" where
  "configured_buffer runtime =
     rbind (int_or runtime ''receive_buffer_bytes'' 0) (\<lambda>receive.
     rbind (int_or runtime ''send_buffer_bytes'' 0) (\<lambda>send. Inr (max receive send)))"

definition buffer_test :: "pyval \<Rightarrow> pyval \<Rightarrow> bool res" where
  "buffer_test metadata runtime =
     rbind (optional_text metadata ''socket_maxima'') (\<lambda>socket_maxima.
     rbind (configured_buffer runtime) (\<lambda>buffer.
     rbind (rmap py_int_str (equals_digits socket_maxima)) (\<lambda>maxima.
     Inr (length maxima \<noteq> 2 \<or> list_ex (\<lambda>value. value < buffer) maxima))))"

definition node_failures ::
  "bool \<Rightarrow> pyval \<Rightarrow> pyval \<Rightarrow> pyval \<Rightarrow> pyval dict \<Rightarrow> pyval \<Rightarrow> string list res" where
  "node_failures receiving expected_commit node_config runtime checks metadata =
     in_order
       ([check (rbind (check_value checks ''commit'') (\<lambda>v. Inr (\<not> py_eq v expected_commit))) ''wrong commit'',
         check (py_or (rbind (check_error checks ''clean'') (\<lambda>e. Inr (truthy e)))
                      (rbind (check_value checks ''clean'') (\<lambda>v. Inr (truthy v)))) ''dirty tree''] @
        map (unavailable checks) [''perf'', ''chrony'', ''throttled'', ''ctest'', ''pytest''] @
        [if receiving then check (capability_test checks) ''one or more receivers lack CAP_SYS_NICE'' else Inr [],
         check (link_test checks node_config) ''link is not 1 Gb/s full duplex'',
         check (clock_test checks) ''clock is not synchronized'',
         check (throttling_test checks) ''throttling flag is nonzero'',
         incomplete_reasons metadata,
         check (governor_test metadata) ''performance governor is not active on every CPU'',
         check (buffer_test metadata runtime) ''socket maxima are below configured buffers''])"

section \<open>The whole pre-flight check\<close>

text \<open>The world with the controllers opened so far, which the \<^verbatim>\<open>finally\<close> clause closes in order.\<close>

record 'w inspection =
  in_world :: 'w
  in_controllers :: "'w controller list"

definition in_inspection :: "('w, 'a) act \<Rightarrow> ('w inspection, 'a) act" where
  "in_inspection m s = (case m (in_world s) of (r, w) \<Rightarrow> (r, s\<lparr>in_world := w\<rparr>))"

record node_report =
  nr_probes :: "pyval dict"
  nr_metadata :: pyval
  nr_failures :: "string list"

definition inspect_role ::
  "'w network \<Rightarrow> pyval \<Rightarrow> pyval \<Rightarrow> pyval \<Rightarrow> bool \<Rightarrow> ('w inspection, node_report) act" where
  "inspect_role net g nodes expected_commit receiving =
     abind (alift (py_index nodes (if receiving then ''receiver'' else ''sender''))) (\<lambda>node_config.
     abind (alift (management_host node_config)) (\<lambda>host.
     abind (alift (py_index g ''user'')) (\<lambda>user.
     abind (in_inspection (get_node net host user)) (\<lambda>node.
     abind (aupdate (in_controllers_update (\<lambda>cs. cs @ [node]))) (\<lambda>_.
     abind (alift (node_project_root g node_config)) (\<lambda>project_root.
     abind (alift (py_index g ''runtime'')) (\<lambda>runtime.
     abind (alift (rbind (as_dict runtime) (\<lambda>d. node_runtime d node_config))) (\<lambda>role_runtime.
     abind (in_inspection (preflight_probes node receiving project_root node_config role_runtime)) (\<lambda>probes.
     abind (alift (py_get_none node_config ''interface'')) (\<lambda>interface.
     abind (in_inspection (collect_machine_metadata node project_root interface)) (\<lambda>metadata.
     abind (alift (node_failures receiving expected_commit node_config runtime probes metadata)) (\<lambda>failures.
     areturn \<lparr>nr_probes = probes, nr_metadata = metadata, nr_failures = failures\<rparr>))))))))))))"

fun close_all :: "'w controller list \<Rightarrow> ('w, unit) act" where
  "close_all [] = areturn ()"
| "close_all (node # nodes) = abind (ctl_close node) (\<lambda>_. close_all nodes)"

definition close_inspected :: "('w inspection, unit) act" where
  "close_inspected s = in_inspection (close_all (in_controllers s)) s"

definition role_entry :: "node_report \<Rightarrow> pyval" where
  "role_entry nr = VDict
     [(''probes'', VDict (nr_probes nr @
         [(''complete_metadata'', VDict [(''value'', nr_metadata nr), (''error'', VNone)])])),
      (''failures'', VList (map VStr (nr_failures nr)))]"

definition all_failures :: "node_report \<Rightarrow> node_report \<Rightarrow> string list" where
  "all_failures receiver sender =
     map (\<lambda>reason. ''receiver: '' @ reason) (nr_failures receiver) @
     map (\<lambda>reason. ''sender: '' @ reason) (nr_failures sender)"

definition preflight_report :: "node_report \<Rightarrow> node_report \<Rightarrow> pyval" where
  "preflight_report receiver sender = VDict
     [(''schema_version'', VInt 1),
      (''checks'', VDict [(''receiver'', role_entry receiver), (''sender'', role_entry sender)]),
      (''valid'', VBool (all_failures receiver sender = [])),
      (''failures'', VList (map VStr (all_failures receiver sender)))]"

definition frozen_commit :: "pyval \<Rightarrow> pyval res" where
  "frozen_commit g =
     rbind (py_index g ''topology'') (\<lambda>topology.
     rbind (py_in_set topology [VStr ''distributed_ethernet'', VStr ''external_generator'']) (\<lambda>ethernet.
     rbind (require ethernet (ve ''preflight is only meaningful for an Ethernet topology'')) (\<lambda>_.
     rbind (py_get_none g ''benchmark_commit'') (\<lambda>expected_commit.
     rbind (require (truthy expected_commit \<and> \<not> py_eq expected_commit (VStr ''SET_AFTER_FREEZING_COMMIT''))
       (ve ''global.benchmark_commit must be frozen before preflight'')) (\<lambda>_. Inr expected_commit)))))"

definition inspect_nodes ::
  "'w network \<Rightarrow> pyval \<Rightarrow> pyval \<Rightarrow> pyval \<Rightarrow> ('w inspection, pyval) act" where
  "inspect_nodes net g nodes expected_commit =
     abind (inspect_role net g nodes expected_commit True) (\<lambda>receiver.
     abind (inspect_role net g nodes expected_commit False) (\<lambda>sender.
     let failures = all_failures receiver sender in
     abind (require_that (failures = []) (runtime_error (''preflight failed: '' @ join ''; '' failures))) (\<lambda>_.
     areturn (preflight_report receiver sender))))"

definition preflight :: "'w network \<Rightarrow> pyval \<Rightarrow> ('w, pyval) act" where
  "preflight net config =
     abind (alift (validate_config config)) (\<lambda>_.
     abind (alift (py_index config ''global'')) (\<lambda>g.
     abind (alift (py_index g ''nodes'')) (\<lambda>nodes.
     abind (alift (frozen_commit g)) (\<lambda>expected_commit.
     (\<lambda>w. case afinally (inspect_nodes net g nodes expected_commit) close_inspected
               \<lparr>in_world = w, in_controllers = []\<rparr> of (r, s) \<Rightarrow> (r, in_world s))))))"

section \<open>The program\<close>

text \<open>\<^verbatim>\<open>except (OSError, ValueError, RuntimeError, subprocess.SubprocessError)\<close>\<close>

definition reported :: "exc_class \<Rightarrow> bool" where
  "reported k \<longleftrightarrow> is_os_error k \<or>
     k \<in> {ValueError, UnicodeDecodeErr, JSONDecodeErr, RuntimeError, TimeoutExpired, CalledProcessError}"

record arguments =
  arg_config :: string
  arg_skip_build :: bool
  arg_skip_analysis :: bool
  arg_preflight :: bool
  arg_preflight_report :: string

text \<open>
  Reading and parsing the file, the campaign (with its session directory) and the analysis of a session
  are actions; so are the messages on the two streams.
\<close>

record 'w program =
  pg_load :: "pure_path \<Rightarrow> ('w, pyval) act"
  pg_preflight :: "pyval \<Rightarrow> ('w, pyval) act"
  pg_campaign :: "pyval \<Rightarrow> pure_path \<Rightarrow> bool \<Rightarrow> ('w, pure_path) act"
  pg_analyse :: "pure_path \<Rightarrow> ('w, unit) act"
  pg_write_json :: "pure_path \<Rightarrow> pyval \<Rightarrow> ('w, unit) act"
  pg_print :: "string \<Rightarrow> ('w, unit) act"
  pg_print_error :: "string \<Rightarrow> ('w, unit) act"

definition program_body :: "'w program \<Rightarrow> arguments \<Rightarrow> ('w, int) act" where
  "program_body pg a =
     (let config_path = path_of (arg_config a) in
     abind (pg_load pg config_path) (\<lambda>config.
     if arg_preflight a then
       abind (pg_preflight pg config) (\<lambda>report.
       abind (pg_write_json pg (path_of (arg_preflight_report a)) report) (\<lambda>_.
       abind (pg_print pg (''Preflight passed: '' @ arg_preflight_report a)) (\<lambda>_. areturn 0)))
     else
       abind (pg_campaign pg config config_path (arg_skip_build a)) (\<lambda>session_dir.
       abind (if arg_skip_analysis a then areturn () else pg_analyse pg session_dir) (\<lambda>_.
       abind (pg_print pg (''Completed session: '' @ path_str session_dir)) (\<lambda>_. areturn 0)))))"

definition main_program :: "'w program \<Rightarrow> arguments \<Rightarrow> ('w, int) act" where
  "main_program pg a =
     acatch reported (program_body pg a)
       (\<lambda>e. abind (pg_print_error pg (''error: '' @ exc_text e)) (\<lambda>_. areturn 1))"

section \<open>What a node must answer\<close>

text \<open>
  The outcome of a command is its output or its exception. A probe keeps only the text of an exception,
  and the checks ask whether that text is empty: a failure without one counts as answered.
\<close>

definition answered :: "string res \<Rightarrow> bool" where
  "answered r = (case r of Inr _ \<Rightarrow> True | Inl e \<Rightarrow> exc_text e = [])"

definition reply :: "string res \<Rightarrow> string" where
  "reply r = (case r of Inr v \<Rightarrow> v | Inl _ \<Rightarrow> ''None'')"

definition capable :: "string \<Rightarrow> bool" where
  "capable text \<longleftrightarrow> length (splitlines text) = length RECEIVER_BINARIES \<and>
     list_all (\<lambda>line. contains line ''cap_sys_nice'') (splitlines text)"

definition gigabit :: "string \<Rightarrow> bool" where
  "gigabit text \<longleftrightarrow> contains text ''Speed: 1000Mb/s'' \<and> contains text ''Duplex: Full''"

definition ready_probes :: "bool \<Rightarrow> string \<Rightarrow> bool \<Rightarrow> (string \<Rightarrow> string res) \<Rightarrow> bool" where
  "ready_probes receiving commit linked answer \<longleftrightarrow>
     answer ''commit'' = Inr commit \<and>
     answered (answer ''clean'') \<and> (\<forall>v. answer ''clean'' = Inr v \<longrightarrow> v = []) \<and>
     list_all (\<lambda>name. answered (answer name)) [''perf'', ''chrony'', ''throttled'', ''ctest'', ''pytest''] \<and>
     (receiving \<longrightarrow> capable (reply (answer ''capabilities''))) \<and>
     (linked \<longrightarrow> gigabit (reply (answer ''link''))) \<and>
     contains (reply (answer ''chrony'')) ''Leap status     : Normal'' \<and>
     hex_search (reply (answer ''throttled'')) \<in> {None, Some 0}"

definition governed :: "pyval \<Rightarrow> bool" where
  "governed metadata \<longleftrightarrow> (\<exists>governor. optional_text metadata ''governor'' = Inr governor \<and>
     (governor = [] \<or> list_all (\<lambda>line. endswith line ''=performance'') (splitlines governor)))"

definition buffered :: "pyval \<Rightarrow> pyval \<Rightarrow> bool" where
  "buffered metadata runtime \<longleftrightarrow> (\<exists>text buffer receive send.
     optional_text metadata ''socket_maxima'' = Inr text \<and> configured_buffer runtime = Inr buffer \<and>
     rmap py_int_str (equals_digits text) = Inr [receive, send] \<and> buffer \<le> receive \<and> buffer \<le> send)"

definition ready_machine :: "pyval \<Rightarrow> pyval \<Rightarrow> bool" where
  "ready_machine metadata runtime \<longleftrightarrow> state_complete metadata \<and> governed metadata \<and> buffered metadata runtime"

section \<open>When a node has nothing against it\<close>

text \<open>The documents of the questions asked, for given outcomes.\<close>

definition answers :: "question list \<Rightarrow> (string \<Rightarrow> string res) \<Rightarrow> pyval dict" where
  "answers questions answer = map (\<lambda>(name, _, _). (name, probe_document (answer name))) questions"

definition role_questions :: "bool \<Rightarrow> string \<Rightarrow> pure_path \<Rightarrow> pyval \<Rightarrow> question list" where
  "role_questions receiving project_root dir interface =
     repository_questions project_root @ (if receiving then [capability_question dir] else []) @
     test_questions project_root dir @ link_questions interface"

definition role_answers ::
  "bool \<Rightarrow> string \<Rightarrow> pure_path \<Rightarrow> pyval \<Rightarrow> (string \<Rightarrow> string res) \<Rightarrow> pyval dict" where
  "role_answers receiving project_root dir interface answer =
     answers (repository_questions project_root) answer @
     (if receiving then answers [capability_question dir] answer else not_applicable) @
     answers (test_questions project_root dir) answer @ answers (link_questions interface) answer"

lemma probe_document_fields [simp]:
  "py_index (probe_document r) ''value'' = Inr (case r of Inr v \<Rightarrow> VStr v | Inl _ \<Rightarrow> VNone)"
  "py_index (probe_document r) ''error'' = Inr (case r of Inr _ \<Rightarrow> VNone | Inl e \<Rightarrow> VStr (exc_text e))"
  "py_get_or (probe_document r) ''value'' d = Inr (case r of Inr v \<Rightarrow> VStr v | Inl _ \<Rightarrow> VNone)"
  by (simp_all add: probe_document_def py_index_VDict_Some split: sum.split)

lemma py_str_outcome: "py_str (case r of Inr v \<Rightarrow> VStr v | Inl _ \<Rightarrow> VNone) = reply r"
  by (simp add: reply_def split: sum.split)

lemma truthy_outcome: "truthy (case r of Inr _ \<Rightarrow> VNone | Inl e \<Rightarrow> VStr (exc_text e)) \<longleftrightarrow> \<not> answered r"
  by (simp add: answered_def split: sum.split)

lemma role_answers_dget:
  "name \<in> set [''commit'', ''clean'', ''perf'', ''chrony'', ''throttled'', ''ctest'', ''pytest''] \<Longrightarrow>
     dget (role_answers receiving project_root dir interface answer) name = Some (probe_document (answer name))"
  "dget (role_answers True project_root dir interface answer) ''capabilities'' =
     Some (probe_document (answer ''capabilities''))"
  "dget (role_answers receiving project_root dir interface answer) ''link'' =
     (if truthy interface then Some (probe_document (answer ''link'')) else None)"
  by (auto simp: role_answers_def answers_def repository_questions_def capability_question_def not_applicable_def
      test_questions_def link_questions_def)

lemma role_checks:
  assumes "name \<in> set [''commit'', ''clean'', ''perf'', ''chrony'', ''throttled'', ''ctest'', ''pytest'']"
    and "checks = role_answers receiving project_root dir interface answer"
  shows "py_index (VDict checks) name = Inr (probe_document (answer name))"
    "check_value checks name = Inr (case answer name of Inr v \<Rightarrow> VStr v | Inl _ \<Rightarrow> VNone)"
    "check_error checks name = Inr (case answer name of Inr _ \<Rightarrow> VNone | Inl e \<Rightarrow> VStr (exc_text e))"
    "value_text checks name = Inr (reply (answer name))"
proof -
  show "py_index (VDict checks) name = Inr (probe_document (answer name))"
    by (simp add: assms(2) role_answers_dget(1) [OF assms(1)])
  then show "check_value checks name = Inr (case answer name of Inr v \<Rightarrow> VStr v | Inl _ \<Rightarrow> VNone)"
    "check_error checks name = Inr (case answer name of Inr _ \<Rightarrow> VNone | Inl e \<Rightarrow> VStr (exc_text e))"
    "value_text checks name = Inr (reply (answer name))"
    unfolding check_value_def check_error_def value_text_def
    by (simp_all only: rbind_simps probe_document_fields py_str_outcome)
qed

lemma unavailable_Nil_iff:
  assumes "name \<in> set [''commit'', ''clean'', ''perf'', ''chrony'', ''throttled'', ''ctest'', ''pytest'']"
    and "checks = role_answers receiving project_root dir interface answer"
  shows "unavailable checks name = Inr [] \<longleftrightarrow> answered (answer name)"
  unfolding unavailable_def check_Nil_iff role_checks(3) [OF assms] by (simp add: truthy_outcome)

lemma clean_Nil_iff:
  assumes "checks = role_answers receiving project_root dir interface answer"
  shows "check (py_or (rbind (check_error checks ''clean'') (\<lambda>e. Inr (truthy e)))
      (rbind (check_value checks ''clean'') (\<lambda>v. Inr (truthy v)))) r = Inr [] \<longleftrightarrow>
    answered (answer ''clean'') \<and> (\<forall>v. answer ''clean'' = Inr v \<longrightarrow> v = [])"
proof -
  have "truthy (case answer ''clean'' of Inr v \<Rightarrow> VStr v | Inl _ \<Rightarrow> VNone) \<longleftrightarrow>
      (\<exists>v. answer ''clean'' = Inr v \<and> v \<noteq> [])" by (cases "answer ''clean''") simp_all
  then show ?thesis
    using role_checks [OF _ assms, of "''clean''"] by (simp add: check_Nil_iff py_or_False_iff truthy_outcome)
qed

lemma commit_Nil_iff:
  assumes "checks = role_answers receiving project_root dir interface answer" "truthy expected"
  shows "check (rbind (check_value checks ''commit'') (\<lambda>v. Inr (\<not> py_eq v expected))) r = Inr [] \<longleftrightarrow>
    (\<exists>commit. answer ''commit'' = Inr commit \<and> expected = VStr commit)"
proof -
  have "expected \<noteq> VNone" using assms(2) by auto
  then show ?thesis
    using role_checks(2) [OF _ assms(1), of "''commit''"]
    by (cases "answer ''commit''") (auto simp: check_Nil_iff)
qed

lemma capability_False_iff:
  "capability_test (role_answers True project_root dir interface answer) = Inr False \<longleftrightarrow>
     capable (reply (answer ''capabilities''))"
proof -
  have "value_text (role_answers True project_root dir interface answer) ''capabilities'' =
      Inr (reply (answer ''capabilities''))"
    by (simp add: value_text_def check_value_def py_index_VDict_Some [OF role_answers_dget(2)] py_str_outcome)
  then show ?thesis
    by (auto simp: capability_test_def capable_def list_ex_iff list_all_iff Let_def)
qed

lemma link_False_iff:
  assumes "py_get_none node_config ''interface'' = Inr interface"
  shows "link_test (role_answers receiving project_root dir interface answer) node_config = Inr False \<longleftrightarrow>
    (truthy interface \<longrightarrow> gigabit (reply (answer ''link'')))"
proof -
  have "optional_text (VDict (role_answers receiving project_root dir interface answer)) ''link'' =
      Inr (if truthy interface then reply (answer ''link'') else [])"
    by (simp add: optional_text_def dget_or_def role_answers_dget(3) py_str_outcome)
  then show ?thesis using assms by (auto simp: link_test_def gigabit_def)
qed

lemma throttling_False_iff:
  assumes "checks = role_answers receiving project_root dir interface answer"
  shows "throttling_test checks = Inr False \<longleftrightarrow> hex_search (reply (answer ''throttled'')) \<in> {None, Some 0}"
proof -
  have "dget checks ''throttled'' = Some (probe_document (answer ''throttled''))"
    by (simp add: assms role_answers_dget(1))
  then show ?thesis
    by (simp add: throttling_test_def throttled_def py_index_VDict_Some dget_or_def py_str_outcome split: option.split)
qed

lemma in_order_both: "in_order (c # cs) = Inr [] \<longleftrightarrow> c = Inr [] \<and> in_order cs = Inr []"
  by (simp add: in_order_Nil_iff del: in_order_simps)

lemma sort_Nil_iff: "sort xs = [] \<longleftrightarrow> xs = []"
  by (metis set_empty set_sort)

lemma incomplete_Nil_iff: "incomplete_reasons metadata = Inr [] \<longleftrightarrow> state_complete metadata"
proof -
  have "incomplete_reasons metadata = Inr [] \<longleftrightarrow> (\<exists>items. py_items metadata = Inr items \<and> rfilter failed_probe items = Inr [])"
    by (auto simp: incomplete_reasons_def rbind_Inr_iff Let_def sort_Nil_iff)
  then show ?thesis by (cases metadata) (simp_all add: state_complete_def rfilter_Nil_iff)
qed

lemma governor_False_iff: "governor_test metadata = Inr False \<longleftrightarrow> governed metadata"
  by (auto simp: governor_test_def governed_def rbind_Inr_iff list_ex_iff list_all_iff)

lemma buffer_False_iff: "buffer_test metadata runtime = Inr False \<longleftrightarrow> buffered metadata runtime"
proof -
  have "length maxima = 2 \<and> \<not> list_ex (\<lambda>value. value < buffer) maxima \<longleftrightarrow>
      (\<exists>receive send. maxima = [receive, send] \<and> buffer \<le> receive \<and> buffer \<le> send)" for maxima and buffer :: int
    by (auto simp: length_Suc_conv numeral_2_eq_2)
  then show ?thesis by (auto simp: buffer_test_def buffered_def rbind_Inr_iff)
qed

lemma node_failures_Nil_iff:
  assumes "checks = role_answers receiving project_root dir interface answer"
    and "py_get_none node_config ''interface'' = Inr interface" "truthy expected"
  shows "node_failures receiving expected node_config runtime checks metadata = Inr [] \<longleftrightarrow>
    (\<exists>commit. expected = VStr commit \<and> ready_probes receiving commit (truthy interface) answer) \<and>
    ready_machine metadata runtime"
proof -
  have capabilities: "(if receiving then check (capability_test checks) r else Inr []) = Inr [] \<longleftrightarrow>
      (receiving \<longrightarrow> capable (reply (answer ''capabilities'')))" for r
    using capability_False_iff by (simp add: assms(1) check_Nil_iff)
  have clock: "clock_test checks = Inr False \<longleftrightarrow> contains (reply (answer ''chrony'')) ''Leap status     : Normal''"
    using role_checks(4) [OF _ assms(1), of "''chrony''"] by (simp add: clock_test_def)
  note tests = check_Nil_iff [of "link_test checks node_config"] check_Nil_iff [of "clock_test checks"]
    check_Nil_iff [of "throttling_test checks"] check_Nil_iff [of "governor_test metadata"]
    check_Nil_iff [of "buffer_test metadata runtime"]
  have tools: "in_order (map (unavailable checks) [''perf'', ''chrony'', ''throttled'', ''ctest'', ''pytest'']) = Inr [] \<longleftrightarrow>
      list_all (\<lambda>name. answered (answer name)) [''perf'', ''chrony'', ''throttled'', ''ctest'', ''pytest'']"
    unfolding in_order_map list_all_iff using unavailable_Nil_iff [OF _ assms(1)] by simp
  have "node_failures receiving expected node_config runtime checks metadata = Inr [] \<longleftrightarrow>
      (\<exists>commit. answer ''commit'' = Inr commit \<and> expected = VStr commit) \<and>
      (answered (answer ''clean'') \<and> (\<forall>v. answer ''clean'' = Inr v \<longrightarrow> v = [])) \<and>
      list_all (\<lambda>name. answered (answer name)) [''perf'', ''chrony'', ''throttled'', ''ctest'', ''pytest''] \<and>
      (receiving \<longrightarrow> capable (reply (answer ''capabilities''))) \<and>
      (truthy interface \<longrightarrow> gigabit (reply (answer ''link''))) \<and>
      contains (reply (answer ''chrony'')) ''Leap status     : Normal'' \<and>
      hex_search (reply (answer ''throttled'')) \<in> {None, Some 0} \<and>
      state_complete metadata \<and> governed metadata \<and> buffered metadata runtime"
    by (simp only: node_failures_def in_order_append in_order_both in_order_simps(1) tools
        commit_Nil_iff [OF assms(1, 3)] clean_Nil_iff [OF assms(1)] capabilities tests clock
        link_False_iff [OF assms(2), of receiving project_root dir answer, folded assms(1)]
        throttling_False_iff [OF assms(1)] incomplete_Nil_iff governor_False_iff buffer_False_iff simp_thms conj_assoc)
  then show ?thesis unfolding ready_probes_def ready_machine_def by blast
qed

section \<open>What a report proves\<close>

text \<open>\<open>asked node question r\<close>: some execution of the question's command on the node gave the outcome \<open>r\<close>.\<close>

definition asked :: "'w controller \<Rightarrow> question \<Rightarrow> string res \<Rightarrow> bool" where
  "asked node question r = (case question of (_, cmd, timeout) \<Rightarrow>
     (case cmd of Inl e \<Rightarrow> r = Inl e | Inr args \<Rightarrow> (\<exists>v v'. ctl_run node args timeout v = (r, v'))))"

lemma timed_probe_asked:
  "timed_probe node cmd timeout w = (r, w') \<Longrightarrow> \<exists>outcome. r = Inr (probe_document outcome) \<and> asked node (name, cmd, timeout) outcome"
  by (auto simp: timed_probe_def asked_def split: sum.splits prod.splits)

lemma ask_all_asked:
  "ask_all node questions w = (r, w') \<Longrightarrow> distinct (map fst questions) \<Longrightarrow>
     \<exists>answer. r = Inr (answers questions answer) \<and> (\<forall>q \<in> set questions. asked node q (answer (fst q)))"
proof (induction questions arbitrary: w r w')
  case Nil
  then show ?case by (simp add: areturn_def answers_def)
next
  case (Cons question questions)
  obtain name cmd timeout where q: "question = (name, cmd, timeout)" by (cases question)
  obtain outcome v where first: "timed_probe node cmd timeout w = (Inr (probe_document outcome), v)"
    and asked: "asked node question outcome"
    using timed_probe_asked [where node = node and cmd = cmd and timeout = timeout and w = w and name = name] unfolding q
    by (metis surj_pair)
  obtain r' v' where rest: "ask_all node questions v = (r', v')" by (cases "ask_all node questions v")
  from Cons.IH [OF rest] Cons.prems(2) obtain answer where
    answer: "r' = Inr (answers questions answer)" "\<forall>q \<in> set questions. asked node q (answer (fst q))" by auto
  have fresh: "fst q \<noteq> name" if "q \<in> set questions" for q
    using Cons.prems(2) that by (auto simp: q rev_image_eqI)
  have "r = Inr (answers (question # questions) (answer (name := outcome)))"
    using Cons.prems(1) first rest answer(1) fresh
    by (auto simp: q abind_def areturn_def answers_def)
  moreover have "\<forall>q \<in> set (question # questions). asked node q ((answer (name := outcome)) (fst q))"
    using asked answer(2) fresh by (simp add: q)
  ultimately show ?case by blast
qed

lemma answers_cong: "(\<And>q. q \<in> set questions \<Longrightarrow> f (fst q) = g (fst q)) \<Longrightarrow> answers questions f = answers questions g"
  by (auto simp: answers_def)

lemma answers_nothing [simp]: "answers [] f = []"
  by (simp add: answers_def)

lemma question_names:
  "map fst (repository_questions project_root) = [''commit'', ''clean'', ''perf'', ''chrony'', ''throttled'']"
  "map fst (test_questions project_root dir) = [''ctest'', ''pytest'']"
  "map fst [capability_question dir] = [''capabilities'']"
  "map fst (link_questions interface) = (if truthy interface then [''link''] else [])"
  by (simp_all add: repository_questions_def test_questions_def capability_question_def link_questions_def)

lemma name_of_question:
  "q \<in> set (repository_questions project_root) \<Longrightarrow> fst q \<in> {''commit'', ''clean'', ''perf'', ''chrony'', ''throttled''}"
  "q \<in> set (test_questions project_root dir) \<Longrightarrow> fst q \<in> {''ctest'', ''pytest''}"
  "q \<in> set (link_questions interface) \<Longrightarrow> fst q = ''link''"
  "fst (capability_question dir) = ''capabilities''"
  by (auto simp: repository_questions_def test_questions_def capability_question_def link_questions_def split: if_splits)

lemma preflight_probes_asked:
  assumes "preflight_probes node receiving project_root node_config role_runtime w = (Inr probes, w')"
    and "py_get_none node_config ''interface'' = Inr interface"
  shows "\<exists>dir answer. probes = role_answers receiving project_root dir interface answer \<and>
    (\<forall>q \<in> set (role_questions receiving project_root dir interface). asked node q (answer (fst q)))"
proof -
  from assms obtain repository dir capabilities tests links w1 w2 w3 where
    parts: "ask_all node (repository_questions project_root) w = (Inr repository, w1)"
      "ask_capabilities node receiving dir w1 = (Inr capabilities, w2)"
      "ask_all node (test_questions project_root dir) w2 = (Inr tests, w3)"
      "ask_all node (link_questions interface) w3 = (Inr links, w')"
    and probes: "probes = repository @ capabilities @ tests @ links"
    unfolding preflight_probes_def by (auto simp: act_simps)
  obtain f where f: "repository = answers (repository_questions project_root) f"
      "\<forall>q \<in> set (repository_questions project_root). asked node q (f (fst q))"
    using ask_all_asked [OF parts(1)] by (auto simp: question_names)
  obtain g where g: "capabilities = (if receiving then answers [capability_question dir] g else not_applicable)"
      "receiving \<longrightarrow> asked node (capability_question dir) (g (fst (capability_question dir)))"
    using parts(2) ask_all_asked [of node "[capability_question dir]" w1] unfolding ask_capabilities_def
    by (cases receiving) (fastforce simp: act_simps)+
  obtain h where h: "tests = answers (test_questions project_root dir) h"
      "\<forall>q \<in> set (test_questions project_root dir). asked node q (h (fst q))"
    using ask_all_asked [OF parts(3)] by (auto simp: question_names)
  obtain l where l: "links = answers (link_questions interface) l"
      "\<forall>q \<in> set (link_questions interface). asked node q (l (fst q))"
    using ask_all_asked [OF parts(4)] by (cases "truthy interface") (auto simp: question_names)
  define answer where "answer name =
    (if name = ''capabilities'' then g name else if name = ''link'' then l name
     else if name \<in> {''ctest'', ''pytest''} then h name else f name)" for name
  have same: "q \<in> set (repository_questions project_root) \<Longrightarrow> answer (fst q) = f (fst q)"
    "q \<in> set (test_questions project_root dir) \<Longrightarrow> answer (fst q) = h (fst q)"
    "q \<in> set (link_questions interface) \<Longrightarrow> answer (fst q) = l (fst q)"
    "answer ''capabilities'' = g ''capabilities''" for q
    using name_of_question(1) [of q project_root] name_of_question(2) [of q project_root dir]
      name_of_question(3) [of q interface] by (auto simp: answer_def)
  have "probes = role_answers receiving project_root dir interface answer"
    unfolding probes role_answers_def f(1) g(1) h(1) l(1)
    using answers_cong [of "repository_questions project_root" f answer] answers_cong [of "test_questions project_root dir" h answer]
      answers_cong [of "link_questions interface" l answer] answers_cong [of "[capability_question dir]" g answer] same
    by (simp add: name_of_question(4))
  moreover have "\<forall>q \<in> set (role_questions receiving project_root dir interface). asked node q (answer (fst q))"
    using f(2) g(2) h(2) l(2) same by (auto simp: role_questions_def name_of_question(4) split: if_splits)
  ultimately show ?thesis by blast
qed

text \<open>
  A role is ready when the answers its own node gave satisfy every demand; the report carries the answers.
\<close>

definition ready_role ::
  "'w network \<Rightarrow> pyval \<Rightarrow> pyval \<Rightarrow> string \<Rightarrow> bool \<Rightarrow> node_report \<Rightarrow> bool" where
  "ready_role net g nodes commit receiving nr \<longleftrightarrow>
     (\<exists>node_config host user node project_root dir interface runtime answer s s' v v'.
        py_index nodes (if receiving then ''receiver'' else ''sender'') = Inr node_config \<and>
        management_host node_config = Inr host \<and> py_index g ''user'' = Inr user \<and>
        get_node net host user s = (Inr node, s') \<and> node_project_root g node_config = Inr project_root \<and>
        py_get_none node_config ''interface'' = Inr interface \<and> py_index g ''runtime'' = Inr runtime \<and>
        nr_probes nr = role_answers receiving project_root dir interface answer \<and>
        (\<forall>q \<in> set (role_questions receiving project_root dir interface). asked node q (answer (fst q))) \<and>
        ready_probes receiving commit (truthy interface) answer \<and>
        collect_machine_metadata node project_root interface v = (Inr (nr_metadata nr), v') \<and>
        ready_machine (nr_metadata nr) runtime)"

lemma in_inspection_Inr:
  "in_inspection m s = (Inr x, s') \<longleftrightarrow> (\<exists>w. m (in_world s) = (Inr x, w) \<and> s' = s\<lparr>in_world := w\<rparr>)"
  by (auto simp: in_inspection_def split: prod.split)

lemma abind_InrE:
  "abind m f w = (Inr y, w') \<Longrightarrow> (\<And>x v. m w = (Inr x, v) \<Longrightarrow> f x v = (Inr y, w') \<Longrightarrow> thesis) \<Longrightarrow> thesis"
  by (auto simp: abind_Inr_iff)

lemma in_inspection_InrE:
  "in_inspection m s = (Inr x, s') \<Longrightarrow> (\<And>w. m (in_world s) = (Inr x, w) \<Longrightarrow> s' = s\<lparr>in_world := w\<rparr> \<Longrightarrow> thesis) \<Longrightarrow> thesis"
  by (auto simp: in_inspection_Inr)

lemma alift_InrE: "alift r w = (Inr x, w') \<Longrightarrow> (r = Inr x \<Longrightarrow> w' = w \<Longrightarrow> thesis) \<Longrightarrow> thesis"
  by (simp add: alift_def)

lemma areturn_InrE: "areturn x w = (Inr y, w') \<Longrightarrow> (y = x \<Longrightarrow> w' = w \<Longrightarrow> thesis) \<Longrightarrow> thesis"
  by (simp add: areturn_def)

lemma inspect_role_ready:
  assumes "inspect_role net g nodes expected receiving s = (Inr nr, s')" "nr_failures nr = []" "truthy expected"
  shows "\<exists>commit. expected = VStr commit \<and> ready_role net g nodes commit receiving nr"
proof -
  from assms(1) obtain node_config host user node project_root runtime role_runtime probes interface metadata failures s1 s2 s2' s3 s4 s5 where
    config: "py_index nodes (if receiving then ''receiver'' else ''sender'') = Inr node_config"
      "management_host node_config = Inr host" "py_index g ''user'' = Inr user"
      "get_node net host user s1 = (Inr node, s2)" "node_project_root g node_config = Inr project_root"
      "py_index g ''runtime'' = Inr runtime" "py_get_none node_config ''interface'' = Inr interface"
    and probes: "preflight_probes node receiving project_root node_config role_runtime s2' = (Inr probes, s3)"
    and metadata: "collect_machine_metadata node project_root interface s4 = (Inr metadata, s5)"
    and failures: "node_failures receiving expected node_config runtime probes metadata = Inr failures"
    and nr: "nr = \<lparr>nr_probes = probes, nr_metadata = metadata, nr_failures = failures\<rparr>"
    unfolding inspect_role_def
    by (elim abind_InrE in_inspection_InrE alift_InrE areturn_InrE) (rule that, assumption+)
  obtain dir answer where answers: "probes = role_answers receiving project_root dir interface answer"
      "\<forall>q \<in> set (role_questions receiving project_root dir interface). asked node q (answer (fst q))"
    using preflight_probes_asked [OF probes config(7)] by blast
  have "node_failures receiving expected node_config runtime probes metadata = Inr []"
    using failures assms(2) by (simp only: nr node_report.simps)
  then obtain commit where commit: "expected = VStr commit"
    and ready: "ready_probes receiving commit (truthy interface) answer" "ready_machine metadata runtime"
    unfolding node_failures_Nil_iff [OF answers(1) config(7) assms(3)] by blast
  have "ready_role net g nodes commit receiving nr"
    unfolding ready_role_def nr node_report.simps
    by (intro exI conjI) (rule config answers metadata ready)+
  with commit show ?thesis by blast
qed

lemma frozen_commit_Inr:
  assumes "frozen_commit g = Inr expected"
  shows "\<exists>topology \<in> {''distributed_ethernet'', ''external_generator''}.
    py_index g ''topology'' = Inr (VStr topology) \<and> py_get_none g ''benchmark_commit'' = Inr expected \<and>
    truthy expected \<and> \<not> py_eq expected (VStr ''SET_AFTER_FREEZING_COMMIT'')"
proof -
  from assms obtain topology where topology: "py_index g ''topology'' = Inr topology"
      "py_in_set topology (map VStr [''distributed_ethernet'', ''external_generator'']) = Inr True"
    and rest: "py_get_none g ''benchmark_commit'' = Inr expected" "truthy expected"
      "\<not> py_eq expected (VStr ''SET_AFTER_FREEZING_COMMIT'')"
    by (auto simp: frozen_commit_def rbind_Inr_iff require_def simp del: py_eq.simps split: if_splits)
  from topology(2) obtain name where "topology = VStr name" "name \<in> {''distributed_ethernet'', ''external_generator''}"
    using py_in_set_strs [OF topology(2)] by auto
  with topology(1) rest show ?thesis by blast
qed


text \<open>
  A probe that fails without a text is not noticed: an \<^verbatim>\<open>EOFError\<close> of the connection while the tests run
  leaves nothing against the node.
\<close>

lemma silent_failure_unnoticed:
  "unavailable [(''ctest'', probe_document (Inl (Exn EOFErr [])))] ''ctest'' = Inr []"
  by (simp add: unavailable_def check_error_def py_index_VDict_Some check_def because_def)

section \<open>The exit status\<close>

text \<open>Status 0 means that everything asked for was done, status 1 that one of the listed errors was reported.\<close>

lemma main_status:
  assumes "main_program pg a w = (Inr n, w')"
  shows "(n = 0 \<and> program_body pg a w = (Inr 0, w')) \<or>
    (n = 1 \<and> (\<exists>e v. program_body pg a w = (Inl e, v) \<and> reported (exc_kind e) \<and>
       pg_print_error pg (''error: '' @ exc_text e) v = (Inr (), w')))"
proof (cases "program_body pg a w")
  case (Pair r v)
  have "n' = 0" if "program_body pg a w = (Inr n', v)" for n'
    using that by (auto simp: program_body_def Let_def act_simps split: if_splits)
  then show ?thesis
    using assms Pair by (cases r) (auto simp: main_program_def acatch_def act_simps split: if_splits)
qed

lemma program_body_preflight:
  assumes "program_body pg a w = (Inr n, w')" "arg_preflight a"
  shows "\<exists>config report v v' u. pg_load pg (path_of (arg_config a)) w = (Inr config, v) \<and>
    pg_preflight pg config v = (Inr report, v') \<and>
    pg_write_json pg (path_of (arg_preflight_report a)) report v' = (Inr (), u)"
  using assms by (auto simp: program_body_def Let_def act_simps)

section \<open>Two nodes that are ready\<close>

definition ready_reply :: "string list \<Rightarrow> string" where
  "ready_reply args =
     (let program = hd args in
      if program = ''git'' then (if last args = ''HEAD'' then ''4f2a'' else [])
      else if program = ''chronyc'' then ''Leap status     : Normal''
      else if program = ''getcap'' then join [CHR 0x0A] (replicate 3 ''receiver cap_sys_nice=ep'')
      else if program = ''ethtool'' then ''Speed: 1000Mb/s Duplex: Full''
      else if program = ''sysctl'' then ''rmem_max = 4096'' @ [CHR 0x0A] @ ''wmem_max = 4096''
      else if program = ''sh'' then (if last args = GOVERNOR_SCRIPT then ''cpu0=performance'' else ''throttled=0x0'')
      else ''ok'')"

definition ready_node :: "unit controller" where
  "ready_node =
     \<lparr>ctl_ops = \<lparr>signal_process = \<lambda>_ _. areturn (), signal_wrapper = \<lambda>_ _. areturn (), wait_process = \<lambda>_ _. areturn 0,
        wait_pid_exit = \<lambda>_ _. areturn True, process_exists = \<lambda>_. areturn False\<rparr>,
      ctl_run = \<lambda>args _. areturn (ready_reply args),
      ctl_start = \<lambda>_ _ _. araise (runtime_error ''not started''), ctl_fetch = \<lambda>_ _. areturn (),
      ctl_remove = \<lambda>_. areturn (), ctl_close = areturn ()\<rparr>"

definition ready_network :: "unit network" where
  "ready_network = \<lparr>nw_local = ready_node, nw_remote = \<lambda>_ _. areturn ready_node\<rparr>"

definition ready_config_node :: "string \<Rightarrow> string \<Rightarrow> pyval dict" where
  "ready_config_node host ip =
     [(''management_host'', VStr host), (''benchmark_ip'', VStr ip), (''interface'', VStr ''eth0'')]"

definition ready_global :: "pyval dict" where
  "ready_global =
     [(''topology'', VStr ''distributed_ethernet''), (''remote_project_root'', VStr ''/opt/nll''),
      (''local_data_dir'', VStr ''data''), (''user'', VStr ''nll''),
      (''nodes'', VDict [(''receiver'', VDict (ready_config_node ''pi-a'' ''10.0.0.1'')),
                        (''sender'', VDict (ready_config_node ''pi-b'' ''10.0.0.2''))]),
      (''runtime'', VDict example_runtime), (''metadata_collection'', VBool True), (''tuning_state'', VStr ''none''),
      (''benchmark_commit'', VStr ''4f2a'')]"

definition ready_config :: pyval where
  "ready_config = VDict [(''global'', VDict ready_global),
     (''benchmarks'', VList [VDict (example_benchmark [VInt 1000] ''compare'' ''comparison'')])]"

lemma ready_run: "isl (fst (preflight ready_network ready_config ())) = False"
  by code_simp


end
