(* ===== verification/Polling.thy ===== *)
theory Polling
  imports Local_Node
begin

text \<open>
  The polling loops of \<^verbatim>\<open>main.py\<close>: ask, and ask again after a pause, until an answer comes or the deadline
  has passed. Whether such a loop ends depends on the clock, so its model may be without a result
  (\<open>None\<close>); on a clock that a pause moves forward and asking does not move back it always has one.
\<close>

record 'w clock =
  clock_now :: "'w \<Rightarrow> rat"
  clock_sleep :: "rat \<Rightarrow> 'w \<Rightarrow> 'w"

text \<open>
  \<^verbatim>\<open>while time.monotonic() < deadline: ...; time.sleep(period)\<close>: the body raises, returns with an answer,
  or goes on. Past the deadline there is no answer.
\<close>

partial_function (option) poll_until ::
  "'w clock \<Rightarrow> rat \<Rightarrow> rat \<Rightarrow> ('w, 'a option) act \<Rightarrow> 'w \<Rightarrow> ('a option res \<times> 'w) option" where
  "poll_until c period deadline body w =
     (if clock_now c w < deadline then
        (case body w of
           (Inl e, v) \<Rightarrow> Some (Inl e, v)
         | (Inr (Some x), v) \<Rightarrow> Some (Inr (Some x), v)
         | (Inr None, v) \<Rightarrow> poll_until c period deadline body (clock_sleep c period v))
      else Some (Inr None, w))"

text \<open>What the code after the loop does with the missing answer.\<close>

definition poll_or ::
  "'w clock \<Rightarrow> rat \<Rightarrow> rat \<Rightarrow> ('w, 'a option) act \<Rightarrow> ('w, 'a) act \<Rightarrow> 'w \<Rightarrow> ('a res \<times> 'w) option" where
  "poll_or c period timeout body late w =
     (case poll_until c period (clock_now c w + timeout) body w of
        None \<Rightarrow> None
      | Some (Inl e, v) \<Rightarrow> Some (Inl e, v)
      | Some (Inr (Some x), v) \<Rightarrow> Some (Inr x, v)
      | Some (Inr None, v) \<Rightarrow> Some (late v))"

section \<open>Actions that do not turn the clock back\<close>

definition onward :: "'w clock \<Rightarrow> ('w, 'a) act \<Rightarrow> bool" where
  "onward c m \<longleftrightarrow> (\<forall>w r v. m w = (r, v) \<longrightarrow> clock_now c w \<le> clock_now c v)"

named_theorems onward_rules \<open>composing actions that do not turn the clock back\<close>

lemma onwardD: "onward c m \<Longrightarrow> m w = (r, v) \<Longrightarrow> clock_now c w \<le> clock_now c v"
  by (simp add: onward_def)

lemma onward_pure [onward_rules]:
  "onward c (areturn x)" "onward c (araise e)" "onward c (alift r)"
  by (simp_all add: onward_def act_simps)

lemma onward_bind [onward_rules]: "onward c m \<Longrightarrow> (\<And>x. onward c (f x)) \<Longrightarrow> onward c (abind m f)"
  unfolding onward_def abind_def by (fastforce split: prod.splits sum.splits intro: order_trans)

lemma onward_catch [onward_rules]: "onward c m \<Longrightarrow> (\<And>e. onward c (h e)) \<Longrightarrow> onward c (acatch K m h)"
  unfolding onward_def acatch_def by (fastforce split: prod.splits sum.splits if_splits intro: order_trans)

lemma onward_finally [onward_rules]: "onward c m \<Longrightarrow> onward c f \<Longrightarrow> onward c (afinally m f)"
  unfolding onward_def afinally_def by (fastforce split: prod.splits sum.splits intro: order_trans)

lemma onward_if [onward_rules]: "onward c m \<Longrightarrow> onward c n \<Longrightarrow> onward c (if b then m else n)"
  by simp

lemma onward_option [onward_rules]:
  "onward c m \<Longrightarrow> (\<And>x. onward c (f x)) \<Longrightarrow> onward c (case v of None \<Rightarrow> m | Some x \<Rightarrow> f x)"
  by (cases v) simp_all

text \<open>A clock that a pause moves forward by at least its length.\<close>

definition forward_clock :: "'w clock \<Rightarrow> bool" where
  "forward_clock c \<longleftrightarrow> (\<forall>d w. 0 \<le> d \<longrightarrow> clock_now c w + d \<le> clock_now c (clock_sleep c d w))"

section \<open>When a loop ends\<close>

locale steady_clock =
  fixes c :: "'w clock" and body :: "('w, 'a option) act"
  assumes forward: "forward_clock c" and onward: "onward c body"
begin

text \<open>A loop with \<open>n\<close> periods left needs at most \<open>n\<close> more rounds.\<close>

lemma polls_return:
  assumes "0 < period" "deadline - clock_now c w \<le> of_nat n * period"
  shows "\<exists>result. poll_until c period deadline body w = Some result"
  using assms(2)
proof (induction n arbitrary: w)
  case 0
  then show ?case by (simp add: poll_until.simps [of c period deadline body w])
next
  case (Suc n)
  obtain r v where body: "body w = (r, v)" by (cases "body w")
  have "clock_now c w + period \<le> clock_now c (clock_sleep c period v)"
  proof (rule order_trans)
    show "clock_now c w + period \<le> clock_now c v + period" using onwardD [OF onward body] by simp
    show "clock_now c v + period \<le> clock_now c (clock_sleep c period v)"
      using forward assms(1) by (simp add: forward_clock_def)
  qed
  moreover have "of_nat (Suc n) * period = of_nat n * period + period" by (simp add: algebra_simps)
  ultimately have "deadline - clock_now c (clock_sleep c period v) \<le> of_nat n * period"
    using Suc.prems by linarith
  from Suc.IH [OF this] show ?case
    by (auto simp: poll_until.simps [of c period deadline body w] body split: sum.split option.split)
qed

lemma poll_until_returns: "0 < period \<Longrightarrow> \<exists>result. poll_until c period deadline body w = Some result"
proof -
  assume "0 < period"
  then obtain n :: nat where "(deadline - clock_now c w) / period \<le> of_nat n" using real_arch_simple by blast
  with \<open>0 < period\<close> have "deadline - clock_now c w \<le> of_nat n * period" by (simp add: pos_divide_le_eq)
  with \<open>0 < period\<close> show ?thesis by (rule polls_return)
qed

lemma poll_or_returns: "0 < period \<Longrightarrow> \<exists>result. poll_or c period timeout body late w = Some result"
  using poll_until_returns [of period "clock_now c w + timeout" w]
  by (auto simp: poll_or_def split: sum.split option.split)

end

section \<open>What a result means\<close>

text \<open>An answer is the body's own, from a round begun before the deadline.\<close>

lemma poll_until_result:
  assumes "poll_until c period deadline body w = Some (r, w')"
  shows "(r = Inr None \<and> deadline \<le> clock_now c w') \<or>
    (r \<noteq> Inr None \<and> (\<exists>v. clock_now c v < deadline \<and> body v = (r, w')))"
proof -
  have "case p of (r, w') \<Rightarrow> (r = Inr None \<and> deadline \<le> clock_now c w') \<or>
      (r \<noteq> Inr None \<and> (\<exists>v. clock_now c v < deadline \<and> body v = (r, w')))"
    if "poll_until c period deadline body w = Some p" for p
  proof (rule poll_until.raw_induct [where P = "\<lambda>c period deadline body w p. case p of (r, w') \<Rightarrow>
      (r = Inr None \<and> deadline \<le> clock_now c w') \<or>
      (r \<noteq> Inr None \<and> (\<exists>v. clock_now c v < deadline \<and> body v = (r, w')))", OF _ that])
    fix f and c :: "'w clock" and period deadline :: rat and body :: "('w, 'a option) act" and w p
    assume IH: "\<And>c period deadline body w p. f c period deadline body w = Some p \<Longrightarrow>
        (case p of (r, w') \<Rightarrow> (r = Inr None \<and> deadline \<le> clock_now c w') \<or>
          (r \<noteq> Inr None \<and> (\<exists>v. clock_now c v < deadline \<and> body v = (r, w'))))"
      and step: "(if clock_now c w < deadline then
        (case body w of
           (Inl e, v) \<Rightarrow> Some (Inl e, v)
         | (Inr (Some x), v) \<Rightarrow> Some (Inr (Some x), v)
         | (Inr None, v) \<Rightarrow> f c period deadline body (clock_sleep c period v))
      else Some (Inr None, w)) = Some p"
    show "case p of (r, w') \<Rightarrow> (r = Inr None \<and> deadline \<le> clock_now c w') \<or>
        (r \<noteq> Inr None \<and> (\<exists>v. clock_now c v < deadline \<and> body v = (r, w')))"
      using step by (auto split: if_splits prod.splits sum.splits option.splits dest!: IH)
  qed
  with assms show ?thesis by fastforce
qed

lemma poll_or_result:
  assumes "poll_or c period timeout body late w = Some (r, w')"
  shows "(\<exists>v. clock_now c w + timeout \<le> clock_now c v \<and> late v = (r, w')) \<or>
    (\<exists>v e. r = Inl e \<and> clock_now c v < clock_now c w + timeout \<and> body v = (Inl e, w')) \<or>
    (\<exists>v x. r = Inr x \<and> clock_now c v < clock_now c w + timeout \<and> body v = (Inr (Some x), w'))"
proof -
  from assms obtain q v where q: "poll_until c period (clock_now c w + timeout) body w = Some (q, v)"
    by (auto simp: poll_or_def split: option.splits)
  with assms poll_until_result [OF q] show ?thesis
    by (cases q rule: sum.exhaust) (auto simp: poll_or_def split: option.splits)
qed

section \<open>The local clock\<close>

text \<open>The loop of \<^verbatim>\<open>wait_pid_exit\<close> on the local controller is such a loop, on the clock of its system.\<close>

definition os_clock :: "os clock" where
  "os_clock = \<lparr>clock_now = now, clock_sleep = sleep\<rparr>"

definition exit_seen :: "int \<Rightarrow> (os, unit option) act" where
  "exit_seen p w = (Inr (if alive w p then None else Some ()), w)"

interpretation local_clock: steady_clock os_clock "exit_seen p" for p
  by unfold_locales (auto simp: os_clock_def exit_seen_def forward_clock_def onward_def)

lemma os_clock_simps [simp]: "clock_now os_clock = now" "clock_sleep os_clock = sleep"
  by (simp_all add: os_clock_def)

lemma exit_seen_run:
  "alive w p \<Longrightarrow> exit_seen p w = (Inr None, w)" "\<not> alive w p \<Longrightarrow> exit_seen p w = (Inr (Some ()), w)"
  by (simp_all add: exit_seen_def)

lemma poll_exit_polls:
  "map_option (\<lambda>(r, w'). (r = Inr (Some ()) \<or> \<not> alive w' p, w')) (poll_until os_clock (1 / 20) deadline (exit_seen p) w) =
     Some (poll_exit deadline p w)"
proof (induction deadline p w rule: poll_exit.induct)
  case (1 deadline p w)
  note unfold = poll_until.simps [of os_clock "1 / 20" deadline "exit_seen p" w] poll_exit.simps [of deadline p w]
  show ?case
  proof (cases "now w < deadline \<and> alive w p")
    case True
    with 1 show ?thesis
      unfolding unfold by (simp add: exit_seen_run)
  next
    case False
    then show ?thesis unfolding unfold by (auto simp: exit_seen_run)
  qed
qed

end
