(* ===== verification/Remote_Node.thy ===== *)
theory Remote_Node
  imports Polling Paths
begin

text \<open>
  \<^verbatim>\<open>RemoteNode\<close> of \<^verbatim>\<open>main.py\<close>: running a command over a connection, the shell texts it sends, launching a
  process, waiting for it and signalling it. The connection (\<^verbatim>\<open>paramiko\<close>, \<^verbatim>\<open>scp\<close>) is a parameter: a record
  of actions on channels. What the shell on the node does with a text is not modelled; the lemmas are about
  what the controller sends and what it makes of the answers.
\<close>

section \<open>The connection\<close>

text \<open>
  A command opens a channel; reading its output may time out; joining the thread that drains the error
  stream always follows; then the exit status and the collected error text are read.
\<close>

record 'w connection =
  cn_open :: "string \<Rightarrow> rat \<Rightarrow> ('w, int) act"
  cn_read :: "int \<Rightarrow> ('w, string) act"
  cn_close_channel :: "int \<Rightarrow> ('w, unit) act"
  cn_join :: "int \<Rightarrow> rat \<Rightarrow> ('w, unit) act"
  cn_exit_status :: "int \<Rightarrow> ('w, int) act"
  cn_errors :: "int \<Rightarrow> ('w, string) act"
  cn_copy :: "string \<Rightarrow> string \<Rightarrow> ('w, unit) act"
  cn_mkdir :: "pure_path \<Rightarrow> ('w, unit) act"
  cn_close :: "('w, unit) act"
  cn_clock :: "'w clock"

definition remote_exec :: "'w connection \<Rightarrow> string \<Rightarrow> rat \<Rightarrow> ('w, string) act" where
  "remote_exec cn cmd timeout =
     abind (cn_open cn cmd timeout) (\<lambda>channel.
     abind (afinally
       (acatch (\<lambda>k. k = TimeoutErr) (cn_read cn channel)
          (\<lambda>_. abind (cn_close_channel cn channel) (\<lambda>_. araise (expired_text cmd timeout))))
       (cn_join cn channel timeout)) (\<lambda>output.
     abind (cn_exit_status cn channel) (\<lambda>status.
     abind (cn_errors cn channel) (\<lambda>error.
     if status \<noteq> 0
     then araise (Exn RuntimeError (''Remote command failed ('' @ str_int status @ ''): '' @ strip error))
     else areturn (strip output)))))"

abbreviation exec30 :: "'w connection \<Rightarrow> string \<Rightarrow> ('w, string) act" where
  "exec30 cn cmd \<equiv> remote_exec cn cmd 30"

definition remote_run :: "'w connection \<Rightarrow> string list \<Rightarrow> rat \<Rightarrow> ('w, string) act" where
  "remote_run cn cmd timeout = remote_exec cn (shlex_join cmd) timeout"

section \<open>Opening it\<close>

text \<open>
  The arguments of \<^verbatim>\<open>SSHClient.connect\<close>: \<open>resolved\<close> is what the SSH configuration file says of the host, when
  there is one, and \<open>expand\<close> stands for \<^verbatim>\<open>Path.expanduser\<close>. A proxy command is named by its text.
\<close>

definition identity_files :: "(string \<Rightarrow> string) \<Rightarrow> pyval \<Rightarrow> pyval res" where
  "identity_files expand files =
     rbind (py_iter files) (\<lambda>paths.
     rbind (rmap (\<lambda>v. case v of VStr p \<Rightarrow> Inr (VStr (expand p)) | _ \<Rightarrow> Inl (Exn TypeError ''expected str'')) paths) (\<lambda>names.
     Inr (VList names)))"

definition connection_settings ::
  "bool \<Rightarrow> (string \<Rightarrow> string) \<Rightarrow> string \<Rightarrow> pyval \<Rightarrow> pyval dict option \<Rightarrow> pyval dict res" where
  "connection_settings available expand host user resolved =
     rbind (require available (Exn RuntimeError ''Distributed mode requires paramiko and scp'')) (\<lambda>_.
     case resolved of
       None \<Rightarrow> Inr [(''hostname'', VStr host), (''username'', user)]
     | Some d \<Rightarrow>
         rbind (case dget d ''port'' of None \<Rightarrow> Inr []
                | Some v \<Rightarrow> rbind (py_int v) (\<lambda>port. Inr [(''port'', VInt port)])) (\<lambda>port.
         rbind (if truthy (dget_or d ''identityfile'' VNone)
                then rbind (identity_files expand (dget_or d ''identityfile'' VNone)) (\<lambda>v. Inr [(''key_filename'', v)])
                else Inr []) (\<lambda>key.
         rbind (if truthy (dget_or d ''proxycommand'' VNone) then Inr [(''sock'', dget_or d ''proxycommand'' VNone)]
                else rbind (require (\<not> truthy (dget_or d ''proxyjump'' VNone))
                  (Exn RuntimeError (''ssh config ProxyJump for '' @ host @ '' is unsupported; use ProxyCommand''))) (\<lambda>_.
                  Inr [])) (\<lambda>sock.
         Inr ([(''hostname'', dget_or d ''hostname'' (VStr host)), (''username'', dget_or d ''user'' user)] @
           port @ key @ sock)))))"

text \<open>A jump host that would be ignored is an error, never a direct connection.\<close>

lemma proxy_jump_never_ignored:
  assumes "connection_settings available expand host user (Some d) = Inr options"
    and "truthy (dget_or d ''proxyjump'' VNone)"
  shows "truthy (dget_or d ''proxycommand'' VNone) \<and> dget options ''sock'' = Some (dget_or d ''proxycommand'' VNone)"
  using assms by (auto simp: connection_settings_def rbind_Inr_iff require_def split: if_splits option.splits)

section \<open>Launching a process\<close>

definition dquoted :: "string \<Rightarrow> string" where
  "dquoted s = [CHR 0x22] @ s @ [CHR 0x22]"

definition squoted :: "string \<Rightarrow> string" where
  "squoted s = [CHR 0x27] @ s @ [CHR 0x27]"

definition inner_script :: "string list \<Rightarrow> string \<Rightarrow> string \<Rightarrow> string" where
  "inner_script actual_command pid_path status_path =
     ''setsid '' @ shlex_join actual_command @ '' & child=$!; printf '' @ squoted ''%s'' @ '' '' @ dquoted ''$child'' @
     '' > '' @ shlex_quote pid_path @ ''; wait '' @ dquoted ''$child'' @ ''; code=$?; printf '' @ squoted ''%s'' @ '' '' @
     dquoted ''$code'' @ '' > '' @ shlex_quote status_path @ ''; exit '' @ dquoted ''$code''"

definition launch_script ::
  "string \<Rightarrow> string \<Rightarrow> string \<Rightarrow> string \<Rightarrow> string option \<Rightarrow> string" where
  "launch_script inner log_file pid_path status_path workload_pid_path =
     (let ready_path = (case workload_pid_path of Some p \<Rightarrow> p | None \<Rightarrow> pid_path) in
      ''nohup sh -c '' @ shlex_quote inner @ '' > '' @ shlex_quote log_file @ '' 2>&1 < /dev/null & monitor=$!; '' @
      ''while test ! -s '' @ shlex_quote ready_path @ ''; do '' @
      ''if test -s '' @ shlex_quote status_path @ ''; then '' @
      ''code=$(cat '' @ shlex_quote status_path @ ''); wait '' @ dquoted ''$monitor'' @ '' 2>/dev/null || true; '' @
      ''exit '' @ dquoted ''$code'' @ ''; fi; '' @
      ''if ! kill -0 '' @ dquoted ''$monitor'' @ '' 2>/dev/null; then wait '' @ dquoted ''$monitor'' @ ''; exit $?; fi; '' @
      ''sleep 0.01; done; '' @
      ''printf '' @ squoted ''%s %s'' @ '' '' @ dquoted ''$monitor'' @ '' '' @
      dquoted (''$(cat '' @ shlex_quote pid_path @ '')'') @
      (case workload_pid_path of
         Some p \<Rightarrow> ''; printf '' @ squoted '' %s'' @ '' '' @ dquoted (''$(cat '' @ shlex_quote p @ '')'')
       | None \<Rightarrow> []) @
      ''; printf '' @ squoted [CHR 0x0A])"

definition kill_script :: "string \<Rightarrow> string" where
  "kill_script pid_path =
     ''pid=$(cat '' @ shlex_quote pid_path @ '' 2>/dev/null); test -n '' @ dquoted ''$pid'' @
     '' && kill -KILL -'' @ dquoted ''$pid'' @ '' 2>/dev/null; true''"

definition tracked_path :: "string \<Rightarrow> int option \<Rightarrow> string option" where
  "tracked_path log_file workload_index = map_option (\<lambda>_. log_file @ ''.workload.pid'') workload_index"

definition launch_of :: "string list \<Rightarrow> string \<Rightarrow> int option \<Rightarrow> string res" where
  "launch_of cmd log_file workload_index =
     (let status_path = log_file @ ''.status''; pid_path = log_file @ ''.pid'';
          workload_pid_path = tracked_path log_file workload_index in
      rbind (instrument_workload cmd workload_index workload_pid_path) (\<lambda>actual_command.
      Inr (launch_script (inner_script actual_command pid_path status_path) log_file pid_path status_path workload_pid_path)))"

definition launched_words :: "'w connection \<Rightarrow> string \<Rightarrow> nat \<Rightarrow> ('w, string list) act" where
  "launched_words cn script expected_pids =
     abind (exec30 cn script) (\<lambda>text. let output = split_ws text in
     if length output \<noteq> expected_pids
     then araise (Exn RuntimeError (''Remote process launch returned invalid PIDs: '' @ join '' '' output))
     else areturn output)"

definition handle_of :: "string list \<Rightarrow> string \<Rightarrow> bool \<Rightarrow> string list \<Rightarrow> process_handle res" where
  "handle_of cmd log_file tracked output =
     rbind (rmap py_int_str (take 2 output)) (\<lambda>pids.
     rbind (if tracked then rbind (py_int_str (output ! 2)) (\<lambda>p. Inr (Some p)) else Inr None) (\<lambda>workload.
     Inr \<lparr>pid = pids ! 1, command = cmd, log_path = log_file, monitor_pid = Some (pids ! 0), workload_pid = workload\<rparr>))"

text \<open>Whatever goes wrong with the launch, the process group is killed before the error goes on.\<close>

definition remote_start ::
  "'w connection \<Rightarrow> string list \<Rightarrow> string \<Rightarrow> int option \<Rightarrow> ('w, process_handle) act" where
  "remote_start cn cmd log_file workload_index =
     (let tracked = workload_index \<noteq> None in
     abind (alift (launch_of cmd log_file workload_index)) (\<lambda>launch.
     abind (acatch (\<lambda>_. True)
       (launched_words cn launch (if tracked then 3 else 2))
       (\<lambda>e. abind (exec30 cn (kill_script (log_file @ ''.pid''))) (\<lambda>_. araise e))) (\<lambda>output.
     alift (handle_of cmd log_file tracked output))))"

section \<open>Waiting, signalling, probing, files\<close>

definition status_script :: "process_handle \<Rightarrow> string" where
  "status_script h =
     (let status_path = log_path h @ ''.status'' in
      ''if test -s '' @ shlex_quote status_path @ ''; then cat '' @ shlex_quote status_path @ ''; '' @
      ''elif kill -0 '' @ str_int (pid h) @ '' 2>/dev/null; then echo running; '' @
      (case monitor_pid h of
         None \<Rightarrow> []
       | Some m \<Rightarrow> ''elif kill -0 '' @ str_int m @ '' 2>/dev/null; then echo running; '') @
      ''else echo exited; fi'')"

definition status_seen :: "'w connection \<Rightarrow> process_handle \<Rightarrow> ('w, int option) act" where
  "status_seen cn h =
     abind (exec30 cn (status_script h)) (\<lambda>output.
     if output = ''running'' then areturn None
     else if output = ''exited''
     then araise (Exn RuntimeError (''Remote PID '' @ str_int (pid h) @ '' exited without status''))
     else abind (alift (py_int_str output)) (\<lambda>status. areturn (Some status)))"

definition remote_wait_process :: "'w connection \<Rightarrow> process_handle \<Rightarrow> rat \<Rightarrow> 'w \<Rightarrow> (int res \<times> 'w) option" where
  "remote_wait_process cn h timeout =
     poll_or (cn_clock cn) (1 / 20) timeout (status_seen cn h) (araise (timeout_expired (command h) timeout))"

definition short_name :: "signum \<Rightarrow> string" where
  "short_name s = drop 3 (signal_name s)"

definition remote_signal_process :: "'w connection \<Rightarrow> process_handle \<Rightarrow> signum \<Rightarrow> ('w, unit) act" where
  "remote_signal_process cn h s =
     (let target = (case workload_pid h of Some p \<Rightarrow> str_int p | None \<Rightarrow> ''-'' @ str_int (pid h)) in
      abind (exec30 cn (''kill -'' @ short_name s @ '' '' @ target @ '' 2>/dev/null || true'')) (\<lambda>_. areturn ()))"

definition remote_signal_wrapper :: "'w connection \<Rightarrow> process_handle \<Rightarrow> signum \<Rightarrow> ('w, unit) act" where
  "remote_signal_wrapper cn h s =
     abind (exec30 cn (''kill -'' @ short_name s @ '' '' @ str_int (wrapper_pid h) @ '' 2>/dev/null || true''))
       (\<lambda>_. areturn ())"

definition remote_process_exists :: "'w connection \<Rightarrow> int \<Rightarrow> ('w, bool) act" where
  "remote_process_exists cn p =
     abind (exec30 cn (''if kill -0 '' @ str_int p @ '' 2>/dev/null; then echo yes; else echo no; fi''))
       (\<lambda>output. areturn (output = ''yes''))"

definition exit_probed :: "'w connection \<Rightarrow> int \<Rightarrow> ('w, unit option) act" where
  "exit_probed cn p = abind (remote_process_exists cn p) (\<lambda>b. areturn (if b then None else Some ()))"

text \<open>\<^verbatim>\<open>wait_pid_exit\<close> of the base class, with one more look after the deadline.\<close>

definition remote_wait_pid_exit :: "'w connection \<Rightarrow> int \<Rightarrow> rat \<Rightarrow> 'w \<Rightarrow> (bool res \<times> 'w) option" where
  "remote_wait_pid_exit cn p timeout =
     poll_or (cn_clock cn) (1 / 20) timeout
       (abind (exit_probed cn p) (\<lambda>seen. areturn (map_option (\<lambda>_. True) seen)))
       (abind (remote_process_exists cn p) (\<lambda>b. areturn (\<not> b)))"

definition remote_fetch_file :: "'w connection \<Rightarrow> string \<Rightarrow> pure_path \<Rightarrow> ('w, unit) act" where
  "remote_fetch_file cn source destination =
     abind (cn_mkdir cn (path_parent destination)) (\<lambda>_. cn_copy cn source (path_str destination))"

definition remote_remove_files :: "'w connection \<Rightarrow> string list \<Rightarrow> ('w, unit) act" where
  "remote_remove_files cn paths =
     (if paths = [] then areturn ()
      else abind (exec30 cn (''rm -f -- '' @ join '' '' (map shlex_quote paths))) (\<lambda>_. areturn ()))"

definition remote_close :: "'w connection \<Rightarrow> ('w, unit) act" where
  "remote_close cn = cn_close cn"

section \<open>A connection whose clock goes on\<close>

definition steady_connection :: "'w connection \<Rightarrow> bool" where
  "steady_connection cn \<longleftrightarrow>
     (let c = cn_clock cn in forward_clock c \<and>
      (\<forall>cmd t. onward c (cn_open cn cmd t)) \<and> (\<forall>ch. onward c (cn_read cn ch)) \<and>
      (\<forall>ch. onward c (cn_close_channel cn ch)) \<and> (\<forall>ch t. onward c (cn_join cn ch t)) \<and>
      (\<forall>ch. onward c (cn_exit_status cn ch)) \<and> (\<forall>ch. onward c (cn_errors cn ch)))"

lemma steady_connection_ops [onward_rules]:
  assumes "steady_connection cn"
  shows "onward (cn_clock cn) (cn_open cn cmd t)" "onward (cn_clock cn) (cn_read cn ch)"
    "onward (cn_clock cn) (cn_close_channel cn ch)" "onward (cn_clock cn) (cn_join cn ch t)"
    "onward (cn_clock cn) (cn_exit_status cn ch)" "onward (cn_clock cn) (cn_errors cn ch)"
  using assms by (simp_all add: steady_connection_def Let_def)

lemma onward_exec [onward_rules]: "steady_connection cn \<Longrightarrow> onward (cn_clock cn) (remote_exec cn cmd t)"
  unfolding remote_exec_def by (intro onward_rules)

lemma onward_status_seen: "steady_connection cn \<Longrightarrow> onward (cn_clock cn) (status_seen cn h)"
  unfolding status_seen_def by (intro onward_rules)

lemma steady_status_clock: "steady_connection cn \<Longrightarrow> steady_clock (cn_clock cn) (status_seen cn h)"
  by (intro steady_clock.intro onward_status_seen) (simp_all add: steady_connection_def Let_def)

lemma status_seen_Some:
  assumes "status_seen cn h v = (Inr (Some n), w')"
  shows "\<exists>text. exec30 cn (status_script h) v = (Inr text, w') \<and> text \<notin> {''running'', ''exited''} \<and> py_int_str text = Inr n"
proof -
  obtain r u where run: "exec30 cn (status_script h) v = (r, u)" by (cases "exec30 cn (status_script h) v")
  with assms obtain answer where "r = Inr answer" by (cases r) (auto simp: status_seen_def abind_def)
  with run assms show ?thesis
    by (cases "answer = ''running''"; cases "answer = ''exited''") (auto simp: status_seen_def act_simps)
qed

text \<open>
  C23: Waiting for a remote process always ends on a clock that goes on: with a status that the node
  printed as a number in a poll begun before the deadline, with the error of such a poll (a failed command,
  a process gone without a status, a text that is no number), or past the deadline with
  \<^verbatim>\<open>TimeoutExpired\<close>.
\<close>

theorem remote_wait_ends:
  assumes "steady_connection cn"
  shows "\<exists>r w'. remote_wait_process cn h timeout w = Some (r, w') \<and>
    (case r of
       Inr n \<Rightarrow> \<exists>v text. clock_now (cn_clock cn) v < clock_now (cn_clock cn) w + timeout \<and>
         exec30 cn (status_script h) v = (Inr text, w') \<and> text \<notin> {''running'', ''exited''} \<and> py_int_str text = Inr n
     | Inl e \<Rightarrow> (e = timeout_expired (command h) timeout \<and>
           clock_now (cn_clock cn) w + timeout \<le> clock_now (cn_clock cn) w') \<or>
         (\<exists>v. clock_now (cn_clock cn) v < clock_now (cn_clock cn) w + timeout \<and> status_seen cn h v = (Inl e, w')))"
proof -
  obtain result where result: "remote_wait_process cn h timeout w = Some result"
    using steady_clock.poll_or_returns [OF steady_status_clock [OF assms], where period = "1 / 20" and w = w]
    unfolding remote_wait_process_def by fastforce
  obtain r w' where "result = (r, w')" by (cases result)
  with result have run: "remote_wait_process cn h timeout w = Some (r, w')" by simp
  from poll_or_result [OF run [unfolded remote_wait_process_def]] run show ?thesis
    by (cases r) (auto simp: araise_def dest!: status_seen_Some)
qed

section \<open>What a launch does\<close>

lemma launched_words_Inr:
  "launched_words cn script n w = (Inr output, w') \<longleftrightarrow>
     (\<exists>text. exec30 cn script w = (Inr text, w') \<and> output = split_ws text \<and> length output = n)"
  by (auto simp: launched_words_def act_simps Let_def split: if_splits)

lemma handle_of_Inr:
  assumes "length names = (if tracked then 3 else 2)" "handle_of cmd log_file tracked names = Inr h"
  shows "command h = cmd \<and> log_path h = log_file \<and> (workload_pid h \<noteq> None \<longleftrightarrow> tracked) \<and>
    (\<exists>monitor. monitor_pid h = Some monitor \<and>
       map py_int_str names = map Inr ([monitor, pid h] @ (case workload_pid h of None \<Rightarrow> [] | Some p \<Rightarrow> [p])))"
proof -
  obtain a b rest where names: "names = a # b # rest" "length rest = (if tracked then 1 else 0)"
    using assms(1) by (cases names; cases "tl names") (auto split: if_splits)
  then show ?thesis
    using assms(2) by (cases tracked; cases rest) (auto simp: handle_of_def rbind_Inr_iff)
qed

lemma handle_of_Inl:
  assumes "length names = (if tracked then 3 else 2)" "handle_of cmd log_file tracked names = Inl e"
  shows "\<exists>name \<in> set names. py_int_str name = Inl e"
proof -
  obtain a b rest where names: "names = a # b # rest" "length rest = (if tracked then 1 else 0)"
    using assms(1) by (cases names; cases "tl names") (auto split: if_splits)
  then show ?thesis
    using assms(2) by (cases tracked; cases rest) (auto simp: handle_of_def rbind_Inl_iff)
qed


section \<open>Examples\<close>

text \<open>A connection whose state is the time and whose node prints what \<open>printed\<close> says at that time.\<close>

definition timed_connection :: "(rat \<Rightarrow> string) \<Rightarrow> rat connection" where
  "timed_connection printed =
     \<lparr>cn_open = \<lambda>_ _. areturn 1, cn_read = \<lambda>_ t. (Inr (printed t), t), cn_close_channel = \<lambda>_. areturn (),
      cn_join = \<lambda>_ _. areturn (), cn_exit_status = \<lambda>_. areturn 0, cn_errors = \<lambda>_. areturn [],
      cn_copy = \<lambda>_ _. areturn (), cn_mkdir = \<lambda>_. areturn (), cn_close = areturn (),
      cn_clock = \<lparr>clock_now = \<lambda>t. t, clock_sleep = \<lambda>d t. t + d\<rparr>\<rparr>"

definition half_done :: "rat \<Rightarrow> string" where
  "half_done t = (if t < 1 / 20 then ''running'' else ''0'')"

definition sleeping_process :: process_handle where
  "sleeping_process =
     \<lparr>pid = 42, command = [''sleep'', ''1''], log_path = ''/tmp/log'', monitor_pid = Some 41, workload_pid = None\<rparr>"

lemma timed_connection_steady: "steady_connection (timed_connection printed)"
  by (simp add: steady_connection_def timed_connection_def forward_clock_def onward_def areturn_def)

lemma timed_clock: "cn_clock (timed_connection printed) = \<lparr>clock_now = \<lambda>t. t, clock_sleep = \<lambda>d t. t + d\<rparr>"
  by (simp add: timed_connection_def)

lemma timed_exec: "remote_exec (timed_connection printed) cmd limit time = (Inr (strip (printed time)), time)"
  by (simp add: remote_exec_def timed_connection_def abind_def afinally_def acatch_def areturn_def)

theorem remote_wait_ends_witness:
  "\<exists>r w'. remote_wait_process (timed_connection half_done) sleeping_process 5 0 =
     Some (r, w')"
  using remote_wait_ends [OF timed_connection_steady, of half_done sleeping_process 5 0]
  by blast

lemma remote_wait_example:
  "remote_wait_process (timed_connection half_done) sleeping_process 5 0 =
     Some (Inr 0, 1 / 20)"
proof -
  have texts: "strip ''running'' = ''running''" "strip ''0'' = ''0''" "py_int_str ''0'' = Inr 0" by code_simp+
  have "status_seen (timed_connection half_done) sleeping_process 0 = (Inr None, 0)"
    "status_seen (timed_connection half_done) sleeping_process (1 / 20) = (Inr (Some 0), 1 / 20)"
    by (simp_all add: status_seen_def abind_def timed_exec half_done_def areturn_def alift_def texts)
  then show ?thesis
    by (simp add: remote_wait_process_def poll_or_def timed_clock poll_until.simps [of _ _ _ _ "0 :: rat"]
        poll_until.simps [of _ _ _ _ "1 / 20 :: rat"])
qed


end
