(* ===== verification/Local_Launch.thy ===== *)
theory Local_Launch
  imports Polling Paths
begin

text \<open>
  The rest of \<^verbatim>\<open>LocalNode\<close> of \<^verbatim>\<open>main.py\<close>: running a command, launching a process (with the wait for the
  process id its workload publishes), fetching and removing files. The operating system is a record of
  actions. A launch always ends on a clock that goes on, and it hands out a tracked handle only with a
  positive process id that was read from the published file.
\<close>

record 'w local_system =
  ls_run :: "string list \<Rightarrow> rat \<Rightarrow> ('w, string \<times> int) act"
  ls_mkdir :: "pure_path \<Rightarrow> ('w, unit) act"
  ls_unlink :: "pure_path \<Rightarrow> ('w, unit) act"
  ls_is_file :: "pure_path \<Rightarrow> ('w, bool) act"
  ls_copy_bytes :: "pure_path \<Rightarrow> pure_path \<Rightarrow> ('w, unit) act"
  ls_read :: "pure_path \<Rightarrow> ('w, string) act"
  ls_open_log :: "string \<Rightarrow> ('w, int) act"
  ls_close_log :: "int \<Rightarrow> ('w, unit) act"
  ls_spawn :: "string list \<Rightarrow> int \<Rightarrow> ('w, int) act"
  ls_poll :: "int \<Rightarrow> ('w, int option) act"
  ls_killpg :: "int \<Rightarrow> signum \<Rightarrow> ('w, unit) act"
  ls_wait :: "int \<Rightarrow> rat \<Rightarrow> ('w, int) act"
  ls_clock :: "'w clock"

section \<open>Running a command, files\<close>

definition called_process_error :: "string list \<Rightarrow> int \<Rightarrow> exn" where
  "called_process_error cmd status =
     Exn CalledProcessError (''Command '' @ [CHR 0x27] @ py_repr (VList (map VStr cmd)) @ [CHR 0x27] @
       '' returned non-zero exit status '' @ str_int status @ ''.'')"

definition local_run :: "'w local_system \<Rightarrow> string list \<Rightarrow> rat \<Rightarrow> ('w, string) act" where
  "local_run ls cmd timeout =
     abind (ls_run ls cmd timeout) (\<lambda>(stdout, status).
     if status \<noteq> 0 then araise (called_process_error cmd status) else areturn (strip stdout))"

definition local_fetch_file :: "'w local_system \<Rightarrow> string \<Rightarrow> pure_path \<Rightarrow> ('w, unit) act" where
  "local_fetch_file ls source destination =
     (let source_path = path_of source in
      abind (ls_is_file ls source_path) (\<lambda>present.
      if \<not> present then araise (Exn FileNotFoundError source)
      else abind (ls_mkdir ls (path_parent destination)) (\<lambda>_. ls_copy_bytes ls source_path destination)))"

fun local_remove_files :: "'w local_system \<Rightarrow> string list \<Rightarrow> ('w, unit) act" where
  "local_remove_files ls [] = areturn ()"
| "local_remove_files ls (path # paths) =
     abind (ls_unlink ls (path_of path)) (\<lambda>_. local_remove_files ls paths)"

section \<open>Waiting for the published process id\<close>

text \<open>\<^verbatim>\<open>except (FileNotFoundError, ValueError)\<close>; undecodable text is a \<^verbatim>\<open>ValueError\<close> too.\<close>

definition not_yet :: "exc_class \<Rightarrow> bool" where
  "not_yet k \<longleftrightarrow> k \<in> {FileNotFoundError, ValueError, UnicodeDecodeErr, JSONDecodeErr}"

definition published_pid :: "string \<Rightarrow> int option res" where
  "published_pid content =
     (let value = strip content in
      if value = [] then Inr None
      else rbind (py_int_str value) (\<lambda>number. if number \<le> 0 then Inl (Exn ValueError []) else Inr (Some number)))"

definition read_pid :: "'w local_system \<Rightarrow> pure_path \<Rightarrow> ('w, int option) act" where
  "read_pid ls path =
     acatch not_yet (abind (ls_read ls path) (\<lambda>content. alift (published_pid content))) (\<lambda>_. areturn None)"

definition pid_round :: "'w local_system \<Rightarrow> pure_path \<Rightarrow> int \<Rightarrow> ('w, int option) act" where
  "pid_round ls path process =
     abind (read_pid ls path) (\<lambda>found. case found of
       Some number \<Rightarrow> areturn (Some number)
     | None \<Rightarrow> abind (ls_poll ls process) (\<lambda>status. case status of
         Some n \<Rightarrow> araise (Exn RuntimeError (''Profile wrapper exited with status '' @ str_int n @
           '' before publishing its workload PID''))
       | None \<Rightarrow> areturn None))"

definition wait_for_local_pid_file ::
  "'w local_system \<Rightarrow> pure_path \<Rightarrow> string list \<Rightarrow> int \<Rightarrow> rat \<Rightarrow> 'w \<Rightarrow> (int res \<times> 'w) option" where
  "wait_for_local_pid_file ls path args process timeout =
     poll_or (ls_clock ls) (1 / 100) timeout (pid_round ls path process) (araise (timeout_expired args timeout))"

section \<open>Launching a process\<close>

text \<open>\<^verbatim>\<open>except Exception\<close>: end the group, wait for the wrapper, close the log, raise again.\<close>

definition abandon :: "'w local_system \<Rightarrow> int \<Rightarrow> int \<Rightarrow> exn \<Rightarrow> ('w, 'a) act" where
  "abandon ls process stream e =
     abind (acatch (\<lambda>k. k = ProcessLookupError) (ls_killpg ls process SIGTERM) (\<lambda>_. areturn ())) (\<lambda>_.
     abind (ls_wait ls process 2) (\<lambda>_.
     abind (ls_close_log ls stream) (\<lambda>_. araise e)))"

definition workload_path :: "string \<Rightarrow> int option \<Rightarrow> string option" where
  "workload_path log_file workload_index = map_option (\<lambda>_. log_file @ ''.workload.pid'') workload_index"

text \<open>Up to the running process: its arguments, its id and the log stream.\<close>

definition spawn ::
  "'w local_system \<Rightarrow> string list \<Rightarrow> string \<Rightarrow> int option \<Rightarrow> ('w, string list \<times> int \<times> int) act" where
  "spawn ls cmd log_file workload_index =
     abind (ls_mkdir ls (path_parent (path_of log_file))) (\<lambda>_.
     let workload_pid_path = workload_path log_file workload_index in
     abind (alift (instrument_workload cmd workload_index workload_pid_path)) (\<lambda>actual_command.
     abind (case workload_pid_path of None \<Rightarrow> areturn () | Some p \<Rightarrow> ls_unlink ls (path_of p)) (\<lambda>_.
     abind (ls_open_log ls log_file) (\<lambda>stream.
     abind (ls_spawn ls actual_command stream) (\<lambda>process. areturn (actual_command, process, stream))))))"

definition started :: "string list \<Rightarrow> string \<Rightarrow> int \<Rightarrow> int option \<Rightarrow> process_handle" where
  "started cmd log_file process workload =
     \<lparr>pid = process, command = cmd, log_path = log_file, monitor_pid = None, workload_pid = workload\<rparr>"

definition local_start ::
  "'w local_system \<Rightarrow> string list \<Rightarrow> string \<Rightarrow> int option \<Rightarrow> 'w \<Rightarrow> (process_handle res \<times> 'w) option" where
  "local_start ls cmd log_file workload_index w =
     (case spawn ls cmd log_file workload_index w of
        (Inl e, v) \<Rightarrow> Some (Inl e, v)
      | (Inr (actual_command, process, stream), v) \<Rightarrow>
          (case workload_path log_file workload_index of
             None \<Rightarrow> Some (Inr (started cmd log_file process None), v)
           | Some path \<Rightarrow>
               (case wait_for_local_pid_file ls (path_of path) actual_command process 10 v of
                  None \<Rightarrow> None
                | Some (Inr p, u) \<Rightarrow> Some (Inr (started cmd log_file process (Some p)), u)
                | Some (Inl e, u) \<Rightarrow> Some (abandon ls process stream e u))))"

section \<open>A launch ends\<close>

definition steady_system :: "'w local_system \<Rightarrow> bool" where
  "steady_system ls \<longleftrightarrow> forward_clock (ls_clock ls) \<and>
     (\<forall>p. onward (ls_clock ls) (ls_read ls p)) \<and> (\<forall>p. onward (ls_clock ls) (ls_poll ls p))"

lemma onward_pid_round: "steady_system ls \<Longrightarrow> onward (ls_clock ls) (pid_round ls path process)"
  unfolding pid_round_def read_pid_def by (intro onward_rules) (simp_all add: steady_system_def)

lemma steady_pid_clock: "steady_system ls \<Longrightarrow> steady_clock (ls_clock ls) (pid_round ls path process)"
  by (intro steady_clock.intro onward_pid_round) (simp_all add: steady_system_def)

lemma pid_round_Some:
  assumes "pid_round ls path process v = (Inr (Some p), w)"
  shows "0 < p \<and> (\<exists>content. ls_read ls path v = (Inr content, w) \<and> py_int_str (strip content) = Inr p)"
proof -
  from assms have "read_pid ls path v = (Inr (Some p), w)"
    by (auto simp: pid_round_def act_simps split: option.splits)
  then obtain content where "ls_read ls path v = (Inr content, w)" "published_pid content = Inr (Some p)"
    by (auto simp: read_pid_def acatch_def act_simps abind_def split: prod.splits sum.splits if_splits)
  then show ?thesis
    by (auto simp: published_pid_def Let_def rbind_Inr_iff split: if_splits)
qed

lemma abandon_raises: "\<exists>e' u'. abandon ls process stream e u = (Inl e' :: 'a res, u')"
  by (auto simp: abandon_def abind_def araise_def split: prod.splits sum.splits)

text \<open>
  C25: A launch on the local node always ends on a clock that goes on. A handle carries the command as it
  was given and the id of the process spawned; it is tracked exactly when tracking was asked for, and then
  the workload's id is positive and was read as a number from the file the workload publishes, no later
  than the ten seconds allowed after the spawn.
\<close>

theorem local_launch_ends:
  assumes "steady_system ls"
  shows "\<exists>r w'. local_start ls cmd log_file workload_index w = Some (r, w') \<and>
    (\<forall>h. r = Inr h \<longrightarrow> (\<exists>actual stream v. spawn ls cmd log_file workload_index w = (Inr (actual, pid h, stream), v) \<and>
       instrument_workload cmd workload_index (workload_path log_file workload_index) = Inr actual \<and>
       command h = cmd \<and> log_path h = log_file \<and> (workload_pid h \<noteq> None \<longleftrightarrow> workload_index \<noteq> None) \<and>
       (\<forall>p. workload_pid h = Some p \<longrightarrow> 0 < p \<and>
          (\<exists>u content. clock_now (ls_clock ls) u < clock_now (ls_clock ls) v + 10 \<and>
             ls_read ls (path_of (log_file @ ''.workload.pid'')) u = (Inr content, w') \<and>
             py_int_str (strip content) = Inr p))))"
proof (cases "spawn ls cmd log_file workload_index w")
  case spawned: (Pair q v)
  show ?thesis
  proof (cases q)
    case (Inl e)
    with spawned show ?thesis by (simp add: local_start_def)
  next
    case (Inr s)
    obtain actual process stream where s: "s = (actual, process, stream)" by (cases s)
    have run: "spawn ls cmd log_file workload_index w = (Inr (actual, process, stream), v)"
      using spawned Inr s by simp
    then have actual: "instrument_workload cmd workload_index (workload_path log_file workload_index) = Inr actual"
      by (auto simp: spawn_def act_simps Let_def)
    show ?thesis
    proof (cases workload_index)
      case None
      with run actual show ?thesis by (simp add: local_start_def workload_path_def started_def)
    next
      case (Some i)
      let ?path = "path_of (log_file @ ''.workload.pid'')"
      obtain r u where waited: "wait_for_local_pid_file ls ?path actual process 10 v = Some (r, u)"
        using steady_clock.poll_or_returns [OF steady_pid_clock [OF assms], where period = "1 / 100" and w = v]
        unfolding wait_for_local_pid_file_def by fastforce
      have path: "workload_path log_file workload_index = Some (log_file @ ''.workload.pid'')"
        by (simp add: workload_path_def Some)
      show ?thesis
      proof (cases r)
        case (Inl e)
        obtain e' u' where "abandon ls process stream e u = (Inl e' :: process_handle res, u')"
          using abandon_raises [of ls process stream e u] by (auto intro: that)
        with run path waited Inl show ?thesis by (simp add: local_start_def)
      next
        case (Inr p)
        with poll_or_result [OF waited [unfolded wait_for_local_pid_file_def]] obtain x where
          "clock_now (ls_clock ls) x < clock_now (ls_clock ls) v + 10" "pid_round ls ?path process x = (Inr (Some p), u)"
          by (auto simp: araise_def)
        with pid_round_Some [of ls ?path process x p u] run actual path waited Inr Some show ?thesis
          by (auto simp: local_start_def started_def)
      qed
    qed
  qed
qed

section \<open>An example\<close>

text \<open>A system whose state is the time; the workload publishes its id after a twentieth of a second.\<close>

definition slow_system :: "rat local_system" where
  "slow_system =
     \<lparr>ls_run = \<lambda>_ _. areturn ([], 0), ls_mkdir = \<lambda>_. areturn (), ls_unlink = \<lambda>_. areturn (),
      ls_is_file = \<lambda>_. areturn True, ls_copy_bytes = \<lambda>_ _. areturn (),
      ls_read = \<lambda>_ t. (if t < 1 / 20 then Inl (Exn FileNotFoundError []) else Inr ''77'', t),
      ls_open_log = \<lambda>_. areturn 1, ls_close_log = \<lambda>_. areturn (), ls_spawn = \<lambda>_ _. areturn 70,
      ls_poll = \<lambda>_. areturn None, ls_killpg = \<lambda>_ _. areturn (), ls_wait = \<lambda>_ _. areturn 0,
      ls_clock = \<lparr>clock_now = \<lambda>t. t, clock_sleep = \<lambda>d t. t + d\<rparr>\<rparr>"

lemma slow_system_steady: "steady_system slow_system"
  by (simp add: steady_system_def slow_system_def forward_clock_def onward_def areturn_def)

theorem local_launch_ends_witness:
  "\<exists>r w'. local_start slow_system [''perf'', ''receiver''] ''/tmp/log'' (Some 1) 0 = Some (r, w')"
  using local_launch_ends [OF slow_system_steady, of "[''perf'', ''receiver'']" "''/tmp/log''" "Some 1" 0] by blast

end
