(* ===== verification/Claim_Selection.thy ===== *)
theory Claim_Selection
  imports Run_Verdicts Profile_Evidence
begin

text \<open>
  The selection of the measurements a claim may rest on (\<^verbatim>\<open>analysis/profile_tools.py\<close>): the population of a
  campaign, the groups of repetitions that all met the sustainability rule, and the representative of each
  receiver. A data frame is its columns and its rows. Grouping, sorting and the statistics of a series are
  operations of the data frame library: a record that the definitions take as an argument, of which the
  theorem uses what the library documents.
\<close>

section \<open>Data frames\<close>

record frame =
  fr_columns :: "string list"
  fr_rows :: "pyval dict list"

definition cell :: "pyval dict \<Rightarrow> string \<Rightarrow> pyval" where
  "cell r c = dget_or r c (VFloat NaN)"

text \<open>The statistics of a series, the groups by some columns, the row of a column's maximum, a sorted frame.\<close>

record pandas =
  pd_max :: "pyval list \<Rightarrow> pyval"
  pd_min :: "pyval list \<Rightarrow> pyval"
  pd_median :: "pyval list \<Rightarrow> pyval"
  pd_groupby :: "string list \<Rightarrow> frame \<Rightarrow> (pyval list \<times> frame) list res"
  pd_idxmax_row :: "string \<Rightarrow> frame \<Rightarrow> pyval dict"
  pd_sort_values :: "(string \<times> bool) list \<Rightarrow> frame \<Rightarrow> frame"

text \<open>\<^verbatim>\<open>frame.name\<close>\<close>

definition series :: "frame \<Rightarrow> string \<Rightarrow> pyval list res" where
  "series f c =
     (if c \<in> set (fr_columns f) then Inr (map (\<lambda>r. cell r c) (fr_rows f))
      else Inl (Exn AttributeError (repr_str ''DataFrame'' @ '' object has no attribute '' @ repr_str c)))"

text \<open>\<^verbatim>\<open>frame[test(frame.name)]\<close>\<close>

definition keep :: "frame \<Rightarrow> string \<Rightarrow> (pyval \<Rightarrow> bool) \<Rightarrow> frame res" where
  "keep f c test = rbind (series f c) (\<lambda>_. Inr (f\<lparr>fr_rows := filter (\<lambda>r. test (cell r c)) (fr_rows f)\<rparr>))"

text \<open>\<^verbatim>\<open>pd.DataFrame(rows)\<close> for rows with the same keys.\<close>

definition frame_of :: "pyval dict list \<Rightarrow> frame" where
  "frame_of rows = \<lparr>fr_columns = (case rows of [] \<Rightarrow> [] | r # _ \<Rightarrow> dkeys r), fr_rows = rows\<rparr>"

section \<open>Groups of sustainable repetitions\<close>

definition REQUIRED_REPETITIONS :: nat where "REQUIRED_REPETITIONS = 5"

definition CONFIGURATION_KEYS :: "string list" where
  "CONFIGURATION_KEYS =
     [''mode'', ''burst_size'', ''payload_size'', ''duration_seconds'', ''work_ns'', ''sample_every'']"

definition claim_population :: "frame \<Rightarrow> string \<Rightarrow> frame res" where
  "claim_population per_run campaign_name =
     (if ''topology'' \<notin> set (fr_columns per_run)
      then Inl (ve ''per-run summary is missing topology; cannot exclude loopback data'')
      else rbind (keep per_run ''campaign'' (\<lambda>v. py_eq v (VStr campaign_name))) (\<lambda>data.
           rbind (keep data ''topology'' (\<lambda>v. \<not> py_eq v (VStr ''local_loopback''))) (\<lambda>data.
           if ''run_valid'' \<in> set (fr_columns data) then keep data ''run_valid'' truthy else Inr data)))"

definition configuration_of :: "frame \<Rightarrow> string list" where
  "configuration_of data = filter (\<lambda>key. key \<in> set (fr_columns data)) CONFIGURATION_KEYS"

text \<open>The highest rate tested for every receiver, batch size and workload.\<close>

definition highest_tested :: "pandas \<Rightarrow> string list \<Rightarrow> frame \<Rightarrow> (pyval list \<times> pyval) list res" where
  "highest_tested lib configuration data =
     rbind (pd_groupby lib ([''receiver'', ''batch_size''] @ configuration) data) (\<lambda>groups.
     rmap (\<lambda>(key, members). rbind (series members ''requested_rate_pps'') (\<lambda>rates. Inr (key, pd_max lib rates))) groups)"

definition highest_at :: "(pyval list \<times> pyval) list \<Rightarrow> pyval list \<Rightarrow> pyval res" where
  "highest_at highest key =
     (case find (\<lambda>(k, _). list_all2 py_eq k key) highest of
        Some (_, v) \<Rightarrow> Inr v
      | None \<Rightarrow> Inl (key_error (py_repr (VList key))))"

definition group_columns ::
  "pandas \<Rightarrow> string \<Rightarrow> frame \<Rightarrow> pyval \<Rightarrow> int \<Rightarrow> int \<Rightarrow> int \<Rightarrow> pyval dict res" where
  "group_columns lib campaign_name members receiver batch_size rate_pps maximum_tested =
     rbind (series members ''processed_pps'') (\<lambda>pps.
     rbind (series members ''application_loss_pct'') (\<lambda>loss.
     rbind (py_float (pd_median lib pps)) (\<lambda>median.
     rbind (py_float (pd_min lib pps)) (\<lambda>lowest.
     rbind (py_float (pd_max lib pps)) (\<lambda>highest.
     rbind (py_float (pd_max lib loss)) (\<lambda>worst.
     rbind (series members ''run_id'') (\<lambda>ids.
     Inr [(''receiver'', receiver), (''batch_size'', VInt batch_size), (''requested_rate_pps'', VInt rate_pps),
          (''repetitions'', VInt (int (length (fr_rows members)))), (''processed_pps_median'', VFloat median),
          (''processed_pps_min'', VFloat lowest), (''processed_pps_max'', VFloat highest),
          (''application_loss_pct_max'', VFloat worst), (''max_tested_rate_pps'', VInt maximum_tested),
          (''saturated'', VBool (rate_pps < maximum_tested)), (''campaign'', VStr campaign_name),
          (''run_ids'', VStr (join ''|'' (sort (map py_str ids))))])))))))"

text \<open>One group: no row unless it has all its repetitions and every one was sustainable.\<close>

definition group_row ::
  "pandas \<Rightarrow> string \<Rightarrow> string list \<Rightarrow> (pyval list \<times> pyval) list \<Rightarrow> pyval list \<times> frame \<Rightarrow> pyval dict option res" where
  "group_row lib campaign_name configuration highest entry =
     (case entry of (key, members) \<Rightarrow>
      rbind (py_int (key ! 1)) (\<lambda>batch_size.
      rbind (py_int (key ! 2)) (\<lambda>rate_pps.
      if length (fr_rows members) \<noteq> REQUIRED_REPETITIONS then Inr None
      else rbind (series members ''sustainable_run'') (\<lambda>sustainable_runs.
        if \<not> list_all truthy sustainable_runs then Inr None
        else rbind (rbind (highest_at highest ([key ! 0, VInt batch_size] @ drop 3 key)) py_int) (\<lambda>maximum_tested.
          rbind (group_columns lib campaign_name members (key ! 0) batch_size rate_pps maximum_tested) (\<lambda>row.
          Inr (Some (fold (\<lambda>name. dset name (cell (hd (fr_rows members)) name)) configuration row))))))))"

definition sustainable_groups :: "pandas \<Rightarrow> frame \<Rightarrow> string \<Rightarrow> frame res" where
  "sustainable_groups lib per_run campaign_name =
     rbind (claim_population per_run campaign_name) (\<lambda>data.
     let configuration = configuration_of data;
         group_keys = [''receiver'', ''batch_size'', ''requested_rate_pps''] @ configuration in
     rbind (highest_tested lib configuration data) (\<lambda>highest.
     rbind (pd_groupby lib group_keys data) (\<lambda>groups.
     rbind (rmap (group_row lib campaign_name configuration highest) groups) (\<lambda>found.
     Inr (frame_of (List.map_filter id found))))))"

section \<open>The representative of each receiver\<close>

definition at_work :: "string \<Rightarrow> int option \<Rightarrow> frame \<Rightarrow> frame res" where
  "at_work campaign_name work_ns passing =
     (case work_ns of
        None \<Rightarrow> Inr passing
      | Some n \<Rightarrow>
          rbind (keep passing ''work_ns'' (\<lambda>v. py_eq v (VInt n))) (\<lambda>chosen.
          rbind (require (fr_rows chosen \<noteq> []) (ve (''No '' @ campaign_name @ '' configuration at work_ns='' @ str_int n @
            '' has five sustainable repetitions''))) (\<lambda>_. Inr chosen)))"

definition grouping_of :: "frame \<Rightarrow> string list" where
  "grouping_of candidates =
     [''batch_size''] @ filter (\<lambda>key. key \<in> set (fr_columns candidates)) [''work_ns'', ''sample_every'']"

text \<open>Every batch size at its highest sustainable rate; among those within two percent the smallest batch.\<close>

definition near_best :: "flt \<Rightarrow> pyval dict \<Rightarrow> bool res" where
  "near_best best_pps row = py_le (VFloat (flt_mul (lit 98 100) best_pps)) (cell row ''processed_pps_median'')"

definition representative :: "pandas \<Rightarrow> frame \<Rightarrow> string \<Rightarrow> pyval dict res" where
  "representative lib passing receiver =
     rbind (keep passing ''receiver'' (\<lambda>v. py_eq v (VStr receiver))) (\<lambda>candidates.
     rbind (require (fr_rows candidates \<noteq> []) (ve (''No sustainable configuration for '' @ receiver))) (\<lambda>_.
     rbind (pd_groupby lib (grouping_of candidates) candidates) (\<lambda>groups.
     let tops = candidates\<lparr>fr_rows := map (\<lambda>(_, members). pd_idxmax_row lib ''requested_rate_pps'' members) groups\<rparr> in
     rbind (series tops ''processed_pps_median'') (\<lambda>medians.
     rbind (py_float (pd_max lib medians)) (\<lambda>best_pps.
     rbind (rfilter (near_best best_pps) (fr_rows tops)) (\<lambda>within_two_percent.
     case fr_rows (pd_sort_values lib [(''batch_size'', True), (''requested_rate_pps'', False)]
                     (tops\<lparr>fr_rows := within_two_percent\<rparr>)) of
       [] \<Rightarrow> Inl (Exn IndexError ''single positional indexer is out-of-bounds'')
     | row # _ \<Rightarrow> Inr row))))))"

definition RECEIVERS :: "string list" where
  "RECEIVERS = [''baseline'', ''batched'', ''threaded'']"

definition workloads_text :: "pyval list \<Rightarrow> string" where
  "workloads_text workloads = py_repr (VList (sort_key as_int (dedup workloads)))"

definition select_representatives :: "pandas \<Rightarrow> frame \<Rightarrow> string \<Rightarrow> int option \<Rightarrow> pyval dict list res" where
  "select_representatives lib per_run campaign_name work_ns =
     rbind (sustainable_groups lib per_run campaign_name) (\<lambda>passing.
     rbind (require (fr_rows passing \<noteq> [])
       (ve (''No '' @ campaign_name @ '' configuration has five sustainable repetitions''))) (\<lambda>_.
     rbind (at_work campaign_name work_ns passing) (\<lambda>passing.
     rbind (rmap (representative lib passing) RECEIVERS) (\<lambda>selected.
     let workloads = map (\<lambda>row. dget_or row ''work_ns'' VNone) selected in
     rbind (py_set_size workloads) (\<lambda>n.
     rbind (require (n \<le> 1) (ve (''Selected representatives span multiple workloads: '' @ workloads_text workloads))) (\<lambda>_.
     Inr selected))))))"

section \<open>What the library documents\<close>

text \<open>
  A group has the columns of its frame, at least one row, and all the rows of the frame whose values are
  its key; the maximum of a series is one of its values, or \<^verbatim>\<open>NaN\<close>, and no number of a numeric series is
  larger; \<^verbatim>\<open>idxmax\<close> gives a row of its frame; sorting
  permutes the rows, and no row after the first has a smaller value in the first, ascending column.
\<close>

definition in_group :: "string list \<Rightarrow> pyval list \<Rightarrow> pyval dict \<Rightarrow> bool" where
  "in_group keys key r = list_all2 py_eq (map (cell r) keys) key"

definition documented :: "pandas \<Rightarrow> bool" where
  "documented lib \<longleftrightarrow>
     (\<forall>keys f groups key members. pd_groupby lib keys f = Inr groups \<longrightarrow> (key, members) \<in> set groups \<longrightarrow>
        fr_columns members = fr_columns f \<and> fr_rows members \<noteq> [] \<and>
        fr_rows members = filter (in_group keys key) (fr_rows f)) \<and>
     (\<forall>vs. pd_max lib vs \<in> set vs \<or> pd_max lib vs = VFloat NaN) \<and>
     (\<forall>vs v. list_all (\<lambda>v. num_val v \<noteq> None) vs \<longrightarrow> v \<in> set vs \<longrightarrow> py_lt (pd_max lib vs) v \<noteq> Inr True) \<and>
     (\<forall>c f. fr_rows f \<noteq> [] \<longrightarrow> pd_idxmax_row lib c f \<in> set (fr_rows f)) \<and>
     (\<forall>ks f. mset (fr_rows (pd_sort_values lib ks f)) = mset (fr_rows f)) \<and>
     (\<forall>c ks f r rs r'. fr_rows (pd_sort_values lib ((c, True) # ks) f) = r # rs \<longrightarrow> r' \<in> set rs \<longrightarrow>
        py_lt (cell r' c) (cell r c) \<noteq> Inr True)"

lemma documented_groupby:
  assumes "documented lib" "pd_groupby lib keys f = Inr groups" "(key, members) \<in> set groups"
  shows "fr_columns members = fr_columns f" "fr_rows members \<noteq> []"
    "fr_rows members = filter (in_group keys key) (fr_rows f)"
  using assms unfolding documented_def by blast+

lemma documented_max: "documented lib \<Longrightarrow> pd_max lib vs \<noteq> VFloat NaN \<Longrightarrow> pd_max lib vs \<in> set vs"
  unfolding documented_def by blast

lemma documented_max_bound:
  "documented lib \<Longrightarrow> list_all (\<lambda>v. num_val v \<noteq> None) vs \<Longrightarrow> v \<in> set vs \<Longrightarrow> py_lt (pd_max lib vs) v \<noteq> Inr True"
  unfolding documented_def by blast

lemma documented_idxmax: "documented lib \<Longrightarrow> fr_rows f \<noteq> [] \<Longrightarrow> pd_idxmax_row lib c f \<in> set (fr_rows f)"
  unfolding documented_def by blast

lemma documented_sort:
  assumes "documented lib" "fr_rows (pd_sort_values lib ((c, True) # ks) f) = r # rs"
  shows "r \<in> set (fr_rows f)" "\<And>r'. r' \<in> set (fr_rows f) \<Longrightarrow> r' = r \<or> py_lt (cell r' c) (cell r c) \<noteq> Inr True"
proof -
  have "mset (r # rs) = mset (fr_rows f)" using assms unfolding documented_def by metis
  then have rows: "set (fr_rows f) = insert r (set rs)" by (metis list.simps(15) set_mset_mset)
  then show "r \<in> set (fr_rows f)" by simp
  show "r' = r \<or> py_lt (cell r' c) (cell r c) \<noteq> Inr True" if "r' \<in> set (fr_rows f)" for r'
    using that rows assms unfolding documented_def by blast
qed

section \<open>What a representative rests on\<close>

definition eligible_run :: "frame \<Rightarrow> string \<Rightarrow> pyval dict \<Rightarrow> bool" where
  "eligible_run per_run campaign_name r \<longleftrightarrow>
     cell r ''campaign'' = VStr campaign_name \<and> cell r ''topology'' \<noteq> VStr ''local_loopback'' \<and>
     (''run_valid'' \<in> set (fr_columns per_run) \<longrightarrow> truthy (cell r ''run_valid''))"

lemma series_Inr: "series f c = Inr vs \<longleftrightarrow> c \<in> set (fr_columns f) \<and> vs = map (\<lambda>r. cell r c) (fr_rows f)"
  by (auto simp: series_def)

lemma keep_Inr:
  "keep f c test = Inr g \<longleftrightarrow> c \<in> set (fr_columns f) \<and> g = f\<lparr>fr_rows := filter (\<lambda>r. test (cell r c)) (fr_rows f)\<rparr>"
  by (auto simp: keep_def rbind_Inr_iff series_Inr)

lemma claim_population_Inr:
  assumes "claim_population per_run campaign_name = Inr data"
  shows "fr_columns data = fr_columns per_run \<and>
    fr_rows data = filter (eligible_run per_run campaign_name) (fr_rows per_run)"
proof -
  have eligible: "eligible_run per_run campaign_name r \<longleftrightarrow>
      py_eq (cell r ''campaign'') (VStr campaign_name) \<and> \<not> py_eq (cell r ''topology'') (VStr ''local_loopback'') \<and>
      (''run_valid'' \<in> set (fr_columns per_run) \<longrightarrow> truthy (cell r ''run_valid''))" for r
    by (simp add: eligible_run_def py_eq_VStr_iff)
  show ?thesis
    using assms unfolding claim_population_def
    by (auto simp: rbind_Inr_iff keep_Inr eligible conj_commute intro!: filter_cong split: if_splits)
qed

lemma dget_fold_dset:
  "dget (fold (\<lambda>name. dset name (f name)) names d) k = (if k \<in> set names then Some (f k) else dget d k)"
  by (induction names arbitrary: d) auto

lemma cell_fold_dset:
  "cell (fold (\<lambda>name. dset name (f name)) names d) k = (if k \<in> set names then f k else cell d k)"
  by (simp add: cell_def dget_or_def dget_fold_dset)

text \<open>A run tested for the same receiver, batch size and workload as a key.\<close>

definition same_workload :: "string list \<Rightarrow> pyval list \<Rightarrow> pyval dict \<Rightarrow> bool" where
  "same_workload configuration key r \<longleftrightarrow>
     (\<exists>k. list_all2 py_eq k key \<and> in_group ([''receiver'', ''batch_size''] @ configuration) k r)"

definition backed :: "frame \<Rightarrow> string \<Rightarrow> pyval dict \<Rightarrow> bool" where
  "backed per_run campaign_name row \<longleftrightarrow>
     (\<exists>key batch_size rate_pps runs. let configuration = configuration_of per_run in
        runs = filter (\<lambda>r. eligible_run per_run campaign_name r \<and>
          in_group ([''receiver'', ''batch_size'', ''requested_rate_pps''] @ configuration) key r) (fr_rows per_run) \<and>
        length runs = REQUIRED_REPETITIONS \<and> list_all (\<lambda>r. truthy (cell r ''sustainable_run'')) runs \<and>
        cell row ''receiver'' = key ! 0 \<and>
        py_int (key ! 1) = Inr batch_size \<and> cell row ''batch_size'' = VInt batch_size \<and>
        py_int (key ! 2) = Inr rate_pps \<and> cell row ''requested_rate_pps'' = VInt rate_pps \<and>
        cell row ''repetitions'' = VInt 5 \<and>
        list_all (\<lambda>name. cell row name = cell (hd runs) name) configuration \<and>
        (cell row ''saturated'' = VBool True \<longrightarrow> (\<exists>r n. r \<in> set (fr_rows per_run) \<and>
           eligible_run per_run campaign_name r \<and>
           same_workload configuration ([key ! 0, VInt batch_size] @ drop 3 key) r \<and>
           py_int (cell r ''requested_rate_pps'') = Inr n \<and> rate_pps < n)))"

lemma rmap_Inr_set: "rmap f xs = Inr ys \<Longrightarrow> y \<in> set ys \<Longrightarrow> \<exists>x \<in> set xs. f x = Inr y"
  by (auto simp: rmap_Inr_iff list_all2_conv_all_nth in_set_conv_nth) (metis nth_mem)

lemma group_columns_cells:
  assumes "group_columns lib campaign_name members receiver batch_size rate_pps maximum_tested = Inr row"
  shows "cell row ''receiver'' = receiver" "cell row ''batch_size'' = VInt batch_size"
    "cell row ''requested_rate_pps'' = VInt rate_pps" "cell row ''repetitions'' = VInt (int (length (fr_rows members)))"
    "cell row ''saturated'' = VBool (rate_pps < maximum_tested)"
  using assms by (auto simp: group_columns_def rbind_Inr_iff cell_def dget_or_def)

lemma configuration_names:
  "set (configuration_of f) \<inter> {''receiver'', ''batch_size'', ''requested_rate_pps'', ''repetitions'', ''saturated''} = {}"
  by (auto simp: configuration_of_def CONFIGURATION_KEYS_def)

lemma group_row_Some:
  assumes "group_row lib campaign_name (configuration_of f) highest (key, members) = Inr (Some row)"
  shows "\<exists>batch_size rate_pps best maximum_tested.
    py_int (key ! 1) = Inr batch_size \<and> py_int (key ! 2) = Inr rate_pps \<and>
    length (fr_rows members) = REQUIRED_REPETITIONS \<and>
    list_all (\<lambda>r. truthy (cell r ''sustainable_run'')) (fr_rows members) \<and>
    highest_at highest ([key ! 0, VInt batch_size] @ drop 3 key) = Inr best \<and> py_int best = Inr maximum_tested \<and>
    cell row ''receiver'' = key ! 0 \<and> cell row ''batch_size'' = VInt batch_size \<and>
    cell row ''requested_rate_pps'' = VInt rate_pps \<and> cell row ''repetitions'' = VInt 5 \<and>
    cell row ''saturated'' = VBool (rate_pps < maximum_tested) \<and>
    list_all (\<lambda>name. cell row name = cell (hd (fr_rows members)) name) (configuration_of f)"
proof -
  from assms obtain batch_size rate_pps best maximum_tested base where
    facts: "py_int (key ! 1) = Inr batch_size" "py_int (key ! 2) = Inr rate_pps"
      "length (fr_rows members) = REQUIRED_REPETITIONS"
      "list_all (\<lambda>r. truthy (cell r ''sustainable_run'')) (fr_rows members)"
      "highest_at highest ([key ! 0, VInt batch_size] @ drop 3 key) = Inr best" "py_int best = Inr maximum_tested"
    and base: "group_columns lib campaign_name members (key ! 0) batch_size rate_pps maximum_tested = Inr base"
    and row: "row = fold (\<lambda>name. dset name (cell (hd (fr_rows members)) name)) (configuration_of f) base"
    by (auto simp: group_row_def rbind_Inr_iff series_Inr list_all_iff split: if_splits)
  note cells = group_columns_cells [OF base] cell_fold_dset
  have "cell row name = cell base name" if "name \<in> {''receiver'', ''batch_size'', ''requested_rate_pps'', ''repetitions'', ''saturated''}" for name
    using that configuration_names [of f] unfolding row cell_fold_dset by auto
  then have "cell row ''receiver'' = key ! 0" "cell row ''batch_size'' = VInt batch_size"
    "cell row ''requested_rate_pps'' = VInt rate_pps" "cell row ''repetitions'' = VInt 5"
    "cell row ''saturated'' = VBool (rate_pps < maximum_tested)"
    using cells facts(3) by (simp_all add: REQUIRED_REPETITIONS_def)
  moreover have "list_all (\<lambda>name. cell row name = cell (hd (fr_rows members)) name) (configuration_of f)"
    by (simp add: list_all_iff row cell_fold_dset)
  ultimately show ?thesis using facts by blast
qed

lemma highest_at_tested:
  assumes "documented lib" "highest_tested lib configuration data = Inr highest" "highest_at highest key = Inr best"
    and "py_int best = Inr n"
  shows "\<exists>r \<in> set (fr_rows data). same_workload configuration key r \<and> py_int (cell r ''requested_rate_pps'') = Inr n"
proof -
  from assms(3) obtain k where "find (\<lambda>(k, _). list_all2 py_eq k key) highest = Some (k, best)"
    by (auto simp: highest_at_def split: option.splits)
  then have found: "list_all2 py_eq k key" "(k, best) \<in> set highest" by (auto simp: find_Some_iff in_set_conv_nth)
  from assms(2) obtain groups where groups: "pd_groupby lib ([''receiver'', ''batch_size''] @ configuration) data = Inr groups"
    and highest: "rmap (\<lambda>(key, members). rbind (series members ''requested_rate_pps'') (\<lambda>rates. Inr (key, pd_max lib rates))) groups =
      Inr highest" by (auto simp: highest_tested_def rbind_Inr_iff)
  from rmap_Inr_set [OF highest found(2)] obtain members where members: "(k, members) \<in> set groups"
    and best: "best = pd_max lib (map (\<lambda>r. cell r ''requested_rate_pps'') (fr_rows members))"
    by (auto simp: rbind_Inr_iff series_Inr)
  have "best \<noteq> VFloat NaN" using assms(4) by auto
  with documented_max [OF assms(1)] best obtain r where r: "r \<in> set (fr_rows members)" "best = cell r ''requested_rate_pps''"
    by (metis (no_types, lifting) imageE list.set_map)
  with documented_groupby(3) [OF assms(1) groups members] found(1) assms(4) show ?thesis
    by (auto simp: same_workload_def)
qed

lemma sustainable_groups_backed:
  assumes "documented lib" "sustainable_groups lib per_run campaign_name = Inr passing" "row \<in> set (fr_rows passing)"
  shows "backed per_run campaign_name row"
proof -
  from assms(2) obtain data highest groups found where data: "claim_population per_run campaign_name = Inr data"
    and highest: "highest_tested lib (configuration_of data) data = Inr highest"
    and groups: "pd_groupby lib ([''receiver'', ''batch_size'', ''requested_rate_pps''] @ configuration_of data) data = Inr groups"
    and found: "rmap (group_row lib campaign_name (configuration_of data) highest) groups = Inr found"
    and passing: "passing = frame_of (List.map_filter id found)"
    by (auto simp: sustainable_groups_def rbind_Inr_iff Let_def)
  have population: "fr_rows data = filter (eligible_run per_run campaign_name) (fr_rows per_run)"
    and same: "configuration_of data = configuration_of per_run"
    using claim_population_Inr [OF data] by (simp_all add: configuration_of_def)
  have "Some row \<in> set found" using assms(3) by (auto simp: passing frame_of_def map_filter_def)
  from rmap_Inr_set [OF found this] obtain key members where member: "(key, members) \<in> set groups"
    and one: "group_row lib campaign_name (configuration_of data) highest (key, members) = Inr (Some row)" by auto
  define runs where "runs = fr_rows members"
  have runs: "runs = filter (\<lambda>r. eligible_run per_run campaign_name r \<and>
      in_group ([''receiver'', ''batch_size'', ''requested_rate_pps''] @ configuration_of per_run) key r) (fr_rows per_run)"
    using documented_groupby(3) [OF assms(1) groups member] by (simp add: runs_def population same conj_commute)
  obtain batch_size rate_pps best n where row:
    "py_int (key ! 1) = Inr batch_size" "py_int (key ! 2) = Inr rate_pps" "length runs = REQUIRED_REPETITIONS"
    "list_all (\<lambda>r. truthy (cell r ''sustainable_run'')) runs" "cell row ''receiver'' = key ! 0"
    "cell row ''batch_size'' = VInt batch_size" "cell row ''requested_rate_pps'' = VInt rate_pps"
    "cell row ''repetitions'' = VInt 5" "cell row ''saturated'' = VBool (rate_pps < n)"
    "list_all (\<lambda>name. cell row name = cell (hd runs) name) (configuration_of per_run)"
    and best: "highest_at highest ([key ! 0, VInt batch_size] @ drop 3 key) = Inr best" "py_int best = Inr n"
    using group_row_Some [OF one] unfolding runs_def same by blast
  have "\<exists>r n. r \<in> set (fr_rows per_run) \<and> eligible_run per_run campaign_name r \<and>
      same_workload (configuration_of per_run) ([key ! 0, VInt batch_size] @ drop 3 key) r \<and>
      py_int (cell r ''requested_rate_pps'') = Inr n \<and> rate_pps < n" if "cell row ''saturated'' = VBool True"
    using highest_at_tested [OF assms(1) highest best] that row(9) by (auto simp: population same)
  with runs row show ?thesis unfolding backed_def Let_def by blast
qed

section \<open>What is chosen\<close>

text \<open>
  The rows that compete for a receiver: for every batch size (and workload) one row of its largest rate.
  The choice is within two percent of the best median and no such row has a smaller batch.
\<close>

definition chosen_among :: "pyval dict list \<Rightarrow> pyval dict \<Rightarrow> bool" where
  "chosen_among tops row \<longleftrightarrow> row \<in> set tops \<and>
     (\<exists>best_pps. near_best best_pps row = Inr True \<and>
        (\<forall>r \<in> set tops. near_best best_pps r = Inr True \<longrightarrow>
           r = row \<or> py_lt (cell r ''batch_size'') (cell row ''batch_size'') \<noteq> Inr True))"

lemma representative_chosen:
  assumes "documented lib" "representative lib passing receiver = Inr row"
  shows "row \<in> set (fr_rows passing) \<and> cell row ''receiver'' = VStr receiver \<and>
    (\<exists>tops. set tops \<subseteq> set (fr_rows passing) \<and> chosen_among tops row)"
proof -
  define candidates where "candidates = passing\<lparr>fr_rows := filter (\<lambda>r. py_eq (cell r ''receiver'') (VStr receiver)) (fr_rows passing)\<rparr>"
  from assms(2) have run: "rbind (pd_groupby lib (grouping_of candidates) candidates) (\<lambda>groups.
     let tops = candidates\<lparr>fr_rows := map (\<lambda>(_, members). pd_idxmax_row lib ''requested_rate_pps'' members) groups\<rparr> in
     rbind (series tops ''processed_pps_median'') (\<lambda>medians.
     rbind (py_float (pd_max lib medians)) (\<lambda>best_pps.
     rbind (rfilter (near_best best_pps) (fr_rows tops)) (\<lambda>within_two_percent.
     case fr_rows (pd_sort_values lib [(''batch_size'', True), (''requested_rate_pps'', False)]
                     (tops\<lparr>fr_rows := within_two_percent\<rparr>)) of
       [] \<Rightarrow> Inl (Exn IndexError ''single positional indexer is out-of-bounds'')
     | row # _ \<Rightarrow> Inr row)))) = Inr row"
    unfolding representative_def candidates_def by (auto simp only: rbind_Inr_iff keep_Inr)
  then obtain groups where groups: "pd_groupby lib (grouping_of candidates) candidates = Inr groups"
    unfolding rbind_Inr_iff by blast
  define tops where "tops = map (\<lambda>(_, members). pd_idxmax_row lib ''requested_rate_pps'' members) groups"
  from run obtain best_pps near where near: "rfilter (near_best best_pps) tops = Inr near"
    and final: "(case fr_rows (pd_sort_values lib [(''batch_size'', True), (''requested_rate_pps'', False)]
      (candidates\<lparr>fr_rows := near\<rparr>)) of
       [] \<Rightarrow> Inl (Exn IndexError ''single positional indexer is out-of-bounds'') | row # _ \<Rightarrow> Inr row) = Inr row"
    unfolding groups rbind_simps Let_def tops_def rbind_Inr_iff by auto
  from final obtain rest where
    sorted: "fr_rows (pd_sort_values lib [(''batch_size'', True), (''requested_rate_pps'', False)]
      (candidates\<lparr>fr_rows := near\<rparr>)) = row # rest" by (auto split: list.splits)
  have within: "set tops \<subseteq> set (fr_rows candidates)"
  proof
    fix r assume "r \<in> set tops"
    then obtain key members where member: "(key, members) \<in> set groups"
      and r: "r = pd_idxmax_row lib ''requested_rate_pps'' members" by (auto simp: tops_def)
    from documented_idxmax [OF assms(1) documented_groupby(2) [OF assms(1) groups member]] r
    show "r \<in> set (fr_rows candidates)" by (simp add: documented_groupby(3) [OF assms(1) groups member])
  qed
  have near_tops: "near = filter (\<lambda>r. near_best best_pps r = Inr True) tops" using rfilter_Inr [OF near] by simp
  from documented_sort [OF assms(1) sorted] have row: "row \<in> set near"
    and least: "\<And>r. r \<in> set near \<Longrightarrow> r = row \<or> py_lt (cell r ''batch_size'') (cell row ''batch_size'') \<noteq> Inr True"
    by simp_all
  have "chosen_among tops row"
    unfolding chosen_among_def using row least by (auto simp: near_tops)
  moreover have "row \<in> set (fr_rows candidates)" using row within by (auto simp: near_tops)
  moreover have "set tops \<subseteq> set (fr_rows passing)" using within by (auto simp: candidates_def)
  ultimately show ?thesis by (auto simp: candidates_def py_eq_VStr_iff)
qed

lemma at_work_rows:
  "at_work campaign_name work_ns passing = Inr chosen \<Longrightarrow>
     set (fr_rows chosen) \<subseteq> set (fr_rows passing) \<and>
     (\<forall>n. work_ns = Some n \<longrightarrow> (\<forall>r \<in> set (fr_rows chosen). py_eq (cell r ''work_ns'') (VInt n)))"
  by (cases work_ns) (auto simp: at_work_def rbind_Inr_iff keep_Inr require_def split: if_splits)

lemma set_size_acc_seen: "length seen \<le> set_size_acc seen vs"
  by (induction seen vs rule: set_size_acc.induct) auto

lemma set_size_one:
  "set_size_acc [x] vs \<le> 1 \<Longrightarrow> v \<in> set vs \<Longrightarrow> py_eq v x"
proof (induction vs)
  case (Cons y vs)
  have "set_size_acc [y, x] vs \<ge> 2" using set_size_acc_seen [of "[y, x]" vs] by simp
  with Cons show ?case by (auto split: if_splits)
qed simp

lemma selected_backed:
  assumes "documented lib" "select_representatives lib per_run campaign_name work_ns = Inr selected"
  shows "map (\<lambda>row. cell row ''receiver'') selected = map VStr RECEIVERS"
    "\<And>row. row \<in> set selected \<Longrightarrow> backed per_run campaign_name row \<and>
       (\<exists>tops. list_all (backed per_run campaign_name) tops \<and> chosen_among tops row)"
    "\<And>row. row \<in> set (tl selected) \<Longrightarrow>
       py_eq (dget_or row ''work_ns'' VNone) (dget_or (hd selected) ''work_ns'' VNone)"
proof -
  from assms(2) obtain passing chosen n where passing: "sustainable_groups lib per_run campaign_name = Inr passing"
    and chosen: "at_work campaign_name work_ns passing = Inr chosen"
    and selected: "rmap (representative lib chosen) RECEIVERS = Inr selected"
    and size: "py_set_size (map (\<lambda>row. dget_or row ''work_ns'' VNone) selected) = Inr n" "n \<le> 1"
    by (auto simp: select_representatives_def rbind_Inr_iff Let_def require_def split: if_splits)
  note rows = representative_chosen [OF assms(1)] sustainable_groups_backed [OF assms(1) passing]
  have within: "set (fr_rows chosen) \<subseteq> set (fr_rows passing)" using at_work_rows [OF chosen] by simp
  show "map (\<lambda>row. cell row ''receiver'') selected = map VStr RECEIVERS"
    using selected rows(1) by (auto simp: rmap_Inr_iff list_all2_conv_all_nth intro!: nth_equalityI)
  show "backed per_run campaign_name row \<and> (\<exists>tops. list_all (backed per_run campaign_name) tops \<and> chosen_among tops row)"
    if row: "row \<in> set selected" for row
  proof -
    from rmap_Inr_set [OF selected row] obtain receiver where "representative lib chosen receiver = Inr row" by auto
    from rows(1) [OF this] within rows(2) show ?thesis unfolding list_all_iff by blast
  qed
  show "py_eq (dget_or row ''work_ns'' VNone) (dget_or (hd selected) ''work_ns'' VNone)"
    if "row \<in> set (tl selected)" for row
    using size that set_size_one [of "dget_or (hd selected) ''work_ns'' VNone" "map (\<lambda>row. dget_or row ''work_ns'' VNone) (tl selected)"]
    by (cases selected) (auto simp: py_set_size_def rbind_Inr_iff)
qed


section \<open>A library that does what is documented\<close>

text \<open>Operations on lists of rows; sorting brings a least row to the front.\<close>

definition below :: "pyval \<Rightarrow> pyval \<Rightarrow> bool" where
  "below v w \<longleftrightarrow> py_lt v w = Inr True"

fun extreme :: "('a \<Rightarrow> 'a \<Rightarrow> bool) \<Rightarrow> 'a \<Rightarrow> 'a list \<Rightarrow> 'a" where
  "extreme better x [] = x"
| "extreme better x (y # ys) = extreme better (if better y x then y else x) ys"

definition known_number :: "pyval \<Rightarrow> bool" where
  "known_number v \<longleftrightarrow> num_val v \<noteq> None \<and> num_val v \<noteq> Some NaN"

definition extreme_of :: "(pyval \<Rightarrow> pyval \<Rightarrow> bool) \<Rightarrow> pyval list \<Rightarrow> pyval" where
  "extreme_of better vs = (case filter known_number vs of [] \<Rightarrow> VFloat NaN | v # vs \<Rightarrow> extreme better v vs)"

definition first_least :: "string \<Rightarrow> pyval dict list \<Rightarrow> pyval dict list" where
  "first_least c rows = (case rows of
     [] \<Rightarrow> []
   | r # rs \<Rightarrow> let least = extreme (\<lambda>a b. below (cell a c) (cell b c)) r rs in least # remove1 least rows)"

definition list_pandas :: pandas where
  "list_pandas =
     \<lparr>pd_max = extreme_of (\<lambda>v w. below w v), pd_min = extreme_of below, pd_median = extreme_of below,
      pd_groupby = \<lambda>keys f. Inr (map (\<lambda>key. (key, f\<lparr>fr_rows := filter (in_group keys key) (fr_rows f)\<rparr>))
        (remdups (map (\<lambda>r. map (cell r) keys) (filter (\<lambda>r. in_group keys (map (cell r) keys) r) (fr_rows f))))),
      pd_idxmax_row = \<lambda>c f. extreme (\<lambda>a b. below (cell b c) (cell a c)) (hd (fr_rows f)) (tl (fr_rows f)),
      pd_sort_values = \<lambda>ks f. f\<lparr>fr_rows := (case ks of (c, True) # _ \<Rightarrow> first_least c (fr_rows f) | _ \<Rightarrow> fr_rows f)\<rparr>\<rparr>"

lemma extreme_in: "extreme better x ys \<in> set (x # ys)"
  by (induction ys arbitrary: x) auto

lemma flt_lt_trans: "flt_lt a b \<Longrightarrow> flt_lt b c \<Longrightarrow> flt_lt a c"
  by (cases a; cases b; cases c) auto

lemma flt_lt_irrefl: "\<not> flt_lt a a"
  by (cases a) auto

lemma below_trans: "below u v \<Longrightarrow> below v w \<Longrightarrow> below u w"
  by (auto simp: below_def py_compare_def dest: flt_lt_trans split: option.splits)

lemma below_irrefl: "\<not> below v v"
  by (auto simp: below_def py_compare_def flt_lt_irrefl split: option.splits)

text \<open>For a transitive, irreflexive order nothing is better than the extreme value.\<close>

lemma extreme_first:
  assumes "\<And>u v w. better u v \<Longrightarrow> better v w \<Longrightarrow> better u w"
  shows "extreme better x ys = x \<or> better (extreme better x ys) x"
proof (induction ys arbitrary: x)
  case (Cons z zs)
  show ?case using Cons.IH [of x] Cons.IH [of z] assms by auto
qed simp

lemma extreme_best:
  assumes "\<And>u v w. better u v \<Longrightarrow> better v w \<Longrightarrow> better u w" "\<And>v. \<not> better v v"
  shows "y \<in> set (x # ys) \<Longrightarrow> \<not> better y (extreme better x ys)"
proof (induction ys arbitrary: x y)
  case Nil
  then show ?case by (simp add: assms(2))
next
  case (Cons z zs)
  show ?case
  proof (cases "better z x")
    case True
    then have "\<not> better x (extreme better z zs)" using Cons.IH [of z z] assms(1) by auto
    with True Cons show ?thesis by auto
  next
    case False
    then have "\<not> better z (extreme better x zs)" using extreme_first [of better x zs] assms(1) by metis
    with False Cons show ?thesis by auto
  qed
qed

lemma extreme_least:
  "y \<in> set (x # ys) \<Longrightarrow> \<not> below (cell y c) (cell (extreme (\<lambda>a b. below (cell a c) (cell b c)) x ys) c)"
  by (rule extreme_best [of "\<lambda>a b. below (cell a c) (cell b c)"]) (auto intro: below_trans simp: below_irrefl)

lemma first_least_mset: "mset (first_least c rows) = mset rows"
proof (cases rows)
  case (Cons r rs)
  let ?least = "extreme (\<lambda>a b. below (cell a c) (cell b c)) r rs"
  have "mset (first_least c rows) = add_mset ?least (mset rows - {#?least#})"
    unfolding first_least_def Cons Let_def list.case mset.simps(2) [of ?least] by (simp only: mset_remove1)
  also have "\<dots> = mset rows"
    using extreme_in [of "\<lambda>a b. below (cell a c) (cell b c)" r rs] by (intro insert_DiffM) (simp add: Cons)
  finally show ?thesis .
qed (simp add: first_least_def)

lemma extreme_of_in: "extreme_of better vs \<in> set vs \<or> extreme_of better vs = VFloat NaN"
proof (cases "filter known_number vs")
  case (Cons w ws)
  then have "set (w # ws) \<subseteq> set vs" by (metis filter_is_subset)
  with extreme_in [of better w ws] Cons show ?thesis by (auto simp: extreme_of_def)
qed (simp add: extreme_of_def)

lemma unknown_not_above: "\<not> known_number v \<Longrightarrow> \<not> below u v"
  by (auto simp: known_number_def below_def py_compare_def split: option.splits elim: flt_lt.elims)

lemma extreme_of_bound:
  assumes "v \<in> set vs"
  shows "\<not> below (extreme_of (\<lambda>v w. below w v) vs) v"
proof (cases "known_number v")
  case True
  with assms have within: "v \<in> set (filter known_number vs)" by simp
  then obtain w ws where known: "filter known_number vs = w # ws" by (cases "filter known_number vs") auto
  with within have member: "v \<in> set (w # ws)" by simp
  have "\<not> below (extreme (\<lambda>v w. below w v) w ws) v"
    by (rule extreme_best [of "\<lambda>v w. below w v", OF _ _ member]) (auto intro: below_trans simp: below_irrefl)
  with known show ?thesis by (simp add: extreme_of_def)
qed (rule unknown_not_above)

lemma list_pandas_documented: "documented list_pandas"
proof -
  have groups: "fr_columns members = fr_columns f \<and> fr_rows members \<noteq> [] \<and>
      fr_rows members = filter (in_group keys key) (fr_rows f)"
    if "pd_groupby list_pandas keys f = Inr groups" "(key, members) \<in> set groups" for keys f groups key members
    using that by (auto simp: list_pandas_def filter_empty_conv)
  have least: "py_lt (cell r' c) (cell r c) \<noteq> Inr True"
    if sorted: "fr_rows (pd_sort_values list_pandas ((c, True) # ks) f) = r # rs" "r' \<in> set rs" for c ks f r rs r'
  proof -
    from sorted have first: "first_least c (fr_rows f) = r # rs" by (simp add: list_pandas_def)
    then obtain x xs where rows: "fr_rows f = x # xs" by (cases "fr_rows f") (auto simp: first_least_def)
    have "set (r # rs) = set (x # xs)"
      using first_least_mset [of c "fr_rows f", THEN mset_eq_setD] first rows by simp
    with sorted(2) have "r' \<in> set (x # xs)" by auto
    moreover have "r = extreme (\<lambda>a b. below (cell a c) (cell b c)) x xs"
      using first by (simp add: rows first_least_def Let_def)
    ultimately show ?thesis using extreme_least [of r' x xs c] by (simp add: below_def)
  qed
  have perm: "mset (fr_rows (pd_sort_values list_pandas ks f)) = mset (fr_rows f)" for ks f
    by (auto simp: list_pandas_def first_least_mset split: list.split prod.split bool.split)
  have row: "pd_idxmax_row list_pandas c f \<in> set (fr_rows f)" if "fr_rows f \<noteq> []" for c f
    using extreme_in [of "\<lambda>a b. below (cell b c) (cell a c)" "hd (fr_rows f)" "tl (fr_rows f)"] that
    by (simp add: list_pandas_def)
  have largest: "pd_max list_pandas vs \<in> set vs \<or> pd_max list_pandas vs = VFloat NaN" for vs
    using extreme_of_in [of "\<lambda>v w. below w v" vs] by (simp add: list_pandas_def)
  have bound: "py_lt (pd_max list_pandas vs) v \<noteq> Inr True" if "v \<in> set vs" for vs v
    using extreme_of_bound [OF that] by (simp add: list_pandas_def below_def)
  show ?thesis
    unfolding documented_def
  proof (intro conjI allI impI)
    show "fr_columns members = fr_columns f" "fr_rows members \<noteq> []"
      "fr_rows members = filter (in_group keys key) (fr_rows f)"
      if "pd_groupby list_pandas keys f = Inr groups" "(key, members) \<in> set groups" for keys f groups key members
      using groups [OF that] by blast+
  qed (fact largest | fact perm | (rule row perm least bound, assumption+))+
qed

section \<open>A session with a representative for each receiver\<close>

definition measured_run :: "string \<Rightarrow> int \<Rightarrow> bool \<Rightarrow> int \<Rightarrow> pyval dict" where
  "measured_run receiver rate_pps sustained n =
     [(''run_id'', VStr (receiver @ str_int n)), (''campaign'', VStr ''raw''), (''topology'', VStr ''distributed_ethernet''),
      (''receiver'', VStr receiver), (''batch_size'', VInt 1), (''requested_rate_pps'', VInt rate_pps),
      (''work_ns'', VInt 0), (''sustainable_run'', VBool sustained), (''processed_pps'', VFloat (Fin (of_int rate_pps))),
      (''application_loss_pct'', VFloat (Fin 0)), (''ingress_loss'', VInt 0), (''spsc_overflow'', VInt 0)]"

definition measured_runs :: frame where
  "measured_runs =
     frame_of (concat (map (\<lambda>(receiver, rate_pps). map (measured_run receiver rate_pps True) [1, 2, 3, 4, 5] @
       [measured_run receiver 9000 False 6]) [(''baseline'', 1000), (''batched'', 2000), (''threaded'', 3000)]))"

definition measured_row :: "string \<Rightarrow> int \<Rightarrow> pyval dict" where
  "measured_row receiver rate_pps =
     [(''receiver'', VStr receiver), (''batch_size'', VInt 1), (''requested_rate_pps'', VInt rate_pps),
      (''repetitions'', VInt 5), (''processed_pps_median'', VFloat (Fin (of_int rate_pps))),
      (''processed_pps_min'', VFloat (Fin (of_int rate_pps))), (''processed_pps_max'', VFloat (Fin (of_int rate_pps))),
      (''application_loss_pct_max'', VFloat (Fin 0)), (''max_tested_rate_pps'', VInt 9000), (''saturated'', VBool True),
      (''campaign'', VStr ''raw''), (''run_ids'', VStr (join ''|'' (map (\<lambda>n. receiver @ str_int n) [1, 2, 3, 4, 5]))),
      (''work_ns'', VInt 0)]"

definition measured_passing :: frame where
  "measured_passing = frame_of [measured_row ''baseline'' 1000, measured_row ''batched'' 2000, measured_row ''threaded'' 3000]"

lemma measured_population:
  "claim_population measured_runs ''raw'' = Inr measured_runs" "configuration_of measured_runs = [''work_ns'']"
  by code_simp+

lemma measured_highest:
  "highest_tested list_pandas [''work_ns''] measured_runs = Inr (map (\<lambda>r. ([VStr r, VInt 1, VInt 0], VInt 9000)) RECEIVERS)"
  by code_simp

lemma measured_sustainable: "sustainable_groups list_pandas measured_runs ''raw'' = Inr measured_passing"
  unfolding sustainable_groups_def measured_population rbind_simps Let_def measured_highest
  by code_simp

lemma measured_representatives:
  "representative list_pandas measured_passing ''baseline'' = Inr (measured_row ''baseline'' 1000)"
  "representative list_pandas measured_passing ''batched'' = Inr (measured_row ''batched'' 2000)"
  "representative list_pandas measured_passing ''threaded'' = Inr (measured_row ''threaded'' 3000)"
  by code_simp+

lemma measured_selection:
  "select_representatives list_pandas measured_runs ''raw'' None =
     Inr [measured_row ''baseline'' 1000, measured_row ''batched'' 2000, measured_row ''threaded'' 3000]"
proof -
  have "fr_rows measured_passing \<noteq> []" by (simp add: measured_passing_def frame_of_def)
  moreover have "py_set_size (map (\<lambda>row. dget_or row ''work_ns'' VNone)
      [measured_row ''baseline'' 1000, measured_row ''batched'' 2000, measured_row ''threaded'' 3000]) = Inr 1" by code_simp
  ultimately show ?thesis
    by (simp add: select_representatives_def measured_sustainable at_work_def RECEIVERS_def measured_representatives)
qed


end
