(* ===== verification/Claim_Evidence.thy ===== *)
theory Claim_Evidence
  imports Claim_Selection
begin

text \<open>
  The gate in front of a published claim (\<^verbatim>\<open>analysis/generate_claim_evidence.py\<close>): what blocks a ratio
  between two selected configurations, what the profiles must show for the mechanism, and the row that is
  written with the verdict and, only when it passes, the sentence. Selected rows and profile medians are
  documents; the medians by receiver are an operation of the data frame library.
\<close>

section \<open>Formatting of numbers\<close>

text \<open>\<^verbatim>\<open>{x:.pf}\<close>: the exact value of the float, rounded half to even at the last place.\<close>

definition fixed_digits :: "nat \<Rightarrow> rat \<Rightarrow> string" where
  "fixed_digits p x =
     (let s = str_int (round_half_even (x * of_int (10 ^ p)));
          padded = replicate (p + 1 - length s) (CHR ''0'') @ s;
          k = length padded - p
      in take k padded @ (if p = 0 then [] else ''.'' @ drop k padded))"

text \<open>\<^verbatim>\<open>{x:g}\<close>: six significant digits without trailing zeros, with an exponent below -4 or from 6 on.\<close>

definition with_point :: "string \<Rightarrow> string \<Rightarrow> string" where
  "with_point whole fraction =
     (let fraction = strip_zeros fraction in if fraction = [] then whole else whole @ ''.'' @ fraction)"

definition general_digits :: "rat \<Rightarrow> string" where
  "general_digits x =
     (let e = dec_exponent x;
          m = round_half_even (x * pow10 (5 - e));
          (m, e) = (if m = 10 ^ 6 then (10 ^ 5, e + 1) else (m, e));
          ds = str_int m
      in if - 4 \<le> e \<and> e < 6 then
           (if e < 0 then with_point ''0'' (replicate (nat (- e - 1)) (CHR ''0'') @ ds)
            else with_point (take (nat e + 1) ds) (drop (nat e + 1) ds))
         else with_point (take 1 ds) (drop 1 ds) @ repr_exponent e)"

definition format_flt :: "(rat \<Rightarrow> string) \<Rightarrow> flt \<Rightarrow> string" where
  "format_flt digits x = (case x of
     NaN \<Rightarrow> ''nan'' | PInf \<Rightarrow> ''inf'' | NInf \<Rightarrow> ''-inf''
   | Fin q \<Rightarrow> if q < 0 then CHR ''-'' # digits (- q) else digits q)"

definition format_fixed :: "nat \<Rightarrow> flt \<Rightarrow> string" where
  "format_fixed p = format_flt (fixed_digits p)"

definition format_g :: "flt \<Rightarrow> string" where
  "format_g = format_flt (\<lambda>q. if q = 0 then ''0'' else general_digits q)"

lemma format_examples:
  "format_fixed 4 (lit 21 20) = ''1.0500''" "format_fixed 2 (lit 5 8) = ''0.62''" "format_fixed 2 (lit 1 200) = ''0.01''"
  "format_g (lit 5 1) = ''5''" "format_g (lit 1 2) = ''0.5''" "format_g (lit 12345678 100000) = ''123.457''"
  "format_g (lit (-9999999) 10000000) = ''-1''"
  by code_simp+

section \<open>What blocks a ratio\<close>

definition MAX_APPLICATION_LOSS_PCT :: flt where "MAX_APPLICATION_LOSS_PCT = lit 1 10"

definition MIN_IMPROVEMENT_RATIO :: flt where "MIN_IMPROVEMENT_RATIO = lit 105 100"

definition MAX_CANDIDATE_SYSCALL_FRACTION :: flt where "MAX_CANDIDATE_SYSCALL_FRACTION = lit 95 100"

definition finite_value :: "pyval \<Rightarrow> bool" where
  "finite_value v \<longleftrightarrow> v \<noteq> VNone \<and> v \<noteq> VFloat NaN"

definition loss_exceeded :: "pyval \<Rightarrow> bool res" where
  "loss_exceeded loss =
     (if \<not> finite_value loss then Inr True
      else rbind (py_float loss) (\<lambda>x. Inr (flt_lt MAX_APPLICATION_LOSS_PCT x)))"

definition side_blockers :: "string \<Rightarrow> pyval \<Rightarrow> string list res" where
  "side_blockers name row = in_order
     [rbind (int_or row ''repetitions'' 0) (\<lambda>n.
        Inr (because (n \<noteq> int REQUIRED_REPETITIONS) (name @ '' does not have '' @ str_nat REQUIRED_REPETITIONS @ '' repetitions''))),
      rbind (py_get_none row ''application_loss_pct_max'') (\<lambda>loss. rbind (loss_exceeded loss) (\<lambda>b.
        Inr (because b (name @ '' exceeds the '' @ repr_flt MAX_APPLICATION_LOSS_PCT @ ''% application-loss rule'')))),
      rbind (py_get_or row ''saturated'' (VBool False)) (\<lambda>saturated.
        Inr (because (\<not> truthy saturated) (name @ '' never lost a higher offered rate, so the sweep is '' @
          ''sender-limited rather than receiver-limited'')))]"

definition ranges_overlap :: "pyval \<Rightarrow> pyval \<Rightarrow> bool res" where
  "ranges_overlap baseline candidate =
     rbind (float_at candidate ''processed_pps_min'') (\<lambda>lowest.
     rbind (float_at baseline ''processed_pps_max'') (\<lambda>highest. Inr (flt_le lowest highest)))"

definition throughput_blockers :: "pyval \<Rightarrow> pyval \<Rightarrow> flt \<Rightarrow> string list res" where
  "throughput_blockers baseline candidate improvement = in_order
     [side_blockers ''baseline'' baseline,
      side_blockers ''candidate'' candidate,
      Inr (because (flt_lt improvement MIN_IMPROVEMENT_RATIO)
        (''improvement '' @ format_fixed 4 improvement @ ''x is below the '' @ repr_flt MIN_IMPROVEMENT_RATIO @
         ''x minimum effect size'')),
      rbind (ranges_overlap baseline candidate) (\<lambda>b. Inr (because b ''candidate and baseline repetition ranges overlap''))]"

section \<open>The mechanism\<close>

definition batch_differs :: "pyval \<Rightarrow> pyval \<Rightarrow> (int \<times> int) option res" where
  "batch_differs row chosen =
     rbind (py_get_none row ''batch_size'') (\<lambda>profiled.
     if \<not> finite_value profiled then Inr None
     else rbind (py_int profiled) (\<lambda>p. rbind (int_at chosen ''batch_size'') (\<lambda>n.
       Inr (if p \<noteq> n then Some (p, n) else None))))"

definition batch_blockers :: "string \<Rightarrow> pyval \<Rightarrow> pyval \<Rightarrow> string list res" where
  "batch_blockers name row chosen =
     rbind (batch_differs row chosen) (\<lambda>differs. Inr (case differs of
       None \<Rightarrow> []
     | Some (p, n) \<Rightarrow> [name @ '' was profiled at batch '' @ str_int p @ '' but measured at batch '' @ str_int n]))"

text \<open>Two figures of the profiles: none unless both are known, else what the test says.\<close>

definition compare_figures :: "pyval \<Rightarrow> pyval \<Rightarrow> string \<Rightarrow> string \<Rightarrow> (flt \<Rightarrow> flt \<Rightarrow> bool) \<Rightarrow> string \<Rightarrow> string list res" where
  "compare_figures base_profile candidate_profile column unavailable worse_than worse =
     rbind (py_get_none base_profile column) (\<lambda>base.
     rbind (py_get_none candidate_profile column) (\<lambda>candidate.
     if \<not> (finite_value base \<and> finite_value candidate) then Inr [unavailable]
     else rbind (py_float candidate) (\<lambda>c. rbind (py_float base) (\<lambda>b. Inr (because (worse_than b c) worse)))))"

text \<open>The repetitions a row names, and the largest value of a column, an unknown value counting as -1.\<close>

definition named_runs :: "pyval \<Rightarrow> frame \<Rightarrow> frame res" where
  "named_runs candidate runs =
     rbind (py_get_or candidate ''run_ids'' (VStr [])) (\<lambda>ids.
     keep runs ''run_id'' (\<lambda>v. py_str v \<in> set (split_on (CHR ''|'') (py_str ids))))"

definition largest_in :: "pandas \<Rightarrow> frame \<Rightarrow> string \<Rightarrow> int res" where
  "largest_in lib f column =
     rbind (series f column) (\<lambda>vs.
     py_int (pd_max lib (map (\<lambda>v. if finite_value v then v else VInt (-1)) vs)))"

definition column_blockers :: "pandas \<Rightarrow> frame \<Rightarrow> string \<times> string \<Rightarrow> string list res" where
  "column_blockers lib chosen entry = (case entry of (column, description) \<Rightarrow>
     if column \<notin> set (fr_columns chosen) then Inr [column @ '' unavailable, cannot verify the overlap mechanism'']
     else rbind (largest_in lib chosen column) (\<lambda>n.
       Inr (because (n \<noteq> 0) (''pipelined repetitions show '' @ description))))"

definition overlap_blockers :: "pandas \<Rightarrow> pyval \<Rightarrow> frame \<Rightarrow> string list res" where
  "overlap_blockers lib candidate runs =
     rbind (named_runs candidate runs) (\<lambda>chosen.
     if length (fr_rows chosen) \<noteq> REQUIRED_REPETITIONS
     then Inr [''only '' @ str_nat (length (fr_rows chosen)) @ '' of '' @ str_nat REQUIRED_REPETITIONS @
               '' pipelined repetitions could be matched back to per-run rows'']
     else rconcat (column_blockers lib chosen)
       [(''ingress_loss'', ''kernel ingress loss''), (''spsc_overflow'', ''queue overflow'')])"

definition mechanism_blockers :: "pandas \<Rightarrow> pyval \<Rightarrow> pyval \<Rightarrow> pyval \<Rightarrow> pyval \<Rightarrow> string \<Rightarrow> frame \<Rightarrow> string list res" where
  "mechanism_blockers lib base_profile candidate_profile baseline candidate receiver runs = in_order
     [batch_blockers ''baseline'' base_profile baseline,
      batch_blockers ''candidate'' candidate_profile candidate,
      compare_figures base_profile candidate_profile ''receive_syscalls_per_packet''
        ''receive syscalls per packet unavailable''
        (\<lambda>b c. flt_lt (flt_mul MAX_CANDIDATE_SYSCALL_FRACTION b) c)
        ''receive syscalls per packet not meaningfully reduced'',
      if receiver = ''threaded'' then overlap_blockers lib candidate runs
      else compare_figures base_profile candidate_profile ''cycles_per_packet''
        ''cycles per packet unavailable'' (\<lambda>b c. flt_le b c) ''cycles per packet not reduced'']"

end
