(* ===== verification/Claim_Gate.thy ===== *)
theory Claim_Gate
  imports Claim_Evidence
begin

text \<open>
  The table of claims (\<^verbatim>\<open>generate\<close> of \<^verbatim>\<open>analysis/generate_claim_evidence.py\<close>): one row for each candidate with
  its verdict, what blocks it, and the sentence when nothing does; and what a row that passes rests on.
\<close>

section \<open>The row of a claim\<close>

text \<open>The medians of the profiles are a dictionary from the receiver to its row.\<close>

definition profile_mechanism ::
  "pandas \<Rightarrow> pyval dict dict \<Rightarrow> pyval \<Rightarrow> pyval \<Rightarrow> string \<Rightarrow> frame \<Rightarrow> (pyval \<times> pyval \<times> string list) res" where
  "profile_mechanism lib medians baseline candidate receiver runs =
     (case (dget medians ''baseline'', dget medians receiver) of
        (Some base_profile, Some candidate_profile) \<Rightarrow>
          rbind (mechanism_blockers lib (VDict base_profile) (VDict candidate_profile) baseline candidate receiver runs) (\<lambda>bs.
          Inr (VDict base_profile, VDict candidate_profile, bs))
      | _ \<Rightarrow> Inr (VDict [], VDict [], [''profile summary has no rows for baseline and '' @ receiver]))"

definition improvement_of :: "pyval \<Rightarrow> pyval \<Rightarrow> flt res" where
  "improvement_of baseline candidate =
     rbind (float_at candidate ''processed_pps_median'') (\<lambda>c.
     rbind (float_at baseline ''processed_pps_median'') (\<lambda>b. flt_div c b))"

definition budget_text :: "int \<Rightarrow> string res" where
  "budget_text workload =
     (if workload = 0 then Inr []
      else rbind (int_div_flt workload 1000) (\<lambda>us. Inr ('' under a '' @ format_g us @ '' us per-packet processing budget'')))"

definition mechanism_sentence :: "string \<Rightarrow> string" where
  "mechanism_sentence receiver =
     (if receiver = ''threaded''
      then ''fewer receive syscalls per packet, with zero kernel ingress loss and zero queue overflow in every repetition''
      else ''fewer receive syscalls and cycles per packet'')"

definition claim_text :: "string \<Rightarrow> flt \<Rightarrow> string \<Rightarrow> string" where
  "claim_text receiver improvement budget =
     ''On two Raspberry Pi 4s over direct 1 GbE, '' @ receiver @ '' sustained '' @ format_fixed 2 improvement @
     ''x the processed UDP packet rate of recvfrom at <=0.1% application loss across all five repetitions'' @ budget @
     ''; perf attributed the result to '' @ mechanism_sentence receiver @ ''.''"

definition configuration_text :: "string \<Rightarrow> pyval \<Rightarrow> pyval res" where
  "configuration_text name row =
     rbind (int_at row ''batch_size'') (\<lambda>n. Inr (VStr (name @ ''/batch='' @ str_int n)))"

text \<open>\<^verbatim>\<open>bool(row.get(key, False))\<close>\<close>

definition flag :: "pyval \<Rightarrow> string \<Rightarrow> pyval res" where
  "flag row key = rbind (py_get_or row key (VBool False)) (\<lambda>v. Inr (VBool (truthy v)))"

definition both_columns :: "string \<Rightarrow> pyval \<Rightarrow> pyval \<Rightarrow> (string \<times> pyval res) list" where
  "both_columns receiver baseline candidate =
     [(''baseline_configuration'', configuration_text ''baseline'' baseline),
      (''candidate_configuration'', configuration_text receiver candidate),
      (''baseline_run_ids'', py_index baseline ''run_ids''),
      (''candidate_run_ids'', py_index candidate ''run_ids''),
      (''baseline_repetitions'', rbind (int_or baseline ''repetitions'' 0) (\<lambda>n. Inr (VInt n))),
      (''candidate_repetitions'', rbind (int_or candidate ''repetitions'' 0) (\<lambda>n. Inr (VInt n))),
      (''baseline_application_loss_pct_max'', py_get_none baseline ''application_loss_pct_max''),
      (''candidate_application_loss_pct_max'', py_get_none candidate ''application_loss_pct_max''),
      (''baseline_saturated'', flag baseline ''saturated''),
      (''candidate_saturated'', flag candidate ''saturated''),
      (''baseline_processed_pps_median'', py_index baseline ''processed_pps_median''),
      (''candidate_processed_pps_median'', py_index candidate ''processed_pps_median''),
      (''baseline_processed_pps_max'', py_index baseline ''processed_pps_max''),
      (''candidate_processed_pps_min'', py_index candidate ''processed_pps_min'')]"

definition profile_figures :: "pyval \<Rightarrow> pyval \<Rightarrow> (string \<times> pyval res) list" where
  "profile_figures base_profile candidate_profile =
     [(''baseline_receive_syscalls_per_packet'', py_get_none base_profile ''receive_syscalls_per_packet''),
      (''candidate_receive_syscalls_per_packet'', py_get_none candidate_profile ''receive_syscalls_per_packet''),
      (''baseline_cycles_per_packet'', py_get_none base_profile ''cycles_per_packet''),
      (''candidate_cycles_per_packet'', py_get_none candidate_profile ''cycles_per_packet'')]"

definition entries :: "(string \<times> pyval res) list \<Rightarrow> pyval dict res" where
  "entries = rmap (\<lambda>(k, v). rbind v (\<lambda>x. Inr (k, x)))"

definition verdict_row ::
  "string \<Rightarrow> string \<Rightarrow> int \<Rightarrow> string \<Rightarrow> pyval dict \<Rightarrow> flt \<Rightarrow> pyval dict \<Rightarrow> string list \<Rightarrow> string list \<Rightarrow> pyval dict" where
  "verdict_row receiver campaign_name workload budget measured improvement profiled blockers missing =
     (let passes = (blockers = [] \<and> missing = []) in
      [(''candidate'', VStr receiver), (''campaign'', VStr campaign_name), (''work_ns'', VInt workload)] @ measured @
      [(''formula'', VStr ''candidate_processed_pps_median / baseline_processed_pps_median''),
       (''improvement_ratio'', VFloat improvement), (''minimum_improvement_ratio'', VFloat MIN_IMPROVEMENT_RATIO)] @
      profiled @
      [(''profile_mechanism_passes'', VBool (missing = [])), (''claim_passes'', VBool passes),
       (''claim_blockers'', VStr (join ''; '' (blockers @ missing))),
       (''resume_claim'', VStr (if passes then claim_text receiver improvement budget else []))])"

definition claim_row ::
  "pandas \<Rightarrow> frame \<Rightarrow> pyval dict dict \<Rightarrow> string \<Rightarrow> pyval \<Rightarrow> pyval \<Rightarrow> string \<Rightarrow> pyval dict res" where
  "claim_row lib runs medians campaign_name baseline candidate receiver =
     rbind (improvement_of baseline candidate) (\<lambda>improvement.
     rbind (throughput_blockers baseline candidate improvement) (\<lambda>blockers.
     rbind (profile_mechanism lib medians baseline candidate receiver runs) (\<lambda>(base_profile, candidate_profile, missing).
     rbind (int_or candidate ''work_ns'' 0) (\<lambda>workload.
     rbind (budget_text workload) (\<lambda>budget.
     rbind (entries (both_columns receiver baseline candidate)) (\<lambda>measured.
     rbind (entries (profile_figures base_profile candidate_profile)) (\<lambda>profiled.
     Inr (verdict_row receiver campaign_name workload budget measured improvement profiled blockers missing))))))))"

text \<open>The rows selected, by receiver; the last of a repeated receiver counts.\<close>

definition selected_row :: "pyval dict list \<Rightarrow> string \<Rightarrow> pyval res" where
  "selected_row selected name =
     (case find (\<lambda>row. py_eq (cell row ''receiver'') (VStr name)) (rev selected) of
        Some row \<Rightarrow> Inr (VDict row) | None \<Rightarrow> Inl (key_error (repr_str name)))"

definition claim_rows ::
  "pandas \<Rightarrow> (frame \<Rightarrow> pyval dict dict res) \<Rightarrow> frame \<Rightarrow> frame \<Rightarrow> string \<Rightarrow> int option \<Rightarrow> pyval dict list res" where
  "claim_rows lib medians_of runs profiles campaign_name work_ns =
     rbind (select_representatives lib runs campaign_name work_ns) (\<lambda>selected.
     rbind (selected_row selected ''baseline'') (\<lambda>baseline.
     rbind (medians_of profiles) (\<lambda>medians.
     rmap (\<lambda>receiver. rbind (selected_row selected receiver) (\<lambda>candidate.
       claim_row lib runs medians campaign_name baseline candidate receiver)) [''batched'', ''threaded''])))"

text \<open>The table of claims of two sessions (it is then written as a CSV file).\<close>

definition generate ::
  "pandas \<Rightarrow> (frame \<Rightarrow> pyval dict dict res) \<Rightarrow> (string \<Rightarrow> frame res) \<Rightarrow> string \<Rightarrow> string \<Rightarrow> string \<Rightarrow> int option \<Rightarrow> frame res" where
  "generate lib medians_of read_csv measurement_session profile_session campaign_name work_ns =
     rbind (read_csv (measurement_session @ ''/per_run_summary.csv'')) (\<lambda>runs.
     rbind (read_csv (profile_session @ ''/profile_summary.csv'')) (\<lambda>profiles.
     rbind (claim_rows lib medians_of runs profiles campaign_name work_ns) (\<lambda>rows. Inr (frame_of rows))))"

section \<open>What a claim that passes rests on\<close>

text \<open>
  A side: five repetitions, a known loss of at most 0.1 percent, and a higher rate that was tested.
\<close>

definition side_supported :: "pyval dict \<Rightarrow> bool" where
  "side_supported row \<longleftrightarrow>
     py_int (dget_or row ''repetitions'' (VInt 0)) = Inr 5 \<and>
     (\<exists>loss. finite_value (dget_or row ''application_loss_pct_max'' VNone) \<and>
        py_float (dget_or row ''application_loss_pct_max'' VNone) = Inr loss \<and> \<not> flt_lt MAX_APPLICATION_LOSS_PCT loss) \<and>
     truthy (dget_or row ''saturated'' (VBool False))"

definition ratio_supported :: "pyval dict \<Rightarrow> pyval dict \<Rightarrow> flt \<Rightarrow> bool" where
  "ratio_supported baseline candidate improvement \<longleftrightarrow>
     \<not> flt_lt improvement MIN_IMPROVEMENT_RATIO \<and>
     (\<exists>lowest highest. float_at (VDict candidate) ''processed_pps_min'' = Inr lowest \<and>
        float_at (VDict baseline) ''processed_pps_max'' = Inr highest \<and> \<not> flt_le lowest highest)"

text \<open>A profile is of the batch size that was measured, where it says so; a figure is known on both sides.\<close>

definition same_batch :: "pyval dict \<Rightarrow> pyval dict \<Rightarrow> bool" where
  "same_batch row chosen \<longleftrightarrow> finite_value (dget_or row ''batch_size'' VNone) \<longrightarrow>
     (\<exists>n. py_int (dget_or row ''batch_size'' VNone) = Inr n \<and> int_at (VDict chosen) ''batch_size'' = Inr n)"

definition figures_compare :: "pyval dict \<Rightarrow> pyval dict \<Rightarrow> string \<Rightarrow> (flt \<Rightarrow> flt \<Rightarrow> bool) \<Rightarrow> bool" where
  "figures_compare base_profile candidate_profile column worse_than \<longleftrightarrow>
     finite_value (dget_or base_profile column VNone) \<and> finite_value (dget_or candidate_profile column VNone) \<and>
     (\<exists>b c. py_float (dget_or base_profile column VNone) = Inr b \<and>
        py_float (dget_or candidate_profile column VNone) = Inr c \<and> \<not> worse_than b c)"

text \<open>The overlap held: the five runs the row names are there, and the largest of both losses is zero.\<close>

definition overlap_held :: "pandas \<Rightarrow> pyval dict \<Rightarrow> frame \<Rightarrow> bool" where
  "overlap_held lib candidate runs \<longleftrightarrow>
     (\<exists>chosen. named_runs (VDict candidate) runs = Inr chosen \<and> length (fr_rows chosen) = REQUIRED_REPETITIONS \<and>
        list_all (\<lambda>column. column \<in> set (fr_columns runs) \<and> largest_in lib chosen column = Inr 0)
          [''ingress_loss'', ''spsc_overflow''])"

definition mechanism_supported ::
  "pandas \<Rightarrow> pyval dict dict \<Rightarrow> pyval dict \<Rightarrow> pyval dict \<Rightarrow> string \<Rightarrow> frame \<Rightarrow> bool" where
  "mechanism_supported lib medians baseline candidate receiver runs \<longleftrightarrow>
     (\<exists>base_profile candidate_profile.
        dget medians ''baseline'' = Some base_profile \<and> dget medians receiver = Some candidate_profile \<and>
        same_batch base_profile baseline \<and> same_batch candidate_profile candidate \<and>
        figures_compare base_profile candidate_profile ''receive_syscalls_per_packet''
          (\<lambda>b c. flt_lt (flt_mul MAX_CANDIDATE_SYSCALL_FRACTION b) c) \<and>
        (if receiver = ''threaded'' then overlap_held lib candidate runs
         else figures_compare base_profile candidate_profile ''cycles_per_packet'' flt_le))"

lemma side_blockers_Nil: "side_blockers name (VDict row) = Inr [] \<longleftrightarrow> side_supported row"
  by (auto simp: side_blockers_def side_supported_def in_order_Nil_iff rbind_Inr_iff int_or_VDict loss_exceeded_def
      REQUIRED_REPETITIONS_def simp del: in_order_simps split: if_splits)

lemma throughput_blockers_Nil:
  "throughput_blockers (VDict baseline) (VDict candidate) improvement = Inr [] \<longleftrightarrow>
     side_supported baseline \<and> side_supported candidate \<and> ratio_supported baseline candidate improvement"
  unfolding throughput_blockers_def in_order_Nil_iff ratio_supported_def
  by (auto simp: side_blockers_Nil ranges_overlap_def rbind_Inr_iff)

lemma batch_blockers_Nil: "batch_blockers name (VDict row) (VDict chosen) = Inr [] \<longleftrightarrow> same_batch row chosen"
  by (auto simp: batch_blockers_def batch_differs_def same_batch_def rbind_Inr_iff split: option.splits if_splits)

lemma compare_figures_Nil:
  "compare_figures (VDict base_profile) (VDict candidate_profile) column none worse_than worse = Inr [] \<longleftrightarrow>
     figures_compare base_profile candidate_profile column worse_than"
  by (auto simp: compare_figures_def figures_compare_def rbind_Inr_iff split: if_splits)

lemma overlap_blockers_Nil: "overlap_blockers lib (VDict candidate) runs = Inr [] \<longleftrightarrow> overlap_held lib candidate runs"
proof -
  have columns: "fr_columns chosen = fr_columns runs" if "named_runs (VDict candidate) runs = Inr chosen" for chosen
    using that by (auto simp: named_runs_def rbind_Inr_iff keep_Inr)
  have column: "column_blockers lib chosen (column, description) = Inr [] \<longleftrightarrow>
      column \<in> set (fr_columns chosen) \<and> largest_in lib chosen column = Inr 0" for chosen column description
    by (auto simp: column_blockers_def rbind_Inr_iff split: if_splits)
  have choice: "(if b then Inr [message] else found) = Inr [] \<longleftrightarrow> \<not> b \<and> found = Inr []" for b message found
    by simp
  show ?thesis
    unfolding overlap_blockers_def overlap_held_def rbind_Inr_iff choice rconcat_Nil_iff
    by (intro iff_exI) (use columns in \<open>auto simp: column\<close>)
qed

lemma mechanism_blockers_Nil:
  "mechanism_blockers lib (VDict base_profile) (VDict candidate_profile) (VDict baseline) (VDict candidate) receiver runs = Inr [] \<longleftrightarrow>
     same_batch base_profile baseline \<and> same_batch candidate_profile candidate \<and>
     figures_compare base_profile candidate_profile ''receive_syscalls_per_packet''
       (\<lambda>b c. flt_lt (flt_mul MAX_CANDIDATE_SYSCALL_FRACTION b) c) \<and>
     (if receiver = ''threaded'' then overlap_held lib candidate runs
      else figures_compare base_profile candidate_profile ''cycles_per_packet'' flt_le)"
  unfolding mechanism_blockers_def in_order_Nil_iff
  by (simp add: batch_blockers_Nil compare_figures_Nil overlap_blockers_Nil)

lemma profile_mechanism_supported:
  assumes "profile_mechanism lib medians (VDict baseline) (VDict candidate) receiver runs = Inr (b, c, missing)"
  shows "missing = [] \<longleftrightarrow> mechanism_supported lib medians baseline candidate receiver runs"
  using assms unfolding profile_mechanism_def mechanism_supported_def
  by (auto simp: rbind_Inr_iff simp flip: mechanism_blockers_Nil split: option.splits)

lemma entries_keys: "entries es = Inr d \<Longrightarrow> map fst d = map fst es"
  unfolding entries_def rmap_Inr_iff by (induction rule: list_all2_induct) (auto simp: rbind_Inr_iff)

lemma cell_after: "k \<notin> set (map fst d) \<Longrightarrow> cell (d @ e) k = cell e k"
  by (simp add: cell_def dget_or_def map_add_dom_app_simps dom_map_of_conv_image_fst)

lemma cell_entry: "cell ((k, v) # d) k = v" "k' \<noteq> k \<Longrightarrow> cell ((k, v) # d) k' = cell d k'"
  by (simp_all add: cell_def dget_or_def)

lemma measured_keys:
  "set (map fst (both_columns receiver baseline candidate)) \<inter>
     {''improvement_ratio'', ''claim_passes'', ''resume_claim''} = {}"
  "set (map fst (profile_figures base_profile candidate_profile)) \<inter>
     {''improvement_ratio'', ''claim_passes'', ''resume_claim''} = {}"
  by (simp_all add: both_columns_def profile_figures_def)

definition claim_supported ::
  "pandas \<Rightarrow> pyval dict dict \<Rightarrow> pyval dict \<Rightarrow> pyval dict \<Rightarrow> flt \<Rightarrow> string \<Rightarrow> frame \<Rightarrow> bool" where
  "claim_supported lib medians baseline candidate improvement receiver runs \<longleftrightarrow>
     side_supported baseline \<and> side_supported candidate \<and> ratio_supported baseline candidate improvement \<and>
     mechanism_supported lib medians baseline candidate receiver runs"

lemma verdict_row_cells:
  assumes "entries (both_columns receiver baseline candidate) = Inr measured" "entries (profile_figures b c) = Inr profiled"
    and "row = verdict_row receiver campaign_name workload budget measured improvement profiled blockers missing"
  shows "cell row ''candidate'' = VStr receiver" "cell row ''improvement_ratio'' = VFloat improvement"
    "cell row ''claim_passes'' = VBool (blockers = [] \<and> missing = [])"
    "cell row ''resume_claim'' = VStr (if blockers = [] \<and> missing = [] then claim_text receiver improvement budget else [])"
proof -
  note keys = measured_keys(1) [of receiver baseline candidate, folded entries_keys [OF assms(1)]]
    measured_keys(2) [of b c, folded entries_keys [OF assms(2)]]
  have after: "cell (measured @ d) k = cell d k" "cell (profiled @ d) k = cell d k"
    if "k \<in> {''improvement_ratio'', ''claim_passes'', ''resume_claim''}" for d k
    using keys that by (blast intro: cell_after)+
  show "cell row ''candidate'' = VStr receiver" "cell row ''improvement_ratio'' = VFloat improvement"
    "cell row ''claim_passes'' = VBool (blockers = [] \<and> missing = [])"
    "cell row ''resume_claim'' = VStr (if blockers = [] \<and> missing = [] then claim_text receiver improvement budget else [])"
    by (simp_all add: assms(3) verdict_row_def Let_def after cell_entry)
qed

lemma claim_row_verdict:
  assumes "claim_row lib runs medians campaign_name (VDict baseline) (VDict candidate) receiver = Inr row"
  shows "\<exists>improvement. improvement_of (VDict baseline) (VDict candidate) = Inr improvement \<and>
    cell row ''candidate'' = VStr receiver \<and> cell row ''improvement_ratio'' = VFloat improvement \<and>
    cell row ''claim_passes'' = VBool (claim_supported lib medians baseline candidate improvement receiver runs) \<and>
    (cell row ''resume_claim'' = VStr [] \<longleftrightarrow> cell row ''claim_passes'' = VBool False)"
proof -
  from assms obtain improvement blockers b c missing workload budget measured profiled where
    ratio: "improvement_of (VDict baseline) (VDict candidate) = Inr improvement"
    and blockers: "throughput_blockers (VDict baseline) (VDict candidate) improvement = Inr blockers"
    and mechanism: "profile_mechanism lib medians (VDict baseline) (VDict candidate) receiver runs = Inr (b, c, missing)"
    and measured: "entries (both_columns receiver (VDict baseline) (VDict candidate)) = Inr measured"
    and profiled: "entries (profile_figures b c) = Inr profiled"
    and row: "row = verdict_row receiver campaign_name workload budget measured improvement profiled blockers missing"
    unfolding claim_row_def rbind_Inr_iff by (auto simp: rbind_Inr_iff)
  note cells = verdict_row_cells [OF measured profiled row]
  have "blockers = [] \<and> missing = [] \<longleftrightarrow> claim_supported lib medians baseline candidate improvement receiver runs"
    using throughput_blockers_Nil [of baseline candidate improvement] profile_mechanism_supported [OF mechanism] blockers
    by (auto simp: claim_supported_def)
  moreover have "claim_text receiver improvement budget \<noteq> []" by (simp add: claim_text_def)
  ultimately show ?thesis
    using ratio by (simp add: cells)
qed

text \<open>What an overlap that held says of the runs: in a numeric column no value reaches one.\<close>

lemma py_int_zero_below_one:
  assumes "py_int m = Inr 0" "num_val m \<noteq> None" "py_lt m v \<noteq> Inr True" "num_val v = Some x"
  shows "flt_lt x (Fin 1) \<or> x = NaN"
proof -
  have "flt_lt y (Fin 1)" if "num_val m = Some y" for y
    using assms(1) that by (cases m rule: py_int.cases) (auto split: if_splits, linarith+)
  moreover have "\<not> flt_lt y x" if "num_val m = Some y" for y
    using assms(3,4) that by (auto simp: py_compare_def)
  ultimately show ?thesis using assms(2) by (cases x) (fastforce elim: flt_lt.elims)+
qed

lemma overlap_means_no_loss:
  assumes "documented lib" "overlap_held lib candidate runs" "named_runs (VDict candidate) runs = Inr chosen"
    and "column \<in> {''ingress_loss'', ''spsc_overflow''}" "r \<in> set (fr_rows chosen)" "num_val (cell r column) = Some x" "x \<noteq> NaN"
    and numeric: "list_all (\<lambda>r. finite_value (cell r column) \<longrightarrow> num_val (cell r column) \<noteq> None) (fr_rows chosen)"
  shows "flt_lt x (Fin 1)"
proof -
  let ?filled = "map (\<lambda>r. if finite_value (cell r column) then cell r column else VInt (-1)) (fr_rows chosen)"
  have largest: "largest_in lib chosen column = Inr 0" using assms(2-4) by (auto simp: overlap_held_def)
  then have zero: "py_int (pd_max lib ?filled) = Inr 0"
    by (auto simp: largest_in_def rbind_Inr_iff series_Inr comp_def)
  have all: "list_all (\<lambda>v. num_val v \<noteq> None) ?filled" using numeric by (auto simp: list_all_iff)
  have "pd_max lib ?filled \<noteq> VFloat NaN" using zero by auto
  with documented_max [OF assms(1)] have "pd_max lib ?filled \<in> set ?filled" by blast
  with all have number: "num_val (pd_max lib ?filled) \<noteq> None" by (auto simp: list_all_iff)
  have "finite_value (cell r column)" using assms(6,7) by (auto simp: finite_value_def)
  with assms(5) have "cell r column \<in> set ?filled" by auto
  from py_int_zero_below_one [OF zero number documented_max_bound [OF assms(1) all this] assms(6)] assms(7)
  show ?thesis by simp
qed

text \<open>A row rests on two selected configurations of the session, of one workload, and its verdict is exact.\<close>

definition verdict_rests_on :: "pandas \<Rightarrow> pyval dict dict \<Rightarrow> frame \<Rightarrow> string \<Rightarrow> pyval dict \<Rightarrow> bool" where
  "verdict_rests_on lib medians runs campaign_name row \<longleftrightarrow>
     (\<exists>receiver baseline candidate improvement.
        cell row ''candidate'' = VStr receiver \<and>
        cell baseline ''receiver'' = VStr ''baseline'' \<and> cell candidate ''receiver'' = VStr receiver \<and>
        backed runs campaign_name baseline \<and> backed runs campaign_name candidate \<and>
        py_eq (dget_or candidate ''work_ns'' VNone) (dget_or baseline ''work_ns'' VNone) \<and>
        improvement_of (VDict baseline) (VDict candidate) = Inr improvement \<and>
        cell row ''improvement_ratio'' = VFloat improvement \<and>
        cell row ''claim_passes'' = VBool (claim_supported lib medians baseline candidate improvement receiver runs) \<and>
        (cell row ''resume_claim'' = VStr [] \<longleftrightarrow> cell row ''claim_passes'' = VBool False))"

lemma selected_row_Inr:
  "selected_row selected name = Inr v \<Longrightarrow> \<exists>row \<in> set selected. v = VDict row \<and> cell row ''receiver'' = VStr name"
  by (auto simp: selected_row_def find_Some_iff py_eq_VStr_iff split: option.splits)
    (metis length_rev nth_mem set_rev)

lemma claim_rows_rest:
  assumes "documented lib" "claim_rows lib medians_of runs profiles campaign_name work_ns = Inr rows"
  shows "\<exists>medians. medians_of profiles = Inr medians \<and>
    map (\<lambda>row. cell row ''candidate'') rows = [VStr ''batched'', VStr ''threaded''] \<and>
    list_all (verdict_rests_on lib medians runs campaign_name) rows"
proof -
  from assms(2) obtain selected b medians where
    selected: "select_representatives lib runs campaign_name work_ns = Inr selected"
    and b: "selected_row selected ''baseline'' = Inr b" and medians: "medians_of profiles = Inr medians"
    and rows: "rmap (\<lambda>receiver. rbind (selected_row selected receiver) (\<lambda>candidate.
      claim_row lib runs medians campaign_name b candidate receiver)) [''batched'', ''threaded''] = Inr rows"
    by (auto simp: claim_rows_def rbind_Inr_iff)
  note chosen = selected_backed [OF assms(1) selected]
  have first: "row = hd selected \<and> row \<in> set selected" if "row \<in> set selected" "cell row ''receiver'' = VStr ''baseline''" for row
    using chosen(1) that by (cases selected) (auto simp: RECEIVERS_def)
  have other: "row \<in> set (tl selected)" if "row \<in> set selected" "cell row ''receiver'' \<noteq> VStr ''baseline''" for row
    using chosen(1) that by (cases selected) (auto simp: RECEIVERS_def)
  obtain baseline where baseline: "b = VDict baseline" "baseline \<in> set selected" "cell baseline ''receiver'' = VStr ''baseline''"
    using selected_row_Inr [OF b] by blast
  have one: "cell row ''candidate'' = VStr receiver \<and> verdict_rests_on lib medians runs campaign_name row"
    if which: "selected_row selected receiver = Inr c"
      and made: "claim_row lib runs medians campaign_name b c receiver = Inr row" "receiver \<noteq> ''baseline''" for receiver c row
  proof -
    obtain candidate where candidate: "c = VDict candidate" "candidate \<in> set selected" "cell candidate ''receiver'' = VStr receiver"
      using selected_row_Inr [OF which] by blast
    have "py_eq (dget_or candidate ''work_ns'' VNone) (dget_or baseline ''work_ns'' VNone)"
      using chosen(3) [of candidate] first [OF baseline(2,3)] other [OF candidate(2)] candidate(3) made(2) by simp
    with claim_row_verdict [OF made(1) [unfolded baseline(1) candidate(1)]] baseline candidate chosen(2)
    show ?thesis unfolding verdict_rests_on_def by blast
  qed
  from rows obtain c1 c2 row1 row2 where "rows = [row1, row2]"
    "selected_row selected ''batched'' = Inr c1" "claim_row lib runs medians campaign_name b c1 ''batched'' = Inr row1"
    "selected_row selected ''threaded'' = Inr c2" "claim_row lib runs medians campaign_name b c2 ''threaded'' = Inr row2"
    by (auto simp: rbind_Inr_iff)
  with one medians show ?thesis by auto
qed

text \<open>
  C3: A table of claims has one row for the batched and one for the threaded receiver. Each row rests on two
  configurations of the session, baseline and candidate, of the same workload, each backed by five valid
  sustainable repetitions on the physical topology; its ratio is the quotient of their medians. The row
  passes exactly when both sides show their repetitions, a known loss of at most 0.1 percent and a higher
  rate that was tested, the ratio is not below 1.05, the ranges do not overlap and the profiles show the
  mechanism; and only then it has a sentence.
\<close>

theorem claim_gate:
  assumes "documented lib"
    and "generate lib medians_of read_csv measurement_session profile_session campaign_name work_ns = Inr table"
  shows "\<exists>runs profiles medians.
    read_csv (measurement_session @ ''/per_run_summary.csv'') = Inr runs \<and>
    read_csv (profile_session @ ''/profile_summary.csv'') = Inr profiles \<and> medians_of profiles = Inr medians \<and>
    map (\<lambda>row. cell row ''candidate'') (fr_rows table) = [VStr ''batched'', VStr ''threaded''] \<and>
    list_all (verdict_rests_on lib medians runs campaign_name) (fr_rows table)"
proof -
  from assms(2) obtain runs profiles rows where
    files: "read_csv (measurement_session @ ''/per_run_summary.csv'') = Inr runs"
      "read_csv (profile_session @ ''/profile_summary.csv'') = Inr profiles"
    and rows: "claim_rows lib medians_of runs profiles campaign_name work_ns = Inr rows" and table: "table = frame_of rows"
    by (auto simp: generate_def rbind_Inr_iff)
  have "fr_rows table = rows" by (simp add: table frame_of_def)
  with claim_rows_rest [OF assms(1) rows] files show ?thesis by fastforce
qed

section \<open>A session whose claims pass\<close>

definition claimed_medians :: "pyval dict dict" where
  "claimed_medians =
     [(''baseline'', [(''batch_size'', VFloat (Fin 1)), (''receive_syscalls_per_packet'', VFloat (Fin 1)),
                      (''cycles_per_packet'', VFloat (Fin 9000))]),
      (''batched'', [(''receive_syscalls_per_packet'', VFloat (Fin (1 / 2))), (''cycles_per_packet'', VFloat (Fin 8000))]),
      (''threaded'', [(''receive_syscalls_per_packet'', VFloat (Fin (1 / 4)))])]"

definition claimed_files :: "string \<Rightarrow> frame res" where
  "claimed_files path = Inr (if path = ''m/per_run_summary.csv'' then measured_runs else frame_of [])"

lemma claimed_improvement:
  "improvement_of (VDict (measured_row ''baseline'' 1000)) (VDict (measured_row ''batched'' 2000)) = Inr (Fin 2)"
  "improvement_of (VDict (measured_row ''baseline'' 1000)) (VDict (measured_row ''threaded'' 3000)) = Inr (Fin 3)"
  by code_simp+

lemma claimed_throughput:
  "throughput_blockers (VDict (measured_row ''baseline'' 1000)) (VDict (measured_row ''batched'' 2000)) (Fin 2) = Inr []"
  "throughput_blockers (VDict (measured_row ''baseline'' 1000)) (VDict (measured_row ''threaded'' 3000)) (Fin 3) = Inr []"
  by code_simp+

lemma claimed_columns:
  "isl (entries (both_columns ''batched'' (VDict (measured_row ''baseline'' 1000)) (VDict (measured_row ''batched'' 2000)))) = False"
  "isl (entries (both_columns ''threaded'' (VDict (measured_row ''baseline'' 1000)) (VDict (measured_row ''threaded'' 3000)))) = False"
  by code_simp+

lemma claimed_ids:
  "split_on (CHR ''|'') (py_str (cell (measured_row ''threaded'' 3000) ''run_ids'')) = map (\<lambda>n. ''threaded'' @ str_int n) [1, 2, 3, 4, 5]"
  by code_simp

lemma claimed_rows:
  "fr_rows measured_runs = map (measured_run ''baseline'' 1000 True) [1, 2, 3, 4, 5] @ [measured_run ''baseline'' 9000 False 6] @
     map (measured_run ''batched'' 2000 True) [1, 2, 3, 4, 5] @ [measured_run ''batched'' 9000 False 6] @
     map (measured_run ''threaded'' 3000 True) [1, 2, 3, 4, 5] @ [measured_run ''threaded'' 9000 False 6]"
  by (simp add: measured_runs_def frame_of_def)

lemma claimed_id: "cell (measured_run receiver rate_pps sustained n) ''run_id'' = VStr (receiver @ str_int n)"
  by (simp add: measured_run_def cell_def dget_or_def)

lemma claimed_columns_of: "''run_id'' \<in> set (fr_columns measured_runs)"
  by (simp add: measured_runs_def frame_of_def measured_run_def)

lemma str_int_small:
 "str_int 1 = ''1''" "str_int 2 = ''2''" "str_int 3 = ''3''" "str_int 4 = ''4''" "str_int 5 = ''5''" "str_int 6 = ''6''"
  by code_simp+
lemma claimed_named:
  "named_runs (VDict (measured_row ''threaded'' 3000)) measured_runs =
     Inr (measured_runs\<lparr>fr_rows := map (measured_run ''threaded'' 3000 True) [1, 2, 3, 4, 5]\<rparr>)"
proof -
  have "py_get_or (VDict (measured_row ''threaded'' 3000)) ''run_ids'' (VStr []) = Inr (cell (measured_row ''threaded'' 3000) ''run_ids'')"
    by (simp add: measured_row_def cell_def dget_or_def)
  then show ?thesis
    by (simp add: named_runs_def claimed_ids keep_def series_def claimed_columns_of claimed_rows claimed_id str_int_small)
qed

lemma claimed_overlap:
  "overlap_blockers list_pandas (VDict (measured_row ''threaded'' 3000)) measured_runs = Inr []"
  unfolding overlap_blockers_def claimed_named rbind_simps
  by code_simp

lemma claimed_mechanism:
  "profile_mechanism list_pandas claimed_medians (VDict (measured_row ''baseline'' 1000)) (VDict (measured_row ''batched'' 2000))
     ''batched'' measured_runs = Inr (VDict (snd (claimed_medians ! 0)), VDict (snd (claimed_medians ! 1)), [])"
  "profile_mechanism list_pandas claimed_medians (VDict (measured_row ''baseline'' 1000)) (VDict (measured_row ''threaded'' 3000))
     ''threaded'' measured_runs = Inr (VDict (snd (claimed_medians ! 0)), VDict (snd (claimed_medians ! 2)), [])"
proof -
  have "batch_blockers ''candidate'' (VDict (snd (claimed_medians ! 2))) (VDict (measured_row ''threaded'' 3000)) = Inr []"
    "batch_blockers ''baseline'' (VDict (snd (claimed_medians ! 0))) (VDict (measured_row ''baseline'' 1000)) = Inr []"
    "compare_figures (VDict (snd (claimed_medians ! 0))) (VDict (snd (claimed_medians ! 2))) ''receive_syscalls_per_packet'' none
       (\<lambda>b c. flt_lt (flt_mul MAX_CANDIDATE_SYSCALL_FRACTION b) c) worse = Inr []" for none worse
    by code_simp+
  with claimed_overlap have "mechanism_blockers list_pandas (VDict (snd (claimed_medians ! 0))) (VDict (snd (claimed_medians ! 2)))
      (VDict (measured_row ''baseline'' 1000)) (VDict (measured_row ''threaded'' 3000)) ''threaded'' measured_runs = Inr []"
    by (simp add: mechanism_blockers_def)
  moreover have "dget claimed_medians ''baseline'' = Some (snd (claimed_medians ! 0))"
    "dget claimed_medians ''threaded'' = Some (snd (claimed_medians ! 2))"
    by (simp_all add: claimed_medians_def)
  ultimately show "profile_mechanism list_pandas claimed_medians (VDict (measured_row ''baseline'' 1000))
     (VDict (measured_row ''threaded'' 3000)) ''threaded'' measured_runs =
     Inr (VDict (snd (claimed_medians ! 0)), VDict (snd (claimed_medians ! 2)), [])"
    by (simp add: profile_mechanism_def)
qed code_simp

lemma claim_row_made:
  assumes "improvement_of baseline candidate = Inr improvement"
    "throughput_blockers baseline candidate improvement = Inr blockers"
    "profile_mechanism lib medians baseline candidate receiver runs = Inr (VDict b, VDict c, missing)"
    "int_or candidate ''work_ns'' 0 = Inr 0"
    "isl (entries (both_columns receiver baseline candidate)) = False"
  shows "\<exists>row. claim_row lib runs medians campaign_name baseline candidate receiver = Inr row \<and>
    cell row ''claim_passes'' = VBool (blockers = [] \<and> missing = [])"
proof -
  obtain measured where measured: "entries (both_columns receiver baseline candidate) = Inr measured"
    using assms(5) by (cases "entries (both_columns receiver baseline candidate)") simp_all
  obtain profiled where profiled: "entries (profile_figures (VDict b) (VDict c)) = Inr profiled"
    by (simp add: entries_def profile_figures_def)
  have "claim_row lib runs medians campaign_name baseline candidate receiver =
      Inr (verdict_row receiver campaign_name 0 [] measured improvement profiled blockers missing)"
    using assms measured profiled by (simp add: claim_row_def budget_text_def)
  with verdict_row_cells(3) [OF measured profiled refl] show ?thesis by blast
qed

lemma claimed_table:
  "\<exists>table. generate list_pandas (\<lambda>_. Inr claimed_medians) claimed_files ''m'' ''p'' ''raw'' None = Inr table \<and>
     map (\<lambda>row. cell row ''claim_passes'') (fr_rows table) = [VBool True, VBool True]"
proof -
  have work: "int_or (VDict (measured_row receiver rate_pps)) ''work_ns'' 0 = Inr 0" for receiver rate_pps
    by (simp add: int_or_VDict measured_row_def dget_or_def)
  have rows: "selected_row [measured_row ''baseline'' 1000, measured_row ''batched'' 2000, measured_row ''threaded'' 3000] ''baseline'' =
      Inr (VDict (measured_row ''baseline'' 1000))"
    "selected_row [measured_row ''baseline'' 1000, measured_row ''batched'' 2000, measured_row ''threaded'' 3000] ''batched'' =
      Inr (VDict (measured_row ''batched'' 2000))"
    "selected_row [measured_row ''baseline'' 1000, measured_row ''batched'' 2000, measured_row ''threaded'' 3000] ''threaded'' =
      Inr (VDict (measured_row ''threaded'' 3000))"
    by (simp_all add: selected_row_def measured_row_def cell_def dget_or_def)
  have "claimed_files ''m/per_run_summary.csv'' = Inr measured_runs" "isl (claimed_files ''p/profile_summary.csv'') = False"
    by (simp_all add: claimed_files_def)
  with rows claim_row_made [OF claimed_improvement(1) claimed_throughput(1) claimed_mechanism(1) work claimed_columns(1), of "''raw''"]
    claim_row_made [OF claimed_improvement(2) claimed_throughput(2) claimed_mechanism(2) work claimed_columns(2), of "''raw''"]
  show ?thesis
    by (cases "claimed_files ''p/profile_summary.csv''") (auto simp: generate_def claim_rows_def measured_selection frame_of_def)
qed

theorem claim_gate_witness:
  "\<exists>table. generate list_pandas (\<lambda>_. Inr claimed_medians) claimed_files ''m'' ''p'' ''raw'' None = Inr table \<and>
     map (\<lambda>row. cell row ''candidate'') (fr_rows table) = [VStr ''batched'', VStr ''threaded''] \<and>
     map (\<lambda>row. cell row ''claim_passes'') (fr_rows table) = [VBool True, VBool True]"
proof -
  obtain table where
    table: "generate list_pandas (\<lambda>_. Inr claimed_medians) claimed_files ''m'' ''p'' ''raw'' None = Inr table"
      "map (\<lambda>row. cell row ''claim_passes'') (fr_rows table) = [VBool True, VBool True]"
    using claimed_table by (elim exE conjE) (rule that)
  from claim_gate [OF list_pandas_documented table(1)] table show ?thesis
    by (elim exE conjE) (intro exI conjI)
qed

section \<open>What the tests miss\<close>

text \<open>One repetition whose ingress loss is unknown does not show next to four that lost nothing.\<close>

lemma unknown_loss_unnoticed:
  "largest_in list_pandas (frame_of (map (\<lambda>lost. [(''ingress_loss'', lost)]) [VNone, VInt 0, VInt 0, VInt 0, VInt 0]))
     ''ingress_loss'' = Inr 0"
  by code_simp

text \<open>
  A row counts as saturated when a higher rate was tested at all: one lossless run at that rate, without its
  repetitions, is enough.
\<close>

lemma lossless_higher_rate_counts_as_lost:
  "sustainable_groups list_pandas
     (frame_of (map (measured_run ''baseline'' 1000 True) [1, 2, 3, 4, 5] @ [measured_run ''baseline'' 9000 True 6])) ''raw'' =
   Inr (frame_of [measured_row ''baseline'' 1000])"
  by code_simp
end
