(* ===== verification/Profile_Plan.thy ===== *)
theory Profile_Plan
  imports Claim_Selection Planning Perf_Counters
begin

text \<open>
  The profile campaign of a measured session (\<^verbatim>\<open>prepare_profile_config\<close> of \<^verbatim>\<open>analysis/profile_tools.py\<close>): the
  rate, the two benchmarks of each selected receiver, the configuration and the plan document; and the
  twelve runs that \<^verbatim>\<open>main.py\<close> makes of it. Reading the summary and the source configuration are
  parameters; the two documents are returned (they are then written as YAML and JSON).
\<close>

section \<open>The configuration\<close>

text \<open>\<^verbatim>\<open>math.floor(.8 * min(int(row["requested_rate_pps"]) for row in selected))\<close>\<close>

definition profile_rate_of :: "pyval dict list \<Rightarrow> int res" where
  "profile_rate_of selected =
     rbind (rmap (\<lambda>row. int_at (VDict row) ''requested_rate_pps'') selected) (\<lambda>rates.
     rbind (require (rates \<noteq> []) (ve ''min() iterable argument is empty'')) (\<lambda>_.
     rbind (int_mul_flt (Min (set rates)) (lit 8 10)) py_floor))"

definition receiver_binary :: "string \<Rightarrow> string res" where
  "receiver_binary receiver =
     (case map_of [(''baseline'', ''receiver_baseline''), (''batched'', ''receiver_batched''),
                   (''threaded'', ''receiver_threaded'')] receiver of
        Some binary \<Rightarrow> Inr binary | None \<Rightarrow> Inl (key_error (repr_str receiver)))"

definition common_entries :: "int \<Rightarrow> string \<Rightarrow> pyval \<Rightarrow> pyval dict res" where
  "common_entries profile_rate binary row =
     rbind (int_at row ''batch_size'') (\<lambda>batch_size.
     rbind (int_or row ''work_ns'' 0) (\<lambda>work_ns.
     rbind (int_or row ''sample_every'' 0) (\<lambda>sample_every.
     rbind (rbind (py_get_or row ''duration_seconds'' (VInt 30)) py_float) (\<lambda>duration.
     rbind (int_or row ''payload_size'' 64) (\<lambda>payload_size.
     Inr [(''receiver'', VDict [(''binary'', VStr binary), (''batch_sizes'', VList [VInt batch_size]),
            (''work_ns'', VInt work_ns), (''sample_every'', VInt sample_every)]),
          (''sender'', VDict [(''mode'', VStr ''steady''), (''duration_seconds'', VFloat duration),
            (''rates_pps'', VList [VInt profile_rate]), (''burst_sizes'', VList [VInt 1]),
            (''payload_size'', VInt payload_size)])])))))"

definition profile_benchmarks :: "int \<Rightarrow> pyval dict \<Rightarrow> pyval list res" where
  "profile_benchmarks profile_rate row =
     rbind (py_index (VDict row) ''receiver'') (\<lambda>r.
     let receiver = py_str r in
     rbind (receiver_binary receiver) (\<lambda>binary.
     rbind (common_entries profile_rate binary (VDict row)) (\<lambda>shared.
     Inr [VDict ([(''name'', VStr (''profile_stat_'' @ receiver)), (''campaign'', VStr ''profile''),
                  (''repetitions'', VInt 3), (''profile'', VStr ''stat''),
                  (''perf_events'', VList (map VStr DEFAULT_EVENTS))] @ shared),
          VDict ([(''name'', VStr (''profile_record_'' @ receiver)), (''campaign'', VStr ''profile''),
                  (''repetitions'', VInt 1), (''profile'', VStr ''record'')] @ shared)])))"

text \<open>The global section of the source, with three repetitions and the directory of the sessions.\<close>

definition source_global :: "string \<Rightarrow> pyval \<Rightarrow> pyval dict res" where
  "source_global source_config source =
     (case source of
        VDict d \<Rightarrow> (case dget d ''global'' of
            Some (VDict g) \<Rightarrow> Inr g
          | _ \<Rightarrow> Inl (ve (''Source config has no global section: '' @ source_config)))
      | _ \<Rightarrow> Inl (ve (''Source config has no global section: '' @ source_config)))"

definition no_item_assignment :: "pyval \<Rightarrow> exn" where
  "no_item_assignment v = Exn TypeError (case v of
     VList _ \<Rightarrow> ''list indices must be integers or slices, not str''
   | _ \<Rightarrow> repr_str (type_name v) @ '' object does not support item assignment'')"

definition profile_global :: "pyval dict \<Rightarrow> pyval dict res" where
  "profile_global g =
     (case dget_or g ''runtime'' (VDict []) of
        VDict runtime \<Rightarrow>
          Inr (dset ''local_data_dir'' (VStr ''results/sessions'')
                (dset ''runtime'' (VDict (dset ''repetitions'' (VInt 3) runtime)) g))
      | v \<Rightarrow> Inl (no_item_assignment v))"

definition profile_plan :: "string \<Rightarrow> string \<Rightarrow> int \<Rightarrow> pyval dict list \<Rightarrow> pyval dict res" where
  "profile_plan session_path campaign_name profile_rate selected =
     rbind (int_or (VDict (hd selected)) ''work_ns'' 0) (\<lambda>work_ns.
     rbind (rmap (\<lambda>row. rbind (py_index (VDict row) ''receiver'') (\<lambda>r. Inr (py_str r, row))) selected) (\<lambda>named.
     Inr [(''schema_version'', VInt 1), (''source_session'', VStr session_path),
          (''selection_rule'', VStr (''highest median processed PPS among sustainable batches; '' @
            ''within 2%, smaller batch'')),
          (''load_rule'', VStr ''80% of the lowest selected sustainable requested rate''),
          (''campaign'', VStr campaign_name), (''work_ns'', VInt work_ns), (''profile_rate_pps'', VInt profile_rate),
          (''saturated'', VDict (fold (\<lambda>(receiver, row).
             dset receiver (VBool (truthy (dget_or row ''saturated'' (VBool False))))) named [])),
          (''selected'', VList (map VDict selected))]))"

text \<open>The configuration and the plan.\<close>

definition prepare_profile_config ::
  "pandas \<Rightarrow> (string \<Rightarrow> frame res) \<Rightarrow> (string \<Rightarrow> pyval res) \<Rightarrow> string \<Rightarrow> string \<Rightarrow> string \<Rightarrow> int option \<Rightarrow>
     (pyval \<times> pyval) res" where
  "prepare_profile_config lib read_csv safe_load session_path source_config campaign_name work_ns =
     rbind (read_csv (session_path @ ''/per_run_summary.csv'')) (\<lambda>per_run.
     rbind (select_representatives lib per_run campaign_name work_ns) (\<lambda>selected.
     rbind (profile_rate_of selected) (\<lambda>profile_rate.
     rbind (safe_load source_config) (\<lambda>source.
     rbind (source_global source_config source) (\<lambda>g.
     rbind (profile_global g) (\<lambda>global.
     rbind (rconcat (profile_benchmarks profile_rate) selected) (\<lambda>benchmarks.
     rbind (profile_plan session_path campaign_name profile_rate selected) (\<lambda>plan.
     Inr (VDict [(''global'', VDict global), (''benchmarks'', VList benchmarks)], VDict plan)))))))))"

section \<open>The rate\<close>

text \<open>Four fifths, rounded down, whatever the floats do on the way.\<close>

lemma four_fifths: "fl (4 / 5) = 3602879701896397 / 4503599627370496"
  by code_simp

lemma profile_rate_exact:
  assumes "1 \<le> n" "n \<le> 2 ^ 40"
  shows "rbind (int_mul_flt n (lit 8 10)) py_floor = Inr (4 * n div 5)"
proof -
  define x :: rat where "x = of_int n * (3602879701896397 / 4503599627370496)"
  have n: "(1 :: rat) \<le> of_int n" "of_int n \<le> (2 ^ 40 :: rat)"
  proof -
    have "(of_int 1 :: rat) \<le> of_int n" "of_int n \<le> (of_int (2 ^ 40) :: rat)" using assms by (simp_all only: of_int_le_iff)
    then show "(1 :: rat) \<le> of_int n" "of_int n \<le> (2 ^ 40 :: rat)" by simp_all
  qed
  define k where "k = 4 * n div 5"
  have k: "5 * k \<le> 4 * n" "4 * n \<le> 5 * k + 4" "0 \<le> k" "k \<le> 2 ^ 53" using assms by (simp_all add: k_def)
  have q: "(of_int (5 * k) :: rat) \<le> of_int (4 * n)" "(of_int (4 * n) :: rat) \<le> of_int (5 * k + 4)"
    using k by (simp_all only: of_int_le_iff)
  have low: "of_int k \<le> x" using q(1) n by (simp add: x_def field_simps)
  have "x * (2 ^ 53 + 1) < (of_int k + 1) * 2 ^ 53" using q(2) n by (simp add: x_def field_simps)
  moreover have "fl x * 2 ^ 53 \<le> x * (2 ^ 53 + 1)" using n by (intro fl_relative) (simp add: x_def field_simps)
  ultimately have "fl x < of_int k + 1" by simp
  moreover have "of_int k \<le> fl x" using double.rnd_ge_int [OF _ low] k by simp
  ultimately have floor: "\<lfloor>fl x\<rfloor> = k" by linarith
  have "to_flt x = Fin (fl x)" using n by (intro to_flt_small [of _ "2 ^ 41"]) (simp_all add: x_def abs_le_iff field_simps)
  moreover have "flt_of_int n = Inr (Fin (of_int n))" using assms by (intro flt_of_int_small) simp
  moreover have "of_int n * fl (4 / 5) = x" by (simp add: four_fifths x_def)
  ultimately show ?thesis
    using n by (simp add: int_mul_flt_def flt_mul_def lit_def py_floor_def floor k_def)
qed

section \<open>The runs of the campaign\<close>

definition profile_run :: "int \<Rightarrow> nat \<Rightarrow> string \<Rightarrow> int \<Rightarrow> pyval dict \<Rightarrow> run_tuple" where
  "profile_run profile_rate index kind rep row =
     \<lparr>benchmark_index = index, benchmark_name = VStr (''profile_'' @ kind @ ''_'' @ py_str (cell row ''receiver'')),
      campaign = ''profile'', repetition = rep, rate = VInt profile_rate, burst = VInt 1,
      batch = cell row ''batch_size''\<rparr>"

text \<open>Three counter runs and one recorded run for each selected row.\<close>

fun profile_runs :: "int \<Rightarrow> nat \<Rightarrow> pyval dict list \<Rightarrow> run_tuple list" where
  "profile_runs profile_rate index [] = []"
| "profile_runs profile_rate index (row # rows) =
     map (\<lambda>rep. profile_run profile_rate index ''stat'' rep row) [1, 2, 3] @
     [profile_run profile_rate (Suc index) ''record'' 1 row] @ profile_runs profile_rate (Suc (Suc index)) rows"

lemma tuples_of_profile_benchmark:
  assumes "dget d ''sender'' = Some (VDict sender)" "dget sender ''rates_pps'' = Some (VList [r])"
    "dget sender ''burst_sizes'' = Some (VList [b])" "dget d ''receiver'' = Some (VDict receiver)"
    "dget receiver ''batch_sizes'' = Some (VList [c])" "dget d ''name'' = Some name"
  shows "tuples_of_benchmark index (VDict d) camp n =
    Inr (map (\<lambda>rep. \<lparr>benchmark_index = index, benchmark_name = name, campaign = camp, repetition = rep,
       rate = r, burst = b, batch = c\<rparr>) [1..n])"
  unfolding tuples_of_benchmark_def by (simp add: py_index_VDict_Some assms rconcat_pure concat_map_singleton)

lemma profile_benchmarks_Inr:
  assumes "profile_benchmarks profile_rate row = Inr bs" "cell row ''batch_size'' = VInt n"
  shows "\<exists>binary work_ns sample_every duration payload_size. let
      receiver = py_str (cell row ''receiver'');
      shared = [(''receiver'', VDict [(''binary'', VStr binary), (''batch_sizes'', VList [VInt n]),
            (''work_ns'', VInt work_ns), (''sample_every'', VInt sample_every)]),
          (''sender'', VDict [(''mode'', VStr ''steady''), (''duration_seconds'', VFloat duration),
            (''rates_pps'', VList [VInt profile_rate]), (''burst_sizes'', VList [VInt 1]),
            (''payload_size'', VInt payload_size)])] in
    bs = [VDict ([(''name'', VStr (''profile_stat_'' @ receiver)), (''campaign'', VStr ''profile''),
                  (''repetitions'', VInt 3), (''profile'', VStr ''stat''),
                  (''perf_events'', VList (map VStr DEFAULT_EVENTS))] @ shared),
          VDict ([(''name'', VStr (''profile_record_'' @ receiver)), (''campaign'', VStr ''profile''),
                  (''repetitions'', VInt 1), (''profile'', VStr ''record'')] @ shared)]"
proof -
  have cells: "cell row k = v" if "py_index (VDict row) k = Inr v" for k v
    using that by (auto simp: cell_def dget_or_def split: option.splits)
  have batch: "m = n" if "int_at (VDict row) ''batch_size'' = Inr m" for m
    using that assms(2) cells by (fastforce simp: int_at_def rbind_Inr_iff)
  from assms(1) obtain r binary shared where
    r: "py_index (VDict row) ''receiver'' = Inr r" and shared: "common_entries profile_rate binary (VDict row) = Inr shared"
    and bs: "bs = [VDict ([(''name'', VStr (''profile_stat_'' @ py_str r)), (''campaign'', VStr ''profile''),
                  (''repetitions'', VInt 3), (''profile'', VStr ''stat''),
                  (''perf_events'', VList (map VStr DEFAULT_EVENTS))] @ shared),
          VDict ([(''name'', VStr (''profile_record_'' @ py_str r)), (''campaign'', VStr ''profile''),
                  (''repetitions'', VInt 1), (''profile'', VStr ''record'')] @ shared)]"
    unfolding profile_benchmarks_def Let_def rbind_Inr_iff by auto
  from shared show ?thesis
    unfolding common_entries_def rbind_Inr_iff bs Let_def cells [OF r] by (elim exE conjE) (auto dest!: batch)
qed

text \<open>The loop over the benchmarks makes exactly those runs, none of them a qualification.\<close>

lemma plan_one_benchmark:
  assumes "dget d ''enabled'' = None" "dget d ''campaign'' = Some (VStr camp)" "camp \<noteq> QUALIFICATION"
    "dget d ''repetitions'' = Some (VInt k)" "dget runtime ''repetitions'' = Some v"
    "tuples_of_benchmark index (VDict d) camp k = Inr ts"
  shows "plan_loop (VDict runtime) index (VDict d # rest) q p = plan_loop (VDict runtime) (Suc index) rest q (p @ ts)"
  using assms by (simp add: py_index_VDict_Some dget_or_def)

lemma plan_profile_benchmarks:
  assumes "profile_benchmarks profile_rate row = Inr bs" "cell row ''batch_size'' = VInt n"
    and "dget runtime ''repetitions'' = Some v"
  shows "plan_loop (VDict runtime) index (bs @ rest) q p =
    plan_loop (VDict runtime) (Suc (Suc index)) rest q (p @ profile_runs profile_rate index [row])"
proof -
  let ?receiver = "py_str (cell row ''receiver'')"
  obtain d e receiver sender where bs: "bs = [VDict d, VDict e]"
    and d: "dget d ''enabled'' = None" "dget d ''campaign'' = Some (VStr ''profile'')" "dget d ''repetitions'' = Some (VInt 3)"
      "dget d ''name'' = Some (VStr (''profile_stat_'' @ ?receiver))"
      "dget d ''sender'' = Some (VDict sender)" "dget d ''receiver'' = Some (VDict receiver)"
    and e: "dget e ''enabled'' = None" "dget e ''campaign'' = Some (VStr ''profile'')" "dget e ''repetitions'' = Some (VInt 1)"
      "dget e ''name'' = Some (VStr (''profile_record_'' @ ?receiver))"
      "dget e ''sender'' = Some (VDict sender)" "dget e ''receiver'' = Some (VDict receiver)"
    and lists: "dget sender ''rates_pps'' = Some (VList [VInt profile_rate])" "dget sender ''burst_sizes'' = Some (VList [VInt 1])"
      "dget receiver ''batch_sizes'' = Some (VList [VInt n])"
    using profile_benchmarks_Inr [OF assms(1,2)] by (elim exE) (simp add: Let_def)
  have camp: "''profile'' \<noteq> QUALIFICATION" by (simp add: QUALIFICATION_def)
  have upto: "[1..3::int] = [1, 2, 3]" "[1..1::int] = [1]" by (simp_all add: upto.simps)
  note tuples = tuples_of_profile_benchmark [OF _ lists(1,2) _ lists(3)]
  show ?thesis
    by (simp only: bs append.simps plan_one_benchmark [OF d(1,2) camp d(3) assms(3) tuples [OF d(5,6,4)]]
        plan_one_benchmark [OF e(1,2) camp e(3) assms(3) tuples [OF e(5,6,4)]])
       (simp add: upto profile_run_def assms(2))
qed

lemma plan_profile_rows:
  assumes "rmap (profile_benchmarks profile_rate) rows = Inr bss" "\<And>row. row \<in> set rows \<Longrightarrow> \<exists>n. cell row ''batch_size'' = VInt n"
    and "dget runtime ''repetitions'' = Some v"
  shows "plan_loop (VDict runtime) index (concat bss) q p = Inr (q, p @ profile_runs profile_rate index rows)"
  using assms(1,2)
proof (induction rows arbitrary: bss index p)
  case (Cons row rows)
  then obtain bs bss' where bss: "bss = bs # bss'" "profile_benchmarks profile_rate row = Inr bs"
    "rmap (profile_benchmarks profile_rate) rows = Inr bss'" by (auto simp: rbind_Inr_iff)
  obtain n where n: "cell row ''batch_size'' = VInt n" using Cons.prems(2) by fastforce
  show ?case
    using Cons.IH [OF bss(3)] Cons.prems(2)
    by (simp add: bss(1) plan_profile_benchmarks [OF bss(2) n assms(3)])
qed simp

lemma length_profile_runs: "length (profile_runs profile_rate index rows) = 4 * length rows"
  by (induction rows arbitrary: index) auto

lemma backed_integers:
  "backed per_run campaign_name row \<Longrightarrow>
     \<exists>b n. cell row ''batch_size'' = VInt b \<and> cell row ''requested_rate_pps'' = VInt n"
  unfolding backed_def Let_def by blast

definition rate_asked :: "pyval dict \<Rightarrow> int" where
  "rate_asked row = as_int (cell row ''requested_rate_pps'')"

lemma profile_rate_of_lowest:
  assumes "profile_rate_of selected = Inr profile_rate" "\<And>row. row \<in> set selected \<Longrightarrow> \<exists>n. cell row ''requested_rate_pps'' = VInt n"
    and "\<And>row. row \<in> set selected \<Longrightarrow> 1 \<le> rate_asked row \<and> rate_asked row \<le> 2 ^ 40"
  shows "profile_rate = 4 * Min (rate_asked ` set selected) div 5"
proof -
  have rate: "n = rate_asked row" if "row \<in> set selected" "int_at (VDict row) ''requested_rate_pps'' = Inr n" for row n
    using that assms(2) [OF that(1)]
    by (auto simp: int_at_def rbind_Inr_iff rate_asked_def cell_def dget_or_def split: option.splits)
  from assms(1) obtain rates where rates: "rmap (\<lambda>row. int_at (VDict row) ''requested_rate_pps'') selected = Inr rates"
    and some: "rates \<noteq> []" and result: "rbind (int_mul_flt (Min (set rates)) (lit 8 10)) py_floor = Inr profile_rate"
    by (auto simp: profile_rate_of_def rbind_Inr_iff require_def split: if_splits)
  have "rates = map rate_asked selected"
    using rates rate by (auto simp: rmap_Inr_iff list_all2_conv_all_nth intro!: nth_equalityI)
  then have all: "set rates = rate_asked ` set selected" by simp
  with some have "Min (set rates) \<in> rate_asked ` set selected" by (metis Min_in List.finite_set set_empty)
  with assms(3) have "1 \<le> Min (set rates)" "Min (set rates) \<le> 2 ^ 40" by auto
  from profile_rate_exact [OF this] result all show ?thesis by simp
qed


section \<open>The campaign of a measured session\<close>

definition profiled_source :: "string \<Rightarrow> pyval res" where
  "profiled_source path = Inr (VDict [(''global'', VDict [(''runtime'', VDict [(''repetitions'', VInt 5)])])])"

lemma prepared_campaign:
  "\<exists>config plan qualification runs.
     prepare_profile_config list_pandas (\<lambda>_. Inr measured_runs) profiled_source ''s'' ''c'' ''raw'' None = Inr (config, plan) \<and>
     make_run_tuples (\<lambda>seed k n. k mod n) config = Inr (qualification, runs)"
proof -
  let ?rows = "[measured_row ''baseline'' 1000, measured_row ''batched'' 2000, measured_row ''threaded'' 3000]"
  have lowest: "profile_rate_of ?rows = Inr 800" by code_simp
  have bs: "isl (rmap (profile_benchmarks 800) ?rows) = False" by code_simp
  have plan: "isl (profile_plan ''s'' ''raw'' 800 ?rows) = False" by code_simp
  have batches: "\<exists>n. cell row ''batch_size'' = VInt n" if "row \<in> set ?rows" for row
    using that by (auto simp: measured_row_def cell_def dget_or_def)
  obtain bss plan where made: "rmap (profile_benchmarks 800) ?rows = Inr bss" "profile_plan ''s'' ''raw'' 800 ?rows = Inr plan"
    using bs plan by (metis sum.collapse(2))
  let ?global = "[(''runtime'', VDict [(''repetitions'', VInt 3)]), (''local_data_dir'', VStr ''results/sessions'')]"
  let ?config = "VDict [(''global'', VDict ?global), (''benchmarks'', VList (concat bss))]"
  have "prepare_profile_config list_pandas (\<lambda>_. Inr measured_runs) profiled_source ''s'' ''c'' ''raw'' None = Inr (?config, VDict plan)"
    by (simp add: prepare_profile_config_def measured_selection lowest profiled_source_def source_global_def profile_global_def
        dget_or_def rconcat_def made del: rmap.simps)
  moreover have "\<exists>q p. make_run_tuples (\<lambda>seed k n. k mod n) ?config = Inr (q, p)"
    using plan_profile_rows [OF made(1) batches, of "[(''repetitions'', VInt 3)]" "VInt 3" 0 "[]" "[]"]
    by (simp add: make_run_tuples_def py_index_VDict_Some dget_or_def)
  ultimately show ?thesis by blast
qed


end
