(* ===== verification/Clock_Drift.thy ===== *)
theory Clock_Drift
  imports Trace_Log Summary_Facts
begin

text \<open>
  The clock drift correction (\<^verbatim>\<open>remove_clock_drift\<close> of \<^verbatim>\<open>analysis/latency_utils.py\<close>) and the latency columns of
  a run (\<^verbatim>\<open>_latency_fields\<close> of \<^verbatim>\<open>analysis/generate_summary.py\<close>). The least squares line and the statistics of
  a series are parameters; the windows, their minima and every branch are modelled.
\<close>

section \<open>Correcting the drift\<close>

text \<open>The two columns the correction reads; a frame may lack one.\<close>

record latency_frame =
  lf_latency :: "flt list option"
  lf_rx :: "int list option"

record drift_result =
  corrected :: "flt list"
  jitter :: "flt list"
  correction_applied :: bool
  drift_slope :: flt

definition flt_abs :: "flt \<Rightarrow> flt" where
  "flt_abs x = (if flt_lt x (Fin 0) then negate_flt x else x)"

text \<open>\<^verbatim>\<open>series.diff().abs()\<close>: unknown in the first row.\<close>

definition differences :: "flt list \<Rightarrow> flt list" where
  "differences xs = (case xs of [] \<Rightarrow> [] | _ # ys \<Rightarrow> NaN # map2 (\<lambda>x y. flt_abs (flt_sub y x)) xs ys)"

definition drift_result_of :: "flt list \<Rightarrow> flt \<Rightarrow> bool \<Rightarrow> drift_result" where
  "drift_result_of values slope applied =
     \<lparr>corrected = values, jitter = differences values, correction_applied = applied, drift_slope = slope\<rparr>"

text \<open>Seconds since the first packet was received.\<close>

definition elapsed_seconds :: "int list \<Rightarrow> flt list" where
  "elapsed_seconds rx =
     (case rx of [] \<Rightarrow> []
      | first # _ \<Rightarrow> map (\<lambda>n. case flt_sub (to_flt (of_int n)) (to_flt (of_int first)) of
          Fin d \<Rightarrow> to_flt (d / 1000000000) | x \<Rightarrow> x) rx)"

definition flt_finite :: "flt \<Rightarrow> bool" where
  "flt_finite x \<longleftrightarrow> (case x of Fin _ \<Rightarrow> True | _ \<Rightarrow> False)"

definition largest_of :: "flt \<Rightarrow> flt list \<Rightarrow> flt" where
  "largest_of = foldl (\<lambda>m x. if flt_lt m x then x else m)"

text \<open>\<^verbatim>\<open>np.array_split\<close>: the first sections are one longer when the division is not exact.\<close>

definition section_sizes :: "nat \<Rightarrow> nat \<Rightarrow> nat list" where
  "section_sizes n k = replicate (n mod k) (n div k + 1) @ replicate (k - n mod k) (n div k)"

fun cut_sections :: "nat list \<Rightarrow> 'a list \<Rightarrow> 'a list list" where
  "cut_sections [] xs = []"
| "cut_sections (n # ns) xs = take n xs # cut_sections ns (drop n xs)"

definition array_split :: "nat \<Rightarrow> 'a list \<Rightarrow> 'a list list" where
  "array_split k xs = cut_sections (section_sizes (length xs) k) xs"

text \<open>The first record of a section with the least latency.\<close>

definition lowest_record :: "(flt \<times> flt) list \<Rightarrow> flt \<times> flt" where
  "lowest_record section =
     foldl (\<lambda>best r. if flt_lt (snd r) (snd best) then r else best) (hd section) (tl section)"

definition sample_points :: "flt list \<Rightarrow> flt list \<Rightarrow> (flt \<times> flt) list" where
  "sample_points elapsed raw = map lowest_record (array_split (min 20 (length raw)) (zip elapsed raw))"

definition drift_fit :: "((flt \<times> flt) list \<Rightarrow> flt res) \<Rightarrow> flt list \<Rightarrow> flt list \<Rightarrow> drift_result res" where
  "drift_fit polyfit raw elapsed =
     (let points = sample_points elapsed raw in
      if length (dedup (map fst points)) < 2 then Inr (drift_result_of raw (Fin 0) False)
      else rbind (polyfit points) (\<lambda>slope.
        if \<not> flt_finite slope then Inr (drift_result_of raw (Fin 0) False)
        else Inr (drift_result_of (map2 (\<lambda>y x. flt_sub y (flt_mul slope x)) raw elapsed) slope True)))"

definition remove_clock_drift ::
  "((flt \<times> flt) list \<Rightarrow> flt res) \<Rightarrow> latency_frame \<Rightarrow> nat \<Rightarrow> drift_result res" where
  "remove_clock_drift polyfit df window_size =
     (case lf_latency df of
        None \<Rightarrow> Inl (value_error ''Dataframe is missing receive_latency_us'')
      | Some raw \<Rightarrow> (case lf_rx df of
          None \<Rightarrow> Inl (value_error ''Dataframe is missing rx_ns'')
        | Some rx \<Rightarrow>
            if NaN \<in> set raw then Inl (value_error ''receive_latency_us contains missing values'')
            else if length raw < window_size then Inr (drift_result_of raw (Fin 0) False)
            else if rx = [] then Inl (Exn IndexError ''single positional indexer is out-of-bounds'')
            else let elapsed = elapsed_seconds rx; longest = largest_of (hd elapsed) (tl elapsed) in
              if \<not> flt_finite longest \<or> flt_le longest (Fin 0) then Inr (drift_result_of raw (Fin 0) False)
              else drift_fit polyfit raw elapsed))"

definition require_corrected_latency :: "drift_result \<Rightarrow> unit res" where
  "require_corrected_latency d = require (NaN \<notin> set (corrected d)) (value_error ''latency_corrected_us contains missing values'')"

section \<open>Windows and their minima\<close>

lemma concat_cut_sections: "concat (cut_sections ns xs) = take (sum_list ns) xs"
  by (induction ns xs rule: cut_sections.induct) (simp_all add: take_add)

lemma length_cut_sections [simp]: "length (cut_sections ns xs) = length ns"
  by (induction ns xs rule: cut_sections.induct) simp_all

lemma section_sizes_sum: "0 < k \<Longrightarrow> sum_list (section_sizes n k) = n"
proof -
  assume k: "0 < k"
  then have "n mod k \<le> k" using mod_less_divisor [of k n] by simp
  then have "sum_list (section_sizes n k) = n mod k + k * (n div k)"
    by (simp add: section_sizes_def sum_list_replicate algebra_simps flip: add_mult_distrib2)
  then show ?thesis by simp
qed

lemma concat_array_split: "0 < k \<Longrightarrow> concat (array_split k xs) = xs"
  by (simp add: array_split_def concat_cut_sections section_sizes_sum)

lemma length_array_split: "0 < k \<Longrightarrow> length (array_split k xs) = k"
  using mod_less_divisor [of k "length xs"] by (simp add: array_split_def section_sizes_def)

lemma cut_sections_nonempty:
  "sum_list ns \<le> length xs \<Longrightarrow> list_all (\<lambda>n. 0 < n) ns \<Longrightarrow> list_all (\<lambda>s. s \<noteq> []) (cut_sections ns xs)"
  by (induction ns xs rule: cut_sections.induct) auto

lemma array_split_nonempty:
  assumes "0 < k" "k \<le> length xs"
  shows "list_all (\<lambda>s. s \<noteq> []) (array_split k xs)"
proof -
  have "0 < length xs div k" using assms by (simp add: div_greater_zero_iff)
  then show ?thesis
    using assms section_sizes_sum [OF assms(1), of "length xs"]
    unfolding array_split_def by (intro cut_sections_nonempty) (auto simp: section_sizes_def list_all_iff)
qed

lemma lowest_acc:
  "NaN \<notin> snd ` set (b # rs) \<Longrightarrow>
     foldl (\<lambda>best r. if flt_lt (snd r) (snd best) then r else best) b rs \<in> set (b # rs) \<and>
     (\<forall>r \<in> set (b # rs). flt_le (snd (foldl (\<lambda>best r. if flt_lt (snd r) (snd best) then r else best) b rs)) (snd r))"
proof (induction rs arbitrary: b)
  case Nil
  then show ?case by (cases "snd b") auto
next
  case (Cons r rs)
  show ?case
  proof (cases "flt_lt (snd r) (snd b)")
    case True
    with Cons.IH [of r] Cons.prems have "flt_le (snd (foldl (\<lambda>best r. if flt_lt (snd r) (snd best) then r else best) r rs)) (snd r)"
      by auto
    with True have "flt_le (snd (foldl (\<lambda>best r. if flt_lt (snd r) (snd best) then r else best) r rs)) (snd b)"
      by (auto elim!: flt_le.elims flt_lt.elims)
    with True Cons.IH [of r] Cons.prems show ?thesis by auto
  next
    case False
    with Cons.prems have "flt_le (snd b) (snd r)" using flt_not_le [of "snd b" "snd r"] by auto
    moreover have "flt_le (snd (foldl (\<lambda>best r. if flt_lt (snd r) (snd best) then r else best) b rs)) (snd b)"
      using Cons.IH [of b] Cons.prems by auto
    ultimately have "flt_le (snd (foldl (\<lambda>best r. if flt_lt (snd r) (snd best) then r else best) b rs)) (snd r)"
      by (auto elim!: flt_le.elims)
    with False Cons.IH [of b] Cons.prems show ?thesis by auto
  qed
qed

lemma lowest_record_least:
  assumes "s \<noteq> []" "NaN \<notin> snd ` set s"
  shows "lowest_record s \<in> set s" "r \<in> set s \<Longrightarrow> flt_le (snd (lowest_record s)) (snd r)"
  using lowest_acc [of "hd s" "tl s"] assms by (simp_all add: lowest_record_def)

section \<open>What the correction keeps\<close>

lemma length_elapsed [simp]: "length (elapsed_seconds rx) = length rx"
  by (cases rx) (simp_all add: elapsed_seconds_def)

lemma length_drift_result_of [simp]: "length (corrected (drift_result_of v s b)) = length v"
  "length (jitter (drift_result_of v s b)) = length v"
  by (cases v; simp add: drift_result_of_def differences_def)+

lemma drift_result_of_simps [simp]:
  "corrected (drift_result_of v s b) = v" "correction_applied (drift_result_of v s b) = b" "drift_slope (drift_result_of v s b) = s"
  by (simp_all add: drift_result_of_def)

lemma remove_clock_drift_cases:
  assumes "remove_clock_drift polyfit df w = Inr d" "lf_latency df = Some raw" "lf_rx df = Some rx"
  shows "d = drift_result_of raw (Fin 0) False \<or>
    (NaN \<notin> set raw \<and> w \<le> length raw \<and> rx \<noteq> [] \<and> (\<exists>slope. flt_finite slope \<and>
       polyfit (sample_points (elapsed_seconds rx) raw) = Inr slope \<and>
       d = drift_result_of (map2 (\<lambda>y x. flt_sub y (flt_mul slope x)) raw (elapsed_seconds rx)) slope True))"
  using assms by (auto simp: remove_clock_drift_def drift_fit_def Let_def rbind_Inr_iff split: if_splits)

lemma remove_clock_drift_known:
  "remove_clock_drift polyfit df w = Inr d \<Longrightarrow> lf_latency df = Some raw \<Longrightarrow> NaN \<notin> set raw"
  by (auto simp: remove_clock_drift_def split: if_splits option.splits)

lemma to_flt_known [simp]: "to_flt x \<noteq> NaN"
  by (simp add: to_flt_def Let_def)

lemma flt_sub_known: "flt_finite y \<Longrightarrow> x \<noteq> NaN \<Longrightarrow> flt_sub y x \<noteq> NaN"
  by (cases y; cases x) (simp_all add: flt_finite_def flt_sub_def negate_flt_def)

lemma fl_bound: "\<bar>fl x\<bar> \<le> 2 * \<bar>x\<bar> + 1"
proof -
  have pos: "\<bar>fl y\<bar> \<le> 2 * y + 1" if "0 \<le> y" for y
  proof (cases "y \<le> 1")
    case True
    then have "fl y \<le> 1" using double.rnd_le_int [of 1 y] by simp
    with that fl_nonneg [OF that] show ?thesis by simp
  next
    case False
    then have "fl y * 2 ^ 53 \<le> y * (2 ^ 53 + 1)" by (intro fl_relative) simp
    with False fl_nonneg [of y] show ?thesis by simp
  qed
  show ?thesis using pos [of x] pos [of "- x"] by (cases "0 \<le> x") (simp_all add: fl_minus)
qed

lemma elapsed_finite:
  assumes "list_all (\<lambda>n. 0 \<le> n \<and> n \<le> 2 ^ 64) rx" "x \<in> set (elapsed_seconds rx)"
  shows "flt_finite x"
proof -
  have time: "\<exists>q. to_flt (of_int n) = Fin q \<and> \<bar>q\<bar> \<le> 2 ^ 66" if "n \<in> set rx" for n
  proof -
    have n: "0 \<le> n" "n \<le> 2 ^ 64" using assms(1) that by (auto simp: list_all_iff)
    then have q: "(0 :: rat) \<le> of_int n" "of_int n \<le> (of_int (2 ^ 64) :: rat)" by (simp_all only: of_int_le_iff of_int_0_le_iff)
    then have "to_flt (of_int n) = Fin (fl (of_int n))" by (intro to_flt_small [of _ "2 ^ 64"]) simp_all
    moreover have "\<bar>fl (of_int n)\<bar> \<le> 2 ^ 66" using fl_bound [of "of_int n"] q by simp
    ultimately show ?thesis by blast
  qed
  from assms(2) obtain first rest n where rx: "rx = first # rest" and n: "n \<in> set rx"
    and x: "x = (case flt_sub (to_flt (of_int n)) (to_flt (of_int first)) of Fin d \<Rightarrow> to_flt (d / 1000000000) | x \<Rightarrow> x)"
    by (cases rx) (auto simp: elapsed_seconds_def)
  obtain q f where q: "to_flt (of_int n) = Fin q" "\<bar>q\<bar> \<le> 2 ^ 66" and f: "to_flt (of_int first) = Fin f" "\<bar>f\<bar> \<le> 2 ^ 66"
    using time [OF n] time [of first] rx by auto
  have "to_flt (q - f) = Fin (fl (q - f))" using q f by (intro to_flt_small [of _ "2 ^ 67"]) auto
  moreover have "\<bar>q - f\<bar> \<le> 2 ^ 67" using q f by simp
  then have "\<bar>fl (q - f)\<bar> \<le> 2 ^ 69" using fl_bound [of "q - f"] by simp
  then have "\<bar>fl (q - f) / 1000000000\<bar> \<le> of_int (2 ^ 69)" by (simp add: abs_divide)
  then have "to_flt (fl (q - f) / 1000000000) = Fin (fl (fl (q - f) / 1000000000))" by (rule to_flt_small) simp
  ultimately show ?thesis by (simp add: x q f flt_sub_def negate_flt_def flt_finite_def)
qed

text \<open>Nothing is missing from the corrected latencies of finite latencies and 64-bit times.\<close>

lemma corrected_known:
  assumes "remove_clock_drift polyfit df w = Inr d" "lf_latency df = Some raw" "lf_rx df = Some rx"
    and "list_all flt_finite raw" "list_all (\<lambda>n. 0 \<le> n \<and> n \<le> 2 ^ 64) rx"
  shows "require_corrected_latency d = Inr ()"
proof -
  have "flt_sub y (flt_mul slope x) \<noteq> NaN" if "y \<in> set raw" "x \<in> set (elapsed_seconds rx)" "flt_finite slope" for x y slope
    using assms(4) elapsed_finite [OF assms(5) that(2)] that(1,3)
    by (intro flt_sub_known) (auto simp: list_all_iff flt_finite_def flt_mul_def split: flt.splits)
  then have "NaN \<notin> set (map2 (\<lambda>y x. flt_sub y (flt_mul slope x)) raw (elapsed_seconds rx))" if "flt_finite slope" for slope
    using that by (fastforce dest: set_zip_leftD set_zip_rightD)
  then have "NaN \<notin> set (corrected d)"
    using remove_clock_drift_cases [OF assms(1-3)] remove_clock_drift_known [OF assms(1,2)] by auto
  then show ?thesis by (simp add: require_corrected_latency_def)
qed

text \<open>
  A sample point is a record of its section of consecutive records, and none of them has a lower latency.
\<close>

lemma sample_points_minimal:
  assumes "NaN \<notin> set raw" "length elapsed = length raw" "raw \<noteq> []"
  shows "\<exists>sections. concat sections = zip elapsed raw \<and> length sections = min 20 (length raw) \<and>
    list_all2 (\<lambda>s p. p \<in> set s \<and> (\<forall>r \<in> set s. flt_le (snd p) (snd r))) sections (sample_points elapsed raw)"
proof -
  let ?k = "min 20 (length raw)"
  let ?sections = "array_split ?k (zip elapsed raw)"
  have k: "0 < ?k" "?k \<le> length (zip elapsed raw)" using assms by simp_all
  have "lowest_record s \<in> set s \<and> (\<forall>r \<in> set s. flt_le (snd (lowest_record s)) (snd r))" if "s \<in> set ?sections" for s
  proof -
    have "s \<noteq> []" using array_split_nonempty [OF k] that by (auto simp: list_all_iff)
    moreover have "set s \<subseteq> set (zip elapsed raw)" using that concat_array_split [OF k(1), of "zip elapsed raw"]
      by (metis (no_types, lifting) UN_I set_concat subsetI)
    then have "NaN \<notin> snd ` set s" using assms(1) by (auto dest: set_zip_rightD)
    ultimately show ?thesis using lowest_record_least by blast
  qed
  then show ?thesis
    using concat_array_split [OF k(1), of "zip elapsed raw"] length_array_split [OF k(1), of "zip elapsed raw"]
    by (intro exI [of _ ?sections]) (simp add: sample_points_def list_all2_map2 list_all2_same)
qed

text \<open>
  C14: The drift correction keeps the shape of its input on every path: as many corrected latencies and jitters
  as records. When it is not applied, the latencies are the measured ones and the slope is zero. When it is
  applied, there are at least as many records as a window asks for, the slope is finite and the fit of at most
  twenty points, each the record of least latency in one of the consecutive sections the trace divides into,
  and the corrected latency is the measured one minus the slope times the seconds since the first packet. Of
  finite latencies and 64-bit times no corrected latency is missing.
\<close>

theorem drift_correction_sound:
  assumes "remove_clock_drift polyfit df window_size = Inr d" "lf_latency df = Some raw" "lf_rx df = Some rx"
    and "length raw = length rx"
  shows "length (corrected d) = length raw \<and> length (jitter d) = length raw \<and>
    (if correction_applied d then window_size \<le> length raw \<and> flt_finite (drift_slope d) \<and>
       (\<exists>sections points. concat sections = zip (elapsed_seconds rx) raw \<and> length sections = min 20 (length raw) \<and>
          list_all2 (\<lambda>s p. p \<in> set s \<and> (\<forall>r \<in> set s. flt_le (snd p) (snd r))) sections points \<and>
          polyfit points = Inr (drift_slope d)) \<and>
       corrected d = map2 (\<lambda>y x. flt_sub y (flt_mul (drift_slope d) x)) raw (elapsed_seconds rx)
     else corrected d = raw \<and> drift_slope d = Fin 0) \<and>
    (list_all flt_finite raw \<and> list_all (\<lambda>n. 0 \<le> n \<and> n \<le> 2 ^ 64) rx \<longrightarrow> require_corrected_latency d = Inr ())"
proof -
  have complete: "list_all flt_finite raw \<and> list_all (\<lambda>n. 0 \<le> n \<and> n \<le> 2 ^ 64) rx \<longrightarrow> require_corrected_latency d = Inr ()"
    using corrected_known [OF assms(1-3)] by blast
  have "length (corrected d) = length raw \<and> length (jitter d) = length raw \<and>
    (if correction_applied d then window_size \<le> length raw \<and> flt_finite (drift_slope d) \<and>
       (\<exists>sections points. concat sections = zip (elapsed_seconds rx) raw \<and> length sections = min 20 (length raw) \<and>
          list_all2 (\<lambda>s p. p \<in> set s \<and> (\<forall>r \<in> set s. flt_le (snd p) (snd r))) sections points \<and>
          polyfit points = Inr (drift_slope d)) \<and>
       corrected d = map2 (\<lambda>y x. flt_sub y (flt_mul (drift_slope d) x)) raw (elapsed_seconds rx)
     else corrected d = raw \<and> drift_slope d = Fin 0)"
    using remove_clock_drift_cases [OF assms(1-3)]
  proof (elim disjE conjE exE)
    fix slope assume known: "NaN \<notin> set raw" and "rx \<noteq> []" and applied: "window_size \<le> length raw" "flt_finite slope"
      "polyfit (sample_points (elapsed_seconds rx) raw) = Inr slope"
      "d = drift_result_of (map2 (\<lambda>y x. flt_sub y (flt_mul slope x)) raw (elapsed_seconds rx)) slope True"
    then have "raw \<noteq> []" using assms(4) by auto
    from sample_points_minimal [OF known _ this, of "elapsed_seconds rx"] assms(4) applied show "length (corrected d) = length raw \<and> length (jitter d) = length raw \<and>
    (if correction_applied d then window_size \<le> length raw \<and> flt_finite (drift_slope d) \<and>
       (\<exists>sections points. concat sections = zip (elapsed_seconds rx) raw \<and> length sections = min 20 (length raw) \<and>
          list_all2 (\<lambda>s p. p \<in> set s \<and> (\<forall>r \<in> set s. flt_le (snd p) (snd r))) sections points \<and>
          polyfit points = Inr (drift_slope d)) \<and>
       corrected d = map2 (\<lambda>y x. flt_sub y (flt_mul (drift_slope d) x)) raw (elapsed_seconds rx)
     else corrected d = raw \<and> drift_slope d = Fin 0)" by auto
  qed simp
  with complete show ?thesis by blast
qed

definition drifting :: latency_frame where
  "drifting = \<lparr>lf_latency = Some [Fin 10, Fin 9, Fin 12], lf_rx = Some [0, 1000000000, 2000000000]\<rparr>"

lemma drifting_corrected:
  "remove_clock_drift (\<lambda>_. Inr (Fin 1)) drifting 2 = Inr (drift_result_of [Fin 10, Fin 8, Fin 10] (Fin 1) True)"
  by code_simp

theorem drift_correction_sound_witness:
  "\<exists>d. remove_clock_drift (\<lambda>_. Inr (Fin 1)) drifting 2 = Inr d \<and> corrected d = [Fin 10, Fin 8, Fin 10] \<and>
     length (jitter d) = 3 \<and> require_corrected_latency d = Inr ()"
proof -
  have columns: "lf_latency drifting = Some [Fin 10, Fin 9, Fin 12]" "lf_rx drifting = Some [0, 1000000000, 2000000000]"
    by (simp_all add: drifting_def)
  have same: "length [Fin 10, Fin 9, Fin 12] = length [0, 1000000000, 2000000000 :: int]" by simp
  have "list_all flt_finite [Fin 10, Fin 9, Fin 12] \<and> list_all (\<lambda>n. 0 \<le> n \<and> n \<le> 2 ^ 64) [0, 1000000000, 2000000000 :: int] \<longrightarrow>
      require_corrected_latency (drift_result_of [Fin 10, Fin 8, Fin 10] (Fin 1) True) = Inr ()"
    using drift_correction_sound [OF drifting_corrected columns same] by (elim conjE)
  then show ?thesis using drifting_corrected by (simp add: flt_finite_def)
qed

section \<open>The latency columns of a run\<close>

text \<open>The statistics of a series of known values.\<close>

record series_stats =
  st_min :: "flt list \<Rightarrow> flt"
  st_max :: "flt list \<Rightarrow> flt"
  st_mean :: "flt list \<Rightarrow> flt"
  st_std :: "flt list \<Rightarrow> flt"
  st_quantile :: "flt list \<Rightarrow> flt \<Rightarrow> flt"

definition no_latency :: "pyval dict" where
  "no_latency =
     [(''latency_sample_count'', VInt 0), (''clock_drift_slope_us_per_s'', VNone), (''clock_correction_applied'', VBool False)] @
     map (\<lambda>k. (k, VNone))
       [''receive_latency_min_us'', ''receive_latency_mean_us'', ''receive_latency_p50_us'', ''receive_latency_p99_us'',
        ''receive_latency_p999_us'', ''receive_latency_max_us'', ''receive_latency_std_us'', ''jitter_p99_us'',
        ''queue_delay_p50_us'', ''queue_delay_p99_us'', ''queue_delay_p999_us'',
        ''processing_time_p50_us'', ''processing_time_p99_us'', ''processing_time_p999_us'',
        ''total_latency_p50_us'', ''total_latency_p99_us'', ''total_latency_p999_us'']"

text \<open>\<^verbatim>\<open>tail_quantile(series, q)\<close> as a column.\<close>

definition tail_column :: "series_stats \<Rightarrow> flt list \<Rightarrow> flt \<Rightarrow> pyval res" where
  "tail_column st xs q =
     rbind (tail_quantile (st_quantile st xs) (int (length xs)) q) (\<lambda>v.
     Inr (case v of None \<Rightarrow> VNone | Some x \<Rightarrow> VFloat x))"

definition known_jitter :: "drift_result \<Rightarrow> flt list" where
  "known_jitter d = filter (\<lambda>x. x \<noteq> NaN) (jitter d)"

definition receive_columns :: "series_stats \<Rightarrow> drift_result \<Rightarrow> (string \<times> pyval res) list" where
  "receive_columns st d =
     (let latency = corrected d in
      [(''latency_sample_count'', Inr (VInt (int (length latency)))),
       (''clock_drift_slope_us_per_s'', Inr (VFloat (drift_slope d))),
       (''clock_correction_applied'', Inr (VBool (correction_applied d))),
       (''receive_latency_min_us'', Inr (VFloat (st_min st latency))),
       (''receive_latency_mean_us'', Inr (VFloat (st_mean st latency))),
       (''receive_latency_p50_us'', tail_column st latency (lit 1 2)),
       (''receive_latency_p99_us'', tail_column st latency (lit 99 100)),
       (''receive_latency_p999_us'', tail_column st latency (lit 999 1000)),
       (''receive_latency_max_us'', Inr (VFloat (st_max st latency))),
       (''receive_latency_std_us'', Inr (VFloat (st_std st latency))),
       (''jitter_p99_us'', tail_column st (known_jitter d) (lit 99 100))])"

definition stage_columns :: "series_stats \<Rightarrow> string \<Rightarrow> flt list \<Rightarrow> (string \<times> pyval res) list" where
  "stage_columns st prefix xs =
     [(prefix @ ''_p50_us'', tail_column st xs (lit 1 2)), (prefix @ ''_p99_us'', tail_column st xs (lit 99 100)),
      (prefix @ ''_p999_us'', tail_column st xs (lit 999 1000))]"

definition frame_of_rows :: "metric_row list \<Rightarrow> latency_frame" where
  "frame_of_rows rows =
     \<lparr>lf_latency = Some (map (\<lambda>r. Fin (receive_latency_us r)) rows), lf_rx = Some (map rx_ns rows)\<rparr>"

text \<open>Columns are stored one by one; a later one replaces an earlier of its name.\<close>

definition stored :: "(string \<times> pyval res) list \<Rightarrow> pyval dict \<Rightarrow> pyval dict res" where
  "stored columns names =
     rbind (rmap (\<lambda>(k, v). rbind v (\<lambda>x. Inr (k, x))) columns) (\<lambda>entries.
     Inr (fold (\<lambda>(k, v). dset k v) entries names))"

definition latency_fields ::
  "((flt \<times> flt) list \<Rightarrow> flt res) \<Rightarrow> series_stats \<Rightarrow> metric_row list \<Rightarrow> pyval dict res" where
  "latency_fields polyfit st rows =
     (if rows = [] then Inr no_latency
      else rbind (remove_clock_drift polyfit (frame_of_rows rows) 1000) (\<lambda>clean.
        rbind (require_corrected_latency clean) (\<lambda>_.
        rbind (stored (receive_columns st clean) no_latency) (\<lambda>names.
        stored (stage_columns st ''queue_delay'' (map (\<lambda>r. Fin (application_queue_delay_us r)) rows) @
                stage_columns st ''processing_time'' (map (\<lambda>r. Fin (processing_time_us r)) rows) @
                stage_columns st ''total_latency'' (map (\<lambda>r. Fin (total_application_latency_us r)) rows)) names))))"

text \<open>Which columns a sample of some size supports.\<close>

lemma tail_column_gate:
  "tail_column st xs (lit 1 2) = Inr (if length xs < 2 then VNone else VFloat (st_quantile st xs (lit 1 2)))"
  "tail_column st xs (lit 99 100) = Inr (if length xs < 100 then VNone else VFloat (st_quantile st xs (lit 99 100)))"
  "tail_column st xs (lit 999 1000) = Inr (if length xs < 1000 then VNone else VFloat (st_quantile st xs (lit 999 1000)))"
  by (simp_all add: tail_column_def tail_quantile_def minimum_samples)

lemma dget_fold_entries:
  "dget (fold (\<lambda>(k, v). dset k v) es d) k = (case map_of (rev es) k of Some v \<Rightarrow> Some v | None \<Rightarrow> dget d k)"
  by (induction es arbitrary: d) (auto simp: map_add_def split: option.splits)

lemma stored_dget:
  assumes "stored columns names = Inr d"
  shows "dget d k = (case map_of (rev columns) k of Some v \<Rightarrow> (case v of Inr x \<Rightarrow> Some x | Inl _ \<Rightarrow> None) | None \<Rightarrow> dget names k)"
proof -
  from assms obtain es where es: "rmap (\<lambda>(k, v). rbind v (\<lambda>x. Inr (k, x))) columns = Inr es"
    and d: "d = fold (\<lambda>(k, v). dset k v) es names" by (auto simp: stored_def rbind_Inr_iff)
  have "columns = map (\<lambda>(k, x). (k, Inr x)) es"
    using es unfolding rmap_Inr_iff by (induction rule: list_all2_induct) (auto simp: rbind_Inr_iff)
  then have "map_of (rev columns) k = map_option Inr (map_of (rev es) k)" by (simp add: rev_map map_of_map)
  then show ?thesis by (simp add: d dget_fold_entries split: option.split)
qed

lemma known_jitter_short:
  assumes "rows \<noteq> []" "length (jitter d) = length rows" "jitter d = differences (corrected d)"
  shows "length (known_jitter d) < length rows"
proof -
  obtain x xs where "jitter d = NaN # xs" using assms by (cases "corrected d") (auto simp: differences_def)
  moreover have "length (filter (\<lambda>x. x \<noteq> NaN) xs) \<le> length xs" by (rule length_filter_le)
  ultimately show ?thesis using assms(2) by (auto simp: known_jitter_def less_Suc_eq_le simp flip: assms(2))
qed

lemma remove_clock_drift_shape:
  assumes "remove_clock_drift polyfit (frame_of_rows rows) w = Inr d"
  shows "length (corrected d) = length rows" "length (jitter d) = length rows" "jitter d = differences (corrected d)"
proof -
  have columns: "lf_latency (frame_of_rows rows) = Some (map (\<lambda>r. Fin (receive_latency_us r)) rows)"
    "lf_rx (frame_of_rows rows) = Some (map rx_ns rows)" by (simp_all add: frame_of_rows_def)
  from remove_clock_drift_cases [OF assms columns] obtain v slope applied where
    "d = drift_result_of v slope applied" "length v = length rows" by auto
  then show "length (corrected d) = length rows" "length (jitter d) = length rows" "jitter d = differences (corrected d)"
    by simp_all (simp add: drift_result_of_def)
qed

text \<open>
  C15: A run's latency columns count its records and report a quantile of a stage exactly when the sample
  supports it: a median from 2 records on, a p99 from 100 and a p99.9 from 1000; a smaller sample leaves the
  column empty. A p99 of the jitter needs more than 100 records.
\<close>

theorem latency_columns_supported:
  assumes "latency_fields polyfit st rows = Inr names"
    and "prefix \<in> {''receive_latency'', ''queue_delay'', ''processing_time'', ''total_latency''}"
    and "(quantile, needed) \<in> {(''_p50_us'', 2), (''_p99_us'', 100), (''_p999_us'', 1000)}"
  shows "dget names ''latency_sample_count'' = Some (VInt (int (length rows))) \<and>
    (dget names (prefix @ quantile) = Some VNone \<longleftrightarrow> length rows < needed) \<and>
    (length rows \<le> 100 \<longrightarrow> dget names ''jitter_p99_us'' = Some VNone)"
proof (cases "rows = []")
  case True
  with assms show ?thesis by (auto simp: latency_fields_def no_latency_def)
next
  case False
  with assms(1) obtain clean early where clean: "remove_clock_drift polyfit (frame_of_rows rows) 1000 = Inr clean"
    and early: "stored (receive_columns st clean) no_latency = Inr early"
    and names: "stored (stage_columns st ''queue_delay'' (map (\<lambda>r. Fin (application_queue_delay_us r)) rows) @
                stage_columns st ''processing_time'' (map (\<lambda>r. Fin (processing_time_us r)) rows) @
                stage_columns st ''total_latency'' (map (\<lambda>r. Fin (total_application_latency_us r)) rows)) early = Inr names"
    by (auto simp: latency_fields_def rbind_Inr_iff)
  note size = remove_clock_drift_shape [OF clean]
  have short: "length (known_jitter clean) < length rows" by (rule known_jitter_short [OF False size(2,3)])
  note columns = stored_dget [OF names] stored_dget [OF early]
  have "dget names ''latency_sample_count'' = Some (VInt (int (length rows)))"
    unfolding columns by (simp add: stage_columns_def receive_columns_def Let_def size(1))
  moreover have "dget names ''jitter_p99_us'' =
      Some (if length (known_jitter clean) < 100 then VNone else VFloat (st_quantile st (known_jitter clean) (lit 99 100)))"
    unfolding columns by (simp add: stage_columns_def receive_columns_def Let_def tail_column_gate)
  moreover have "dget names (prefix @ quantile) = Some VNone \<longleftrightarrow> length rows < needed"
    using assms(2,3) unfolding columns
    by (elim insertE emptyE; simp only: prod.inject; elim conjE; simp add: stage_columns_def receive_columns_def Let_def tail_column_gate size(1))
  ultimately show ?thesis using short by auto
qed

definition simple_stats :: series_stats where
  "simple_stats = \<lparr>st_min = hd, st_max = last, st_mean = hd, st_std = \<lambda>_. Fin 0, st_quantile = \<lambda>xs q. hd xs\<rparr>"

definition one_row :: metric_row where
  "one_row = metrics_of None
     \<lparr>seq = 1, tx_ns = 1000, rx_ns = 2000, processing_start_ns = 3000, processing_finish_ns = 5000,
      legacy_recorded_latency_ns = None, log_format_version = 1\<rparr>"

lemma one_row_fields: "isl (latency_fields (\<lambda>_. Inr (Fin 0)) simple_stats [one_row]) = False"
  by code_simp

theorem latency_columns_supported_witness:
  "\<exists>names. latency_fields (\<lambda>_. Inr (Fin 0)) simple_stats [one_row] = Inr names \<and>
     dget names (''receive_latency'' @ ''_p99_us'') = Some VNone"
proof -
  obtain names where names: "latency_fields (\<lambda>_. Inr (Fin 0)) simple_stats [one_row] = Inr names"
    using one_row_fields by (cases "latency_fields (\<lambda>_. Inr (Fin 0)) simple_stats [one_row]") simp_all
  have "(''_p99_us'', 100 :: nat) \<in> {(''_p50_us'', 2), (''_p99_us'', 100), (''_p999_us'', 1000)}" by simp
  from latency_columns_supported [OF names insertI1 this] have "dget names (''receive_latency'' @ ''_p99_us'') = Some VNone"
    by (elim conjE) simp
  with names show ?thesis by (intro exI conjI)
qed

end
