(* ===== verification/Session_Summary.thy ===== *)
theory Session_Summary
  imports Clock_Drift Claim_Evidence Paths
begin

text \<open>
  The summary of a session (\<^verbatim>\<open>process_directory\<close> and \<^verbatim>\<open>aggregate_repetitions\<close> of
  \<^verbatim>\<open>analysis/generate_summary.py\<close>): which metadata files become rows, and the aggregate of the repetitions of
  a configuration. Finding and parsing the files and the operations of the data frame library are
  parameters; the two tables are returned (they are then written as CSV files).
\<close>

section \<open>Aggregating repetitions\<close>

text \<open>The numeric columns, the groups by some columns (unknown keys included), the linear quantile.\<close>

record tables =
  tb_numeric :: "frame \<Rightarrow> string list"
  tb_groupby :: "string list \<Rightarrow> frame \<Rightarrow> (pyval list \<times> frame) list"
  tb_quantile :: "pyval list \<Rightarrow> flt \<Rightarrow> flt"
  tb_sort_values :: "string list \<Rightarrow> frame \<Rightarrow> frame"

definition GROUP_COLUMNS :: "string list" where
  "GROUP_COLUMNS =
     [''topology'', ''campaign'', ''receiver'', ''requested_rate_pps'', ''mode'', ''burst_size'', ''batch_size'',
      ''payload_size'', ''duration_seconds'', ''work_ns'', ''sample_every'']"

definition present_groups :: "frame \<Rightarrow> string list" where
  "present_groups per_run = filter (\<lambda>column. column \<in> set (fr_columns per_run)) GROUP_COLUMNS"

definition measured_columns :: "tables \<Rightarrow> frame \<Rightarrow> string list" where
  "measured_columns tb per_run =
     filter (\<lambda>column. column \<notin> set (present_groups per_run) \<and> column \<noteq> ''repetition_id'') (tb_numeric tb per_run)"

definition known_values :: "frame \<Rightarrow> string \<Rightarrow> pyval list" where
  "known_values members column = filter finite_value (map (\<lambda>r. cell r column) (fr_rows members))"

definition quantile_or_none :: "tables \<Rightarrow> pyval list \<Rightarrow> flt \<Rightarrow> pyval" where
  "quantile_or_none tb xs q = (if xs = [] then VNone else VFloat (tb_quantile tb xs q))"

definition column_quantiles :: "tables \<Rightarrow> frame \<Rightarrow> string \<Rightarrow> (string \<times> pyval) list" where
  "column_quantiles tb members column =
     (let xs = known_values members column in
      [(column @ ''_median'', quantile_or_none tb xs (lit 1 2)), (column @ ''_q25'', quantile_or_none tb xs (lit 1 4)),
       (column @ ''_q75'', quantile_or_none tb xs (lit 3 4))])"

definition incomplete_columns :: "frame \<Rightarrow> string list \<Rightarrow> string list" where
  "incomplete_columns members columns =
     map (\<lambda>column. column @ '':'' @ str_nat (length (known_values members column)) @ ''/'' @ str_nat (length (fr_rows members)))
       (filter (\<lambda>column. length (known_values members column) \<noteq> length (fr_rows members)) columns)"

definition all_flag :: "frame \<Rightarrow> string \<Rightarrow> string \<Rightarrow> (string \<times> pyval) list" where
  "all_flag members column name =
     (if column \<in> set (fr_columns members)
      then [(name, VBool (list_all (\<lambda>r. truthy (cell r column)) (fr_rows members)))] else [])"

definition store_all :: "(string \<times> pyval) list \<Rightarrow> pyval dict" where
  "store_all es = fold (\<lambda>(k, v). dset k v) es []"

definition aggregate_row :: "tables \<Rightarrow> string list \<Rightarrow> string list \<Rightarrow> pyval list \<times> frame \<Rightarrow> pyval dict" where
  "aggregate_row tb groups columns entry = (case entry of (key, members) \<Rightarrow>
     store_all (zip groups key @ [(''repetitions'', VInt (int (length (fr_rows members))))] @
       all_flag members ''sustainable_run'' ''all_repetitions_sustainable'' @
       all_flag members ''run_valid'' ''all_repetitions_valid'' @
       concat (map (column_quantiles tb members) columns) @
       [(''metrics_with_missing_repetitions'', VStr (join ''; '' (sort (incomplete_columns members columns))))]))"

definition aggregate_repetitions :: "tables \<Rightarrow> frame \<Rightarrow> frame" where
  "aggregate_repetitions tb per_run =
     (let groups = present_groups per_run; columns = measured_columns tb per_run in
      frame_of (map (aggregate_row tb groups columns) (tb_groupby tb groups per_run)))"

section \<open>The files of a session\<close>

text \<open>The metadata files in sorted order, their documents, the traces.\<close>

record session_files =
  sf_metadata :: "string list"
  sf_read :: "string \<Rightarrow> pyval res"
  sf_trace :: "string \<Rightarrow> byte list option"

text \<open>\<^verbatim>\<open>text.replace(old, new)\<close> for an \<open>old\<close> that is not empty.\<close>

function replace_text :: "string \<Rightarrow> string \<Rightarrow> string \<Rightarrow> string" where
  "replace_text old new [] = []"
| "replace_text old new (c # cs) =
     (if old \<noteq> [] \<and> startswith (c # cs) old then new @ replace_text old new (drop (length old) (c # cs))
      else c # replace_text old new cs)"
  by pat_completeness auto

termination replace_text
  by (relation "measure (\<lambda>(old, new, s). length s)") auto

definition trace_of_metadata :: "string \<Rightarrow> string" where
  "trace_of_metadata path =
     (let p = path_of path in
      path_str (path_with_name p (replace_text ''_meta.yaml'' ''.bin'' (replace_text ''_meta.json'' ''.bin'' (path_name p)))))"

definition summarize_file ::
  "session_files \<Rightarrow> (metric_row list \<Rightarrow> pyval dict res) \<Rightarrow> string \<Rightarrow> pyval dict option res" where
  "summarize_file files latency_of path =
     rbind (sf_read files path) (\<lambda>metadata.
     rbind (py_contains metadata ''run_id'') (\<lambda>complete.
     if \<not> complete then Inr None
     else let trace_path = trace_of_metadata path in
       case sf_trace files trace_path of
         None \<Rightarrow> Inl (Exn FileNotFoundError (''Trace referenced by metadata is missing: '' @ trace_path))
       | Some content \<Rightarrow>
           rbind (load_binary_file trace_path (Some content)) (\<lambda>rows.
           rbind (summarize_run metadata (int (length rows)) (latency_of rows) trace_path) (\<lambda>row. Inr (Some row)))))"

text \<open>The table of runs and its aggregate; nothing when no metadata names a run.\<close>

definition process_directory ::
  "tables \<Rightarrow> (metric_row list \<Rightarrow> pyval dict res) \<Rightarrow> session_files \<Rightarrow> (frame \<times> frame) option res" where
  "process_directory tb latency_of files =
     rbind (rmap (summarize_file files latency_of) (sf_metadata files)) (\<lambda>found.
     let rows = List.map_filter id found in
     if rows = [] then Inr None
     else let per_run = tb_sort_values tb [''campaign'', ''receiver'', ''requested_rate_pps'', ''batch_size'', ''repetition_id'']
                          (frame_of rows)
          in Inr (Some (per_run, aggregate_repetitions tb per_run)))"

section \<open>What an aggregate accounts for\<close>

text \<open>
  What the library documents: the groups are those of the rows of the frame by equal keys, an unknown key
  counting as one, each with a row and the columns of the frame; sorting permutes the rows.
\<close>

definition same_value :: "pyval \<Rightarrow> pyval \<Rightarrow> bool" where
  "same_value v w \<longleftrightarrow> v = w \<or> py_eq v w \<or> \<not> finite_value v \<and> \<not> finite_value w"

definition documented_tables :: "tables \<Rightarrow> bool" where
  "documented_tables tb \<longleftrightarrow>
     (\<forall>keys f. mset (concat (map (\<lambda>(_, members). fr_rows members) (tb_groupby tb keys f))) = mset (fr_rows f) \<and>
        (\<forall>key members. (key, members) \<in> set (tb_groupby tb keys f) \<longrightarrow>
           fr_columns members = fr_columns f \<and> fr_rows members \<noteq> [] \<and>
           (\<forall>r \<in> set (fr_rows members). list_all2 same_value (map (cell r) keys) key)) \<and>
        sorted_wrt (\<lambda>g h. \<not> list_all2 same_value (fst h) (fst g)) (tb_groupby tb keys f)) \<and>
     (\<forall>keys f. mset (fr_rows (tb_sort_values tb keys f)) = mset (fr_rows f) \<and>
        fr_columns (tb_sort_values tb keys f) = fr_columns f)"

text \<open>A row and the group of runs it aggregates.\<close>

definition aggregates :: "tables \<Rightarrow> string list \<Rightarrow> pyval list \<times> frame \<Rightarrow> pyval dict \<Rightarrow> bool" where
  "aggregates tb columns entry row \<longleftrightarrow> (case entry of (key, members) \<Rightarrow>
     cell row ''repetitions'' = VInt (int (length (fr_rows members))) \<and>
     (''run_valid'' \<in> set (fr_columns members) \<longrightarrow>
        cell row ''all_repetitions_valid'' = VBool (list_all (\<lambda>r. truthy (cell r ''run_valid'')) (fr_rows members))) \<and>
     (''sustainable_run'' \<in> set (fr_columns members) \<longrightarrow>
        cell row ''all_repetitions_sustainable'' = VBool (list_all (\<lambda>r. truthy (cell r ''sustainable_run'')) (fr_rows members))) \<and>
     (\<forall>column \<in> set columns. cell row (column @ ''_median'') = quantile_or_none tb (known_values members column) (lit 1 2)) \<and>
     (cell row ''metrics_with_missing_repetitions'' = VStr [] \<longleftrightarrow>
        (\<forall>column \<in> set columns. list_all (\<lambda>r. finite_value (cell r column)) (fr_rows members))))"

lemma map_of_append_case: "map_of (xs @ ys) k = (case map_of xs k of Some v \<Rightarrow> Some v | None \<Rightarrow> map_of ys k)"
  by (simp add: map_add_def)

lemma cell_store_all: "cell (store_all es) k = (case map_of (rev es) k of Some v \<Rightarrow> v | None \<Rightarrow> VFloat NaN)"
  by (simp add: cell_def dget_or_def store_all_def dget_fold_entries split: option.split)

lemma quantile_key_last:
  "(k, v) \<in> set (concat (map (column_quantiles tb members) columns)) \<Longrightarrow> last k = CHR ''n'' \<or> last k = CHR ''5''"
  by (auto simp: column_quantiles_def Let_def)

lemma no_quantile_key:
  assumes "last k \<noteq> CHR ''n''" "last k \<noteq> CHR ''5''"
  shows "map_of (rev (concat (map (column_quantiles tb members) columns))) k = None"
proof (rule ccontr)
  assume "map_of (rev (concat (map (column_quantiles tb members) columns))) k \<noteq> None"
  then obtain v where "(k, v) \<in> set (rev (concat (map (column_quantiles tb members) columns)))" by (auto dest: map_of_SomeD)
  with quantile_key_last [of k v] assms show False by auto
qed

lemma map_of_unique:
  assumes "(k, v) \<in> set es" "\<And>w. (k, w) \<in> set es \<Longrightarrow> w = v"
  shows "map_of es k = Some v"
proof (cases "map_of es k")
  case None
  with assms(1) show ?thesis by (force simp: map_of_eq_None_iff)
next
  case (Some w)
  from assms(2) [OF map_of_SomeD [OF Some]] Some show ?thesis by simp
qed

lemma median_entry:
  assumes "column \<in> set columns"
  shows "map_of (rev (concat (map (column_quantiles tb members) columns))) (column @ ''_median'') =
    Some (quantile_or_none tb (known_values members column) (lit 1 2))"
proof (rule map_of_unique)
  show "(column @ ''_median'', quantile_or_none tb (known_values members column) (lit 1 2)) \<in>
      set (rev (concat (map (column_quantiles tb members) columns)))"
    using assms by (auto simp: column_quantiles_def Let_def)
next
  fix w assume "(column @ ''_median'', w) \<in> set (rev (concat (map (column_quantiles tb members) columns)))"
  then obtain c where "(column @ ''_median'', w) \<in> set (column_quantiles tb members c)" by auto
  then show "w = quantile_or_none tb (known_values members column) (lit 1 2)"
    by (auto simp: column_quantiles_def Let_def dest: arg_cong [of _ _ last])
qed

lemma incomplete_columns_Nil:
  "join ''; '' (sort (incomplete_columns members columns)) = [] \<longleftrightarrow>
     (\<forall>column \<in> set columns. list_all (\<lambda>r. finite_value (cell r column)) (fr_rows members))"
proof -
  have known: "length (known_values members column) = length (fr_rows members) \<longleftrightarrow>
      list_all (\<lambda>r. finite_value (cell r column)) (fr_rows members)" for column
    using length_filter_less [of _ "map (\<lambda>r. cell r column) (fr_rows members)" finite_value]
    by (fastforce simp: known_values_def list_all_iff)
  have joined: "join ''; '' ts = [] \<longleftrightarrow> ts = []" if "[] \<notin> set ts" for ts
    using that by (cases ts) (auto simp: join_Cons)
  have "[] \<notin> set (sort (incomplete_columns members columns))" by (auto simp: incomplete_columns_def)
  then have "join ''; '' (sort (incomplete_columns members columns)) = [] \<longleftrightarrow> sort (incomplete_columns members columns) = []"
    by (rule joined)
  also have "\<dots> \<longleftrightarrow> incomplete_columns members columns = []" by (metis set_empty set_sort)
  finally show ?thesis by (auto simp: incomplete_columns_def filter_empty_conv known)
qed

lemma aggregate_row_aggregates: "aggregates tb columns entry (aggregate_row tb groups columns entry)"
proof -
  obtain key members where entry: "entry = (key, members)" by (cases entry)
  let ?Q = "concat (map (column_quantiles tb members) columns)"
  have row: "aggregate_row tb groups columns entry = store_all (zip groups key @
     [(''repetitions'', VInt (int (length (fr_rows members))))] @
       all_flag members ''sustainable_run'' ''all_repetitions_sustainable'' @
       all_flag members ''run_valid'' ''all_repetitions_valid'' @ ?Q @
       [(''metrics_with_missing_repetitions'', VStr (join ''; '' (sort (incomplete_columns members columns))))])"
    by (simp add: aggregate_row_def entry)
  have medians: "cell (aggregate_row tb groups columns entry) (column @ ''_median'') =
      quantile_or_none tb (known_values members column) (lit 1 2)" if "column \<in> set columns" for column
  proof -
    have "column @ ''_median'' \<noteq> ''metrics_with_missing_repetitions''" by (auto dest: arg_cong [of _ _ last])
    then show ?thesis by (simp add: row cell_store_all map_of_append_case median_entry [OF that] del: map_of_append)
  qed
  let ?row = "aggregate_row tb groups columns entry"
  have flag: "map_of (rev (all_flag members column name)) k =
      (if column \<in> set (fr_columns members) \<and> k = name
       then Some (VBool (list_all (\<lambda>r. truthy (cell r column)) (fr_rows members))) else None)" for column name k
    by (simp add: all_flag_def)
  have early: "cell ?row k = (case map_of (rev (all_flag members ''run_valid'' ''all_repetitions_valid'')) k of Some v \<Rightarrow> v
      | None \<Rightarrow> case map_of (rev (all_flag members ''sustainable_run'' ''all_repetitions_sustainable'')) k of Some v \<Rightarrow> v
      | None \<Rightarrow> VInt (int (length (fr_rows members))))"
    if "k \<in> {''repetitions'', ''all_repetitions_valid'', ''all_repetitions_sustainable''}"
      "k = ''repetitions'' \<or> map_of (rev (all_flag members ''run_valid'' ''all_repetitions_valid'')) k \<noteq> None \<or>
       map_of (rev (all_flag members ''sustainable_run'' ''all_repetitions_sustainable'')) k \<noteq> None" for k
    using that unfolding row cell_store_all rev_append map_of_append_case
    by (elim insertE emptyE) (auto simp: no_quantile_key simp del: map_of_append split: option.splits)
  have "cell ?row ''repetitions'' = VInt (int (length (fr_rows members)))"
    by (subst early) (simp_all add: flag)
  moreover have "cell ?row ''all_repetitions_valid'' = VBool (list_all (\<lambda>r. truthy (cell r ''run_valid'')) (fr_rows members))"
    if "''run_valid'' \<in> set (fr_columns members)" using that by (subst early) (simp_all add: flag)
  moreover have "cell ?row ''all_repetitions_sustainable'' =
      VBool (list_all (\<lambda>r. truthy (cell r ''sustainable_run'')) (fr_rows members))"
    if "''sustainable_run'' \<in> set (fr_columns members)" using that by (subst early) (simp_all add: flag)
  moreover have "cell ?row ''metrics_with_missing_repetitions'' =
      VStr (join ''; '' (sort (incomplete_columns members columns)))"
    by (simp add: row cell_store_all)
  ultimately show ?thesis
    unfolding aggregates_def entry prod.case
    using medians incomplete_columns_Nil [of members columns] by (simp add: entry [symmetric])
qed

section \<open>What a summary contains\<close>

definition names_run :: "session_files \<Rightarrow> string \<Rightarrow> bool" where
  "names_run files path \<longleftrightarrow> (\<exists>metadata. sf_read files path = Inr metadata \<and> py_contains metadata ''run_id'' = Inr True)"

definition summarized :: "session_files \<Rightarrow> (metric_row list \<Rightarrow> pyval dict res) \<Rightarrow> string \<Rightarrow> pyval dict \<Rightarrow> bool" where
  "summarized files latency_of path row \<longleftrightarrow>
     (\<exists>metadata content rows. sf_read files path = Inr metadata \<and> sf_trace files (trace_of_metadata path) = Some content \<and>
        load_binary_file (trace_of_metadata path) (Some content) = Inr rows \<and>
        summarize_run metadata (int (length rows)) (latency_of rows) (trace_of_metadata path) = Inr row)"

lemma summarize_file_Some:
  "summarize_file files latency_of path = Inr (Some row) \<Longrightarrow> names_run files path \<and> summarized files latency_of path row"
  by (auto simp: summarize_file_def names_run_def summarized_def rbind_Inr_iff Let_def split: if_splits option.splits)

lemma summarize_file_None: "summarize_file files latency_of path = Inr None \<Longrightarrow> \<not> names_run files path"
  by (auto simp: summarize_file_def names_run_def rbind_Inr_iff Let_def split: if_splits option.splits)

lemma summarized_files:
  assumes "rmap (summarize_file files latency_of) paths = Inr found"
  shows "list_all2 (summarized files latency_of) (filter (names_run files) paths) (List.map_filter id found)"
  using assms unfolding rmap_Inr_iff
proof (induction rule: list_all2_induct)
  case (Cons path paths row found)
  then show ?case
    by (cases row) (auto simp: map_filter_def dest: summarize_file_Some summarize_file_None)
qed (simp add: map_filter_def)

lemma aggregates_total:
  "list_all2 (aggregates tb columns) groups rows \<Longrightarrow>
     sum_list (map (\<lambda>row. as_int (cell row ''repetitions'')) rows) =
     int (length (concat (map (\<lambda>(_, members). fr_rows members) groups)))"
  by (induction rule: list_all2_induct) (auto simp: aggregates_def)

text \<open>
  C13: A session is summarized completely and without invention: the table has one row for each metadata file
  that names a run, made from that document and its trace; the groups of the aggregate split those rows, runs
  of equal settings together; every aggregate row counts its group, says whether all of it was valid and
  sustainable, takes its medians over the known values, and names missing ones unless there are none; and the
  repetitions of the aggregate add up to the runs of the session.
\<close>

theorem session_summary_exact:
  assumes "documented_tables tb" "process_directory tb latency_of files = Inr (Some (per_run, aggregate))"
  shows "\<exists>rows groups. list_all2 (summarized files latency_of) (filter (names_run files) (sf_metadata files)) rows \<and>
    mset (fr_rows per_run) = mset rows \<and>
    mset (concat (map (\<lambda>(_, members). fr_rows members) groups)) = mset (fr_rows per_run) \<and>
    list_all (\<lambda>(key, members). fr_rows members \<noteq> [] \<and>
      list_all (\<lambda>r. list_all2 same_value (map (cell r) (present_groups per_run)) key) (fr_rows members)) groups \<and>
    sorted_wrt (\<lambda>g h. \<not> list_all2 same_value (fst h) (fst g)) groups \<and>
    list_all2 (aggregates tb (measured_columns tb per_run)) groups (fr_rows aggregate) \<and>
    sum_list (map (\<lambda>row. as_int (cell row ''repetitions'')) (fr_rows aggregate)) =
      int (length (filter (names_run files) (sf_metadata files)))"
proof -
  from assms(2) obtain found where found: "rmap (summarize_file files latency_of) (sf_metadata files) = Inr found"
    and per_run: "per_run = tb_sort_values tb
      [''campaign'', ''receiver'', ''requested_rate_pps'', ''batch_size'', ''repetition_id''] (frame_of (List.map_filter id found))"
    and aggregate: "aggregate = aggregate_repetitions tb per_run"
    by (auto simp: process_directory_def rbind_Inr_iff Let_def split: if_splits)
  define rows where "rows = List.map_filter id found"
  define groups where "groups = tb_groupby tb (present_groups per_run) per_run"
  have summarized: "list_all2 (summarized files latency_of) (filter (names_run files) (sf_metadata files)) rows"
    using summarized_files [OF found] by (simp add: rows_def)
  have "mset (fr_rows per_run) = mset (fr_rows (frame_of rows))"
    using assms(1) unfolding documented_tables_def per_run rows_def by blast
  then have perm: "mset (fr_rows per_run) = mset rows" by (simp add: frame_of_def)
  have split: "mset (concat (map (\<lambda>(_, members). fr_rows members) groups)) = mset (fr_rows per_run)"
    using assms(1) unfolding documented_tables_def groups_def by blast
  have keys: "list_all (\<lambda>(key, members). fr_rows members \<noteq> [] \<and>
      list_all (\<lambda>r. list_all2 same_value (map (cell r) (present_groups per_run)) key) (fr_rows members)) groups"
    using assms(1) unfolding documented_tables_def groups_def list_all_iff by blast
  have apart: "sorted_wrt (\<lambda>g h. \<not> list_all2 same_value (fst h) (fst g)) groups"
    using assms(1) unfolding documented_tables_def groups_def by blast
  have "fr_rows aggregate = map (aggregate_row tb (present_groups per_run) (measured_columns tb per_run)) groups"
    by (simp add: aggregate aggregate_repetitions_def Let_def frame_of_def groups_def)
  then have rows_of: "list_all2 (aggregates tb (measured_columns tb per_run)) groups (fr_rows aggregate)"
    by (simp add: list_all2_map2 list_all2_same aggregate_row_aggregates)
  have "length (concat (map (\<lambda>(_, members). fr_rows members) groups)) = length rows"
    using split perm by (metis size_mset)
  then have "sum_list (map (\<lambda>row. as_int (cell row ''repetitions'')) (fr_rows aggregate)) =
      int (length (filter (names_run files) (sf_metadata files)))"
    using aggregates_total [OF rows_of] list_all2_lengthD [OF summarized] by simp
  with summarized perm split keys apart rows_of show ?thesis by blast
qed

section \<open>A library that does what is documented\<close>

text \<open>Grouping takes the rows that agree with the first one, then goes on with the others.\<close>

function group_rows :: "string list \<Rightarrow> frame \<Rightarrow> pyval dict list \<Rightarrow> (pyval list \<times> frame) list" where
  "group_rows keys f [] = []"
| "group_rows keys f (r # rs) =
     (map (cell r) keys, f\<lparr>fr_rows := r # filter (\<lambda>s. list_all2 same_value (map (cell s) keys) (map (cell r) keys)) rs\<rparr>) #
     group_rows keys f (filter (\<lambda>s. \<not> list_all2 same_value (map (cell s) keys) (map (cell r) keys)) rs)"
  by pat_completeness auto

termination group_rows
  by (relation "measure (\<lambda>(keys, f, rs). length rs)") (auto simp: less_Suc_eq_le)

definition list_tables :: tables where
  "list_tables =
     \<lparr>tb_numeric = \<lambda>f. [], tb_groupby = \<lambda>keys f. group_rows keys f (fr_rows f), tb_quantile = \<lambda>xs q. Fin 0,
      tb_sort_values = \<lambda>keys f. f\<rparr>"

lemma group_rows_mset: "mset (concat (map (\<lambda>(_, members). fr_rows members) (group_rows keys f rs))) = mset rs"
proof (induction keys f rs rule: group_rows.induct)
  case (2 keys f r rs)
  have "mset (filter P rs) + mset (filter (\<lambda>s. \<not> P s) rs) = mset rs" for P
    using multiset_partition [of "mset rs" P] by simp
  then show ?case by (simp add: 2)
qed simp

lemma group_rows_keys:
  "(key, members) \<in> set (group_rows keys f rs) \<Longrightarrow>
     fr_columns members = fr_columns f \<and> fr_rows members \<noteq> [] \<and> set (fr_rows members) \<subseteq> set rs \<and>
     (\<exists>r \<in> set rs. key = map (cell r) keys) \<and>
     (\<forall>r \<in> set (fr_rows members). list_all2 same_value (map (cell r) keys) key)"
proof (induction keys f rs rule: group_rows.induct)
  case (2 keys f r rs)
  then show ?case by (auto simp: list_all2_same same_value_def list_all2_map1 list_all2_map2)
qed simp

lemma group_rows_apart: "sorted_wrt (\<lambda>g h. \<not> list_all2 same_value (fst h) (fst g)) (group_rows keys f rs)"
proof (induction keys f rs rule: group_rows.induct)
  case (2 keys f r rs)
  then show ?case using group_rows_keys by fastforce
qed simp

lemma list_tables_documented: "documented_tables list_tables"
  unfolding documented_tables_def
  using group_rows_mset group_rows_keys group_rows_apart by (auto simp: list_tables_def)

section \<open>A session of one run\<close>

definition recorded_document :: "pyval dict" where
  "recorded_document =
     [(''schema_version'', VInt 1), (''run_id'', VStr ''a''), (''repetition_id'', VInt 1), (''topology'', VStr ''distributed_ethernet''),
      (''run'', VDict [(''receiver_variant'', VStr ''batched''), (''requested_rate_pps'', VInt 1000), (''duration_seconds'', VInt 1),
         (''payload_size'', VInt 64), (''mode'', VStr ''steady''), (''burst_size'', VInt 1), (''batch_size'', VInt 8), (''work_ns'', VInt 0)]),
      (''sender_stats'', VDict [(''attempted_sends'', VInt 1000), (''successful_sends'', VInt 1000), (''failed_sends'', VInt 0),
         (''elapsed_seconds'', VInt 1), (''achieved_successful_send_pps'', VInt 1000)]),
      (''receiver_stats'', VDict [(''datagrams_received'', VInt 1000), (''valid_packets'', VInt 1000), (''processed_packets'', VInt 1000),
         (''short_packets'', VInt 0), (''invalid_magic'', VInt 0), (''spsc_overflow'', VInt 0)]),
      (''counters'', VDict []), (''environment'', VDict [])]"

definition recorded_files :: session_files where
  "recorded_files =
     \<lparr>sf_metadata = [''s/a_meta.json'', ''s/b_meta.json''],
      sf_read = \<lambda>path. Inr (VDict (if path = ''s/a_meta.json'' then recorded_document else [])),
      sf_trace = \<lambda>path. if path = ''s/a.bin'' then Some [] else None\<rparr>"

lemma recorded_trace: "trace_of_metadata ''s/a_meta.json'' = ''s/a.bin''"
  by code_simp

lemma recorded_row: "isl (summarize_run (VDict recorded_document) 0 (Inr []) ''s/a.bin'') = False"
  by code_simp

lemma recorded_session:
  "\<exists>per_run aggregate. process_directory list_tables (\<lambda>_. Inr []) recorded_files = Inr (Some (per_run, aggregate))"
proof -
  obtain row where row: "summarize_run (VDict recorded_document) 0 (Inr []) ''s/a.bin'' = Inr row"
    using recorded_row by (cases "summarize_run (VDict recorded_document) 0 (Inr []) ''s/a.bin''") simp_all
  have "py_contains (VDict recorded_document) ''run_id'' = Inr True" by code_simp
  with row have "summarize_file recorded_files (\<lambda>_. Inr []) ''s/a_meta.json'' = Inr (Some row)"
    by (simp add: summarize_file_def recorded_files_def recorded_trace load_binary_file_def load_records_def derive_metrics_def)
  moreover have "summarize_file recorded_files (\<lambda>_. Inr []) ''s/b_meta.json'' = Inr None"
    by (simp add: summarize_file_def recorded_files_def)
  ultimately show ?thesis
    by (simp add: process_directory_def recorded_files_def [THEN arg_cong [of _ _ sf_metadata]] map_filter_def Let_def)
qed

theorem session_summary_exact_witness:
  "\<exists>per_run aggregate. process_directory list_tables (\<lambda>_. Inr []) recorded_files = Inr (Some (per_run, aggregate)) \<and>
     sum_list (map (\<lambda>row. as_int (cell row ''repetitions'')) (fr_rows aggregate)) =
       int (length (filter (names_run recorded_files) (sf_metadata recorded_files)))"
proof -
  obtain per_run aggregate where made: "process_directory list_tables (\<lambda>_. Inr []) recorded_files = Inr (Some (per_run, aggregate))"
    using recorded_session by (elim exE) (rule that)
  from session_summary_exact [OF list_tables_documented made] made show ?thesis by (elim exE conjE) (intro exI conjI)
qed

end
