(* ===== verification/Spec2Isabelle.thy ===== *)
theory Spec2Isabelle
  imports Trace_Log Counters Receiver_Cli Node_Shutdown Run_Verdicts Profile_Evidence Perf_Counters Summary_Facts
    Run_Protocol Run_Records Campaign Preflight Remote_Node Local_Launch Claim_Gate Profile_Plan Session_Summary
begin

text \<open>
  A model of a two-node UDP benchmark harness, and the theorems that make it trustworthy evidence.

  \<^bold>\<open>The program.\<close> \<^verbatim>\<open>src/main.py\<close> reads a YAML configuration, validates it, plans the runs, connects to a
  receiver and a sender node, and for each run starts the C++ receiver and sender, stays silent while
  packets flow, collects statistics, traces and kernel counters, judges the run and writes its metadata
  and the session manifest. \<^verbatim>\<open>src/analysis/\<close> reads a session offline: it loads the binary traces, summarises
  every run, checks profile evidence and publishes tables and figures. \<^verbatim>\<open>src/src/\<close> holds the C++ programs;
  the parts that share a format with the Python code are modelled.

  \<^bold>\<open>Conventions.\<close> A Python value is a \<^typ>\<open>pyval\<close>, a function that may raise returns \<^verbatim>\<open>exn + 'a\<close> (theory
  Prelude), a stateful one is an action \<^verbatim>\<open>'w \<Rightarrow> (exn + 'a) \<times> 'w\<close> that keeps its state when it raises (theory
  Actions). Python integers are \<^typ>\<open>int\<close>; the 64-bit fields of the C++ formats are \<^verbatim>\<open>64 word\<close>. Floats are
  rationals rounded to 53 bits with an explicit overflow, with infinities and NaN (theory Floats); the sign
  of zero and subnormal precision are not kept.

  \<^bold>\<open>Theories, from the bottom up.\<close>
  \<^item> Prelude, Text, Floats, Values, Numerics: results, string methods, float arithmetic, dynamic values.
  \<^item> Trace_Log: the binary trace writer (\<^verbatim>\<open>src/src/common/csv_writer.hpp\<close>) and loader, derived metrics and
    sequence statistics (\<^verbatim>\<open>analysis/latency_utils.py\<close>): round trip, truncation, meaning of the statistics.
  \<^item> Counters: the batched counter probe of a node, its parsers and the deltas: never raises, splits back.
  \<^item> Config, Accepted_Config: \<^verbatim>\<open>validate_config\<close>, equivalent to the predicate \<^const>\<open>accepted_config\<close>, and its errors.
  \<^item> Planning: run tuples, shuffle, run identifiers, qualified rates, the frozen comparison list.
  \<^item> Commands, Receiver_Cli: argument lists, quoting, the process-id shim, and the C++ option parser that
    reads the receiver's list back.
  \<^item> Actions, Shutdown, Local_Node, Node_Shutdown: stopping processes. Shutdown states the controller
    interface as the locale \<^verbatim>\<open>node_controller\<close>; Local_Node interprets it on \<^verbatim>\<open>LocalNode\<close> over a small operating
    system with a clock; the theorems give order, time bound and success of the escalation.
  \<^item> Csv, Pacing, Pacing_Facts: percentiles and the pacing trace, with the C++ writer of that trace.
  \<^item> Run_Checks, Run_Verdicts: \<^verbatim>\<open>qualification_reasons\<close> and \<^verbatim>\<open>validity_reasons\<close>, each equivalent to a predicate.
  \<^item> Paths, Profile_Evidence, Perf_Counters: \<^verbatim>\<open>analysis/profile_tools.py\<close> over a file system.
  \<^item> Run_Summary, Summary_Facts: \<^verbatim>\<open>validate_metadata\<close> and \<^verbatim>\<open>summarize_run\<close> of \<^verbatim>\<open>analysis/generate_summary.py\<close>.
  \<^item> Clock_Drift, Session_Summary: the clock drift correction and the latency columns; the table of the runs
    of a session and the aggregate of their repetitions. A data frame is its columns and its rows; grouping,
    sorting, column types, the least squares line and the statistics of a series are parameters.
  \<^item> Claim_Selection, Claim_Evidence, Claim_Gate: the runs a claim may rest on, the representatives, what
    blocks a claim and the row that is published (\<^verbatim>\<open>analysis/profile_tools.py\<close>,
    \<^verbatim>\<open>analysis/generate_claim_evidence.py\<close>). The predicate \<^verbatim>\<open>documented\<close> states what the data frame library
    promises; a library on lists is shown to keep it. A claim that passes rests on backed configurations.
  \<^item> Profile_Plan: the profile campaign prepared from a session, and the twelve runs Planning makes of it.
  \<^item> Run_Metadata, Run_Execution: \<^verbatim>\<open>execute_run\<close>, the pure part and the part that acts. The nodes and the
    host are records of arbitrary actions; the local variables its cleanup reads are state.
  \<^item> Run_Protocol: the same run on observed nodes. An operation leaves an event; a machine over the events
    is the specification and every run is shown to follow it. The locale \<^verbatim>\<open>calm_lab\<close> says what reading,
    preparing and collecting need of a predicate to keep it, \<^verbatim>\<open>steady_node\<close> what the shutdown sequence needs;
    both are interpreted on the observed nodes for the phases of the machine.
  \<^item> Run_Records: what a run records against what the summary demands of it.
  \<^item> Campaign: \<^verbatim>\<open>run_campaign\<close> with the environment snapshot, build, retry, reconnection and manifest.
  \<^item> Preflight: \<^verbatim>\<open>preflight\<close> with its probes, checks and report, and \<^verbatim>\<open>main\<close>.
  \<^item> Polling: loops that wait on a clock, with the locale \<^verbatim>\<open>steady_clock\<close> under which they end; it is
    interpreted on the operating system of Local_Node.
  \<^item> Remote_Node: \<^verbatim>\<open>RemoteNode\<close> over a connection: every operation, the scripts it sends and what it makes of
    the answers. Local_Launch: \<^verbatim>\<open>LocalNode\<close>'s launching and files over a record of system calls.

  \<^bold>\<open>How the parts meet.\<close> The planned tuples (Planning) are run by Campaign through \<^const>\<open>execute_run\<close>, which uses
  the commands (Commands), the counters (Counters), the shutdown sequence (Shutdown), the pacing analysis
  (Pacing) and the verdicts (Run_Checks); the documents it writes are those Run_Summary reads; the rates
  that Planning finds eligible are computed from the documents of the campaign's own runs. Session_Summary
  turns those documents and the loaded traces into the table that Claim_Selection reads; Profile_Plan feeds
  its selection back to Planning, Profile_Evidence judges the session that results, and Claim_Gate joins both.

  \<^bold>\<open>Bounds.\<close> No definition has fuel: loops are structural or have a measure. The polling loops of the local
  controller follow the clock and their termination is proved; a loop over an arbitrary clock is a partial
  function into \<^verbatim>\<open>option\<close>, and the theorems on waiting and launching say that it returns on a clock that goes
  on. A run is attempted at most twice, as in the code (\<^const>\<open>MAX_RUN_ATTEMPTS\<close>). Timeouts handed to a
  controller are finite rationals. The profile rate is exact for rates up to 2 to the power 40.

  \<^bold>\<open>Not modelled.\<close> Progress messages and printing; YAML, JSON and CSV libraries beyond what is named above (a
  parsed document is a value, a written one an event, a result or a parameter); SSH, SCP and what a shell does
  with the scripts of \<^verbatim>\<open>RemoteNode\<close>; the data frame library behind the operations named above; the plots
  (\<^verbatim>\<open>plot_paper_figs.py\<close>, \<^verbatim>\<open>plot_full_metrics.py\<close>) and the export of a finished session
  (\<^verbatim>\<open>publish_results.py\<close>), which draw, copy and hash files; the packet loops, sockets, affinity and the
  lock-free queue of the C++ programs.
\<close>

end
